(* ===== verification/Go_Prelude.thy ===== *)
theory Go_Prelude
  imports Main
begin

text \<open>
  Shared vocabulary of the development: Go errors, fallible stateful programs, and the
  frame calculus.

  A Go function that returns \<open>(T, error)\<close> and has side effects is a \<open>prog\<close>: a function
  from the state of the world to a result (\<open>Inl\<close> the error, \<open>Inr\<close> the value) and the next
  state. Two sequencing combinators cover the idioms of the code:
  \<^item> \<open>bindE\<close> is \<open>x, err := f(); if err != nil { return err }\<close>;
  \<^item> \<open>bindR\<close> is \<open>x, err := f()\<close> where the code goes on and looks at \<open>err\<close> itself.
  \<open>wrapE\<close> rewrites the error on the way out, as \<open>return fmt.Errorf(..., err)\<close> does.
\<close>

section \<open>Errors\<close>

text \<open>
  The sentinel errors of the Go packages (\<open>deals/errors.go\<close>, \<open>lnbits/client.go\<close>,
  \<open>webhook/service.go\<close>, \<open>storage/storage.go\<close>). An error value carries the sentinels that
  \<open>errors.Is\<close> finds in its chain and the text that \<open>Error()\<close> returns.
\<close>

datatype sentinel =
    ErrInvalidInput
  | ErrForbidden
  | ErrDealNotFound
  | ErrArtifactNotFound
  | ErrVerificationNotFound
  | ErrInvalidTransition
  | ErrNoCheckingID
  | ErrPayoutInFlight
  | Lnbits_ErrPayoutRefused
  | Webhook_ErrMalformedPayload
  | Webhook_ErrPaymentFailed
  | Webhook_ErrDealNotFound
  | Storage_ErrNotFound
  | Auth_ErrInvalidInput
  | Auth_ErrInvalidEmail
  | Auth_ErrPasswordTooShort
  | Auth_ErrEmailTaken
  | Auth_ErrSlugTaken
  | Auth_ErrInvalidCredentials
  | Auth_ErrRefreshTokenNotFound
  | Auth_ErrInvalidToken
  | CV_ErrInvalidInput
  | CV_ErrNotFound
  | Ots_ErrSubmissionFailed
  | Ots_ErrInvalidResponse
  | Ots_ErrProofNotReady
  | Ots_ErrInvalidProof
  | Ots_ErrNotBitcoinAttested
  | Ots_ErrDigestMismatch
  | Ots_errChainUnavailable

fun sentinel_text :: "sentinel \<Rightarrow> string" where
  "sentinel_text ErrInvalidInput = ''invalid input''"
| "sentinel_text ErrForbidden = ''forbidden''"
| "sentinel_text ErrDealNotFound = ''deal not found''"
| "sentinel_text ErrArtifactNotFound = ''artifact not found''"
| "sentinel_text ErrVerificationNotFound = ''verification not found''"
| "sentinel_text ErrInvalidTransition = ''invalid status transition''"
| "sentinel_text ErrNoCheckingID = ''deal has no checking id''"
| "sentinel_text ErrPayoutInFlight =
     ''payout outcome unknown; manual reconciliation required''"
| "sentinel_text Lnbits_ErrPayoutRefused = ''lnbits refused payout''"
| "sentinel_text Webhook_ErrMalformedPayload = ''malformed webhook payload''"
| "sentinel_text Webhook_ErrPaymentFailed = ''payment not successful''"
| "sentinel_text Webhook_ErrDealNotFound = ''no deal for checking_id''"
| "sentinel_text Storage_ErrNotFound = ''storage: object not found''"
| "sentinel_text Auth_ErrInvalidInput = ''invalid input''"
| "sentinel_text Auth_ErrInvalidEmail = ''invalid email format''"
| "sentinel_text Auth_ErrPasswordTooShort = ''password must be at least 8 characters''"
| "sentinel_text Auth_ErrEmailTaken = ''email is already registered''"
| "sentinel_text Auth_ErrSlugTaken = ''slug is already taken''"
| "sentinel_text Auth_ErrInvalidCredentials = ''invalid email or password''"
| "sentinel_text Auth_ErrRefreshTokenNotFound = ''refresh token not found''"
| "sentinel_text Auth_ErrInvalidToken = ''invalid or expired token''"
| "sentinel_text CV_ErrInvalidInput = ''invalid input''"
| "sentinel_text CV_ErrNotFound = ''cv not found''"
| "sentinel_text Ots_ErrSubmissionFailed = ''ots: submission to calendar failed''"
| "sentinel_text Ots_ErrInvalidResponse = ''ots: invalid calendar response''"
| "sentinel_text Ots_ErrProofNotReady = ''ots: proof not yet confirmed''"
| "sentinel_text Ots_ErrInvalidProof = ''ots: invalid or malformed proof''"
| "sentinel_text Ots_ErrNotBitcoinAttested = ''ots: proof has no confirmed bitcoin attestation''"
| "sentinel_text Ots_ErrDigestMismatch = ''ots: proof does not commit to the given digest''"
| "sentinel_text Ots_errChainUnavailable = ''ots: bitcoin chain source unavailable''"

datatype goerr = GoErr (err_chain: "sentinel list") (err_text: string)

definition errors_Is :: "goerr \<Rightarrow> sentinel \<Rightarrow> bool" where
  "errors_Is e s \<longleftrightarrow> s \<in> set (err_chain e)"

text \<open>\<open>return ErrX\<close>, \<open>fmt.Errorf("%w<t>", ErrX)\<close>, \<open>fmt.Errorf("<p>%w", err)\<close> and an
  error without a sentinel (\<open>errors.New\<close>, or \<open>fmt.Errorf\<close> with \<open>%v\<close> only).\<close>

definition sentinel_err :: "sentinel \<Rightarrow> goerr" where
  "sentinel_err s = GoErr [s] (sentinel_text s)"

definition errorf :: "sentinel \<Rightarrow> string \<Rightarrow> goerr" where
  "errorf s t = GoErr [s] (sentinel_text s @ t)"

definition wrapf :: "string \<Rightarrow> goerr \<Rightarrow> goerr" where
  "wrapf p e = GoErr (err_chain e) (p @ err_text e)"

definition new_err :: "string \<Rightarrow> goerr" where
  "new_err t = GoErr [] t"

lemma errors_Is_simps [simp]:
  "errors_Is (sentinel_err s) s' \<longleftrightarrow> s' = s"
  "errors_Is (errorf s t) s' \<longleftrightarrow> s' = s"
  "errors_Is (wrapf p e) s' \<longleftrightarrow> errors_Is e s'"
  "\<not> errors_Is (new_err t) s'"
  by (auto simp: errors_Is_def sentinel_err_def errorf_def wrapf_def new_err_def)

section \<open>Programs\<close>

type_synonym ('w, 'a) prog = "'w \<Rightarrow> (goerr + 'a) \<times> 'w"

definition ret :: "'a \<Rightarrow> ('w, 'a) prog" where
  "ret x w = (Inr x, w)"

definition fail :: "goerr \<Rightarrow> ('w, 'a) prog" where
  "fail e w = (Inl e, w)"

definition bindE :: "('w, 'a) prog \<Rightarrow> ('a \<Rightarrow> ('w, 'b) prog) \<Rightarrow> ('w, 'b) prog" where
  "bindE m f w = (case m w of (Inl e, w') \<Rightarrow> (Inl e, w') | (Inr x, w') \<Rightarrow> f x w')"

definition bindR :: "('w, 'a) prog \<Rightarrow> (goerr + 'a \<Rightarrow> ('w, 'b) prog) \<Rightarrow> ('w, 'b) prog" where
  "bindR m f w = (case m w of (r, w') \<Rightarrow> f r w')"

definition wrapE :: "(goerr \<Rightarrow> goerr) \<Rightarrow> ('w, 'a) prog \<Rightarrow> ('w, 'a) prog" where
  "wrapE g m w = (case m w of (Inl e, w') \<Rightarrow> (Inl (g e), w') | (Inr x, w') \<Rightarrow> (Inr x, w'))"

definition liftE :: "goerr + 'a \<Rightarrow> ('w, 'a) prog" where
  "liftE r w = (r, w)"

definition modify :: "('w \<Rightarrow> 'w) \<Rightarrow> ('w, unit) prog" where
  "modify g w = (Inr (), g w)"

lemmas prog_defs = ret_def fail_def bindE_def bindR_def wrapE_def liftE_def modify_def

lemma ret_run [simp]: "ret x w = (Inr x, w)"
  by (simp add: ret_def)

lemma fail_run [simp]: "fail e w = (Inl e, w)"
  by (simp add: fail_def)

lemma liftE_run [simp]: "liftE r w = (r, w)"
  by (simp add: liftE_def)

lemma modify_run [simp]: "modify g w = (Inr (), g w)"
  by (simp add: modify_def)

lemma bindE_Inl: "m w = (Inl e, w') \<Longrightarrow> bindE m f w = (Inl e, w')"
  by (simp add: bindE_def)

lemma bindE_Inr: "m w = (Inr x, w') \<Longrightarrow> bindE m f w = f x w'"
  by (simp add: bindE_def)

lemma bindR_run: "m w = (r, w') \<Longrightarrow> bindR m f w = f r w'"
  by (simp add: bindR_def)

lemma bindE_fail [simp]: "bindE (fail e) f = fail e"
  by (simp add: fun_eq_iff bindE_def)

lemma bindE_ret [simp]: "bindE (ret x) f = f x"
  by (simp add: fun_eq_iff bindE_def)

lemma bindE_assoc: "bindE (bindE m f) g = bindE m (\<lambda>x. bindE (f x) g)"
  by (auto simp: fun_eq_iff bindE_def split: prod.splits sum.splits)

lemma wrapE_Inr_iff: "wrapE g m w = (Inr x, w') \<longleftrightarrow> m w = (Inr x, w')"
  by (auto simp: wrapE_def split: prod.splits sum.splits)

lemma wrapE_Inl_iff: "wrapE g m w = (Inl e, w') \<longleftrightarrow> (\<exists>e0. m w = (Inl e0, w') \<and> e = g e0)"
  by (auto simp: wrapE_def split: prod.splits sum.splits)

lemma wrapE_state [simp]: "snd (wrapE g m w) = snd (m w)"
  by (auto simp: wrapE_def split: prod.splits sum.splits)

lemma bindE_Inr_iff:
  "bindE m f w = (Inr y, w'') \<longleftrightarrow> (\<exists>x w'. m w = (Inr x, w') \<and> f x w' = (Inr y, w''))"
  by (auto simp: bindE_def split: prod.splits sum.splits)

lemma bindE_Inl_iff:
  "bindE m f w = (Inl e, w'') \<longleftrightarrow>
     m w = (Inl e, w'') \<or> (\<exists>x w'. m w = (Inr x, w') \<and> f x w' = (Inl e, w''))"
  by (auto simp: bindE_def split: prod.splits sum.splits)

lemma bindR_iff: "bindR m f w = (r, w'') \<longleftrightarrow> (\<exists>x w'. m w = (x, w') \<and> f x w' = (r, w''))"
  by (auto simp: bindR_def split: prod.splits)

lemmas run_iffs = bindE_Inr_iff bindE_Inl_iff bindR_iff wrapE_Inr_iff wrapE_Inl_iff

text \<open>A loop that collects results and stops at the first error.\<close>

fun traverse :: "('a \<Rightarrow> goerr + 'b) \<Rightarrow> 'a list \<Rightarrow> goerr + 'b list" where
  "traverse f [] = Inr []"
| "traverse f (x # xs) =
     (case f x of Inl e \<Rightarrow> Inl e
      | Inr y \<Rightarrow> (case traverse f xs of Inl e \<Rightarrow> Inl e | Inr ys \<Rightarrow> Inr (y # ys)))"

lemma traverse_Inr: "traverse f xs = Inr ys \<longleftrightarrow> map f xs = map Inr ys"
proof (induction xs arbitrary: ys)
  case (Cons x xs)
  then show ?case by (cases ys; cases "traverse f xs") (auto split: sum.splits)
qed auto

text \<open>What keeps a frame: the rules the components contribute.\<close>

named_theorems keeps_db and keeps_log

section \<open>Frames: what a program does to the world, whatever its result\<close>

definition runs_in :: "('w \<Rightarrow> 'w \<Rightarrow> bool) \<Rightarrow> ('w, 'a) prog \<Rightarrow> bool" where
  "runs_in R m \<longleftrightarrow> (\<forall>w. R w (snd (m w)))"

lemma runs_inI: "(\<And>w r w'. m w = (r, w') \<Longrightarrow> R w w') \<Longrightarrow> runs_in R m"
  unfolding runs_in_def by (metis prod.collapse)

lemma runs_inD: "runs_in R m \<Longrightarrow> m w = (r, w') \<Longrightarrow> R w w'"
  unfolding runs_in_def by (metis snd_conv)

lemma runs_in_mono: "runs_in R m \<Longrightarrow> (\<And>a b. R a b \<Longrightarrow> S a b) \<Longrightarrow> runs_in S m"
  by (auto simp: runs_in_def)

text \<open>
  The interface of a frame: a reflexive and transitive relation between the world before
  and after. Whatever is built from programs that stay in the frame stays in it. Each
  relation that the components preserve (database untouched, log only grows, payout tokens
  never lost, ...) is an interpretation.
\<close>

locale frame =
  fixes R :: "'w \<Rightarrow> 'w \<Rightarrow> bool"
  assumes frame_refl: "R w w"
    and frame_trans: "R u v \<Longrightarrow> R v w \<Longrightarrow> R u w"
begin

lemma frame_ret: "runs_in R (ret x)"
  by (simp add: runs_in_def frame_refl)

lemma frame_fail: "runs_in R (fail e)"
  by (simp add: runs_in_def frame_refl)

lemma frame_liftE: "runs_in R (liftE r)"
  by (simp add: runs_in_def frame_refl)

lemma frame_bindE:
  assumes "runs_in R m" and "\<And>x. runs_in R (f x)"
  shows "runs_in R (bindE m f)"
proof (rule runs_inI)
  fix w r w' assume run: "bindE m f w = (r, w')"
  obtain q u where m: "m w = (q, u)" by (cases "m w")
  then have "R w u" by (rule runs_inD [OF assms(1)])
  with run m assms(2) show "R w w'"
    by (cases q) (auto simp: bindE_def dest: runs_inD intro: frame_trans)
qed

lemma frame_bindR:
  assumes "runs_in R m" and "\<And>x. runs_in R (f x)"
  shows "runs_in R (bindR m f)"
proof (rule runs_inI)
  fix w r w' assume run: "bindR m f w = (r, w')"
  obtain q u where m: "m w = (q, u)" by (cases "m w")
  then have "R w u" by (rule runs_inD [OF assms(1)])
  moreover from run m have "R u w'"
    using runs_inD [OF assms(2)] by (auto simp: bindR_def)
  ultimately show "R w w'" by (rule frame_trans)
qed

lemma frame_wrapE: "runs_in R m \<Longrightarrow> runs_in R (wrapE g m)"
  by (simp add: runs_in_def)

lemma frame_if: "runs_in R a \<Longrightarrow> runs_in R b \<Longrightarrow> runs_in R (if c then a else b)"
  by simp

lemma frame_sum:
  "(\<And>e. runs_in R (f e)) \<Longrightarrow> (\<And>x. runs_in R (g x)) \<Longrightarrow> runs_in R (case_sum f g r)"
  by (cases r) simp_all

lemma frame_option:
  "runs_in R a \<Longrightarrow> (\<And>x. runs_in R (g x)) \<Longrightarrow> runs_in R (case_option a g r)"
  by (cases r) simp_all

lemma frame_prod: "(\<And>x y. runs_in R (f x y)) \<Longrightarrow> runs_in R (case_prod f p)"
  by (cases p) simp

lemmas frame_intros =
  frame_ret frame_fail frame_liftE frame_bindE frame_bindR frame_wrapE frame_if frame_sum
  frame_option frame_prod

end

section \<open>Errors a program can return\<close>

text \<open>Which sentinels the errors of a program can carry.\<close>

named_theorems errs_intros

definition errs :: "sentinel set \<Rightarrow> ('w, 'a) prog \<Rightarrow> bool" where
  "errs A m \<longleftrightarrow> (\<forall>w e w'. m w = (Inl e, w') \<longrightarrow> set (err_chain e) \<subseteq> A)"

lemma errsD: "errs A m \<Longrightarrow> m w = (Inl e, w') \<Longrightarrow> errors_Is e x \<Longrightarrow> x \<in> A"
  by (auto simp: errs_def errors_Is_def)

lemma errs_ret [errs_intros]: "errs A (ret x)"
  by (simp add: errs_def)

lemma errs_fail: "set (err_chain e) \<subseteq> A \<Longrightarrow> errs A (fail e)"
  by (simp add: errs_def)

lemma errs_fails [errs_intros]:
  "x \<in> A \<Longrightarrow> errs A (fail (sentinel_err x))" "x \<in> A \<Longrightarrow> errs A (fail (errorf x t))"
  "errs A (fail (new_err t))" "errs A (fail (wrapf p (new_err t)))"
  by (simp_all add: errs_def sentinel_err_def errorf_def new_err_def wrapf_def)

lemma errs_bindE [errs_intros]: "errs A m \<Longrightarrow> (\<And>x. errs A (f x)) \<Longrightarrow> errs A (bindE m f)"
  by (fastforce simp: errs_def bindE_def split: prod.splits sum.splits)

lemma errs_bindR:
  assumes "\<And>w e w'. m w = (Inl e, w') \<Longrightarrow> errs A (f (Inl e))" and "\<And>x. errs A (f (Inr x))"
  shows "errs A (bindR m f)"
proof -
  have "errs A (f r)" if "m w = (r, w1)" for w r w1
    using assms that by (cases r) auto
  then show ?thesis by (fastforce simp: errs_def bindR_def split: prod.splits)
qed

lemma errs_bindR_any [errs_intros]: "(\<And>r. errs A (f r)) \<Longrightarrow> errs A (bindR m f)"
  by (fastforce simp: errs_def bindR_def split: prod.splits)

lemma errs_wrapf [errs_intros]: "errs A m \<Longrightarrow> errs A (wrapE (wrapf p) m)"
  by (fastforce simp: errs_def wrapE_def wrapf_def split: prod.splits sum.splits)

lemma errs_wrapE:
  assumes "\<And>e. set (err_chain (g e)) \<subseteq> A"
  shows "errs A (wrapE g m)"
  using assms by (fastforce simp: errs_def wrapE_def split: prod.splits sum.splits)

lemma errs_if [errs_intros]: "(c \<Longrightarrow> errs A m) \<Longrightarrow> (\<not> c \<Longrightarrow> errs A n) \<Longrightarrow> errs A (if c then m else n)"
  by simp

lemma errs_option [errs_intros]:
  "errs A m \<Longrightarrow> (\<And>x. errs A (f x)) \<Longrightarrow> errs A (case_option m f r)"
  by (cases r) simp_all

lemma errs_sum [errs_intros]:
  "(\<And>e. errs A (f e)) \<Longrightarrow> (\<And>x. errs A (g x)) \<Longrightarrow> errs A (case_sum f g r)"
  by (cases r) simp_all

lemma errs_prod [errs_intros]: "(\<And>x y. errs A (f x y)) \<Longrightarrow> errs A (case_prod f p)"
  by (cases p) simp

lemma errs_mono: "errs A m \<Longrightarrow> A \<subseteq> B \<Longrightarrow> errs B m"
  by (auto simp: errs_def)

lemma errs_modify [errs_intros]: "errs A (modify g)"
  by (simp add: errs_def)

end
