(* ===== verification/Go_Text.thy ===== *)
theory Go_Text
  imports Go_Prelude
begin

text \<open>
  The parts of Go's \<open>strings\<close>, \<open>unicode/utf8\<close>, \<open>encoding/hex\<close>, \<open>encoding/base64\<close> and
  \<open>strconv\<close> that the program uses. A Go string is a byte sequence, here a \<open>string\<close> whose
  characters are the bytes. Runes are decoded as \<open>utf8.DecodeRune\<close> does: an invalid byte
  is the replacement rune U+FFFD of width one.
  The Unicode case tables are data of the Go distribution and not of this program: for
  runes from 128 on they are arguments (\<open>lower\<close>, \<open>sf\<close>); below 128 they are written out.
\<close>

section \<open>Bytes and runes\<close>

type_synonym rune = nat

definition bytes :: "string \<Rightarrow> nat list" where
  "bytes s = map of_char s"

definition of_bytes :: "nat list \<Rightarrow> string" where
  "of_bytes bs = map char_of bs"

lemma bytes_of_bytes: "\<forall>b \<in> set bs. b < 256 \<Longrightarrow> bytes (of_bytes bs) = bs"
  by (induction bs) (auto simp: bytes_def of_bytes_def)

lemma of_bytes_bytes [simp]: "of_bytes (bytes s) = s"
  by (induction s) (auto simp: bytes_def of_bytes_def)

lemma bytes_less: "b \<in> set (bytes s) \<Longrightarrow> b < 256"
  by (auto simp: bytes_def)

lemma bytes_append: "bytes (s @ t) = bytes s @ bytes t"
  by (simp add: bytes_def)

definition cont_byte :: "nat \<Rightarrow> bool" where
  "cont_byte b \<longleftrightarrow> 128 \<le> b \<and> b \<le> 191"

definition RuneError :: rune where
  "RuneError = 65533"

text \<open>\<open>utf8.DecodeRune\<close>: the first rune and its width in bytes.\<close>

fun DecodeRune :: "nat list \<Rightarrow> rune \<times> nat" where
  "DecodeRune [] = (RuneError, 0)"
| "DecodeRune (b0 # r) =
     (if b0 < 128 then (b0, 1)
      else if 194 \<le> b0 \<and> b0 \<le> 223 then
        (case r of b1 # _ \<Rightarrow>
           if cont_byte b1 then ((b0 - 192) * 64 + (b1 - 128), 2) else (RuneError, 1)
         | _ \<Rightarrow> (RuneError, 1))
      else if 224 \<le> b0 \<and> b0 \<le> 239 then
        (case r of b1 # b2 # _ \<Rightarrow>
           if (if b0 = 224 then 160 else 128) \<le> b1 \<and> b1 \<le> (if b0 = 237 then 159 else 191) \<and>
              cont_byte b2
           then ((b0 - 224) * 4096 + (b1 - 128) * 64 + (b2 - 128), 3) else (RuneError, 1)
         | _ \<Rightarrow> (RuneError, 1))
      else if 240 \<le> b0 \<and> b0 \<le> 244 then
        (case r of b1 # b2 # b3 # _ \<Rightarrow>
           if (if b0 = 240 then 144 else 128) \<le> b1 \<and> b1 \<le> (if b0 = 244 then 143 else 191) \<and>
              cont_byte b2 \<and> cont_byte b3
           then ((b0 - 240) * 262144 + (b1 - 128) * 4096 + (b2 - 128) * 64 + (b3 - 128), 4)
           else (RuneError, 1)
         | _ \<Rightarrow> (RuneError, 1))
      else (RuneError, 1))"

lemma DecodeRune_width: "0 < snd (DecodeRune (b # bs))"
  by (simp split: list.split)

text \<open>\<open>for _, r := range s\<close>: the runes of a byte sequence, each with the bytes it came from.\<close>

function rune_chunks :: "nat list \<Rightarrow> (rune \<times> nat list) list" where
  "rune_chunks [] = []"
| "rune_chunks (b # bs) =
     (fst (DecodeRune (b # bs)), take (snd (DecodeRune (b # bs))) (b # bs)) #
     rune_chunks (drop (snd (DecodeRune (b # bs))) (b # bs))"
  by pat_completeness auto
termination
  by (relation "measure length") (use DecodeRune_width in \<open>auto simp del: DecodeRune.simps\<close>)

definition runes :: "string \<Rightarrow> rune list" where
  "runes s = map fst (rune_chunks (bytes s))"

lemma rune_chunks_bytes: "concat (map snd (rune_chunks bs)) = bs"
  by (induction bs rule: rune_chunks.induct) (simp_all del: DecodeRune.simps)

lemma rune_chunks_length: "length (rune_chunks bs) \<le> length bs"
proof (induction bs rule: rune_chunks.induct)
  case (2 b bs)
  have "0 < snd (DecodeRune (b # bs))" by (rule DecodeRune_width)
  with 2 show ?case by (simp del: DecodeRune.simps)
qed simp

text \<open>\<open>utf8.EncodeRune\<close>; a rune that is no Unicode scalar value is written as U+FFFD.\<close>

definition valid_rune :: "rune \<Rightarrow> bool" where
  "valid_rune r \<longleftrightarrow> r < 55296 \<or> (57343 < r \<and> r < 1114112)"

definition EncodeRune :: "rune \<Rightarrow> nat list" where
  "EncodeRune r =
     (if r < 128 then [r]
      else if r < 2048 then [192 + r div 64, 128 + r mod 64]
      else if \<not> valid_rune r then [239, 191, 189]
      else if r < 65536 then [224 + r div 4096, 128 + r div 64 mod 64, 128 + r mod 64]
      else [240 + r div 262144, 128 + r div 4096 mod 64, 128 + r div 64 mod 64, 128 + r mod 64])"

lemma EncodeRune_byte: "r < 1114112 \<Longrightarrow> b \<in> set (EncodeRune r) \<Longrightarrow> b < 256"
  by (auto simp: EncodeRune_def split: if_splits)

lemma EncodeRune_nonempty: "EncodeRune r \<noteq> []"
  by (simp add: EncodeRune_def)

text \<open>A number below 2 to the 24 in base 64, as the digits \<open>EncodeRune\<close> writes.\<close>

lemma base64_digits:
  fixes r :: nat
  obtains d2 d1 d0 where "r = d2 * 4096 + d1 * 64 + d0" "d1 < 64" "d0 < 64"
    "r div 4096 = d2" "r div 64 mod 64 = d1" "r mod 64 = d0"
proof
  have "r = r div 64 * 64 + r mod 64" "r div 64 = r div 64 div 64 * 64 + r div 64 mod 64"
    by simp_all
  moreover have "r div 64 div 64 = r div 4096"
    by (simp flip: div_mult2_eq)
  ultimately show "r = r div 4096 * 4096 + r div 64 mod 64 * 64 + r mod 64"
    by linarith
qed simp_all

lemma DecodeRune_EncodeRune2:
  assumes "128 \<le> r" "r < 2048"
  shows "DecodeRune (EncodeRune r @ rest) = (r, 2)"
proof -
  obtain d1 d0 where r: "r = d1 * 64 + d0" "d0 < 64" "r div 64 = d1" "r mod 64 = d0"
    by (metis div_mult_mod_eq mod_less_divisor zero_less_numeral)
  with assms have "2 \<le> d1" "d1 \<le> 31" by auto
  with r assms show ?thesis
    by (simp add: EncodeRune_def cont_byte_def)
qed

lemma DecodeRune_EncodeRune3:
  assumes "2048 \<le> r" "r < 65536" "valid_rune r"
  shows "DecodeRune (EncodeRune r @ rest) = (r, 3)"
proof -
  obtain d2 d1 d0 where r: "r = d2 * 4096 + d1 * 64 + d0" "d1 < 64" "d0 < 64"
    "r div 4096 = d2" "r div 64 mod 64 = d1" "r mod 64 = d0"
    by (rule base64_digits)
  have "d2 \<le> 15" "d2 = 0 \<Longrightarrow> 32 \<le> d1" using r(1-3) assms by linarith+
  moreover have "d2 = 13 \<Longrightarrow> d1 \<le> 31"
    using r(1-3) assms unfolding valid_rune_def by linarith
  moreover have "EncodeRune r = [224 + d2, 128 + d1, 128 + d0]"
    using assms r(4-6) by (simp add: EncodeRune_def)
  ultimately show ?thesis
    using r(1-3) by (auto simp: cont_byte_def)
qed

lemma DecodeRune_EncodeRune4:
  assumes "65536 \<le> r" "r < 1114112"
  shows "DecodeRune (EncodeRune r @ rest) = (r, 4)"
proof -
  obtain d2 d1 d0 where r: "r = d2 * 4096 + d1 * 64 + d0" "d1 < 64" "d0 < 64"
    "r div 4096 = d2" "r div 64 mod 64 = d1" "r mod 64 = d0"
    by (rule base64_digits)
  obtain d3 e2 where d2: "d2 = d3 * 64 + e2" "e2 < 64" "d2 div 64 = d3" "d2 mod 64 = e2"
    by (metis div_mult_mod_eq mod_less_divisor zero_less_numeral)
  have "r div 262144 = d3" using r(4) d2(3) by (simp flip: div_mult2_eq)
  then have "EncodeRune r = [240 + d3, 128 + e2, 128 + d1, 128 + d0]"
    using assms r(4-6) d2(4) by (simp add: EncodeRune_def valid_rune_def)
  moreover have "d3 \<le> 4" "d3 = 0 \<Longrightarrow> 16 \<le> e2" "d3 = 4 \<Longrightarrow> e2 \<le> 15"
    using r(1-3) d2(1,2) assms by linarith+
  ultimately show ?thesis
    using r(1-3) d2(1,2) by (auto simp: cont_byte_def)
qed

lemma DecodeRune_EncodeRune:
  assumes "valid_rune r"
  shows "DecodeRune (EncodeRune r @ rest) = (r, length (EncodeRune r))"
proof -
  consider "r < 128" | "128 \<le> r" "r < 2048" | "2048 \<le> r" "r < 65536"
    | "65536 \<le> r" "r < 1114112"
    using assms by (force simp: valid_rune_def)
  then show ?thesis
  proof cases
    case 1
    then show ?thesis by (simp add: EncodeRune_def)
  next
    case 2
    moreover from this have "length (EncodeRune r) = 2" by (simp add: EncodeRune_def)
    ultimately show ?thesis by (simp only: DecodeRune_EncodeRune2)
  next
    case 3
    moreover from this assms have "length (EncodeRune r) = 3" by (simp add: EncodeRune_def)
    ultimately show ?thesis using assms by (simp only: DecodeRune_EncodeRune3)
  next
    case 4
    moreover from this assms have "length (EncodeRune r) = 4" by (simp add: EncodeRune_def)
    ultimately show ?thesis using assms by (simp only: DecodeRune_EncodeRune4)
  qed
qed

lemma rune_chunks_encode:
  "\<forall>r \<in> set rs. valid_rune r \<Longrightarrow>
   rune_chunks (concat (map EncodeRune rs)) = map (\<lambda>r. (r, EncodeRune r)) rs"
proof (induction rs)
  case (Cons r rs)
  obtain b bs where e: "EncodeRune r = b # bs"
    using EncodeRune_nonempty by (cases "EncodeRune r") auto
  have d: "DecodeRune (b # bs @ concat (map EncodeRune rs)) = (r, length (b # bs))"
    using DecodeRune_EncodeRune [of r "concat (map EncodeRune rs)"] Cons.prems e by simp
  from Cons show ?case by (simp add: e d del: DecodeRune.simps)
qed simp

definition of_runes :: "rune list \<Rightarrow> string" where
  "of_runes rs = of_bytes (concat (map EncodeRune rs))"

text \<open>Encoding a list of Unicode scalar values and decoding it again gives the list back.\<close>

lemma runes_of_runes: "\<forall>r \<in> set rs. valid_rune r \<Longrightarrow> runes (of_runes rs) = rs"
proof -
  assume v: "\<forall>r \<in> set rs. valid_rune r"
  then have "\<forall>b \<in> set (concat (map EncodeRune rs)). b < 256"
    by (force simp: valid_rune_def intro: EncodeRune_byte)
  then show ?thesis
    using v by (simp add: runes_def of_runes_def bytes_of_bytes rune_chunks_encode comp_def)
qed

lemma rune_chunks_ascii:
  "\<forall>b \<in> set bs. b < 128 \<Longrightarrow> rune_chunks bs = map (\<lambda>b. (b, [b])) bs"
  by (induction bs) simp_all

lemma runes_ascii: "\<forall>b \<in> set (bytes s). b < 128 \<Longrightarrow> runes s = bytes s"
  by (simp add: runes_def rune_chunks_ascii comp_def)

section \<open>Trimming, case and comparison\<close>

text \<open>\<open>unicode.IsSpace\<close>: the White_Space property, all of it.\<close>

definition IsSpace :: "rune \<Rightarrow> bool" where
  "IsSpace r \<longleftrightarrow> r \<in> {9, 10, 11, 12, 13, 32, 133, 160, 5760, 8232, 8233, 8239, 8287, 12288} \<or>
     (8192 \<le> r \<and> r \<le> 8202)"

text \<open>\<open>strings.TrimSpace\<close>.\<close>

definition TrimSpace :: "string \<Rightarrow> string" where
  "TrimSpace s =
     (let cs = dropWhile (IsSpace \<circ> fst) (rune_chunks (bytes s));
          ds = rev (dropWhile (IsSpace \<circ> fst) (rev cs))
      in of_bytes (concat (map snd ds)))"

text \<open>\<open>strings.ToLower\<close>: a byte sequence that is no rune becomes U+FFFD, as \<open>strings.Map\<close> does.\<close>

definition lower_rune :: "(rune \<Rightarrow> rune) \<Rightarrow> rune \<Rightarrow> rune" where
  "lower_rune lower r =
     (if r < 128 then (if 65 \<le> r \<and> r \<le> 90 then r + 32 else r) else lower r)"

definition ToLower :: "(rune \<Rightarrow> rune) \<Rightarrow> string \<Rightarrow> string" where
  "ToLower lower s = of_runes (map (lower_rune lower) (runes s))"

text \<open>\<open>strings.EqualFold\<close>.\<close>

definition fold_rune :: "(rune \<Rightarrow> rune \<Rightarrow> bool) \<Rightarrow> rune \<Rightarrow> rune \<Rightarrow> bool" where
  "fold_rune sf a b \<longleftrightarrow>
     a = b \<or>
     (if a < 128 \<and> b < 128
      then (65 \<le> a \<and> a \<le> 90 \<and> b = a + 32) \<or> (65 \<le> b \<and> b \<le> 90 \<and> a = b + 32)
      else sf a b)"

definition EqualFold :: "(rune \<Rightarrow> rune \<Rightarrow> bool) \<Rightarrow> string \<Rightarrow> string \<Rightarrow> bool" where
  "EqualFold sf s t \<longleftrightarrow> list_all2 (fold_rune sf) (runes s) (runes t)"

lemma EqualFold_refl [simp]: "EqualFold sf s s"
  by (simp add: EqualFold_def list_all2_refl fold_rune_def)

lemma fold_rune_sym: "(\<And>a b. sf a b = sf b a) \<Longrightarrow> fold_rune sf a b = fold_rune sf b a"
  by (auto simp: fold_rune_def)

lemma EqualFold_sym: "(\<And>a b. sf a b = sf b a) \<Longrightarrow> EqualFold sf s t = EqualFold sf t s"
  unfolding EqualFold_def
  by (auto simp: list_all2_conv_all_nth fold_rune_sym [of sf])

lemma TrimSpace_empty [simp]: "TrimSpace [] = []"
  by (simp add: TrimSpace_def bytes_def of_bytes_def)

lemma TrimSpace_length: "length (TrimSpace s) \<le> length s"
proof -
  let ?len = "\<lambda>xs :: (rune \<times> nat list) list. length (concat (map snd xs))"
  let ?P = "IsSpace \<circ> fst"
  have drop: "?len (dropWhile ?P xs) \<le> ?len xs" for xs
    by (induction xs) auto
  have rev: "?len (rev xs) = ?len xs" for xs
    by (induction xs) auto
  let ?cs = "rune_chunks (bytes s)"
  have "?len (rev (dropWhile ?P (rev (dropWhile ?P ?cs)))) = ?len (dropWhile ?P (rev (dropWhile ?P ?cs)))"
    by (rule rev)
  also have "\<dots> \<le> ?len (rev (dropWhile ?P ?cs))" by (rule drop)
  also have "\<dots> = ?len (dropWhile ?P ?cs)" by (rule rev)
  also have "\<dots> \<le> ?len ?cs" by (rule drop)
  also have "\<dots> = length s"
    by (simp add: rune_chunks_bytes bytes_def)
  finally show ?thesis
    by (simp add: TrimSpace_def of_bytes_def Let_def)
qed

text \<open>On ASCII text the trimming is the one on characters.\<close>

lemma TrimSpace_ascii:
  assumes "\<forall>b \<in> set (bytes s). b < 128"
  shows "TrimSpace s =
    of_bytes (rev (dropWhile IsSpace (rev (dropWhile IsSpace (bytes s)))))"
proof -
  have map: "dropWhile (IsSpace \<circ> fst) (map (\<lambda>b. (b, [b])) bs) =
      map (\<lambda>b. (b, [b])) (dropWhile IsSpace bs)" for bs
    by (induction bs) auto
  have cat: "concat (map (snd \<circ> (\<lambda>b. (b, [b]))) bs) = bs" for bs :: "nat list"
    by (induction bs) auto
  show ?thesis
    using assms by (simp add: TrimSpace_def rune_chunks_ascii map cat rev_map)
qed

text \<open>A text whose first byte is an ASCII character and no space does not trim to nothing.\<close>

lemma dropWhile_end: "\<not> P x \<Longrightarrow> x \<in> set (dropWhile P (rev (x # ys)))"
proof -
  assume "\<not> P x"
  then have "dropWhile P (rev ys @ [x]) = dropWhile P (rev ys) @ [x]"
    by (induction "rev ys" arbitrary: ys) (auto simp: dropWhile_append)
  then show ?thesis by simp
qed

lemma TrimSpace_start:
  assumes "of_char c < (128 :: nat)" and "\<not> IsSpace (of_char c)"
  shows "TrimSpace (c # cs) \<noteq> ''''"
proof -
  let ?x = "(of_char c :: nat, [of_char c :: nat])"
  have "rune_chunks (bytes (c # cs)) = ?x # rune_chunks (bytes cs)"
    using assms(1) by (simp add: bytes_def)
  moreover have "?x \<in> set (dropWhile (IsSpace \<circ> fst) (rev (?x # rune_chunks (bytes cs))))"
    using assms(2) by (intro dropWhile_end) simp
  ultimately show ?thesis
    using assms by (force simp: TrimSpace_def of_bytes_def Let_def)
qed

text \<open>A rune below 128 is one byte.\<close>

lemma DecodeRune_ascii:
  "fst (DecodeRune (b # bs)) < 128 \<Longrightarrow> b < 128 \<and> DecodeRune (b # bs) = (b, 1)"
  by (auto simp: RuneError_def split: if_splits list.splits)

lemma ascii_runes: "\<forall>(r, c) \<in> set (rune_chunks bs). r < 128 \<Longrightarrow> map fst (rune_chunks bs) = bs"
proof (induction bs rule: rune_chunks.induct)
  case (2 b bs)
  then have "DecodeRune (b # bs) = (b, 1)"
    using DecodeRune_ascii [of b bs] by (auto simp del: DecodeRune.simps)
  with 2 show ?case by (simp del: DecodeRune.simps)
qed simp

section \<open>Decimal, hexadecimal and base64 text\<close>

text \<open>\<open>%d\<close> of a natural number and of an integer.\<close>

fun show_nat :: "nat \<Rightarrow> string" where
  "show_nat n = (if n < 10 then [char_of (48 + n)] else show_nat (n div 10) @ [char_of (48 + n mod 10)])"

declare show_nat.simps [simp del]

definition show_int :: "int \<Rightarrow> string" where
  "show_int i = (if i < 0 then CHR ''-'' # show_nat (nat (- i)) else show_nat (nat i))"

text \<open>\<open>hex.EncodeToString\<close> and \<open>hex.DecodeString\<close> (\<open>None\<close> where it returns an error).\<close>

definition hex_digit :: "nat \<Rightarrow> nat" where
  "hex_digit n = (if n < 10 then 48 + n else 87 + n)"

definition unhex_digit :: "nat \<Rightarrow> nat option" where
  "unhex_digit c =
     (if 48 \<le> c \<and> c \<le> 57 then Some (c - 48)
      else if 97 \<le> c \<and> c \<le> 102 then Some (c - 87)
      else if 65 \<le> c \<and> c \<le> 70 then Some (c - 55) else None)"

fun hex_encode_bytes :: "nat list \<Rightarrow> nat list" where
  "hex_encode_bytes [] = []"
| "hex_encode_bytes (b # bs) = hex_digit (b div 16) # hex_digit (b mod 16) # hex_encode_bytes bs"

fun hex_decode_bytes :: "nat list \<Rightarrow> nat list option" where
  "hex_decode_bytes [] = Some []"
| "hex_decode_bytes [_] = None"
| "hex_decode_bytes (h # l # cs) =
     (case (unhex_digit h, unhex_digit l, hex_decode_bytes cs) of
        (Some a, Some b, Some bs) \<Rightarrow> Some ((16 * a + b) # bs)
      | _ \<Rightarrow> None)"

definition hex_EncodeToString :: "string \<Rightarrow> string" where
  "hex_EncodeToString s = of_bytes (hex_encode_bytes (bytes s))"

definition hex_DecodeString :: "string \<Rightarrow> string option" where
  "hex_DecodeString s = map_option of_bytes (hex_decode_bytes (bytes s))"

lemma unhex_hex: "n < 16 \<Longrightarrow> unhex_digit (hex_digit n) = Some n"
  by (simp add: hex_digit_def unhex_digit_def)

lemma hex_decode_encode_bytes:
  "\<forall>b \<in> set bs. b < 256 \<Longrightarrow> hex_decode_bytes (hex_encode_bytes bs) = Some bs"
  by (induction bs) (simp_all add: unhex_hex less_mult_imp_div_less)

lemma hex_encode_bytes_less: "\<forall>b \<in> set bs. b < 256 \<Longrightarrow> \<forall>c \<in> set (hex_encode_bytes bs). c < 128"
  by (induction bs) (auto simp: hex_digit_def less_mult_imp_div_less)

lemma hex_encode_bytes_digits:
  "\<forall>b \<in> set bs. b < 256 \<Longrightarrow>
   \<forall>c \<in> set (hex_encode_bytes bs). (48 \<le> c \<and> c \<le> 57) \<or> (97 \<le> c \<and> c \<le> 102)"
proof (induction bs)
  case (Cons b bs)
  then have "b div 16 < 16" "b mod 16 < 16" by (auto simp: less_mult_imp_div_less)
  with Cons show ?case by (auto simp: hex_digit_def)
qed simp

lemma length_hex_encode_bytes: "length (hex_encode_bytes bs) = 2 * length bs"
  by (induction bs) simp_all

text \<open>\<open>hex.DecodeString(hex.EncodeToString(s)) == s\<close>.\<close>

lemma hex_round_trip: "hex_DecodeString (hex_EncodeToString s) = Some s"
proof -
  have s: "\<forall>b \<in> set (bytes s). b < 256" using bytes_less by blast
  then have "\<forall>c \<in> set (hex_encode_bytes (bytes s)). c < 256"
    using hex_encode_bytes_less by fastforce
  with s show ?thesis
    by (simp add: hex_DecodeString_def hex_EncodeToString_def bytes_of_bytes hex_decode_encode_bytes)
qed

lemma hex_EncodeToString_length: "length (hex_EncodeToString s) = 2 * length s"
  by (simp add: hex_EncodeToString_def of_bytes_def length_hex_encode_bytes bytes_def)

lemma hex_EncodeToString_chars:
  assumes "c \<in> set (hex_EncodeToString s)"
  shows "(48 \<le> (of_char c :: nat) \<and> of_char c \<le> (57::nat)) \<or>
    (97 \<le> (of_char c :: nat) \<and> of_char c \<le> (102::nat))"
proof -
  obtain b where b: "b \<in> set (hex_encode_bytes (bytes s))" "c = char_of b"
    using assms by (auto simp: hex_EncodeToString_def of_bytes_def)
  have "\<forall>x \<in> set (bytes s). x < 256" using bytes_less by blast
  from hex_encode_bytes_digits [OF this] b(1)
  have "(48 \<le> b \<and> b \<le> 57) \<or> (97 \<le> b \<and> b \<le> 102)" by blast
  with b(2) show ?thesis by auto
qed

section \<open>Splitting and joining\<close>

text \<open>\<open>strings.Split\<close> and \<open>strings.Join\<close> with a one-character separator.\<close>

fun split_on :: "char \<Rightarrow> string \<Rightarrow> string list" where
  "split_on c [] = [[]]"
| "split_on c (x # xs) =
     (if x = c then [] # split_on c xs
      else (case split_on c xs of [] \<Rightarrow> [[x]] | y # ys \<Rightarrow> (x # y) # ys))"

fun join :: "char \<Rightarrow> string list \<Rightarrow> string" where
  "join c [] = []"
| "join c [x] = x"
| "join c (x # y # ys) = x @ c # join c (y # ys)"

lemma split_on_nonempty [simp]: "split_on c xs \<noteq> []"
  by (induction xs) (auto split: list.splits)

lemma split_on_append: "split_on c (xs @ c # ys) = split_on c xs @ split_on c ys"
  by (induction xs) (auto split: list.splits simp: append_eq_Cons_conv)

lemma split_on_plain: "c \<notin> set xs \<Longrightarrow> split_on c xs = [xs]"
  by (induction xs) auto

lemma split_join: "xs \<noteq> [] \<Longrightarrow> \<forall>x \<in> set xs. c \<notin> set x \<Longrightarrow> split_on c (join c xs) = xs"
  by (induction xs rule: join.induct) (auto simp: split_on_plain split_on_append)

lemma split_on_free: "x \<in> set (split_on c xs) \<Longrightarrow> c \<notin> set x"
  by (induction xs arbitrary: x) (fastforce split: list.splits if_splits)+

section \<open>Cutting and parsing numbers\<close>

text \<open>\<open>strings.SplitN(s, sep, 2)\<close> with a separator that occurs: the parts before and after it.\<close>

definition cut :: "char \<Rightarrow> string \<Rightarrow> (string \<times> string) option" where
  "cut c s =
     (if c \<in> set s then Some (takeWhile (\<lambda>x. x \<noteq> c) s, drop 1 (dropWhile (\<lambda>x. x \<noteq> c) s)) else None)"

text \<open>\<open>strconv.ParseInt(s, 10, 64)\<close>; \<open>None\<close> where it returns an error.\<close>

definition digit :: "char \<Rightarrow> bool" where
  "digit c \<longleftrightarrow> 48 \<le> (of_char c :: nat) \<and> of_char c \<le> (57 :: nat)"

definition decimal :: "string \<Rightarrow> nat" where
  "decimal s = foldl (\<lambda>n c. 10 * n + (of_char c - 48)) 0 s"

definition ParseInt64 :: "string \<Rightarrow> int option" where
  "ParseInt64 s =
     (let neg = take 1 s = ''-''; ds = (if neg \<or> take 1 s = ''+'' then drop 1 s else s)
      in if ds = '''' \<or> \<not> list_all digit ds then None
         else if neg then (if decimal ds \<le> 2 ^ 63 then Some (- int (decimal ds)) else None)
         else if decimal ds < 2 ^ 63 then Some (int (decimal ds)) else None)"

lemma decimal_snoc: "decimal (s @ [c]) = 10 * decimal s + (of_char c - 48)"
  by (simp add: decimal_def)

lemma decimal_show: "decimal (show_nat n) = n \<and> list_all digit (show_nat n) \<and> show_nat n \<noteq> ''''"
proof (induction n rule: show_nat.induct)
  case (1 n)
  have d: "digit (char_of (48 + m))" "of_char (char_of (48 + m) :: char) = 48 + m" if "m < 10" for m :: nat
    using that by (auto simp: digit_def)
  show ?case
  proof (cases "n < 10")
    case True
    then have "show_nat n = [char_of (48 + n)]" by (subst show_nat.simps) simp
    with d [of n] True show ?thesis by (simp add: decimal_def)
  next
    case False
    then have "show_nat n = show_nat (n div 10) @ [char_of (48 + n mod 10)]" by (subst show_nat.simps) simp
    with 1 [OF False] d [of "n mod 10"] show ?thesis
      by (simp add: decimal_snoc)
  qed
qed

lemma show_nat_start: "take 1 (show_nat n) \<noteq> ''-''" "take 1 (show_nat n) \<noteq> ''+''"
proof -
  have s: "list_all digit (show_nat n)" "show_nat n \<noteq> ''''" using decimal_show by auto
  then show "take 1 (show_nat n) \<noteq> ''-''" "take 1 (show_nat n) \<noteq> ''+''"
    by (cases "show_nat n"; simp add: digit_def; fastforce)+
qed

text \<open>Reading back a formatted number.\<close>

lemma ParseInt64_show:
  assumes "- (2 ^ 63) \<le> i" and "i < 2 ^ 63"
  shows "ParseInt64 (show_int i) = Some i"
proof (cases "i < 0")
  case True
  then have "nat (- i) \<le> 2 ^ 63" using assms(1) by simp
  with True decimal_show [of "nat (- i)"] show ?thesis
    by (simp add: ParseInt64_def show_int_def)
next
  case False
  then have "nat i < 2 ^ 63" using assms(2) by simp
  with False decimal_show [of "nat i"] show_nat_start [of "nat i"] show ?thesis
    by (simp add: ParseInt64_def show_int_def Let_def)
qed

end
