(* ===== verification/Deal_Types.thy ===== *)
theory Deal_Types
  imports Go_Text
begin

text \<open>
  The data of \<open>backend/internal/deals/types.go\<close>: the deal, its status and the transition
  table, artifacts and verifications, and the redacted views that leave the server.

  Go's string enums (\<open>type Status string\<close>) are datatypes with one constructor per constant
  and one for every other string, since a request can carry any string; \<open>status_string\<close> and
  \<open>status_of_string\<close> go between the two. Times are instants (integers), \<open>sql.NullTime\<close> is an
  option. \<open>AmountSats\<close> is an \<open>int64\<close> that the program never computes with.
\<close>

section \<open>Status and the transition table\<close>

datatype Status =
    StatusAwaitingPayment
  | StatusLocked
  | StatusWorkSubmitted
  | StatusReviewing
  | StatusReleased
  | StatusDisputed
  | StatusRefunded
  | StatusOther string

fun status_string :: "Status \<Rightarrow> string" where
  "status_string StatusAwaitingPayment = ''awaiting_payment''"
| "status_string StatusLocked = ''locked''"
| "status_string StatusWorkSubmitted = ''work_submitted''"
| "status_string StatusReviewing = ''reviewing''"
| "status_string StatusReleased = ''released''"
| "status_string StatusDisputed = ''disputed''"
| "status_string StatusRefunded = ''refunded''"
| "status_string (StatusOther s) = s"

definition status_of_string :: "string \<Rightarrow> Status" where
  "status_of_string s =
     (if s = ''awaiting_payment'' then StatusAwaitingPayment
      else if s = ''locked'' then StatusLocked
      else if s = ''work_submitted'' then StatusWorkSubmitted
      else if s = ''reviewing'' then StatusReviewing
      else if s = ''released'' then StatusReleased
      else if s = ''disputed'' then StatusDisputed
      else if s = ''refunded'' then StatusRefunded
      else StatusOther s)"

lemma status_string_of_string: "status_string (status_of_string s) = s"
  by (simp add: status_of_string_def)

lemma status_of_string_of_status:
  "(\<And>s. st \<noteq> StatusOther s) \<Longrightarrow> status_of_string (status_string st) = st"
  by (cases st) (simp_all add: status_of_string_def)

text \<open>The seven values of the \<open>valid_status\<close> CHECK constraint.\<close>

definition db_status :: "Status \<Rightarrow> bool" where
  "db_status s \<longleftrightarrow> s \<in> {StatusAwaitingPayment, StatusLocked, StatusWorkSubmitted,
     StatusReviewing, StatusReleased, StatusDisputed, StatusRefunded}"

fun ValidTransitions :: "Status \<Rightarrow> Status list option" where
  "ValidTransitions StatusAwaitingPayment =
     Some [StatusLocked, StatusWorkSubmitted, StatusRefunded]"
| "ValidTransitions StatusLocked = Some [StatusWorkSubmitted, StatusDisputed]"
| "ValidTransitions StatusWorkSubmitted =
     Some [StatusReviewing, StatusReleased, StatusDisputed]"
| "ValidTransitions StatusReviewing = Some [StatusReleased, StatusDisputed]"
| "ValidTransitions StatusDisputed = Some [StatusReleased, StatusRefunded]"
| "ValidTransitions StatusReleased = Some []"
| "ValidTransitions StatusRefunded = Some []"
| "ValidTransitions (StatusOther _) = None"

definition CanTransition :: "Status \<Rightarrow> Status \<Rightarrow> bool" where
  "CanTransition from to =
     (case ValidTransitions from of
        None \<Rightarrow> False
      | Some allowed \<Rightarrow> list_ex (\<lambda>s. s = to) allowed)"

lemma CanTransition_simps [simp]:
  "CanTransition StatusAwaitingPayment t \<longleftrightarrow>
     t = StatusLocked \<or> t = StatusWorkSubmitted \<or> t = StatusRefunded"
  "CanTransition StatusLocked t \<longleftrightarrow> t = StatusWorkSubmitted \<or> t = StatusDisputed"
  "CanTransition StatusWorkSubmitted t \<longleftrightarrow>
     t = StatusReviewing \<or> t = StatusReleased \<or> t = StatusDisputed"
  "CanTransition StatusReviewing t \<longleftrightarrow> t = StatusReleased \<or> t = StatusDisputed"
  "CanTransition StatusDisputed t \<longleftrightarrow> t = StatusReleased \<or> t = StatusRefunded"
  "\<not> CanTransition StatusReleased t"
  "\<not> CanTransition StatusRefunded t"
  "\<not> CanTransition (StatusOther s) t"
  by (auto simp: CanTransition_def)

lemma CanTransition_to_released:
  "CanTransition s StatusReleased \<longleftrightarrow>
     s \<in> {StatusWorkSubmitted, StatusReviewing, StatusDisputed}"
  by (cases s) simp_all

lemma CanTransition_to_disputed:
  "CanTransition s StatusDisputed \<longleftrightarrow>
     s \<in> {StatusLocked, StatusWorkSubmitted, StatusReviewing}"
  by (cases s) simp_all

lemma CanTransition_to_submitted:
  "CanTransition s StatusWorkSubmitted \<longleftrightarrow> s \<in> {StatusAwaitingPayment, StatusLocked}"
  by (cases s) simp_all

lemma CanTransition_db_status: "CanTransition s t \<Longrightarrow> db_status s \<and> db_status t"
  by (cases s) (auto simp: db_status_def)

text \<open>
  A longest-path measure: every legal transition moves the deal strictly forward, so a deal
  that follows the table changes its status at most five times.
\<close>

fun status_rank :: "Status \<Rightarrow> nat" where
  "status_rank StatusAwaitingPayment = 0"
| "status_rank StatusLocked = 1"
| "status_rank StatusWorkSubmitted = 2"
| "status_rank StatusReviewing = 3"
| "status_rank StatusDisputed = 4"
| "status_rank StatusReleased = 5"
| "status_rank StatusRefunded = 5"
| "status_rank (StatusOther _) = 0"

lemma CanTransition_rank: "CanTransition s t \<Longrightarrow> status_rank s < status_rank t"
  by (cases s) auto

lemma CanTransition_path_rank: "CanTransition\<^sup>+\<^sup>+ s t \<Longrightarrow> status_rank s < status_rank t"
  by (induction rule: tranclp_induct) (auto dest: CanTransition_rank)

section \<open>Deals\<close>

type_synonym time = int

record Deal =
  ID :: string
  FreelancerID :: string
  ClientEmail :: string
  Title :: string
  AmountSats :: int
  SourcePlatform :: string
  PreimageHash :: string
  Preimage :: string
  PayeeInvoice :: string
  Invoice :: string
  CheckingID :: string
  PayoutCheckingID :: string
  PayoutAttemptedAt :: "time option"
  ShareToken :: string
  DealStatus :: Status
  DisputeReason :: string
  DisputedAt :: "time option"
  ResolvedAt :: "time option"
  ResolvedBy :: string
  CreatedAt :: time
  VerifiedAt :: "time option"

datatype DisputeResolution =
    DisputeResolutionRelease
  | DisputeResolutionRefund
  | DisputeResolutionOther string

definition resolution_of_string :: "string \<Rightarrow> DisputeResolution" where
  "resolution_of_string s =
     (if s = ''release'' then DisputeResolutionRelease
      else if s = ''refund'' then DisputeResolutionRefund
      else DisputeResolutionOther s)"

datatype ReconcileAction =
    ReconcileConfirmPayout
  | ReconcileResetPayout
  | ReconcileOther string

definition reconcile_of_string :: "string \<Rightarrow> ReconcileAction" where
  "reconcile_of_string s =
     (if s = ''confirm_payout'' then ReconcileConfirmPayout
      else if s = ''reset_payout'' then ReconcileResetPayout
      else ReconcileOther s)"

section \<open>Views\<close>

record PublicDeal =
  pd_Title :: string
  pd_AmountSats :: int
  pd_SourcePlatform :: string
  pd_Invoice :: string
  pd_Status :: Status
  pd_DisputeReason :: string
  pd_CreatedAt :: time

record DealView =
  dv_ID :: string
  dv_FreelancerID :: string
  dv_ClientEmail :: string
  dv_Title :: string
  dv_AmountSats :: int
  dv_SourcePlatform :: string
  dv_PreimageHash :: string
  dv_Invoice :: string
  dv_CheckingID :: string
  dv_ShareToken :: string
  dv_Status :: Status
  dv_DisputeReason :: string
  dv_DisputedAt :: "time option"
  dv_ResolvedAt :: "time option"
  dv_ResolvedBy :: string
  dv_CreatedAt :: time
  dv_VerifiedAt :: "time option"

text \<open>\<open>nullTime\<close>: a null time becomes JSON null, a valid one the instant.\<close>

fun nullTime :: "time option \<Rightarrow> time option" where
  "nullTime None = None"
| "nullTime (Some t) = Some t"

lemma nullTime_id [simp]: "nullTime t = t"
  by (cases t) simp_all

definition View :: "Deal \<Rightarrow> DealView" where
  "View d = \<lparr>
     dv_ID = ID d,
     dv_FreelancerID = FreelancerID d,
     dv_ClientEmail = ClientEmail d,
     dv_Title = Title d,
     dv_AmountSats = AmountSats d,
     dv_SourcePlatform = SourcePlatform d,
     dv_PreimageHash = PreimageHash d,
     dv_Invoice = Invoice d,
     dv_CheckingID = CheckingID d,
     dv_ShareToken = ShareToken d,
     dv_Status = DealStatus d,
     dv_DisputeReason = DisputeReason d,
     dv_DisputedAt = nullTime (DisputedAt d),
     dv_ResolvedAt = nullTime (ResolvedAt d),
     dv_ResolvedBy = ResolvedBy d,
     dv_CreatedAt = CreatedAt d,
     dv_VerifiedAt = nullTime (VerifiedAt d)\<rparr>"

definition PublicView :: "Deal \<Rightarrow> PublicDeal" where
  "PublicView d = \<lparr>
     pd_Title = Title d,
     pd_AmountSats = AmountSats d,
     pd_SourcePlatform = SourcePlatform d,
     pd_Invoice = Invoice d,
     pd_Status = DealStatus d,
     pd_DisputeReason = DisputeReason d,
     pd_CreatedAt = CreatedAt d\<rparr>"

definition dealsView :: "Deal list \<Rightarrow> DealView list" where
  "dealsView ds = map View ds"

section \<open>Artifacts and verifications\<close>

datatype ArtifactKind =
    ArtifactSourceCode
  | ArtifactSourceFile
  | ArtifactOther string

definition artifact_kind_of_string :: "string \<Rightarrow> ArtifactKind" where
  "artifact_kind_of_string s =
     (if s = ''source_code'' then ArtifactSourceCode
      else if s = ''source_file'' then ArtifactSourceFile
      else ArtifactOther s)"

fun artifact_kind_string :: "ArtifactKind \<Rightarrow> string" where
  "artifact_kind_string ArtifactSourceCode = ''source_code''"
| "artifact_kind_string ArtifactSourceFile = ''source_file''"
| "artifact_kind_string (ArtifactOther s) = s"

record Artifact =
  a_ID :: string
  a_DealID :: string
  a_Kind :: ArtifactKind
  a_StorageKey :: string
  a_UploadedAt :: time

datatype VerificationMethod =
    VerificationSandbox
  | VerificationPreviewPDF
  | VerificationPreviewImage
  | VerificationMethodOther string

definition method_of_string :: "string \<Rightarrow> VerificationMethod" where
  "method_of_string s =
     (if s = ''sandbox'' then VerificationSandbox
      else if s = ''preview_pdf'' then VerificationPreviewPDF
      else if s = ''preview_image'' then VerificationPreviewImage
      else VerificationMethodOther s)"

datatype VerificationStatus =
    VerificationPending
  | VerificationReady
  | VerificationExpired
  | VerificationStatusOther string

record Verification =
  v_ID :: string
  v_ArtifactID :: string
  v_Method :: VerificationMethod
  v_Reference :: string
  v_Status :: VerificationStatus
  v_ExpiresAt :: "time option"
  v_CreatedAt :: time

end
