(* ===== verification/Account_Types.thy ===== *)
theory Account_Types
  imports Deal_Types
begin

text \<open>
  The data of \<open>backend/internal/auth\<close> and \<open>backend/internal/cv\<close> that lives in tables: accounts,
  refresh tokens and the anchored entries of the public CV
  (migrations 000002, 000005 and 000007).
\<close>

text \<open>
  \<open>auth.User\<close> is a row of \<open>users\<close>; the column \<open>bitcoin_address\<close> is nullable and read through
  \<open>sql.NullString\<close>. Trust scores are float64 in the code; every score the program writes is an
  integer below 2 to the 53, so integers stand for them.
\<close>

record User =
  u_ID :: string
  u_Email :: string
  u_PasswordHash :: string
  u_DisplayName :: string
  u_Slug :: string
  u_BitcoinAddress :: string
  u_TrustScore :: int
  u_IsOperator :: bool
  u_CreatedAt :: time

record StoredRefreshToken =
  rt_ID :: string
  rt_UserID :: string
  rt_TokenHash :: string
  rt_ExpiresAt :: time
  rt_CreatedAt :: time

text \<open>A row of \<open>cv_entries\<close>.\<close>

record cv_row =
  e_id :: string
  e_artifact_id :: string
  e_hash :: string
  e_algorithm :: string
  e_ots_proof :: "string option"
  e_ots_submitted_at :: "time option"
  e_ots_confirmed_at :: "time option"
  e_created_at :: time

end
