(* ===== verification/Go_Base64.thy ===== *)
theory Go_Base64
  imports Go_Text
begin

text \<open>
  Go's \<open>encoding/base64\<close>: \<open>StdEncoding\<close> (padded, used for encrypted preimages) and
  \<open>RawURLEncoding\<close> (unpadded, URL-safe alphabet, used for share tokens), on byte lists.
\<close>

section \<open>Alphabet\<close>

definition b64_char :: "bool \<Rightarrow> nat \<Rightarrow> nat" where
  "b64_char url n =
     (if n < 26 then 65 + n else if n < 52 then 71 + n else if n < 62 then n - 4
      else if n = 62 then (if url then 45 else 43) else (if url then 95 else 47))"

definition unb64_char :: "nat \<Rightarrow> nat option" where
  "unb64_char c =
     (if 65 \<le> c \<and> c \<le> 90 then Some (c - 65) else if 97 \<le> c \<and> c \<le> 122 then Some (c - 71)
      else if 48 \<le> c \<and> c \<le> 57 then Some (c + 4) else if c = 43 then Some 62
      else if c = 47 then Some 63 else None)"

lemma unb64_b64: "n < 64 \<Longrightarrow> unb64_char (b64_char False n) = Some n"
  by (auto simp: unb64_char_def b64_char_def)

lemma b64_char_not_pad: "n < 64 \<Longrightarrow> b64_char url n \<noteq> 61"
  by (auto simp: b64_char_def)

lemma b64_char_less: "n < 64 \<Longrightarrow> b64_char url n < 128"
  by (auto simp: b64_char_def)

section \<open>Encoding and decoding\<close>

fun b64_encode :: "bool \<Rightarrow> bool \<Rightarrow> nat list \<Rightarrow> nat list" where
  "b64_encode url pad [] = []"
| "b64_encode url pad [x] =
     [b64_char url (x div 4), b64_char url (x mod 4 * 16)] @ (if pad then [61, 61] else [])"
| "b64_encode url pad [x, y] =
     [b64_char url (x div 4), b64_char url (x mod 4 * 16 + y div 16), b64_char url (y mod 16 * 4)] @
     (if pad then [61] else [])"
| "b64_encode url pad (x # y # z # r) =
     b64_char url (x div 4) # b64_char url (x mod 4 * 16 + y div 16) #
     b64_char url (y mod 16 * 4 + z div 64) # b64_char url (z mod 64) # b64_encode url pad r"

fun b64_decode_groups :: "nat list \<Rightarrow> nat list option" where
  "b64_decode_groups [] = Some []"
| "b64_decode_groups (a # b # c # d # rest) =
     (if d = 61 \<and> rest = [] then
        (if c = 61 then
           (case (unb64_char a, unb64_char b) of
              (Some i, Some j) \<Rightarrow> Some [i * 4 + j div 16] | _ \<Rightarrow> None)
         else
           (case (unb64_char a, unb64_char b, unb64_char c) of
              (Some i, Some j, Some k) \<Rightarrow> Some [i * 4 + j div 16, j mod 16 * 16 + k div 4]
            | _ \<Rightarrow> None))
      else
        (case (unb64_char a, unb64_char b, unb64_char c, unb64_char d, b64_decode_groups rest) of
           (Some i, Some j, Some k, Some l, Some bs) \<Rightarrow>
             Some ((i * 4 + j div 16) # (j mod 16 * 16 + k div 4) # (k mod 4 * 64 + l) # bs)
         | _ \<Rightarrow> None))"
| "b64_decode_groups _ = None"

text \<open>\<open>StdEncoding.DecodeString\<close> skips carriage returns and line feeds first.\<close>

definition b64_decode :: "nat list \<Rightarrow> nat list option" where
  "b64_decode cs = b64_decode_groups (filter (\<lambda>c. c \<noteq> 10 \<and> c \<noteq> 13) cs)"

definition Std_EncodeToString :: "string \<Rightarrow> string" where
  "Std_EncodeToString s = of_bytes (b64_encode False True (bytes s))"

definition Std_DecodeString :: "string \<Rightarrow> string option" where
  "Std_DecodeString s = map_option of_bytes (b64_decode (bytes s))"

definition RawURL_EncodeToString :: "string \<Rightarrow> string" where
  "RawURL_EncodeToString s = of_bytes (b64_encode True False (bytes s))"

section \<open>Round trip\<close>

lemma sextets_less:
  fixes x y z :: nat
  assumes "x < 256" "y < 256" "z < 256"
  shows "x div 4 < 64" "x mod 4 * 16 < 64" "x mod 4 * 16 + y div 16 < 64"
    "y mod 16 * 4 < 64" "y mod 16 * 4 + z div 64 < 64" "z mod 64 < 64"
proof -
  have "x div 4 < 64" "y div 16 < 16" "z div 64 < 4" using assms by auto
  moreover have "x mod 4 < 4" "y mod 16 < 16" by simp_all
  ultimately show "x div 4 < 64" "x mod 4 * 16 < 64" "x mod 4 * 16 + y div 16 < 64"
    "y mod 16 * 4 < 64" "y mod 16 * 4 + z div 64 < 64" "z mod 64 < 64"
    by linarith+
qed

lemma b64_encode_chars:
  "\<forall>b \<in> set bs. b < 256 \<Longrightarrow>
   set (b64_encode url pad bs) \<subseteq> b64_char url ` {..<64} \<union> (if pad then {61} else {})"
proof (induction url pad bs rule: b64_encode.induct)
  case (2 url pad x)
  then show ?case using sextets_less(1,2) [of x 0 0] by auto
next
  case (3 url pad x y)
  then show ?case using sextets_less(1,3,4) [of x y 0] by auto
next
  case (4 url pad x y z r)
  then have "set (b64_encode url pad r) \<subseteq> b64_char url ` {..<64} \<union> (if pad then {61} else {})"
    by simp
  with 4 show ?case using sextets_less(1,3,5,6) [of x y z] by auto
qed simp

lemma b64_decode_groups_encode:
  "\<forall>b \<in> set bs. b < 256 \<Longrightarrow> b64_decode_groups (b64_encode False True bs) = Some bs"
proof (induction False True bs rule: b64_encode.induct)
  case (2 x)
  then show ?case
    using sextets_less(1,2) [of x 0 0] by (simp add: unb64_b64 b64_char_not_pad)
next
  case (3 x y)
  then have "y div 16 < 16" by auto
  with 3 show ?case
    using sextets_less(1,3,4) [of x y 0] by (simp add: unb64_b64 b64_char_not_pad)
next
  case (4 x y z r)
  then have "y div 16 < 16" "z div 64 < 4" by auto
  with 4 show ?case
    using sextets_less(1,3,5,6) [of x y z] by (simp add: unb64_b64 b64_char_not_pad)
qed simp

lemma b64_encode_std_clean:
  assumes "\<forall>b \<in> set bs. b < 256"
  shows "\<forall>c \<in> set (b64_encode False True bs). c < 256 \<and> c \<noteq> 10 \<and> c \<noteq> 13"
proof -
  have "c < 256 \<and> c \<noteq> 10 \<and> c \<noteq> 13" if "c \<in> b64_char False ` {..<64} \<union> {61}" for c
    using that by (auto simp: b64_char_def)
  then show ?thesis using b64_encode_chars [OF assms, of False True] by auto
qed

lemma base64_round_trip: "Std_DecodeString (Std_EncodeToString s) = Some s"
proof -
  have s: "\<forall>b \<in> set (bytes s). b < 256" using bytes_less by blast
  note clean = b64_encode_std_clean [OF s]
  then have "filter (\<lambda>c. c \<noteq> 10 \<and> c \<noteq> 13) (b64_encode False True (bytes s)) =
      b64_encode False True (bytes s)"
    by (simp add: filter_id_conv)
  with s clean show ?thesis
    by (simp add: Std_DecodeString_def Std_EncodeToString_def b64_decode_def bytes_of_bytes
        b64_decode_groups_encode)
qed

text \<open>URL-safe tokens: letters, digits, minus and underscore; four characters for three bytes.\<close>

definition url_safe :: "string \<Rightarrow> bool" where
  "url_safe s \<longleftrightarrow> (\<forall>b \<in> set (bytes s).
     (48 \<le> b \<and> b \<le> 57) \<or> (65 \<le> b \<and> b \<le> 90) \<or> (97 \<le> b \<and> b \<le> 122) \<or> b = 45 \<or> b = 95)"

lemma b64_char_url_safe:
  "n < 64 \<Longrightarrow> b64_char True n < 256 \<and>
     ((48 \<le> b64_char True n \<and> b64_char True n \<le> 57) \<or>
      (65 \<le> b64_char True n \<and> b64_char True n \<le> 90) \<or>
      (97 \<le> b64_char True n \<and> b64_char True n \<le> 122) \<or>
      b64_char True n = 45 \<or> b64_char True n = 95)"
proof -
  assume n: "n < 64"
  have "\<not> n < 52 \<Longrightarrow> n < 62 \<Longrightarrow> 48 \<le> n - 4 \<and> n - 4 \<le> 57 \<and> n - 4 < 256" by arith
  with n show ?thesis by (simp add: b64_char_def)
qed

lemma RawURL_safe: "url_safe (RawURL_EncodeToString s)"
proof -
  have s: "\<forall>b \<in> set (bytes s). b < 256" using bytes_less by blast
  have sub: "set (b64_encode True False (bytes s)) \<subseteq> b64_char True ` {..<64}"
    using b64_encode_chars [OF s, of True False] by simp
  then have "\<forall>b \<in> set (b64_encode True False (bytes s)). b < 256"
    using b64_char_url_safe by blast
  then have "set (bytes (RawURL_EncodeToString s)) \<subseteq> b64_char True ` {..<64}"
    using sub by (simp add: RawURL_EncodeToString_def bytes_of_bytes)
  then show ?thesis
    unfolding url_safe_def using b64_char_url_safe by blast
qed

lemma b64_encode_length:
  "3 * length (b64_encode url False bs) =
     4 * length bs + (if length bs mod 3 = 0 then 0 else if length bs mod 3 = 1 then 2 else 1)"
  by (induction url False bs rule: b64_encode.induct) (simp_all add: mod_Suc)

lemma RawURL_length32: "length s = 32 \<Longrightarrow> length (RawURL_EncodeToString s) = 43"
  using b64_encode_length [of True "bytes s"]
  by (simp add: RawURL_EncodeToString_def of_bytes_def bytes_def)

end
