(* ===== verification/Platform.thy ===== *)
theory Platform
  imports Account_Types Go_Base64
begin

text \<open>
  What the program runs on. Everything that is not code of the repository is an argument: the
  record \<open>platform\<close> holds the HTTP transport, the random generator, the clock, the faults of
  the database connection, the primitives of the crypto packages and of \<open>net/mail\<close>, each
  acting on an environment state \<open>'e\<close> that no code of the program inspects.

  The world that programs act on is the database (the tables of \<open>backend/migrations\<close>, as
  lists of rows), the environment, and a log of the externally visible effects (HTTP
  exchanges, notifications, CV anchoring calls, background submissions started) in the order they happened. The log is only
  written; it is what the properties speak about.
\<close>

section \<open>JSON and HTTP\<close>

datatype json =
    JNull
  | JBool bool
  | JInt int
  | JFrac string
  | JStr string
  | JArr "json list"
  | JObj "(string \<times> json) list"

datatype http_method = GET | POST

record http_request =
  rq_method :: http_method
  rq_url :: string
  rq_key :: string
  rq_body :: "json option"

text \<open>The transport's answer: an error of \<open>http.Client.Do\<close>, or a status code and the body,
  whose reading can fail in turn.\<close>

datatype http_result =
    TransportError string
  | Response nat "string + string"

section \<open>The database\<close>

text \<open>\<open>migrations/000003_create_deals_table.up.sql\<close>: a nullable column is an option.\<close>

record deal_row =
  c_id :: string
  c_freelancer_id :: string
  c_client_email :: string
  c_title :: string
  c_amount_sats :: int
  c_source_platform :: string
  c_preimage_hash :: string
  c_preimage :: "string option"
  c_payee_invoice :: "string option"
  c_invoice :: string
  c_checking_id :: "string option"
  c_payout_checking_id :: "string option"
  c_payout_attempted_at :: "time option"
  c_share_token :: string
  c_status :: Status
  c_created_at :: time
  c_verified_at :: "time option"
  c_dispute_reason :: string
  c_disputed_at :: "time option"
  c_resolved_at :: "time option"
  c_resolved_by :: "string option"

record database =
  t_deals :: "deal_row list"
  t_artifacts :: "Artifact list"
  t_verifications :: "Verification list"
  t_users :: "User list"
  t_refresh_tokens :: "StoredRefreshToken list"
  t_cv_entries :: "cv_row list"

text \<open>
  A statement can fail before it runs, or run and lose its answer; the caller sees an error
  in both cases.
\<close>

datatype dbfault = NotRun string | RunButLost string

fun fault_text :: "dbfault \<Rightarrow> string" where
  "fault_text (NotRun m) = m"
| "fault_text (RunButLost m) = m"

section \<open>Platform and world\<close>

record 'e platform =
  http_do :: "http_request \<Rightarrow> 'e \<Rightarrow> http_result \<times> 'e"
  url_error :: "string \<Rightarrow> string option"
  json_parse :: "string \<Rightarrow> json option"
  rand_read :: "nat \<Rightarrow> 'e \<Rightarrow> (string + string) \<times> 'e"
  clock :: "'e \<Rightarrow> time \<times> 'e"
  pg_fault :: "'e \<Rightarrow> dbfault option \<times> 'e"
  pg_uuid :: "'e \<Rightarrow> string \<times> 'e"
  sha256 :: "string \<Rightarrow> string"
  aes_seal :: "string \<Rightarrow> string \<Rightarrow> string \<Rightarrow> string"
  aes_open :: "string \<Rightarrow> string \<Rightarrow> string \<Rightarrow> string option"
  mail_address :: "string \<Rightarrow> string option"
  uni_lower :: "rune \<Rightarrow> rune"
  uni_fold :: "rune \<Rightarrow> rune \<Rightarrow> bool"

datatype notice = PaymentLocked | DealDisputed | DealReleased | DealRefunded

datatype event =
    EvHttp http_request http_result
  | EvNotify notice Deal
  | EvAnchor string string
  | EvSpawnSubmit string string
  | EvCalendar string string

record 'e world =
  w_db :: database
  w_ext :: 'e
  w_log :: "event list"

section \<open>Primitive effects\<close>

definition log_event :: "event \<Rightarrow> 'e world \<Rightarrow> 'e world" where
  "log_event ev w = w\<lparr>w_log := w_log w @ [ev]\<rparr>"

definition do_http :: "'e platform \<Rightarrow> http_request \<Rightarrow> ('e world, http_result) prog" where
  "do_http P rq w =
     (case http_do P rq (w_ext w) of
        (res, e) \<Rightarrow> (Inr res, log_event (EvHttp rq res) (w\<lparr>w_ext := e\<rparr>)))"

text \<open>\<open>crypto/rand.Read\<close> into a buffer of \<open>n\<close> bytes, and \<open>time.Now\<close>.\<close>

definition read_rand :: "'e platform \<Rightarrow> nat \<Rightarrow> ('e world, string) prog" where
  "read_rand P n w =
     (case rand_read P n (w_ext w) of
        (Inl m, e) \<Rightarrow> (Inl (new_err m), w\<lparr>w_ext := e\<rparr>)
      | (Inr bs, e) \<Rightarrow> (Inr bs, w\<lparr>w_ext := e\<rparr>))"

definition time_now :: "'e platform \<Rightarrow> ('e world, time) prog" where
  "time_now P w = (case clock P (w_ext w) of (t, e) \<Rightarrow> (Inr t, w\<lparr>w_ext := e\<rparr>))"

text \<open>
  One SQL statement: \<open>f now uuid db\<close> is what PostgreSQL computes for it, \<open>now\<close> being \<open>NOW()\<close>
  and \<open>uuid\<close> a fresh \<open>gen_random_uuid()\<close>. Errors of the driver are prefixed with \<open>pre\<close>, as
  the repository does.
\<close>

definition pg_step :: "'e platform \<Rightarrow> 'e world \<Rightarrow> dbfault option \<times> 'e world" where
  "pg_step P w = (case pg_fault P (w_ext w) of (flt, e) \<Rightarrow> (flt, w\<lparr>w_ext := e\<rparr>))"

definition query ::
  "'e platform \<Rightarrow> string \<Rightarrow> (time \<Rightarrow> string \<Rightarrow> database \<Rightarrow> (goerr + 'a) \<times> database)
     \<Rightarrow> ('e world, 'a) prog" where
  "query P pre f w =
     (case pg_step P w of (flt, w0) \<Rightarrow>
      case clock P (w_ext w0) of (now, e1) \<Rightarrow>
      case pg_uuid P e1 of (uuid, e2) \<Rightarrow>
      case f now uuid (w_db w0) of (r, db') \<Rightarrow>
      case flt of
        None \<Rightarrow> (r, w0\<lparr>w_ext := e2, w_db := db'\<rparr>)
      | Some (NotRun m) \<Rightarrow> (Inl (wrapf pre (new_err m)), w0\<lparr>w_ext := e2\<rparr>)
      | Some (RunButLost m) \<Rightarrow>
          (Inl (wrapf pre (new_err m)), w0\<lparr>w_ext := e2, w_db := db'\<rparr>))"

text \<open>
  \<open>BeginTx\<close>, the body, then \<open>Commit\<close>, with \<open>defer tx.Rollback()\<close>: when the body returns an
  error the database is what it was at the start; a failed commit may or may not have
  persisted the work.
\<close>

definition withTx :: "'e platform \<Rightarrow> ('e world, 'a) prog \<Rightarrow> ('e world, 'a) prog" where
  "withTx P body w =
     (case pg_step P w of
        (Some flt, w0) \<Rightarrow> (Inl (wrapf ''begin transaction: '' (new_err (fault_text flt))), w0)
      | (None, w0) \<Rightarrow>
          (case body w0 of
             (Inl e, w1) \<Rightarrow> (Inl e, w1\<lparr>w_db := w_db w0\<rparr>)
           | (Inr x, w1) \<Rightarrow>
               (case pg_step P w1 of
                  (None, w2) \<Rightarrow> (Inr x, w2)
                | (Some (NotRun m), w2) \<Rightarrow>
                    (Inl (wrapf ''commit transaction: '' (new_err m)), w2\<lparr>w_db := w_db w0\<rparr>)
                | (Some (RunButLost m), w2) \<Rightarrow>
                    (Inl (wrapf ''commit transaction: '' (new_err m)), w2))))"

section \<open>Rows\<close>

text \<open>\<open>SELECT ... WHERE p\<close> for one row, and \<open>UPDATE ... WHERE p\<close> with its \<open>RowsAffected\<close>.\<close>

definition select_row :: "('r \<Rightarrow> bool) \<Rightarrow> 'r list \<Rightarrow> 'r option" where
  "select_row p rs = find p rs"

definition update_rows :: "('r \<Rightarrow> bool) \<Rightarrow> ('r \<Rightarrow> 'r) \<Rightarrow> 'r list \<Rightarrow> 'r list" where
  "update_rows p f rs = map (\<lambda>r. if p r then f r else r) rs"

definition affected :: "('r \<Rightarrow> bool) \<Rightarrow> 'r list \<Rightarrow> nat" where
  "affected p rs = length (filter p rs)"

lemma affected_0: "affected p rs = 0 \<longleftrightarrow> (\<forall>r \<in> set rs. \<not> p r)"
  by (auto simp: affected_def filter_empty_conv)

lemma update_rows_none: "\<forall>r \<in> set rs. \<not> p r \<Longrightarrow> update_rows p f rs = rs"
  by (simp add: update_rows_def map_idI)

lemma select_row_Some: "select_row p rs = Some r \<Longrightarrow> p r \<and> r \<in> set rs"
  by (auto simp: select_row_def find_Some_iff)

lemma select_row_None: "select_row p rs = None \<longleftrightarrow> (\<forall>r \<in> set rs. \<not> p r)"
  by (auto simp: select_row_def find_None_iff)

lemma select_row_append:
  "select_row p (rs @ [r]) =
     (case select_row p rs of Some q \<Rightarrow> Some q | None \<Rightarrow> if p r then Some r else None)"
  by (induction rs) (simp_all add: select_row_def)

lemma set_update_rows: "set (update_rows p f rs) = (\<lambda>r. if p r then f r else r) ` set rs"
  by (simp add: update_rows_def)

text \<open>
  A table keyed by a column, as its clients see it: looking a key up, altering the row of a
  key, adding a row. The laws are what the deal, artifact and verification tables promise.
\<close>

locale keyed_table =
  fixes key :: "'r \<Rightarrow> 'k"
    and lookup :: "'k \<Rightarrow> 's \<Rightarrow> 'r option"
    and alter :: "'k \<Rightarrow> ('r \<Rightarrow> 'r) \<Rightarrow> 's \<Rightarrow> 's"
    and add :: "'r \<Rightarrow> 's \<Rightarrow> 's"
  assumes lookup_key: "lookup k s = Some r \<Longrightarrow> key r = k"
    and lookup_alter: "(\<And>r. key (f r) = key r) \<Longrightarrow>
      lookup k (alter j f s) = (if j = k then map_option f (lookup k s) else lookup k s)"
    and lookup_add: "lookup k (add r s) =
      (case lookup k s of Some q \<Rightarrow> Some q | None \<Rightarrow> if key r = k then Some r else None)"
begin

lemma lookup_alter_same:
  "(\<And>r. key (f r) = key r) \<Longrightarrow> lookup k s = Some r \<Longrightarrow> lookup k (alter k f s) = Some (f r)"
  by (simp add: lookup_alter)

lemma lookup_alter_other:
  "(\<And>r. key (f r) = key r) \<Longrightarrow> j \<noteq> k \<Longrightarrow> lookup k (alter j f s) = lookup k s"
  by (simp add: lookup_alter)

lemma lookup_add_fresh: "lookup (key r) s = None \<Longrightarrow> lookup (key r) (add r s) = Some r"
  by (simp add: lookup_add)

lemma lookup_add_stable: "lookup k s = Some q \<Longrightarrow> lookup k (add r s) = Some q"
  by (simp add: lookup_add)

text \<open>A field that an alteration leaves alone is the same in every row.\<close>

lemma alter_field_frame:
  assumes "\<And>r. key (f r) = key r" and "\<And>r. g (f r) = g r"
  shows "map_option g (lookup k (alter j f s)) = map_option g (lookup k s)"
  by (simp add: lookup_alter [OF assms(1)] option.map_comp comp_def assms(2))

text \<open>A monotone measure of rows can only grow under alterations that do not lower it.\<close>

lemma alter_measure_mono:
  assumes "\<And>r. key (f r) = key r" and "\<And>r. m r \<le> m (f r)"
  shows "(case lookup k s of None \<Rightarrow> 0 | Some r \<Rightarrow> m r) \<le>
    (case lookup k (alter j f s) of None \<Rightarrow> (0::nat) | Some r \<Rightarrow> m r)"
  by (auto simp: lookup_alter [OF assms(1)] assms(2) split: option.splits)

end

lemma select_key_update:
  assumes "\<And>r. key (f r) = key r"
  shows "select_row (\<lambda>r. key r = k) (update_rows (\<lambda>r. key r = j) f rs) =
    (if j = k then map_option f (select_row (\<lambda>r. key r = k) rs)
     else select_row (\<lambda>r. key r = k) rs)"
  by (induction rs) (auto simp: select_row_def update_rows_def assms)

section \<open>Decoding JSON objects into structs\<close>

text \<open>
  \<open>encoding/json\<close> on an object: every member whose name matches the field (up to case) sets
  it, later ones overwrite, \<open>null\<close> leaves it as it is, a value of another type is an error.
\<close>

fun decode_members ::
  "(string \<Rightarrow> bool) \<Rightarrow> (json \<Rightarrow> 'a \<Rightarrow> 'a option) \<Rightarrow> (string \<times> json) list \<Rightarrow> 'a \<Rightarrow> 'a option" where
  "decode_members m c [] x = Some x"
| "decode_members m c ((k, v) # kvs) x =
     (if m k \<and> v \<noteq> JNull
      then (case c v x of None \<Rightarrow> None | Some y \<Rightarrow> decode_members m c kvs y)
      else decode_members m c kvs x)"

definition field ::
  "'e platform \<Rightarrow> string \<Rightarrow> (json \<Rightarrow> 'a \<Rightarrow> 'a option) \<Rightarrow> 'a \<Rightarrow> (string \<times> json) list \<Rightarrow> 'a option" where
  "field P name c x kvs = decode_members (\<lambda>k. EqualFold (uni_fold P) k name) c kvs x"

fun json_string :: "json \<Rightarrow> string \<Rightarrow> string option" where
  "json_string (JStr s) _ = Some s"
| "json_string _ _ = None"

fun json_bool :: "json \<Rightarrow> bool \<Rightarrow> bool option" where
  "json_bool (JBool b) _ = Some b"
| "json_bool _ _ = None"

fun json_int64 :: "json \<Rightarrow> int \<Rightarrow> int option" where
  "json_int64 (JInt i) _ = (if - (2 ^ 63) \<le> i \<and> i < 2 ^ 63 then Some i else None)"
| "json_int64 _ _ = None"

fun json_object :: "json \<Rightarrow> (string \<times> json) list option" where
  "json_object (JObj kvs) = Some kvs"
| "json_object JNull = Some []"
| "json_object _ = None"

section \<open>Frames of the primitives\<close>

text \<open>Programs that leave the database alone, and programs that only append to the log.\<close>

definition same_db :: "'e world \<Rightarrow> 'e world \<Rightarrow> bool" where
  "same_db w w' \<longleftrightarrow> w_db w' = w_db w"

definition log_adds :: "(event \<Rightarrow> bool) \<Rightarrow> 'e world \<Rightarrow> 'e world \<Rightarrow> bool" where
  "log_adds S w w' \<longleftrightarrow> (\<exists>evs. w_log w' = w_log w @ evs \<and> (\<forall>ev \<in> set evs. S ev))"

abbreviation same_log :: "'e world \<Rightarrow> 'e world \<Rightarrow> bool" where
  "same_log \<equiv> log_adds (\<lambda>_. False)"

lemma same_log_iff: "same_log w w' \<longleftrightarrow> w_log w' = w_log w"
  by (auto simp: log_adds_def)

interpretation db_frame: frame same_db
  by unfold_locales (simp_all add: same_db_def)

lemma log_adds_trans: "log_adds S u v \<Longrightarrow> log_adds S v w \<Longrightarrow> log_adds S u w"
  unfolding log_adds_def by (metis Un_iff append.assoc set_append)

interpretation log_frame: frame "log_adds S" for S
  by unfold_locales (simp add: log_adds_def, rule log_adds_trans)

text \<open>
  A relation between databases, reflexive and transitive, is a frame of programs; statements
  and transactions stay in it when what they compute does.
\<close>

locale db_relation =
  fixes Q :: "database \<Rightarrow> database \<Rightarrow> bool"
  assumes Q_refl: "Q d d"
    and Q_trans: "Q a b \<Longrightarrow> Q b c \<Longrightarrow> Q a c"
begin

definition related :: "'e world \<Rightarrow> 'e world \<Rightarrow> bool" where
  "related w w' \<longleftrightarrow> Q (w_db w) (w_db w')"

lemma related_same_db: "runs_in same_db m \<Longrightarrow> runs_in related m"
  by (erule runs_in_mono) (simp add: same_db_def related_def Q_refl)

end

sublocale db_relation \<subseteq> rel: frame related
  by unfold_locales (auto simp: related_def intro: Q_refl Q_trans)

lemma log_adds_mono: "runs_in (log_adds S) m \<Longrightarrow> (\<And>ev. S ev \<Longrightarrow> T ev) \<Longrightarrow> runs_in (log_adds T) m"
  by (erule runs_in_mono) (auto simp: log_adds_def)

lemma same_log_adds: "runs_in same_log m \<Longrightarrow> runs_in (log_adds S) m"
  by (erule log_adds_mono) simp

lemma do_http_db: "runs_in same_db (do_http P rq)"
  by (auto simp: runs_in_def do_http_def log_event_def same_db_def split: prod.splits)

lemma do_http_log: "(\<And>res. S (EvHttp rq res)) \<Longrightarrow> runs_in (log_adds S) (do_http P rq)"
  by (auto simp: runs_in_def do_http_def log_event_def log_adds_def split: prod.splits)

lemma read_rand_db: "runs_in same_db (read_rand P n)"
  by (auto simp: runs_in_def read_rand_def same_db_def split: prod.splits sum.splits)

lemma read_rand_log: "runs_in same_log (read_rand P n)"
  by (auto simp: runs_in_def read_rand_def same_log_iff split: prod.splits sum.splits)

lemma time_now_db: "runs_in same_db (time_now P)"
  by (auto simp: runs_in_def time_now_def same_db_def split: prod.splits)

lemma time_now_log: "runs_in same_log (time_now P)"
  by (auto simp: runs_in_def time_now_def same_log_iff split: prod.splits)

lemma query_log: "runs_in same_log (query P pre f)"
  by (auto simp: runs_in_def query_def pg_step_def same_log_iff
      split: prod.splits option.splits dbfault.splits)

text \<open>
  What a statement can do to the database: nothing, or what it computes. A statement that
  returns a value has run.
\<close>

lemma query_result:
  assumes "query P pre f w = (Inr x, w')"
  shows "\<exists>now uuid. f now uuid (w_db w) = (Inr x, w_db w')"
  using assms
  by (auto simp: query_def pg_step_def split: prod.splits option.splits dbfault.splits) blast

lemma query_run:
  assumes "query P pre f w = (Inr x, w')"
  obtains now uuid where "fst (f now uuid (w_db w)) = Inr x" "w_db w' = snd (f now uuid (w_db w))"
  using query_result [OF assms] by (metis fst_conv snd_conv)

lemma query_effect:
  assumes "query P pre f w = (r, w')"
  shows "w_db w' = w_db w \<or> (\<exists>now uuid. w_db w' = snd (f now uuid (w_db w)))"
  using assms
  by (auto simp: query_def pg_step_def split: prod.splits option.splits dbfault.splits)
    (metis snd_conv)+

lemma query_frame:
  assumes "\<And>d. Q d d" and "\<And>now uuid d. Q d (snd (f now uuid d))"
  shows "runs_in (\<lambda>w w'. Q (w_db w) (w_db w')) (query P pre f)"
  by (rule runs_inI) (use query_effect [of P pre f] assms in metis)

text \<open>A statement that computes no new database is a read.\<close>

lemma query_read_db:
  "(\<And>now uuid d. snd (f now uuid d) = d) \<Longrightarrow> runs_in same_db (query P pre f)"
  using query_frame [of "\<lambda>a b. b = a" f P pre] by (simp add: runs_in_def same_db_def)

lemma pg_step_db: "pg_step P w = (flt, w') \<Longrightarrow> w_db w' = w_db w \<and> w_log w' = w_log w"
  by (auto simp: pg_step_def split: prod.splits)

text \<open>A transaction that returns a value has committed the effect of its body.\<close>

lemma withTx_Inr:
  assumes "withTx P body w = (Inr x, w')"
  obtains w0 w1 where "w_db w0 = w_db w" "w_log w0 = w_log w"
    "body w0 = (Inr x, w1)" "w_db w' = w_db w1" "w_log w' = w_log w1"
  using assms
  by (auto simp: withTx_def dest!: pg_step_db
      split: prod.splits sum.splits option.splits dbfault.splits)

text \<open>One that returns an error has left the database alone, or it is the answer of the
  commit that was lost.\<close>

lemma withTx_Inl:
  assumes "withTx P body w = (Inl e, w')"
  obtains (unchanged) "w_db w' = w_db w"
  | (lost) w0 w1 x where "w_db w0 = w_db w" "w_log w0 = w_log w" "body w0 = (Inr x, w1)"
      "w_db w' = w_db w1" "w_log w' = w_log w1"
  using assms
  by (auto simp: withTx_def dest!: pg_step_db
      split: prod.splits sum.splits option.splits dbfault.splits)

lemma withTx_db_cases:
  assumes "withTx P body w = (r, w')"
  obtains (unchanged) "w_db w' = w_db w"
  | (ran) w0 w1 x where "w_db w0 = w_db w" "w_log w0 = w_log w" "body w0 = (Inr x, w1)"
      "w_db w' = w_db w1" "w_log w' = w_log w1"
  using assms withTx_Inl [of P body w] withTx_Inr [of P body w] by (cases r) metis+

lemma withTx_log_cases:
  assumes "withTx P body w = (r, w')"
  shows "w_log w' = w_log w \<or>
    (\<exists>w0 w1 q. w_log w0 = w_log w \<and> body w0 = (q, w1) \<and> w_log w' = w_log w1)"
  using assms
  by (auto simp: withTx_def dest!: pg_step_db
      split: prod.splits sum.splits option.splits dbfault.splits)

lemma withTx_log: "runs_in (log_adds S) body \<Longrightarrow> runs_in (log_adds S) (withTx P body)"
proof (rule runs_inI)
  fix w r w' assume body: "runs_in (log_adds S) body" and run: "withTx P body w = (r, w')"
  from withTx_log_cases [OF run] show "log_adds S w w'"
    using runs_inD [OF body] by (fastforce simp: log_adds_def)
qed

text \<open>A relation between databases that the body keeps is kept by the transaction.\<close>

lemma withTx_frame:
  assumes "\<And>d. Q d d" and "runs_in (\<lambda>w w'. Q (w_db w) (w_db w')) body"
  shows "runs_in (\<lambda>w w'. Q (w_db w) (w_db w')) (withTx P body)"
proof (rule runs_inI)
  fix w r w' assume run: "withTx P body w = (r, w')"
  show "Q (w_db w) (w_db w')"
  proof (cases r)
    case (Inl e)
    with run have "withTx P body w = (Inl e, w')" by simp
    then show ?thesis
      by (rule withTx_Inl) (use assms runs_inD [OF assms(2)] in metis)+
  next
    case (Inr x)
    with run have "withTx P body w = (Inr x, w')" by simp
    then show ?thesis
      by (rule withTx_Inr) (use runs_inD [OF assms(2)] in metis)
  qed
qed

lemma same_logD: "m w = (r, w') \<Longrightarrow> runs_in same_log m \<Longrightarrow> w_log w' = w_log w"
  using runs_inD [of same_log m w r w'] by (simp add: same_log_iff)

lemma same_dbD: "m w = (r, w') \<Longrightarrow> runs_in same_db m \<Longrightarrow> w_db w' = w_db w"
  using runs_inD [of same_db m w r w'] by (simp add: same_db_def)

text \<open>Everything a transaction can do.\<close>

lemma withTx_cases:
  assumes "withTx P body w = (r, w')"
  obtains (not_begun) e where "r = Inl e" "w_db w' = w_db w" "w_log w' = w_log w"
  | (ran) w0 q w1 where "w_db w0 = w_db w" "w_log w0 = w_log w" "body w0 = (q, w1)"
      "w_log w' = w_log w1" "\<And>e. q = Inl e \<Longrightarrow> r = Inl e \<and> w_db w' = w_db w"
      "\<And>x. q = Inr x \<Longrightarrow> (r = Inr x \<and> w_db w' = w_db w1) \<or>
         (\<exists>e. r = Inl e \<and> (w_db w' = w_db w \<or> w_db w' = w_db w1))"
proof -
  obtain flt w0 where p: "pg_step P w = (flt, w0)" by (cases "pg_step P w")
  note p' = pg_step_db [OF p]
  show thesis
  proof (cases flt)
    case (Some m)
    with assms p p' not_begun show thesis by (auto simp: withTx_def)
  next
    case None
    obtain q w1 where b: "body w0 = (q, w1)" by (cases "body w0")
    show thesis
    proof (cases q)
      case (Inl e)
      with assms p None b have "r = Inl e" "w_db w' = w_db w0" "w_log w' = w_log w1"
        by (auto simp: withTx_def)
      with ran [of w0 q w1] p' b Inl show thesis by auto
    next
      case (Inr x)
      obtain f2 w2 where p2: "pg_step P w1 = (f2, w2)" by (cases "pg_step P w1")
      note p2' = pg_step_db [OF p2]
      from assms p None b Inr p2 p2' have "w_log w' = w_log w1"
        "(r = Inr x \<and> w_db w' = w_db w1) \<or>
         (\<exists>e. r = Inl e \<and> (w_db w' = w_db w0 \<or> w_db w' = w_db w1))"
        by (auto simp: withTx_def split: option.splits dbfault.splits)
      with ran [of w0 q w1] p' b Inr show thesis by auto
    qed
  qed
qed

section \<open>Errors of the platform\<close>

lemma errs_query:
  assumes "\<And>now uuid db e. fst (f now uuid db) = Inl e \<Longrightarrow> set (err_chain e) \<subseteq> A"
  shows "errs A (query P pre f)"
  unfolding errs_def
proof (intro allI impI)
  fix w e w' assume "query P pre f w = (Inl e, w')"
  then show "set (err_chain e) \<subseteq> A"
    using assms
    by (auto simp: query_def pg_step_def wrapf_def new_err_def split: prod.splits option.splits dbfault.splits)
      (metis fst_conv subsetD)+
qed

lemma errs_platform [errs_intros]:
  "errs A (time_now P)" "errs A (read_rand P n)"
  by (auto simp: errs_def time_now_def read_rand_def new_err_def split: prod.splits sum.splits)

lemma errs_withTx [errs_intros]: "errs A m \<Longrightarrow> errs A (withTx P m)"
  by (auto simp: errs_def withTx_def wrapf_def new_err_def
      split: prod.splits option.splits sum.splits dbfault.splits)

end
