(* ===== verification/Preimage_Crypto.thy ===== *)
theory Preimage_Crypto
  imports Platform
begin

text \<open>
  \<open>backend/internal/deals/preimage_crypto.go\<close>: the escrow preimage is stored encrypted with
  AES-GCM. The key is 32 bytes of SHA-256, or empty (no encryption). AES-GCM itself is the
  platform's \<open>aes_seal key nonce plaintext\<close> and \<open>aes_open key nonce ciphertext\<close>.
\<close>

definition preimageEncPrefix :: string where
  "preimageEncPrefix = ''enc:''"

definition preimageKey :: "'e platform \<Rightarrow> string \<Rightarrow> string" where
  "preimageKey P secret = (if secret = '''' then '''' else sha256 P secret)"

text \<open>\<open>aes.NewCipher\<close> accepts three key sizes; \<open>gcm.NonceSize()\<close> is 12.\<close>

definition aes_key_size :: "string \<Rightarrow> bool" where
  "aes_key_size key \<longleftrightarrow> length key \<in> {16, 24, 32}"

definition NonceSize :: nat where
  "NonceSize = 12"

definition HasPrefix :: "string \<Rightarrow> string \<Rightarrow> bool" where
  "HasPrefix s p \<longleftrightarrow> take (length p) s = p"

definition TrimPrefix :: "string \<Rightarrow> string \<Rightarrow> string" where
  "TrimPrefix s p = (if HasPrefix s p then drop (length p) s else s)"

definition encryptPreimage :: "'e platform \<Rightarrow> string \<Rightarrow> string \<Rightarrow> ('e world, string) prog" where
  "encryptPreimage P key plaintext =
     (if plaintext = '''' \<or> length key = 0 then ret plaintext
      else if \<not> aes_key_size key then fail (new_err ''crypto/aes: invalid key size'')
      else
        bindE (read_rand P NonceSize) (\<lambda>nonce.
          ret (preimageEncPrefix @ Std_EncodeToString (nonce @ aes_seal P key nonce plaintext))))"

definition decryptPreimage :: "'e platform \<Rightarrow> string \<Rightarrow> string \<Rightarrow> goerr + string" where
  "decryptPreimage P key v =
     (if v = '''' \<or> \<not> HasPrefix v preimageEncPrefix then Inr v
      else if length key = 0
        then Inl (new_err ''encrypted preimage present but no key configured'')
      else
        (case Std_DecodeString (TrimPrefix v preimageEncPrefix) of
           None \<Rightarrow> Inl (new_err ''illegal base64 data'')
         | Some raw \<Rightarrow>
             if \<not> aes_key_size key then Inl (new_err ''crypto/aes: invalid key size'')
             else if length raw < NonceSize then Inl (new_err ''encrypted preimage too short'')
             else
               (case aes_open P key (take NonceSize raw) (drop NonceSize raw) of
                  None \<Rightarrow> Inl (new_err ''cipher: message authentication failed'')
                | Some pt \<Rightarrow> Inr pt)))"

section \<open>Properties\<close>

lemma encryptPreimage_db [keeps_db]: "runs_in same_db (encryptPreimage P key s)"
  unfolding encryptPreimage_def by (intro db_frame.frame_intros read_rand_db)

lemma encryptPreimage_log [keeps_log]: "runs_in (log_adds S) (encryptPreimage P key s)"
  unfolding encryptPreimage_def
  by (intro log_frame.frame_intros same_log_adds [OF read_rand_log])

lemma HasPrefix_append [simp]: "HasPrefix (p @ s) p"
  by (simp add: HasPrefix_def)

lemma TrimPrefix_append [simp]: "TrimPrefix (p @ s) p = s"
  by (simp add: TrimPrefix_def)

text \<open>A value without the prefix is stored and read as it is: legacy plain rows.\<close>

lemma decryptPreimage_plain:
  "\<not> HasPrefix v preimageEncPrefix \<Longrightarrow> decryptPreimage P key v = Inr v"
  by (simp add: decryptPreimage_def)

lemma hex_not_prefixed: "\<not> HasPrefix (hex_EncodeToString bs) preimageEncPrefix"
proof
  assume "HasPrefix (hex_EncodeToString bs) preimageEncPrefix"
  then have "set ''enc:'' \<subseteq> set (hex_EncodeToString bs)"
    unfolding HasPrefix_def preimageEncPrefix_def by (metis set_take_subset)
  then have "CHR '':'' \<in> set (hex_EncodeToString bs)" by simp
  then show False using hex_EncodeToString_chars by fastforce
qed

text \<open>
  What the crypto library documents: a sealed message opens under the same key and nonce,
  and a full read of the random source fills the buffer.
\<close>

definition aead_ok :: "'e platform \<Rightarrow> bool" where
  "aead_ok P \<longleftrightarrow> (\<forall>k n p. aes_open P k n (aes_seal P k n p) = Some p)"

definition rand_fills :: "'e platform \<Rightarrow> bool" where
  "rand_fills P \<longleftrightarrow> (\<forall>n e bs e'. rand_read P n e = (Inr bs, e') \<longrightarrow> length bs = n)"

definition sha_len :: "'e platform \<Rightarrow> bool" where
  "sha_len P \<longleftrightarrow> (\<forall>s. length (sha256 P s) = 32)"

lemma read_rand_length:
  "rand_fills P \<Longrightarrow> read_rand P n w = (Inr bs, w') \<Longrightarrow> length bs = n"
  by (auto simp: read_rand_def rand_fills_def split: prod.splits sum.splits)

lemma decrypt_encrypt:
  assumes "aead_ok P" and "rand_fills P" and "\<not> HasPrefix s preimageEncPrefix"
    and "encryptPreimage P key s w = (Inr v, w')"
  shows "decryptPreimage P key v = Inr s"
  using assms(3,4)
  by (auto simp: encryptPreimage_def decryptPreimage_def run_iffs base64_round_trip
      read_rand_length [OF assms(2)] assms(1) [unfolded aead_ok_def]
      preimageEncPrefix_def HasPrefix_def TrimPrefix_def split: if_splits)

text \<open>With a configured secret, encryption fails only when the random source does.\<close>

lemma encrypt_total:
  assumes "sha_len P"
  shows "(\<exists>v. fst (encryptPreimage P (preimageKey P secret) s w) = Inr v) \<or>
    (\<exists>m e'. rand_read P NonceSize (w_ext w) = (Inl m, e'))"
  using assms [unfolded sha_len_def]
  by (auto simp: encryptPreimage_def preimageKey_def aes_key_size_def bindE_def read_rand_def
      split: prod.splits sum.splits)

end
