(* ===== verification/Deal_Repository.thy ===== *)
theory Deal_Repository
  imports Preimage_Crypto
begin

text \<open>
  \<open>backend/internal/deals/repository.go\<close>: the statements of the deals repository. The
  repository's key (\<open>preimageKey\<close>) is an argument. A statement that the table constraints of
  the migrations reject fails and changes nothing. Methods of a repository obtained from
  \<open>WithTx\<close> are the same functions, run inside \<open>withTx\<close>; \<open>RowsAffected\<close> does not fail with
  the PostgreSQL driver.
\<close>

section \<open>Rows and deals\<close>

definition nullString :: "string \<Rightarrow> string option" where
  "nullString s = (if s = '''' then None else Some s)"

text \<open>\<open>sql.NullString.String\<close>.\<close>

definition null_str :: "string option \<Rightarrow> string" where
  "null_str x = (case x of None \<Rightarrow> '''' | Some s \<Rightarrow> s)"

lemma null_str_nullString [simp]: "null_str (nullString s) = s"
  by (simp add: null_str_def nullString_def)

lemma null_str_simps [simp]: "null_str None = ''''" "null_str (Some s) = s"
  by (simp_all add: null_str_def)

definition scanDeal :: "'e platform \<Rightarrow> string \<Rightarrow> deal_row \<Rightarrow> goerr + Deal" where
  "scanDeal P key row =
     (case decryptPreimage P key (null_str (c_preimage row)) of
        Inl e \<Rightarrow> Inl e
      | Inr decrypted \<Rightarrow> Inr \<lparr>
          ID = c_id row,
          FreelancerID = c_freelancer_id row,
          ClientEmail = c_client_email row,
          Title = c_title row,
          AmountSats = c_amount_sats row,
          SourcePlatform = c_source_platform row,
          PreimageHash = c_preimage_hash row,
          Preimage = decrypted,
          PayeeInvoice = null_str (c_payee_invoice row),
          Invoice = c_invoice row,
          CheckingID = null_str (c_checking_id row),
          PayoutCheckingID = null_str (c_payout_checking_id row),
          PayoutAttemptedAt = c_payout_attempted_at row,
          ShareToken = c_share_token row,
          DealStatus = c_status row,
          DisputeReason = c_dispute_reason row,
          DisputedAt = c_disputed_at row,
          ResolvedAt = c_resolved_at row,
          ResolvedBy = null_str (c_resolved_by row),
          CreatedAt = c_created_at row,
          VerifiedAt = c_verified_at row\<rparr>)"

text \<open>The row of \<open>INSERT INTO deals ... RETURNING id, created_at\<close>; \<open>enc\<close> is what the preimage
  was encrypted to.\<close>

definition insert_row :: "Deal \<Rightarrow> string \<Rightarrow> time \<Rightarrow> string \<Rightarrow> deal_row" where
  "insert_row deal enc now uuid = \<lparr>
     c_id = uuid,
     c_freelancer_id = FreelancerID deal,
     c_client_email = ClientEmail deal,
     c_title = Title deal,
     c_amount_sats = AmountSats deal,
     c_source_platform = SourcePlatform deal,
     c_preimage_hash = PreimageHash deal,
     c_preimage = nullString enc,
     c_payee_invoice = nullString (PayeeInvoice deal),
     c_invoice = Invoice deal,
     c_checking_id = Some (CheckingID deal),
     c_payout_checking_id = nullString (PayoutCheckingID deal),
     c_payout_attempted_at = None,
     c_share_token = ShareToken deal,
     c_status = DealStatus deal,
     c_created_at = now,
     c_verified_at = None,
     c_dispute_reason = '''',
     c_disputed_at = None,
     c_resolved_at = None,
     c_resolved_by = None\<rparr>"

section \<open>Table constraints\<close>

text \<open>The first constraint that the rows of \<open>deals\<close> violate, by its name.\<close>

definition deals_constraint :: "deal_row list \<Rightarrow> string option" where
  "deals_constraint rs =
     (if \<not> distinct (map c_id rs) then Some ''deals_pkey''
      else if \<not> distinct (map c_preimage_hash rs) then Some ''deals_preimage_hash_key''
      else if \<not> distinct (map c_share_token rs) then Some ''deals_share_token_key''
      else if \<not> list_all (\<lambda>r. db_status (c_status r)) rs then Some ''valid_status''
      else None)"

lemma deals_constraint_None:
  "deals_constraint rs = None \<longleftrightarrow>
     distinct (map c_id rs) \<and> distinct (map c_preimage_hash rs) \<and>
     distinct (map c_share_token rs) \<and> (\<forall>r \<in> set rs. db_status (c_status r))"
  by (simp add: deals_constraint_def list_all_iff)

definition artifacts_constraint :: "database \<Rightarrow> string option" where
  "artifacts_constraint db =
     (if \<not> distinct (map a_ID (t_artifacts db)) then Some ''artifacts_pkey''
      else if \<not> list_all (\<lambda>a. list_ex (\<lambda>r. c_id r = a_DealID a) (t_deals db)) (t_artifacts db)
        then Some ''artifacts_deal_id_fkey''
      else None)"

definition db_verification_status :: "VerificationStatus \<Rightarrow> bool" where
  "db_verification_status s \<longleftrightarrow> s \<in> {VerificationPending, VerificationReady, VerificationExpired}"

definition verifications_constraint :: "database \<Rightarrow> string option" where
  "verifications_constraint db =
     (if \<not> distinct (map v_ID (t_verifications db)) then Some ''verifications_pkey''
      else if \<not> list_all (\<lambda>v. list_ex (\<lambda>a. a_ID a = v_ArtifactID v) (t_artifacts db))
             (t_verifications db)
        then Some ''verifications_artifact_id_fkey''
      else if \<not> list_all (\<lambda>v. db_verification_status (v_Status v)) (t_verifications db)
        then Some ''valid_verification_status''
      else None)"

section \<open>Deals\<close>

text \<open>The error of \<open>encryptPreimage\<close> is dropped: its value is then the empty string.\<close>

definition insert_deal ::
  "Deal \<Rightarrow> goerr + string \<Rightarrow> time \<Rightarrow> string \<Rightarrow> database \<Rightarrow> (goerr + Deal) \<times> database" where
  "insert_deal deal v now uuid db =
     (let enc = (case v of Inl _ \<Rightarrow> '''' | Inr c \<Rightarrow> c);
          rs = t_deals db @ [insert_row deal enc now uuid]
      in case (if list_ex (\<lambda>u. u_ID u = FreelancerID deal) (t_users db)
               then deals_constraint rs else Some ''deals_freelancer_id_fkey'') of
           Some c \<Rightarrow> (Inl (wrapf ''repository: create deal: '' (new_err c)), db)
         | None \<Rightarrow> (Inr (deal\<lparr>ID := uuid, CreatedAt := now\<rparr>), db\<lparr>t_deals := rs\<rparr>))"

definition Repo_CreateDeal :: "'e platform \<Rightarrow> string \<Rightarrow> Deal \<Rightarrow> ('e world, Deal) prog" where
  "Repo_CreateDeal P key deal =
     bindR (encryptPreimage P key (Preimage deal)) (\<lambda>v.
       query P ''repository: create deal: '' (insert_deal deal v))"

definition select_deal ::
  "'e platform \<Rightarrow> string \<Rightarrow> string \<Rightarrow> (deal_row \<Rightarrow> bool) \<Rightarrow> ('e world, Deal) prog" where
  "select_deal P key pre p =
     bindE (query P pre (\<lambda>_ _ db. (Inr (select_row p (t_deals db)), db))) (\<lambda>r.
       case r of
         None \<Rightarrow> fail (sentinel_err ErrDealNotFound)
       | Some row \<Rightarrow> wrapE (wrapf pre) (liftE (scanDeal P key row)))"

definition Repo_GetDealByID :: "'e platform \<Rightarrow> string \<Rightarrow> string \<Rightarrow> ('e world, Deal) prog" where
  "Repo_GetDealByID P key i =
     select_deal P key ''repository: get deal by id: '' (\<lambda>r. c_id r = i)"

definition Repo_GetDealByCheckingID ::
  "'e platform \<Rightarrow> string \<Rightarrow> string \<Rightarrow> ('e world, Deal) prog" where
  "Repo_GetDealByCheckingID P key cid =
     select_deal P key ''repository: get deal by checking_id: '' (\<lambda>r. c_checking_id r = Some cid)"

definition Repo_GetDealByShareToken ::
  "'e platform \<Rightarrow> string \<Rightarrow> string \<Rightarrow> ('e world, Deal) prog" where
  "Repo_GetDealByShareToken P key tok =
     select_deal P key ''repository: get deal by share_token: '' (\<lambda>r. c_share_token r = tok)"

definition Repo_GetDealForUpdate :: "'e platform \<Rightarrow> string \<Rightarrow> string \<Rightarrow> ('e world, Deal) prog" where
  "Repo_GetDealForUpdate P key i =
     select_deal P key ''repository: get deal for update: '' (\<lambda>r. c_id r = i)"

text \<open>A \<open>SELECT\<close> of several rows: filtered, ordered, scanned one by one.\<close>

definition select_deals ::
  "'e platform \<Rightarrow> string \<Rightarrow> string \<Rightarrow> (deal_row list \<Rightarrow> deal_row list) \<Rightarrow> ('e world, Deal list) prog"
where
  "select_deals P key pre sel =
     bindE (query P pre (\<lambda>_ _ db. (Inr (sel (t_deals db)), db))) (\<lambda>rs.
       wrapE (wrapf ''repository: scan deal: '') (liftE (traverse (scanDeal P key) rs)))"

definition Repo_ListByFreelancer ::
  "'e platform \<Rightarrow> string \<Rightarrow> string \<Rightarrow> ('e world, Deal list) prog" where
  "Repo_ListByFreelancer P key freelancerID =
     select_deals P key ''repository: list deals by freelancer: ''
       (\<lambda>rs. sort_key (\<lambda>r. - c_created_at r) (filter (\<lambda>r. c_freelancer_id r = freelancerID) rs))"

definition Repo_ListForUser ::
  "'e platform \<Rightarrow> string \<Rightarrow> string \<Rightarrow> string \<Rightarrow> ('e world, Deal list) prog" where
  "Repo_ListForUser P key userID email =
     select_deals P key ''repository: list deals for user: ''
       (\<lambda>rs. sort_key (\<lambda>r. - c_created_at r)
          (filter (\<lambda>r. c_freelancer_id r = userID \<or> c_client_email r = email) rs))"

definition open_statuses :: "Status list" where
  "open_statuses =
     [StatusAwaitingPayment, StatusLocked, StatusWorkSubmitted, StatusReviewing, StatusDisputed]"

definition Repo_ListOpenBefore ::
  "'e platform \<Rightarrow> string \<Rightarrow> time \<Rightarrow> ('e world, Deal list) prog" where
  "Repo_ListOpenBefore P key cutoff =
     select_deals P key ''repository: list open deals before cutoff: ''
       (\<lambda>rs. sort_key c_created_at
          (filter (\<lambda>r. c_status r \<in> set open_statuses \<and> c_created_at r < cutoff) rs))"

text \<open>\<open>ORDER BY disputed_at ASC\<close> puts null timestamps last.\<close>

definition Repo_ListDisputed :: "'e platform \<Rightarrow> string \<Rightarrow> ('e world, Deal list) prog" where
  "Repo_ListDisputed P key =
     select_deals P key ''repository: list disputed deals: ''
       (\<lambda>rs. let ds = filter (\<lambda>r. c_status r = StatusDisputed) rs
             in sort_key (\<lambda>r. the (c_disputed_at r)) (filter (\<lambda>r. c_disputed_at r \<noteq> None) ds)
                  @ filter (\<lambda>r. c_disputed_at r = None) ds)"

text \<open>\<open>UPDATE deals SET f WHERE p\<close>, returning \<open>RowsAffected\<close>.\<close>

definition update_deals ::
  "'e platform \<Rightarrow> string \<Rightarrow> (deal_row \<Rightarrow> bool) \<Rightarrow> (time \<Rightarrow> deal_row \<Rightarrow> deal_row) \<Rightarrow> ('e world, nat) prog"
where
  "update_deals P pre p f =
     query P pre (\<lambda>now _ db.
       let rs = update_rows p (f now) (t_deals db)
       in case deals_constraint rs of
            Some c \<Rightarrow> (Inl (wrapf pre (new_err c)), db)
          | None \<Rightarrow> (Inr (affected p (t_deals db)), db\<lparr>t_deals := rs\<rparr>))"

text \<open>The tail of the unconditional updates: no row is \<open>ErrDealNotFound\<close>.\<close>

definition require_row :: "('w, nat) prog \<Rightarrow> ('w, unit) prog" where
  "require_row m = bindE m (\<lambda>n. if n = 0 then fail (sentinel_err ErrDealNotFound) else ret ())"

definition Repo_UpdatePayeeInvoice ::
  "'e platform \<Rightarrow> string \<Rightarrow> string \<Rightarrow> ('e world, unit) prog" where
  "Repo_UpdatePayeeInvoice P i payeeInvoice =
     require_row (update_deals P ''repository: update payee invoice: '' (\<lambda>r. c_id r = i)
       (\<lambda>_ r. r\<lparr>c_payee_invoice := Some payeeInvoice\<rparr>))"

definition Repo_UpdateShareToken ::
  "'e platform \<Rightarrow> string \<Rightarrow> string \<Rightarrow> ('e world, unit) prog" where
  "Repo_UpdateShareToken P i shareToken =
     require_row (update_deals P ''repository: update share token: '' (\<lambda>r. c_id r = i)
       (\<lambda>_ r. r\<lparr>c_share_token := shareToken\<rparr>))"

definition Repo_UpdatePayoutCheckingID ::
  "'e platform \<Rightarrow> string \<Rightarrow> string \<Rightarrow> ('e world, unit) prog" where
  "Repo_UpdatePayoutCheckingID P i payoutCheckingID =
     require_row (update_deals P ''repository: update payout checking_id: '' (\<lambda>r. c_id r = i)
       (\<lambda>_ r. r\<lparr>c_payout_checking_id := Some payoutCheckingID\<rparr>))"

definition Repo_MarkPayoutAttempted :: "'e platform \<Rightarrow> string \<Rightarrow> ('e world, unit) prog" where
  "Repo_MarkPayoutAttempted P i =
     require_row (update_deals P ''repository: mark payout attempted: '' (\<lambda>r. c_id r = i)
       (\<lambda>now r. r\<lparr>c_payout_attempted_at := Some now\<rparr>))"

definition Repo_ClearPayoutTracking :: "'e platform \<Rightarrow> string \<Rightarrow> ('e world, unit) prog" where
  "Repo_ClearPayoutTracking P i =
     require_row (update_deals P ''repository: clear payout tracking: '' (\<lambda>r. c_id r = i)
       (\<lambda>_ r. r\<lparr>c_payout_checking_id := None, c_payout_attempted_at := None\<rparr>))"

text \<open>\<open>SET status = $1, verified_at = CASE WHEN $1 = 'released' THEN NOW() ELSE verified_at END\<close>.\<close>

definition set_status :: "Status \<Rightarrow> time \<Rightarrow> deal_row \<Rightarrow> deal_row" where
  "set_status st now r =
     r\<lparr>c_status := st,
       c_verified_at := (if st = StatusReleased then Some now else c_verified_at r)\<rparr>"

definition Repo_UpdateStatus :: "'e platform \<Rightarrow> string \<Rightarrow> Status \<Rightarrow> ('e world, unit) prog" where
  "Repo_UpdateStatus P i st =
     require_row (update_deals P ''repository: update deal status: '' (\<lambda>r. c_id r = i)
       (set_status st))"

definition Repo_UpdateStatusIfCurrent ::
  "'e platform \<Rightarrow> string \<Rightarrow> Status \<Rightarrow> Status \<Rightarrow> ('e world, bool) prog" where
  "Repo_UpdateStatusIfCurrent P i expected st =
     bindE (update_deals P ''repository: conditionally update deal status: ''
              (\<lambda>r. c_id r = i \<and> c_status r = expected) (set_status st))
       (\<lambda>n. ret (n = 1))"

definition set_dispute :: "string \<Rightarrow> time \<Rightarrow> deal_row \<Rightarrow> deal_row" where
  "set_dispute reason now r =
     r\<lparr>c_status := StatusDisputed, c_dispute_reason := reason, c_disputed_at := Some now\<rparr>"

definition Repo_UpdateDisputeIfCurrent ::
  "'e platform \<Rightarrow> string \<Rightarrow> Status \<Rightarrow> string \<Rightarrow> ('e world, bool) prog" where
  "Repo_UpdateDisputeIfCurrent P i expected reason =
     bindE (update_deals P ''repository: conditionally raise dispute: ''
              (\<lambda>r. c_id r = i \<and> c_status r = expected) (set_dispute reason))
       (\<lambda>n. ret (n = 1))"

definition set_resolution :: "Status \<Rightarrow> string \<Rightarrow> time \<Rightarrow> deal_row \<Rightarrow> deal_row" where
  "set_resolution st resolvedBy now r =
     r\<lparr>c_status := st,
       c_resolved_by := Some resolvedBy,
       c_resolved_at := Some now,
       c_verified_at := (if st = StatusReleased then Some now else c_verified_at r)\<rparr>"

definition Repo_UpdateDisputeResolution ::
  "'e platform \<Rightarrow> string \<Rightarrow> Status \<Rightarrow> string \<Rightarrow> ('e world, unit) prog" where
  "Repo_UpdateDisputeResolution P i st resolvedBy =
     require_row (update_deals P ''repository: update dispute resolution: '' (\<lambda>r. c_id r = i)
       (set_resolution st resolvedBy))"

section \<open>Artifacts and verifications\<close>

definition Repo_CreateArtifact :: "'e platform \<Rightarrow> Artifact \<Rightarrow> ('e world, Artifact) prog" where
  "Repo_CreateArtifact P artifact =
     query P ''repository: create artifact: '' (\<lambda>now uuid db.
       let a = artifact\<lparr>a_ID := uuid, a_UploadedAt := now\<rparr>;
           db' = db\<lparr>t_artifacts := t_artifacts db @ [a]\<rparr>
       in case artifacts_constraint db' of
            Some c \<Rightarrow> (Inl (wrapf ''repository: create artifact: '' (new_err c)), db)
          | None \<Rightarrow> (Inr a, db'))"

text \<open>Deleting an artifact deletes its verifications and its CV entry (\<open>ON DELETE CASCADE\<close>).\<close>

definition Repo_DeleteArtifact :: "'e platform \<Rightarrow> string \<Rightarrow> ('e world, unit) prog" where
  "Repo_DeleteArtifact P i =
     bindE (query P ''repository: delete artifact: '' (\<lambda>_ _ db.
              (Inr (affected (\<lambda>a. a_ID a = i) (t_artifacts db)),
               db\<lparr>t_artifacts := filter (\<lambda>a. a_ID a \<noteq> i) (t_artifacts db),
                  t_verifications := filter (\<lambda>v. v_ArtifactID v \<noteq> i) (t_verifications db),
                  t_cv_entries := filter (\<lambda>e. e_artifact_id e \<noteq> i) (t_cv_entries db)\<rparr>)))
       (\<lambda>n. if n = 0 then fail (sentinel_err ErrArtifactNotFound) else ret ())"

definition Repo_GetArtifactByID :: "'e platform \<Rightarrow> string \<Rightarrow> ('e world, Artifact) prog" where
  "Repo_GetArtifactByID P i =
     bindE (query P ''repository: get artifact by id: ''
              (\<lambda>_ _ db. (Inr (select_row (\<lambda>a. a_ID a = i) (t_artifacts db)), db)))
       (\<lambda>r. case r of None \<Rightarrow> fail (sentinel_err ErrArtifactNotFound) | Some a \<Rightarrow> ret a)"

definition Repo_ListArtifactsByDeal :: "'e platform \<Rightarrow> string \<Rightarrow> ('e world, Artifact list) prog" where
  "Repo_ListArtifactsByDeal P dealID =
     query P ''repository: list artifacts: '' (\<lambda>_ _ db.
       (Inr (sort_key a_UploadedAt (filter (\<lambda>a. a_DealID a = dealID) (t_artifacts db))), db))"

definition Repo_CreateVerification ::
  "'e platform \<Rightarrow> Verification \<Rightarrow> ('e world, Verification) prog" where
  "Repo_CreateVerification P verification =
     query P ''repository: create verification: '' (\<lambda>now uuid db.
       let v = verification\<lparr>v_ID := uuid, v_CreatedAt := now\<rparr>;
           db' = db\<lparr>t_verifications := t_verifications db @ [v]\<rparr>
       in case verifications_constraint db' of
            Some c \<Rightarrow> (Inl (wrapf ''repository: create verification: '' (new_err c)), db)
          | None \<Rightarrow> (Inr v, db'))"

definition Repo_GetVerificationByID :: "'e platform \<Rightarrow> string \<Rightarrow> ('e world, Verification) prog" where
  "Repo_GetVerificationByID P i =
     bindE (query P ''repository: get verification by id: ''
              (\<lambda>_ _ db. (Inr (select_row (\<lambda>v. v_ID v = i) (t_verifications db)), db)))
       (\<lambda>r. case r of None \<Rightarrow> fail (sentinel_err ErrVerificationNotFound) | Some v \<Rightarrow> ret v)"

definition Repo_ListVerificationsByArtifact ::
  "'e platform \<Rightarrow> string \<Rightarrow> ('e world, Verification list) prog" where
  "Repo_ListVerificationsByArtifact P artifactID =
     query P ''repository: list verifications: '' (\<lambda>_ _ db.
       (Inr (sort_key v_CreatedAt (filter (\<lambda>v. v_ArtifactID v = artifactID) (t_verifications db))),
        db))"

section \<open>Tables as keyed tables\<close>

definition find_deal :: "string \<Rightarrow> database \<Rightarrow> deal_row option" where
  "find_deal i db = select_row (\<lambda>r. c_id r = i) (t_deals db)"

definition upd_deal :: "string \<Rightarrow> (deal_row \<Rightarrow> deal_row) \<Rightarrow> database \<Rightarrow> database" where
  "upd_deal i f db = db\<lparr>t_deals := update_rows (\<lambda>r. c_id r = i) f (t_deals db)\<rparr>"

definition add_deal :: "deal_row \<Rightarrow> database \<Rightarrow> database" where
  "add_deal r db = db\<lparr>t_deals := t_deals db @ [r]\<rparr>"

definition find_artifact :: "string \<Rightarrow> database \<Rightarrow> Artifact option" where
  "find_artifact i db = select_row (\<lambda>a. a_ID a = i) (t_artifacts db)"

definition upd_artifact :: "string \<Rightarrow> (Artifact \<Rightarrow> Artifact) \<Rightarrow> database \<Rightarrow> database" where
  "upd_artifact i f db = db\<lparr>t_artifacts := update_rows (\<lambda>a. a_ID a = i) f (t_artifacts db)\<rparr>"

definition add_artifact :: "Artifact \<Rightarrow> database \<Rightarrow> database" where
  "add_artifact a db = db\<lparr>t_artifacts := t_artifacts db @ [a]\<rparr>"

interpretation deals: keyed_table c_id find_deal upd_deal add_deal
proof
  fix k s r f j
  show "find_deal k s = Some r \<Longrightarrow> c_id r = k"
    by (auto simp: find_deal_def dest: select_row_Some)
  show "(\<And>r. c_id (f r) = c_id r) \<Longrightarrow>
    find_deal k (upd_deal j f s) = (if j = k then map_option f (find_deal k s) else find_deal k s)"
    by (simp add: find_deal_def upd_deal_def select_key_update)
  show "find_deal k (add_deal r s) = (case find_deal k s of
      Some q \<Rightarrow> Some q | None \<Rightarrow> if c_id r = k then Some r else None)"
    by (simp add: find_deal_def add_deal_def select_row_append)
qed

interpretation artifacts: keyed_table a_ID find_artifact upd_artifact add_artifact
proof
  fix k s r f j
  show "find_artifact k s = Some r \<Longrightarrow> a_ID r = k"
    by (auto simp: find_artifact_def dest: select_row_Some)
  show "(\<And>r. a_ID (f r) = a_ID r) \<Longrightarrow> find_artifact k (upd_artifact j f s) =
    (if j = k then map_option f (find_artifact k s) else find_artifact k s)"
    by (simp add: find_artifact_def upd_artifact_def select_key_update)
  show "find_artifact k (add_artifact r s) = (case find_artifact k s of
      Some q \<Rightarrow> Some q | None \<Rightarrow> if a_ID r = k then Some r else None)"
    by (simp add: find_artifact_def add_artifact_def select_row_append)
qed

section \<open>What the statements do\<close>

lemma select_deal_db [keeps_db]: "runs_in same_db (select_deal P key pre p)"
  unfolding select_deal_def
  by (intro db_frame.frame_intros query_read_db) simp

lemma select_deals_db [keeps_db]: "runs_in same_db (select_deals P key pre sel)"
  unfolding select_deals_def
  by (intro db_frame.frame_intros query_read_db) simp

lemma query_log' [keeps_log]: "runs_in (log_adds S) (query P pre f)"
  by (rule same_log_adds [OF query_log])

lemma select_deal_log [keeps_log]: "runs_in (log_adds S) (select_deal P key pre p)"
  unfolding select_deal_def by (intro log_frame.frame_intros keeps_log)

lemma select_deals_log [keeps_log]: "runs_in (log_adds S) (select_deals P key pre sel)"
  unfolding select_deals_def by (intro log_frame.frame_intros keeps_log)

lemma update_deals_log [keeps_log]: "runs_in (log_adds S) (update_deals P pre p f)"
  unfolding update_deals_def by (rule keeps_log)

lemma require_row_log [keeps_log]: "runs_in (log_adds S) m \<Longrightarrow> runs_in (log_adds S) (require_row m)"
  unfolding require_row_def by (intro log_frame.frame_intros) simp_all

lemmas repo_update_defs = Repo_UpdatePayeeInvoice_def Repo_UpdateShareToken_def
  Repo_UpdatePayoutCheckingID_def Repo_MarkPayoutAttempted_def Repo_ClearPayoutTracking_def
  Repo_UpdateStatus_def Repo_UpdateDisputeResolution_def

lemmas repo_cas_defs = Repo_UpdateStatusIfCurrent_def Repo_UpdateDisputeIfCurrent_def

lemmas repo_get_defs = Repo_GetDealByID_def Repo_GetDealByCheckingID_def
  Repo_GetDealByShareToken_def Repo_GetDealForUpdate_def

lemmas repo_list_defs = Repo_ListByFreelancer_def Repo_ListForUser_def Repo_ListOpenBefore_def
  Repo_ListDisputed_def

lemma repo_log [keeps_log]:
  "runs_in (log_adds S) (Repo_UpdatePayeeInvoice P i x)"
  "runs_in (log_adds S) (Repo_UpdateShareToken P i x)"
  "runs_in (log_adds S) (Repo_UpdatePayoutCheckingID P i x)"
  "runs_in (log_adds S) (Repo_MarkPayoutAttempted P i)"
  "runs_in (log_adds S) (Repo_ClearPayoutTracking P i)"
  "runs_in (log_adds S) (Repo_UpdateStatus P i st)"
  "runs_in (log_adds S) (Repo_UpdateDisputeResolution P i st op)"
  "runs_in (log_adds S) (Repo_UpdateStatusIfCurrent P i ex st)"
  "runs_in (log_adds S) (Repo_UpdateDisputeIfCurrent P i ex x)"
  "runs_in (log_adds S) (Repo_GetDealByID P key i)"
  "runs_in (log_adds S) (Repo_GetDealByCheckingID P key i)"
  "runs_in (log_adds S) (Repo_GetDealByShareToken P key i)"
  "runs_in (log_adds S) (Repo_GetDealForUpdate P key i)"
  "runs_in (log_adds S) (Repo_ListOpenBefore P key t)"
  "runs_in (log_adds S) (Repo_ListForUser P key u em)"
  "runs_in (log_adds S) (Repo_ListDisputed P key)"
  "runs_in (log_adds S) (Repo_CreateDeal P key d)"
  "runs_in (log_adds S) (Repo_ListArtifactsByDeal P i)"
  "runs_in (log_adds S) (Repo_GetArtifactByID P i)"
  "runs_in (log_adds S) (Repo_CreateArtifact P a)"
  "runs_in (log_adds S) (Repo_DeleteArtifact P i)"
  "runs_in (log_adds S) (Repo_CreateVerification P v)"
  "runs_in (log_adds S) (Repo_GetVerificationByID P i)"
  "runs_in (log_adds S) (Repo_ListVerificationsByArtifact P i)"
  unfolding repo_update_defs repo_cas_defs repo_get_defs repo_list_defs Repo_CreateDeal_def
    Repo_ListArtifactsByDeal_def Repo_GetArtifactByID_def Repo_CreateArtifact_def
    Repo_DeleteArtifact_def Repo_CreateVerification_def Repo_GetVerificationByID_def
    Repo_ListVerificationsByArtifact_def
  by (intro log_frame.frame_intros keeps_log)+

lemma repo_read_db [keeps_db]:
  "runs_in same_db (Repo_GetDealByID P key i)"
  "runs_in same_db (Repo_GetDealByCheckingID P key i)"
  "runs_in same_db (Repo_GetDealByShareToken P key i)"
  "runs_in same_db (Repo_GetDealForUpdate P key i)"
  "runs_in same_db (Repo_ListOpenBefore P key t)"
  "runs_in same_db (Repo_ListForUser P key u em)"
  "runs_in same_db (Repo_ListDisputed P key)"
  unfolding repo_get_defs repo_list_defs by (rule keeps_db)+

lemma repo_read_db' [keeps_db]:
  "runs_in same_db (Repo_ListArtifactsByDeal P i)"
  "runs_in same_db (Repo_GetArtifactByID P i)"
  "runs_in same_db (Repo_GetVerificationByID P i)"
  "runs_in same_db (Repo_ListVerificationsByArtifact P i)"
  unfolding Repo_ListArtifactsByDeal_def Repo_GetArtifactByID_def Repo_GetVerificationByID_def
    Repo_ListVerificationsByArtifact_def
  by (auto intro!: db_frame.frame_intros query_read_db)

lemma select_deal_Inr:
  assumes "select_deal P key pre p w = (Inr d, w')"
  obtains row where "select_row p (t_deals (w_db w)) = Some row" "scanDeal P key row = Inr d"
    "w_db w' = w_db w"
proof -
  from assms obtain r w1 where q:
    "query P pre (\<lambda>_ _ db. (Inr (select_row p (t_deals db)), db)) w = (Inr r, w1)"
    and k: "(case r of None \<Rightarrow> fail (sentinel_err ErrDealNotFound)
       | Some row \<Rightarrow> wrapE (wrapf pre) (liftE (scanDeal P key row))) w1 = (Inr d, w')"
    by (auto simp: select_deal_def bindE_Inr_iff)
  from q have r: "r = select_row p (t_deals (w_db w))" "w_db w1 = w_db w"
    by (auto elim: query_run)
  from k obtain row where "r = Some row" "scanDeal P key row = Inr d" "w' = w1"
    by (cases r) (auto simp: wrapE_Inr_iff)
  with r show thesis by (intro that) simp_all
qed

lemma scanDeal_ID: "scanDeal P key row = Inr d \<Longrightarrow> ID d = c_id row"
  by (auto simp: scanDeal_def split: sum.splits)

text \<open>The fields that a scanned deal shares with its row.\<close>

lemma scanDeal_fields:
  assumes "scanDeal P key row = Inr d"
  shows "FreelancerID d = c_freelancer_id row" "ClientEmail d = c_client_email row"
    "DealStatus d = c_status row" "PayoutAttemptedAt d = c_payout_attempted_at row"
    "PayoutCheckingID d = null_str (c_payout_checking_id row)"
    "PayeeInvoice d = null_str (c_payee_invoice row)" "PreimageHash d = c_preimage_hash row"
    "CheckingID d = null_str (c_checking_id row)" "ShareToken d = c_share_token row"
    "decryptPreimage P key (null_str (c_preimage row)) = Inr (Preimage d)"
    "ID d = c_id row" "Title d = c_title row" "AmountSats d = c_amount_sats row"
    "SourcePlatform d = c_source_platform row" "Invoice d = c_invoice row"
    "DisputeReason d = c_dispute_reason row" "ResolvedBy d = null_str (c_resolved_by row)"
  using assms by (auto simp: scanDeal_def split: sum.splits)

lemma get_deal_Inr:
  assumes "Repo_GetDealByID P key i w = (Inr d, w') \<or> Repo_GetDealForUpdate P key i w = (Inr d, w')"
  obtains row where "find_deal i (w_db w) = Some row" "scanDeal P key row = Inr d"
    "w_db w' = w_db w" "ID d = i"
proof -
  from assms obtain pre where "select_deal P key pre (\<lambda>r. c_id r = i) w = (Inr d, w')"
    by (auto simp: Repo_GetDealByID_def Repo_GetDealForUpdate_def)
  then show thesis
    by (rule select_deal_Inr)
      (use that in \<open>auto simp: find_deal_def dest: scanDeal_ID select_row_Some\<close>)
qed

lemma get_deal_missing:
  assumes "find_deal i (w_db w) = None"
  shows "fst (Repo_GetDealByID P key i w) \<noteq> Inr d" "fst (Repo_GetDealForUpdate P key i w) \<noteq> Inr d"
  using get_deal_Inr [of P key i w d] assms
  by (metis option.distinct(1) prod.collapse)+

text \<open>An update that returned a count has run; one that failed has run or not.\<close>

lemma update_deals_Inr:
  assumes "update_deals P pre p f w = (Inr n, w')"
  obtains now where "n = affected p (t_deals (w_db w))"
    "w_db w' = (w_db w)\<lparr>t_deals := update_rows p (f now) (t_deals (w_db w))\<rparr>"
    "deals_constraint (t_deals (w_db w')) = None"
proof -
  from assms show thesis
    unfolding update_deals_def
    by (rule query_run) (auto simp: Let_def split: option.splits intro: that)
qed

lemma update_deals_any:
  assumes "update_deals P pre p f w = (r, w')"
  obtains (unchanged) "w_db w' = w_db w"
  | (ran) now where "w_db w' = (w_db w)\<lparr>t_deals := update_rows p (f now) (t_deals (w_db w))\<rparr>"
      "deals_constraint (t_deals (w_db w')) = None"
proof -
  from query_effect [OF assms [unfolded update_deals_def]] consider "w_db w' = w_db w"
    | now where "w_db w' = (w_db w)\<lparr>t_deals := update_rows p (f now) (t_deals (w_db w))\<rparr>"
        "deals_constraint (t_deals (w_db w')) = None"
    by (fastforce simp: Let_def split: option.splits)
  then show thesis using unchanged ran by cases
qed

lemma update_key_Inr:
  assumes "require_row (update_deals P pre (\<lambda>r. c_id r = i) f) w = (Inr u, w')"
  obtains now row where "find_deal i (w_db w) = Some row" "w_db w' = upd_deal i (f now) (w_db w)"
    "deals_constraint (t_deals (w_db w')) = None"
proof -
  from assms obtain n w1 where "update_deals P pre (\<lambda>r. c_id r = i) f w = (Inr n, w1)"
    "n \<noteq> 0" "w' = w1"
    by (auto simp: require_row_def bindE_Inr_iff split: if_splits)
  then obtain now where aff: "affected (\<lambda>r. c_id r = i) (t_deals (w_db w)) \<noteq> 0"
    and eff: "w_db w' = upd_deal i (f now) (w_db w)"
      "deals_constraint (t_deals (w_db w')) = None"
    by (auto simp: upd_deal_def elim!: update_deals_Inr)
  from aff obtain row where "find_deal i (w_db w) = Some row"
    by (metis affected_0 find_deal_def not_None_eq select_row_None)
  then show thesis using eff by (rule that)
qed

lemma update_key_any:
  assumes "require_row (update_deals P pre (\<lambda>r. c_id r = i) f) w = (r, w')"
  obtains (unchanged) "w_db w' = w_db w"
  | (ran) now where "w_db w' = upd_deal i (f now) (w_db w)"
      "deals_constraint (t_deals (w_db w')) = None"
proof -
  from assms obtain q where "update_deals P pre (\<lambda>r. c_id r = i) f w = (q, w')"
    by (cases "update_deals P pre (\<lambda>r. c_id r = i) f w")
      (auto simp: require_row_def bindE_def split: sum.splits if_splits)
  then show thesis
    by (rule update_deals_any) (use unchanged ran in \<open>auto simp: upd_deal_def\<close>)
qed

lemma get_deal_db:
  assumes "Repo_GetDealByID P key i w = (r, w') \<or> Repo_GetDealForUpdate P key i w = (r, w')"
  shows "w_db w' = w_db w"
  using assms runs_inD [OF repo_read_db(1)] runs_inD [OF repo_read_db(4)]
  by (fastforce simp: same_db_def)

text \<open>The conditional updates are alterations of the row that have no effect in another status.\<close>

lemma cas_upd_deal:
  "d\<lparr>t_deals := update_rows (\<lambda>r. c_id r = i \<and> c_status r = ex) f (t_deals d)\<rparr> =
   upd_deal i (\<lambda>r. if c_status r = ex then f r else r) d"
  by (auto simp: upd_deal_def update_rows_def)

definition cas_row :: "Status \<Rightarrow> (deal_row \<Rightarrow> deal_row) \<Rightarrow> deal_row \<Rightarrow> deal_row" where
  "cas_row ex f r = (if c_status r = ex then f r else r)"

lemma cas_any:
  assumes "bindE (update_deals P pre (\<lambda>r. c_id r = i \<and> c_status r = ex) f) (\<lambda>n. ret (n = 1)) w = (q, w')"
  obtains (unchanged) "w_db w' = w_db w"
  | (ran) now where "w_db w' = upd_deal i (cas_row ex (f now)) (w_db w)"
      "deals_constraint (t_deals (w_db w')) = None"
proof -
  from assms obtain q' where
    "update_deals P pre (\<lambda>r. c_id r = i \<and> c_status r = ex) f w = (q', w')"
    by (cases "update_deals P pre (\<lambda>r. c_id r = i \<and> c_status r = ex) f w")
      (auto simp: bindE_def split: sum.splits)
  then show thesis
    by (rule update_deals_any)
      (use unchanged ran in \<open>auto simp: cas_upd_deal cas_row_def [abs_def]\<close>)
qed

lemma distinct_map_filter_one:
  assumes "distinct (map k rs)" and "r \<in> set rs" and "Q r" and "k r = x"
  shows "filter (\<lambda>r. k r = x \<and> Q r) rs = [r]"
  using assms
proof (induction rs)
  case (Cons a rs)
  then show ?case by (cases "a = r") (auto simp: filter_empty_conv image_iff)
qed simp

lemma select_key_distinct:
  assumes "distinct (map k rs)" and "r \<in> set rs"
  shows "select_row (\<lambda>q. k q = k r) rs = Some r"
  using assms by (induction rs) (auto simp: select_row_def image_iff)

lemma update_rows_ids:
  "(\<And>r. k (f r) = k r) \<Longrightarrow> map k (update_rows p f rs) = map k rs"
  by (simp add: update_rows_def)

text \<open>The compare-and-swap wins exactly when the row of the key is in the expected status.\<close>

lemma cas_Inr:
  assumes "bindE (update_deals P pre (\<lambda>r. c_id r = i \<and> c_status r = ex) f) (\<lambda>n. ret (n = 1)) w
      = (Inr b, w')"
    and "\<And>now r. c_id (f now r) = c_id r"
  obtains now where "w_db w' = upd_deal i (cas_row ex (f now)) (w_db w)"
    "b \<longleftrightarrow> (\<exists>row. find_deal i (w_db w) = Some row \<and> c_status row = ex)"
    "deals_constraint (t_deals (w_db w')) = None"
proof -
  let ?p = "\<lambda>r. c_id r = i \<and> c_status r = ex" and ?rs = "t_deals (w_db w)"
  from assms(1) obtain n where "update_deals P pre ?p f w = (Inr n, w')" and b: "b \<longleftrightarrow> n = 1"
    by (auto simp: bindE_Inr_iff)
  then obtain now where n: "n = affected ?p ?rs"
    and eff: "w_db w' = upd_deal i (cas_row ex (f now)) (w_db w)"
      "deals_constraint (t_deals (w_db w')) = None"
    by (elim update_deals_Inr) (auto simp: cas_upd_deal cas_row_def [abs_def])
  have "map c_id (t_deals (w_db w')) = map c_id ?rs"
    unfolding eff upd_deal_def by (simp add: update_rows_ids cas_row_def assms(2))
  with eff(2) have dist: "distinct (map c_id ?rs)" by (simp add: deals_constraint_None)
  have "b \<longleftrightarrow> (\<exists>row. find_deal i (w_db w) = Some row \<and> c_status row = ex)"
  proof
    assume b
    with b n have "affected ?p ?rs \<noteq> 0" by simp
    then obtain r where r: "r \<in> set ?rs" "c_id r = i" "c_status r = ex"
      by (auto simp: affected_0)
    with select_key_distinct [OF dist r(1)]
    show "\<exists>row. find_deal i (w_db w) = Some row \<and> c_status row = ex"
      by (auto simp: find_deal_def)
  next
    assume "\<exists>row. find_deal i (w_db w) = Some row \<and> c_status row = ex"
    then obtain row where "row \<in> set ?rs" "c_id row = i" "c_status row = ex"
      by (auto simp: find_deal_def dest: select_row_Some)
    with distinct_map_filter_one [OF dist, of row "\<lambda>r. c_status r = ex" i] b n
    show b by (simp add: affected_def)
  qed
  with eff that show thesis by blast
qed

lemma update_fields [simp]:
  "c_id (set_status st now r) = c_id r" "c_id (set_dispute x now r) = c_id r"
  "c_id (set_resolution st x now r) = c_id r"
  "c_status (set_status st now r) = st" "c_status (set_dispute x now r) = StatusDisputed"
  "c_status (set_resolution st x now r) = st"
  by (simp_all add: set_status_def set_dispute_def set_resolution_def)

text \<open>
  What was written is what is read back: a deal that \<open>CreateDeal\<close> stored comes back with the
  same fields, its preimage decrypted.
\<close>

lemma scan_insert_row:
  assumes "decryptPreimage P key enc = Inr (Preimage deal)"
    and "PayoutAttemptedAt deal = None" "VerifiedAt deal = None" "DisputeReason deal = ''''"
      "DisputedAt deal = None" "ResolvedAt deal = None" "ResolvedBy deal = ''''"
  shows "scanDeal P key (insert_row deal enc now uuid) = Inr (deal\<lparr>ID := uuid, CreatedAt := now\<rparr>)"
  using assms by (simp add: scanDeal_def insert_row_def)

lemma CreateDeal_Inr:
  assumes "Repo_CreateDeal P key deal w = (Inr d, w')"
  obtains v w1 now uuid where "encryptPreimage P key (Preimage deal) w = (v, w1)"
    "d = deal\<lparr>ID := uuid, CreatedAt := now\<rparr>"
    "w_db w' = add_deal (insert_row deal (case v of Inl _ \<Rightarrow> '''' | Inr c \<Rightarrow> c) now uuid) (w_db w)"
    "deals_constraint (t_deals (w_db w')) = None"
proof -
  from assms obtain v w1 where v: "encryptPreimage P key (Preimage deal) w = (v, w1)"
    and q: "query P ''repository: create deal: '' (insert_deal deal v) w1 = (Inr d, w')"
    by (auto simp: Repo_CreateDeal_def bindR_iff)
  have db: "w_db w1 = w_db w" using runs_inD [OF encryptPreimage_db v] by (simp add: same_db_def)
  from q show thesis
    by (rule query_run)
      (auto simp: insert_deal_def Let_def db add_deal_def split: option.splits if_splits intro!: that [OF v])
qed

section \<open>Row relations\<close>

text \<open>
  Most guarantees about the table are of the form: every row that was there is still there and
  stands in some relation to what it was. Updates stay in such a relation when the assignment
  does, and the rest of the statements always do.
\<close>

definition row_wise :: "(deal_row \<Rightarrow> deal_row \<Rightarrow> bool) \<Rightarrow> database \<Rightarrow> database \<Rightarrow> bool" where
  "row_wise R d d' \<longleftrightarrow>
     (\<forall>i r. find_deal i d = Some r \<longrightarrow> (\<exists>r'. find_deal i d' = Some r' \<and> R r r'))"

lemma row_wiseD: "row_wise R d d' \<Longrightarrow> find_deal i d = Some r \<Longrightarrow>
    \<exists>r'. find_deal i d' = Some r' \<and> R r r'"
  by (simp add: row_wise_def)

lemma find_deal_same: "t_deals d' = t_deals d \<Longrightarrow> find_deal i d' = find_deal i d"
  by (simp add: find_deal_def)

locale row_relation =
  fixes R :: "deal_row \<Rightarrow> deal_row \<Rightarrow> bool"
  assumes R_refl: "R r r"
    and R_trans: "R r q \<Longrightarrow> R q p \<Longrightarrow> R r p"
begin

lemma row_wise_same: "t_deals d' = t_deals d \<Longrightarrow> row_wise R d d'"
  by (simp add: row_wise_def find_deal_def R_refl)

lemma row_wise_trans:
  assumes "row_wise R a b" and "row_wise R b c"
  shows "row_wise R a c"
  unfolding row_wise_def
proof (intro allI impI)
  fix i r assume "find_deal i a = Some r"
  with row_wiseD [OF assms(1)] obtain q where "find_deal i b = Some q" "R r q" by blast
  moreover with row_wiseD [OF assms(2)] obtain p where "find_deal i c = Some p" "R q p" by blast
  ultimately show "\<exists>p. find_deal i c = Some p \<and> R r p" using R_trans by blast
qed

lemma row_wise_upd:
  assumes "\<And>r. c_id (f r) = c_id r" and "\<And>r. find_deal i d = Some r \<Longrightarrow> R r (f r)"
  shows "row_wise R d (upd_deal i f d)"
  unfolding row_wise_def
proof (intro allI impI)
  fix j r assume r: "find_deal j d = Some r"
  show "\<exists>r'. find_deal j (upd_deal i f d) = Some r' \<and> R r r'"
  proof (cases "i = j")
    case True
    with r assms(2) show ?thesis by (simp add: deals.lookup_alter_same [OF assms(1)])
  next
    case False
    with r show ?thesis by (simp add: deals.lookup_alter_other [OF assms(1)] R_refl)
  qed
qed

lemma row_wise_add: "row_wise R d (add_deal r d)"
  by (simp add: row_wise_def deals.lookup_add_stable R_refl)

end

sublocale row_relation \<subseteq> rows: db_relation "row_wise R"
proof
  show "row_wise R d d" for d by (rule row_wise_same) simp
  show "row_wise R a b \<Longrightarrow> row_wise R b c \<Longrightarrow> row_wise R a c" for a b c by (rule row_wise_trans)
qed

context row_relation begin

lemma in_rows: "runs_in (\<lambda>w w'. row_wise R (w_db w) (w_db w')) m \<longleftrightarrow> runs_in rows.related m"
  by (simp add: runs_in_def rows.related_def)

lemma rows_same_deals:
  "runs_in (\<lambda>w w'. t_deals (w_db w') = t_deals (w_db w)) m \<Longrightarrow> runs_in rows.related m"
  by (erule runs_in_mono) (simp add: rows.related_def row_wise_same)

lemma rows_update:
  assumes "\<And>now r. c_id (f now r) = c_id r" and "\<And>now r. R r (f now r)"
  shows "runs_in rows.related (require_row (update_deals P pre (\<lambda>r. c_id r = i) f))"
proof (rule runs_inI, unfold rows.related_def, elim update_key_any)
  fix w w' :: "'a world" and now
  assume "w_db w' = upd_deal i (f now) (w_db w)"
  then show "row_wise R (w_db w) (w_db w')" using row_wise_upd [of "f now"] assms by simp
qed (simp add: row_wise_same)

lemma rows_cas:
  assumes "\<And>now r. c_id (f now r) = c_id r" and "\<And>now r. c_status r = ex \<Longrightarrow> R r (f now r)"
  shows "runs_in rows.related
    (bindE (update_deals P pre (\<lambda>r. c_id r = i \<and> c_status r = ex) f) (\<lambda>n. ret (n = 1)))"
proof (rule runs_inI, unfold rows.related_def, elim cas_any)
  fix w w' :: "'a world" and now
  assume "w_db w' = upd_deal i (cas_row ex (f now)) (w_db w)"
  then show "row_wise R (w_db w) (w_db w')"
    using row_wise_upd [of "cas_row ex (f now)"] assms by (simp add: cas_row_def R_refl)
qed (simp add: row_wise_same)

lemma rows_create: "runs_in rows.related (Repo_CreateDeal P key deal)"
proof -
  have step: "row_wise R d (snd (insert_deal deal v now uuid d))" for v now uuid d
    using row_wise_add [of d]
    by (auto simp: insert_deal_def Let_def add_deal_def row_wise_same split: option.split)
  have "runs_in rows.related (query P ''repository: create deal: '' (insert_deal deal v))" for v
    unfolding in_rows [symmetric] by (intro query_frame step row_wise_same refl)
  then show ?thesis
    unfolding Repo_CreateDeal_def
    by (intro rows.rel.frame_bindR rows.related_same_db [OF encryptPreimage_db]) auto
qed

lemma rows_withTx: "runs_in rows.related m \<Longrightarrow> runs_in rows.related (withTx P m)"
  unfolding in_rows [symmetric] by (rule withTx_frame) (simp_all add: row_wise_same)

end

text \<open>The statements on the other tables leave the deals alone.\<close>

lemma other_tables_deals:
  "runs_in (\<lambda>w w'. t_deals (w_db w') = t_deals (w_db w)) (Repo_CreateArtifact P a)"
  "runs_in (\<lambda>w w'. t_deals (w_db w') = t_deals (w_db w)) (Repo_CreateVerification P v)"
  unfolding Repo_CreateArtifact_def Repo_CreateVerification_def
  by ((rule query_frame, simp, simp add: Let_def split: option.split)+)

interpretation deals_frame: frame "\<lambda>w w'. t_deals (w_db w') = t_deals (w_db w)"
  by unfold_locales simp_all

lemma DeleteArtifact_deals:
  "runs_in (\<lambda>w w'. t_deals (w_db w') = t_deals (w_db w)) (Repo_DeleteArtifact P i)"
  unfolding Repo_DeleteArtifact_def
  by (intro deals_frame.frame_bindE deals_frame.frame_if deals_frame.frame_fail
      deals_frame.frame_ret query_frame [where Q = "\<lambda>d d'. t_deals d' = t_deals d"]) simp_all

lemma find_by_id:
  assumes "distinct (map c_id (t_deals db))" and "select_row P (t_deals db) = Some row"
  shows "find_deal (c_id row) db = Some row"
  using assms unfolding find_deal_def
  by (auto simp: select_row_def find_Some_iff distinct_conv_nth nth_eq_iff_index_eq)

end
