(* ===== verification/Lnbits_Client.thy ===== *)
theory Lnbits_Client
  imports Platform
begin

text \<open>
  The HTTP client of \<open>backend/internal/lnbits\<close> (\<open>client.go\<close>, \<open>models.go\<close>): the requests it
  builds and how it classifies the answers. The LNbits server and the network are the
  platform's transport. The last sections give the predicates on logged exchanges that the
  money properties use, and what each call can add to the log.
\<close>

section \<open>Configuration and wire structs\<close>

record lnbits_client =
  lb_url :: string
  lb_apiKey :: string
  lb_webhookURL :: string
  lb_adminKey :: string
  lb_holdExpiry :: int

record CreateHoldInvoiceRequest =
  hr_Out :: bool
  hr_Amount :: int
  hr_Memo :: string
  hr_PaymentHash :: string
  hr_Expiry :: int
  hr_Webhook :: string
  hr_Unit :: string

record SimpleInvoiceResponse =
  si_OK :: bool
  si_CheckingID :: string
  si_ErrorMessage :: string

text \<open>\<open>CreateInvoiceResponse\<close> and \<open>Invoice\<close> have the same three fields.\<close>

record LnInvoice =
  inv_CheckingID :: string
  inv_PaymentHash :: string
  inv_PaymentRequest :: string

record CheckPaymentDetails =
  cd_CheckingID :: string
  cd_Amount :: int
  cd_Fee :: int
  cd_Memo :: string
  cd_Status :: string

record CheckPaymentResponse =
  cp_Paid :: bool
  cp_Details :: CheckPaymentDetails

text \<open>\<open>json:",omitempty"\<close> drops the zero value.\<close>

definition hold_body :: "CreateHoldInvoiceRequest \<Rightarrow> json" where
  "hold_body r = JObj (
     [(''out'', JBool (hr_Out r)), (''amount'', JInt (hr_Amount r)), (''memo'', JStr (hr_Memo r)),
      (''payment_hash'', JStr (hr_PaymentHash r))] @
     (if hr_Expiry r = 0 then [] else [(''expiry'', JInt (hr_Expiry r))]) @
     (if hr_Webhook r = '''' then [] else [(''webhook'', JStr (hr_Webhook r))]) @
     (if hr_Unit r = '''' then [] else [(''unit'', JStr (hr_Unit r))]))"

definition decode_simple :: "'e platform \<Rightarrow> (string \<times> json) list \<Rightarrow> SimpleInvoiceResponse option" where
  "decode_simple P kvs =
     (case (field P ''ok'' json_bool False kvs, field P ''checking_id'' json_string '''' kvs,
            field P ''error_message'' json_string '''' kvs) of
        (Some ok, Some cid, Some msg) \<Rightarrow>
          Some \<lparr>si_OK = ok, si_CheckingID = cid, si_ErrorMessage = msg\<rparr>
      | _ \<Rightarrow> None)"

definition decode_invoice :: "'e platform \<Rightarrow> (string \<times> json) list \<Rightarrow> LnInvoice option" where
  "decode_invoice P kvs =
     (case (field P ''checking_id'' json_string '''' kvs, field P ''payment_hash'' json_string '''' kvs,
            field P ''payment_request'' json_string '''' kvs) of
        (Some cid, Some h, Some pr) \<Rightarrow>
          Some \<lparr>inv_CheckingID = cid, inv_PaymentHash = h, inv_PaymentRequest = pr\<rparr>
      | _ \<Rightarrow> None)"

definition zero_details :: CheckPaymentDetails where
  "zero_details = \<lparr>cd_CheckingID = '''', cd_Amount = 0, cd_Fee = 0, cd_Memo = '''', cd_Status = ''''\<rparr>"

definition decode_details ::
  "'e platform \<Rightarrow> json \<Rightarrow> CheckPaymentDetails \<Rightarrow> CheckPaymentDetails option" where
  "decode_details P j d =
     (case json_object j of None \<Rightarrow> None
      | Some kvs \<Rightarrow>
          (case (field P ''checking_id'' json_string (cd_CheckingID d) kvs,
                 field P ''amount'' json_int64 (cd_Amount d) kvs,
                 field P ''fee'' json_int64 (cd_Fee d) kvs,
                 field P ''memo'' json_string (cd_Memo d) kvs,
                 field P ''status'' json_string (cd_Status d) kvs) of
             (Some cid, Some a, Some f, Some m, Some st) \<Rightarrow>
               Some \<lparr>cd_CheckingID = cid, cd_Amount = a, cd_Fee = f, cd_Memo = m, cd_Status = st\<rparr>
           | _ \<Rightarrow> None))"

definition decode_payment :: "'e platform \<Rightarrow> (string \<times> json) list \<Rightarrow> CheckPaymentResponse option" where
  "decode_payment P kvs =
     (case (field P ''paid'' json_bool False kvs,
            field P ''details'' (decode_details P) zero_details kvs) of
        (Some p, Some d) \<Rightarrow> Some \<lparr>cp_Paid = p, cp_Details = d\<rparr>
      | _ \<Rightarrow> None)"

text \<open>\<open>json.NewDecoder(response.Body).Decode(&out)\<close>.\<close>

definition decode_body ::
  "'e platform \<Rightarrow> ((string \<times> json) list \<Rightarrow> 'a option) \<Rightarrow> string + string \<Rightarrow> goerr + 'a" where
  "decode_body P dec body =
     (case body of
        Inl m \<Rightarrow> Inl (new_err m)
      | Inr t \<Rightarrow>
          (case json_parse P t of
             None \<Rightarrow> Inl (new_err ''invalid JSON'')
           | Some j \<Rightarrow>
               (case json_object j of
                  None \<Rightarrow> Inl (new_err ''json: cannot unmarshal'')
                | Some kvs \<Rightarrow>
                    (case dec kvs of
                       None \<Rightarrow> Inl (new_err ''json: cannot unmarshal'')
                     | Some x \<Rightarrow> Inr x))))"

section \<open>Requests\<close>

definition check_request :: "lnbits_client \<Rightarrow> string \<Rightarrow> http_request" where
  "check_request c checkingID =
     \<lparr>rq_method = GET, rq_url = lb_url c @ ''/api/v1/payments/'' @ checkingID,
      rq_key = lb_apiKey c, rq_body = None\<rparr>"

definition wallet_request :: "lnbits_client \<Rightarrow> http_request" where
  "wallet_request c =
     \<lparr>rq_method = GET, rq_url = lb_url c @ ''/api/v1/wallet'', rq_key = lb_apiKey c, rq_body = None\<rparr>"

definition post_request :: "lnbits_client \<Rightarrow> string \<Rightarrow> string \<Rightarrow> json \<Rightarrow> http_request" where
  "post_request c path apiKey body =
     \<lparr>rq_method = POST, rq_url = lb_url c @ path, rq_key = apiKey, rq_body = Some body\<rparr>"

definition settle_request :: "lnbits_client \<Rightarrow> string \<Rightarrow> http_request" where
  "settle_request c preimage =
     post_request c ''/api/v1/payments/settle'' (lb_adminKey c)
       (JObj [(''preimage'', JStr preimage)])"

definition cancel_request :: "lnbits_client \<Rightarrow> string \<Rightarrow> http_request" where
  "cancel_request c paymentHash =
     post_request c ''/api/v1/payments/cancel'' (lb_adminKey c)
       (JObj [(''payment_hash'', JStr paymentHash)])"

text \<open>\<open>json.Marshal\<close> of a map writes the keys in order.\<close>

definition pay_request :: "lnbits_client \<Rightarrow> string \<Rightarrow> http_request" where
  "pay_request c bolt11 =
     post_request c ''/api/v1/payments'' (lb_adminKey c)
       (JObj [(''bolt11'', JStr bolt11), (''out'', JBool True)])"

definition hold_request :: "lnbits_client \<Rightarrow> CreateHoldInvoiceRequest \<Rightarrow> http_request" where
  "hold_request c r = post_request c ''/api/v1/payments'' (lb_apiKey c) (hold_body r)"

section \<open>Calls\<close>

text \<open>\<open>http.NewRequestWithContext\<close> fails on a URL that does not parse.\<close>

definition new_request :: "'e platform \<Rightarrow> http_request \<Rightarrow> ('e world, http_request) prog" where
  "new_request P rq =
     (case url_error P (rq_url rq) of None \<Rightarrow> ret rq | Some m \<Rightarrow> fail (new_err m))"

definition transport :: "'e platform \<Rightarrow> http_request \<Rightarrow> ('e world, nat \<times> (string + string)) prog" where
  "transport P rq =
     bindE (do_http P rq) (\<lambda>res.
       case res of
         TransportError m \<Rightarrow> fail (new_err m)
       | Response code body \<Rightarrow> ret (code, body))"

definition bad_status :: "nat \<Rightarrow> string + string \<Rightarrow> goerr" where
  "bad_status code body =
     (case body of
        Inl m \<Rightarrow> wrapf (''lnbits returned '' @ show_nat code @
                    '' and response body could not be read: '') (new_err m)
      | Inr t \<Rightarrow> new_err (''lnbits returned '' @ show_nat code @ '': '' @ t))"

definition Client_CheckPayment ::
  "'e platform \<Rightarrow> lnbits_client \<Rightarrow> string \<Rightarrow> ('e world, CheckPaymentResponse) prog" where
  "Client_CheckPayment P c checkingID =
     bindE (wrapE (wrapf ''create payment status request: '')
              (new_request P (check_request c checkingID))) (\<lambda>rq.
     bindE (wrapE (wrapf ''send payment status request: '') (transport P rq)) (\<lambda>(code, body).
       if 300 \<le> code then fail (bad_status code body)
       else wrapE (wrapf ''decode payment status response: '')
              (liftE (decode_body P (decode_payment P) body))))"

definition Client_HealthCheck :: "'e platform \<Rightarrow> lnbits_client \<Rightarrow> ('e world, unit) prog" where
  "Client_HealthCheck P c =
     bindE (wrapE (wrapf ''create health check request: '')
              (new_request P (wallet_request c))) (\<lambda>rq.
     bindE (wrapE (wrapf ''send health check request: '') (transport P rq)) (\<lambda>(code, body).
       if 300 \<le> code
       then fail (new_err (''lnbits health check failed: '' @ show_nat code @ '' '' @
              (case body of Inl _ \<Rightarrow> '''' | Inr t \<Rightarrow> t)))
       else ret ()))"

definition postJSON ::
  "'e platform \<Rightarrow> http_request \<Rightarrow> ((string \<times> json) list \<Rightarrow> 'a option) \<Rightarrow> ('e world, 'a) prog" where
  "postJSON P rq dec =
     bindE (wrapE (wrapf ''create request: '') (new_request P rq)) (\<lambda>rq.
     bindE (wrapE (wrapf ''send request: '') (transport P rq)) (\<lambda>(code, body).
       if 300 \<le> code then fail (bad_status code body)
       else wrapE (wrapf ''decode response: '') (liftE (decode_body P dec body))))"

text \<open>The zero fields of a hold request take the client's configuration.\<close>

definition hold_defaults ::
  "lnbits_client \<Rightarrow> CreateHoldInvoiceRequest \<Rightarrow> CreateHoldInvoiceRequest" where
  "hold_defaults c req =
     (let req1 = (if hr_Webhook req = '''' \<and> lb_webhookURL c \<noteq> ''''
                  then req\<lparr>hr_Webhook := lb_webhookURL c\<rparr> else req);
          req2 = (if hr_Unit req1 = '''' then req1\<lparr>hr_Unit := ''sat''\<rparr> else req1)
      in if hr_Expiry req2 = 0 then req2\<lparr>hr_Expiry := lb_holdExpiry c\<rparr> else req2)"

definition Client_CreateHoldInvoice ::
  "'e platform \<Rightarrow> lnbits_client \<Rightarrow> CreateHoldInvoiceRequest \<Rightarrow> ('e world, LnInvoice) prog" where
  "Client_CreateHoldInvoice P c req =
     wrapE (wrapf ''create hold invoice: '')
       (postJSON P (hold_request c (hold_defaults c req)) (decode_invoice P))"

definition Client_SettleHold ::
  "'e platform \<Rightarrow> lnbits_client \<Rightarrow> string \<Rightarrow> ('e world, SimpleInvoiceResponse) prog" where
  "Client_SettleHold P c preimage =
     bindE (postJSON P (settle_request c preimage) (decode_simple P)) (\<lambda>out.
       if \<not> si_OK out
       then fail (new_err (''lnbits refused to settle: '' @ si_ErrorMessage out))
       else ret out)"

definition Client_CancelHold ::
  "'e platform \<Rightarrow> lnbits_client \<Rightarrow> string \<Rightarrow> ('e world, SimpleInvoiceResponse) prog" where
  "Client_CancelHold P c paymentHash =
     bindE (postJSON P (cancel_request c paymentHash) (decode_simple P)) (\<lambda>out.
       if \<not> si_OK out
       then fail (new_err (''lnbits refused to cancel: '' @ si_ErrorMessage out))
       else ret out)"

definition Client_PayInvoice ::
  "'e platform \<Rightarrow> lnbits_client \<Rightarrow> string \<Rightarrow> ('e world, string) prog" where
  "Client_PayInvoice P c bolt11 =
     bindE (wrapE (wrapf ''create pay invoice request: '')
              (new_request P (pay_request c bolt11))) (\<lambda>rq.
     bindE (wrapE (wrapf ''send pay invoice request: '') (transport P rq)) (\<lambda>(code, body).
       if 300 \<le> code then
         (case body of
            Inl m \<Rightarrow> fail (bad_status code body)
          | Inr t \<Rightarrow>
              if code < 500
              then fail (errorf Lnbits_ErrPayoutRefused
                     ('': lnbits returned '' @ show_nat code @ '': '' @ t))
              else fail (bad_status code body))
       else
         bindE (wrapE (wrapf ''decode pay invoice response: '')
                  (liftE (decode_body P (decode_invoice P) body)))
           (\<lambda>resp. ret (inv_CheckingID resp))))"

section \<open>What a call adds to the log\<close>

text \<open>Exchanges that move no money, and the three that do.\<close>

fun read_only :: "event \<Rightarrow> bool" where
  "read_only (EvHttp rq _) \<longleftrightarrow> rq_method rq = GET"
| "read_only _ \<longleftrightarrow> True"

fun body_out :: "json option \<Rightarrow> bool" where
  "body_out (Some (JObj kvs)) \<longleftrightarrow> map_of kvs ''out'' = Some (JBool True)"
| "body_out _ \<longleftrightarrow> False"

fun is_payout :: "event \<Rightarrow> bool" where
  "is_payout (EvHttp rq _) \<longleftrightarrow> rq_method rq = POST \<and> body_out (rq_body rq)"
| "is_payout _ \<longleftrightarrow> False"

fun is_settle :: "lnbits_client \<Rightarrow> event \<Rightarrow> bool" where
  "is_settle c (EvHttp rq _) \<longleftrightarrow>
     rq_method rq = POST \<and> rq_url rq = lb_url c @ ''/api/v1/payments/settle''"
| "is_settle c _ \<longleftrightarrow> False"

fun is_cancel :: "lnbits_client \<Rightarrow> event \<Rightarrow> bool" where
  "is_cancel c (EvHttp rq _) \<longleftrightarrow>
     rq_method rq = POST \<and> rq_url rq = lb_url c @ ''/api/v1/payments/cancel''"
| "is_cancel c _ \<longleftrightarrow> False"

lemmas request_defs = check_request_def wallet_request_def settle_request_def cancel_request_def
  pay_request_def hold_request_def post_request_def

lemma event_kinds [simp]:
  "read_only (EvHttp (check_request c i) res)"
  "\<not> read_only (EvHttp (settle_request c p) res)"
  "\<not> read_only (EvHttp (cancel_request c h) res)"
  "\<not> read_only (EvHttp (pay_request c b) res)"
  "is_payout (EvHttp (pay_request c b) res)"
  "\<not> is_payout (EvHttp (check_request c i) res)"
  "\<not> is_payout (EvHttp (settle_request c p) res)"
  "\<not> is_payout (EvHttp (cancel_request c h) res)"
  "is_settle c (EvHttp (settle_request c p) res)"
  "\<not> is_settle c (EvHttp (cancel_request c h) res)"
  "\<not> is_settle c (EvHttp (pay_request c b) res)"
  "is_cancel c (EvHttp (cancel_request c h) res)"
  "\<not> is_cancel c (EvHttp (settle_request c p) res)"
  "\<not> is_cancel c (EvHttp (pay_request c b) res)"
  by (simp_all add: request_defs)

lemma hold_not_payout [simp]: "\<not> hr_Out r \<Longrightarrow> \<not> is_payout (EvHttp (hold_request c r) res)"
  by (simp add: request_defs hold_body_def)

lemma read_only_not_payout: "read_only ev \<Longrightarrow> \<not> is_payout ev"
  by (cases ev) auto

text \<open>
  The contract of a call, on which the services rely: it does not touch the database, and
  all it adds to the log are exchanges of its one request.
\<close>

locale http_call =
  fixes call :: "('e world, 'a) prog"
    and rq :: http_request
  assumes call_db: "runs_in same_db call"
    and call_log: "runs_in (log_adds (\<lambda>ev. \<exists>res. ev = EvHttp rq res)) call"
begin

lemma call_adds: "(\<And>res. S (EvHttp rq res)) \<Longrightarrow> runs_in (log_adds S) call"
  by (rule log_adds_mono [OF call_log]) auto

lemma call_state: "call w = (r, w') \<Longrightarrow> w_db w' = w_db w"
  using runs_inD [OF call_db] by (simp add: same_db_def)

end

lemma new_request_db: "runs_in same_db (new_request P rq)"
  by (simp add: new_request_def runs_in_def same_db_def split: option.split)

lemma new_request_log: "runs_in (log_adds S) (new_request P rq)"
  by (simp add: new_request_def runs_in_def log_adds_def split: option.split)

lemma new_request_result: "new_request P rq w = (Inr rq', w') \<Longrightarrow> rq' = rq \<and> w' = w"
  by (auto simp: new_request_def split: option.splits)

lemma transport_db: "runs_in same_db (transport P rq)"
  unfolding transport_def
  by (intro db_frame.frame_bindE do_http_db)
    (simp add: runs_in_def same_db_def split: http_result.split)

lemma transport_log: "(\<And>res. S (EvHttp rq res)) \<Longrightarrow> runs_in (log_adds S) (transport P rq)"
  unfolding transport_def
  by (intro log_frame.frame_bindE do_http_log)
    (auto simp: runs_in_def log_adds_def split: http_result.split)

text \<open>Every call has the same shape: build the request, send it, interpret the answer.\<close>

lemma bind_request_db:
  assumes "\<And>x. runs_in same_db (k x)"
  shows "runs_in same_db (bindE (wrapE g (new_request P rq)) (\<lambda>rq'. bindE (wrapE h (transport P rq')) k))"
  by (intro db_frame.frame_intros new_request_db transport_db assms)

lemma bind_request_log:
  assumes "\<And>x. runs_in (log_adds S) (k x)" and "\<And>res. S (EvHttp rq res)"
  shows "runs_in (log_adds S)
    (bindE (wrapE g (new_request P rq)) (\<lambda>rq'. bindE (wrapE h (transport P rq')) k))"
proof (rule runs_inI)
  fix w r w'
  assume run: "bindE (wrapE g (new_request P rq)) (\<lambda>rq'. bindE (wrapE h (transport P rq')) k) w = (r, w')"
  show "log_adds S w w'"
  proof (cases "new_request P rq w")
    case (Pair q w0)
    show ?thesis
    proof (cases q)
      case (Inl e)
      with run Pair have "w' = w0" by (auto simp: bindE_def wrapE_def)
      with Pair show ?thesis using new_request_log [of S P rq] runs_inD by metis
    next
      case (Inr rq')
      with Pair have eq: "rq' = rq" "w0 = w" using new_request_result by blast+
      with run Pair Inr have "bindE (wrapE h (transport P rq)) k w = (r, w')"
        by (simp add: bindE_def wrapE_def)
      moreover have "runs_in (log_adds S) (bindE (wrapE h (transport P rq)) k)"
        by (intro log_frame.frame_bindE log_frame.frame_wrapE transport_log assms)
      ultimately show ?thesis by (rule runs_inD [rotated])
    qed
  qed
qed

lemma postJSON_db: "runs_in same_db (postJSON P rq dec)"
  unfolding postJSON_def by (intro bind_request_db db_frame.frame_intros)

lemma postJSON_log: "(\<And>res. S (EvHttp rq res)) \<Longrightarrow> runs_in (log_adds S) (postJSON P rq dec)"
  unfolding postJSON_def by (intro bind_request_log log_frame.frame_intros)

interpretation check_call: http_call "Client_CheckPayment P c i" "check_request c i" for P c i
  by unfold_locales
    (unfold Client_CheckPayment_def,
     (intro bind_request_db db_frame.frame_intros),
     (intro bind_request_log log_frame.frame_intros, blast))

interpretation settle_call: http_call "Client_SettleHold P c p" "settle_request c p" for P c p
  by unfold_locales
    (unfold Client_SettleHold_def,
     (intro db_frame.frame_intros postJSON_db),
     (intro log_frame.frame_intros postJSON_log, blast))

interpretation cancel_call: http_call "Client_CancelHold P c h" "cancel_request c h" for P c h
  by unfold_locales
    (unfold Client_CancelHold_def,
     (intro db_frame.frame_intros postJSON_db),
     (intro log_frame.frame_intros postJSON_log, blast))

interpretation pay_call: http_call "Client_PayInvoice P c b" "pay_request c b" for P c b
  by unfold_locales
    (unfold Client_PayInvoice_def,
     (intro bind_request_db db_frame.frame_intros),
     (intro bind_request_log log_frame.frame_intros, blast))

interpretation hold_call: http_call "Client_CreateHoldInvoice P c r"
  "hold_request c (hold_defaults c r)" for P c r
  by unfold_locales
    (unfold Client_CreateHoldInvoice_def,
     (intro db_frame.frame_intros postJSON_db),
     (intro log_frame.frame_intros postJSON_log, blast))

lemma hold_defaults_out [simp]: "hr_Out (hold_defaults c r) = hr_Out r"
  by (simp add: hold_defaults_def Let_def)

section \<open>How answers are classified\<close>

lemma transport_Inr:
  "transport P rq w = (Inr (code, body), w') \<Longrightarrow>
     w_log w' = w_log w @ [EvHttp rq (Response code body)]"
  by (auto simp: transport_def do_http_def bindE_def log_event_def
      split: prod.splits http_result.splits)

lemma transport_Inl:
  "transport P rq w = (Inl e, w') \<Longrightarrow>
     (\<exists>m. e = new_err m \<and> w_log w' = w_log w @ [EvHttp rq (TransportError m)])"
  by (auto simp: transport_def do_http_def bindE_def log_event_def
      split: prod.splits http_result.splits)

lemma new_request_Inl:
  "new_request P rq w = (Inl e, w') \<Longrightarrow> (\<exists>m. e = new_err m) \<and> w' = w"
  by (auto simp: new_request_def split: option.splits)

lemma bad_status_plain [simp]: "\<not> errors_Is (bad_status code body) s"
  by (simp add: bad_status_def split: sum.split)

lemma decode_body_plain: "decode_body P dec body = Inl e \<Longrightarrow> \<not> errors_Is e s"
  by (auto simp: decode_body_def split: sum.splits option.splits)

lemma decode_body_read: "decode_body P dec body = Inr x \<Longrightarrow> \<exists>t. body = Inr t"
  by (auto simp: decode_body_def split: sum.splits)

text \<open>Running a call: the request does not build, the transport fails, or there is an answer.\<close>

lemma call_cases:
  assumes "bindE (wrapE g (new_request P rq)) (\<lambda>rq'. bindE (wrapE h (transport P rq')) k) w = (r, w')"
  obtains (build) m where "r = Inl (g (new_err m))" "w' = w"
  | (send) m where "r = Inl (h (new_err m))"
      "w_log w' = w_log w @ [EvHttp rq (TransportError m)]"
  | (answer) code body u where "w_log u = w_log w @ [EvHttp rq (Response code body)]"
      "k (code, body) u = (r, w')"
proof (cases "url_error P (rq_url rq)")
  case (Some m)
  with assms have "r = Inl (g (new_err m))" "w' = w"
    by (auto simp: new_request_def bindE_def wrapE_def)
  then show ?thesis by (rule build)
next
  case None
  then have step: "bindE (wrapE h (transport P rq)) k w = (r, w')"
    using assms by (simp add: new_request_def bindE_def wrapE_def)
  obtain q u where tr: "transport P rq w = (q, u)" by (cases "transport P rq w")
  show ?thesis
  proof (cases q)
    case (Inl e)
    with transport_Inl [of P rq w e u] tr obtain m
      where "e = new_err m" "w_log u = w_log w @ [EvHttp rq (TransportError m)]" by auto
    with step tr Inl show ?thesis by (intro send) (auto simp: bindE_def wrapE_def)
  next
    case (Inr p)
    with tr have run: "transport P rq w = (Inr (fst p, snd p), u)" by simp
    from answer [OF transport_Inr [OF run]] step tr Inr show ?thesis
      by (simp add: bindE_def wrapE_def)
  qed
qed

lemma PayInvoice_error:
  assumes "Client_PayInvoice P c b w = (Inl e, w')"
  shows "errors_Is e Lnbits_ErrPayoutRefused \<longleftrightarrow>
    (\<exists>code t. w_log w' = w_log w @ [EvHttp (pay_request c b) (Response code (Inr t))] \<and>
       300 \<le> code \<and> code < 500)"
  using assms unfolding Client_PayInvoice_def
  by (rule call_cases)
    (auto simp: bindE_def wrapE_def decode_body_plain split: if_splits sum.splits)

lemma PayInvoice_success:
  assumes "Client_PayInvoice P c b w = (Inr i, w')"
  obtains code t where "code < 300"
    "w_log w' = w_log w @ [EvHttp (pay_request c b) (Response code (Inr t))]"
  using assms unfolding Client_PayInvoice_def
  by (rule call_cases)
    (auto simp: bindE_def wrapE_def decode_body_def split: if_splits sum.splits)

lemma postJSON_success:
  assumes "postJSON P rq dec w = (Inr x, w')"
  obtains code t where "code < 300" "decode_body P dec (Inr t) = Inr x"
    "w_log w' = w_log w @ [EvHttp rq (Response code (Inr t))]"
  using assms unfolding postJSON_def
  by (rule call_cases)
    (auto simp: wrapE_def dest: decode_body_read split: if_splits sum.splits)

lemma SettleHold_success:
  assumes "Client_SettleHold P c p w = (Inr out, w')"
  obtains code t where "code < 300" "si_OK out" "decode_body P (decode_simple P) (Inr t) = Inr out"
    "w_log w' = w_log w @ [EvHttp (settle_request c p) (Response code (Inr t))]"
  using assms unfolding Client_SettleHold_def
  by (auto simp: run_iffs elim!: postJSON_success split: if_splits)

lemma CancelHold_success:
  assumes "Client_CancelHold P c h w = (Inr out, w')"
  obtains code t where "code < 300" "si_OK out" "decode_body P (decode_simple P) (Inr t) = Inr out"
    "w_log w' = w_log w @ [EvHttp (cancel_request c h) (Response code (Inr t))]"
  using assms unfolding Client_CancelHold_def
  by (auto simp: run_iffs elim!: postJSON_success split: if_splits)

text \<open>
  A payout answer that proves nothing was sent: a readable answer with a status from 300 to
  499. Any other outcome of the request may have moved money.
\<close>

fun refused :: "http_result \<Rightarrow> bool" where
  "refused (Response code (Inr _)) \<longleftrightarrow> 300 \<le> code \<and> code < 500"
| "refused _ \<longleftrightarrow> False"

fun may_have_paid :: "event \<Rightarrow> bool" where
  "may_have_paid (EvHttp rq res) \<longleftrightarrow> rq_method rq = POST \<and> body_out (rq_body rq) \<and> \<not> refused res"
| "may_have_paid _ \<longleftrightarrow> False"

lemma may_have_paid_payout: "may_have_paid ev \<Longrightarrow> is_payout ev"
  by (cases ev) simp_all

lemma may_have_paid_pay [simp]: "may_have_paid (EvHttp (pay_request c b) res) \<longleftrightarrow> \<not> refused res"
  by (simp add: request_defs)

lemma PayInvoice_outcome:
  assumes "Client_PayInvoice P c b w = (r, w')"
  obtains (unsent) e where "r = Inl e" "\<not> errors_Is e Lnbits_ErrPayoutRefused" "w_log w' = w_log w"
  | (sent) res where "w_log w' = w_log w @ [EvHttp (pay_request c b) res]"
      "refused res \<longleftrightarrow> (\<exists>e. r = Inl e \<and> errors_Is e Lnbits_ErrPayoutRefused)"
proof (cases r)
  case (Inr i)
  with assms PayInvoice_success [of P c b w i w'] sent show ?thesis by fastforce
next
  case (Inl e)
  have "w_log w' = w_log w \<or> (\<exists>res. w_log w' = w_log w @ [EvHttp (pay_request c b) res])"
    using assms unfolding Client_PayInvoice_def
    by (rule call_cases)
      (auto simp: bindE_def wrapE_def split: if_splits sum.splits)
  then show ?thesis
  proof (elim disjE exE)
    assume "w_log w' = w_log w"
    with PayInvoice_error [of P c b w e w'] assms Inl unsent show ?thesis by fastforce
  next
    fix res assume log: "w_log w' = w_log w @ [EvHttp (pay_request c b) res]"
    then have "refused res \<longleftrightarrow> errors_Is e Lnbits_ErrPayoutRefused"
      using PayInvoice_error [of P c b w e w'] assms Inl
      by (cases res rule: refused.cases) auto
    with log Inl sent show ?thesis by auto
  qed
qed

lemma CheckPayment_success:
  assumes "Client_CheckPayment P c i w = (Inr p, w')"
  obtains code t where "code < 300" "decode_body P (decode_payment P) (Inr t) = Inr p"
    "w_log w' = w_log w @ [EvHttp (check_request c i) (Response code (Inr t))]"
  using assms unfolding Client_CheckPayment_def
  by (rule call_cases)
    (auto simp: wrapE_def dest: decode_body_read split: if_splits sum.splits)

end
