(* ===== verification/Deal_Service.thy ===== *)
theory Deal_Service
  imports Deal_Repository Lnbits_Client "HOL-Library.Word"
begin

text \<open>
  \<open>backend/internal/deals/service.go\<close>: the service record, creating and reading deals, the
  freelancer's status moves, disputes, payment detection, the hold-expiry sweep and the share
  links. The escrow release, refund and reconciliation are in \<open>Deal_Escrow\<close>, artifacts in
  \<open>Deal_Artifacts\<close>. Logging (\<open>log.Printf\<close>) has no effect in the model.
\<close>

section \<open>The service\<close>

text \<open>A stream: the bytes it delivers, then the end of file or a read error.\<close>

record reader =
  rd_content :: string
  rd_error :: "string option"

text \<open>The \<open>storage.Storage\<close> interface. \<open>Save\<close> consumes its reader: the model's \<open>st_Save\<close> also returns
  how many bytes it has read, which is what a counting reader sees.\<close>

record 'e storage =
  st_Save :: "string \<Rightarrow> reader \<Rightarrow> ('e world, nat) prog"
  st_Open :: "string \<Rightarrow> ('e world, string) prog"
  st_Size :: "string \<Rightarrow> ('e world, int) prog"
  st_Delete :: "string \<Rightarrow> ('e world, unit) prog"

text \<open>
  \<open>Service\<close>: the platform, the LNbits client, the repository's key, and the injected
  collaborators, \<open>None\<close> (or \<open>False\<close>) when not wired. \<open>maxUploadBytes\<close> is an \<open>int64\<close>.
\<close>

record 'e svc =
  sv_platform :: "'e platform"
  sv_lnbits :: lnbits_client
  sv_key :: string
  sv_cv :: "(string \<Rightarrow> string \<Rightarrow> ('e world, unit) prog) option"
  sv_storage :: "'e storage option"
  sv_maxUploadBytes :: "64 word"
  sv_notifier :: bool

definition transition_err :: "Status \<Rightarrow> Status \<Rightarrow> goerr" where
  "transition_err s t =
     errorf ErrInvalidTransition ('': '' @ status_string s @ '' -> '' @ status_string t)"

definition notify :: "'e svc \<Rightarrow> notice \<Rightarrow> Deal \<Rightarrow> ('e world, unit) prog" where
  "notify s n deal = (if sv_notifier s then modify (log_event (EvNotify n deal)) else ret ())"

section \<open>Creating a deal\<close>

definition generateShareToken :: "'e platform \<Rightarrow> ('e world, string) prog" where
  "generateShareToken P = bindE (read_rand P 32) (\<lambda>b. ret (RawURL_EncodeToString b))"

definition isValidEmail :: "'e platform \<Rightarrow> string \<Rightarrow> bool" where
  "isValidEmail P s \<longleftrightarrow> mail_address P s = Some s \<and> CHR ''@'' \<in> set s"

definition cancelOrphanHold :: "'e svc \<Rightarrow> string \<Rightarrow> ('e world, unit) prog" where
  "cancelOrphanHold s preimageHash =
     bindR (Client_CancelHold (sv_platform s) (sv_lnbits s) preimageHash) (\<lambda>_. ret ())"

definition normalize_deal :: "'e platform \<Rightarrow> Deal \<Rightarrow> Deal" where
  "normalize_deal P deal =
     deal\<lparr>Title := TrimSpace (Title deal), SourcePlatform := TrimSpace (SourcePlatform deal),
       PayeeInvoice := TrimSpace (PayeeInvoice deal),
       ClientEmail := ToLower (uni_lower P) (TrimSpace (ClientEmail deal)),
       DealStatus := (if DealStatus deal = StatusOther '''' then StatusAwaitingPayment
                      else DealStatus deal)\<rparr>"

text \<open>The input checks, in order; \<open>d\<close> is the normalized deal.\<close>

definition validate_deal :: "'e platform \<Rightarrow> Deal \<Rightarrow> goerr option" where
  "validate_deal P d =
     (if FreelancerID d = '''' then Some (errorf ErrInvalidInput '': freelancer id is required'')
      else if \<not> isValidEmail P (ClientEmail d)
        then Some (errorf ErrInvalidInput '': valid client email is required'')
      else if Title d = '''' then Some (errorf ErrInvalidInput '': title is required'')
      else if AmountSats d \<le> 0
        then Some (errorf ErrInvalidInput '': amount must be greater than zero'')
      else if SourcePlatform d = ''''
        then Some (errorf ErrInvalidInput '': source platform is required'')
      else if PayeeInvoice d = '''' then Some (errorf ErrInvalidInput '': payee invoice is required'')
      else None)"

definition hold_for :: "Deal \<Rightarrow> CreateHoldInvoiceRequest" where
  "hold_for d = \<lparr>hr_Out = False, hr_Amount = AmountSats d, hr_Memo = Title d,
     hr_PaymentHash = PreimageHash d, hr_Expiry = 0, hr_Webhook = '''', hr_Unit = ''''\<rparr>"

definition Service_CreateDeal :: "'e svc \<Rightarrow> Deal \<Rightarrow> ('e world, Deal) prog" where
  "Service_CreateDeal s deal =
     (let P = sv_platform s; d1 = normalize_deal P deal in
      case validate_deal P d1 of
        Some e \<Rightarrow> fail e
      | None \<Rightarrow>
          bindE (wrapE (wrapf ''generating escrow preimage: '') (read_rand P 32)) (\<lambda>preimage.
          bindE (wrapE (wrapf ''generating share token: '') (generateShareToken P)) (\<lambda>shareToken.
          let d2 = d1\<lparr>Preimage := hex_EncodeToString preimage,
                PreimageHash := hex_EncodeToString (sha256 P preimage), ShareToken := shareToken\<rparr>
          in bindE (wrapE (wrapf ''creating LNBits hold invoice: '')
                      (Client_CreateHoldInvoice P (sv_lnbits s) (hold_for d2))) (\<lambda>hold.
          let d3 = d2\<lparr>Invoice := inv_PaymentRequest hold, CheckingID := inv_CheckingID hold\<rparr>
          in bindR (withTx P (Repo_CreateDeal P (sv_key s) d3)) (\<lambda>r.
               case r of
                 Inl e \<Rightarrow> bindR (cancelOrphanHold s (PreimageHash d3)) (\<lambda>_. fail e)
               | Inr d \<Rightarrow> ret d)))))"

section \<open>Reading deals\<close>

definition may_see :: "'e svc \<Rightarrow> Deal \<Rightarrow> string \<Rightarrow> string \<Rightarrow> bool" where
  "may_see s deal userID email \<longleftrightarrow>
     FreelancerID deal = userID \<or> EqualFold (uni_fold (sv_platform s)) (ClientEmail deal) email"

definition Service_GetDealByID ::
  "'e svc \<Rightarrow> string \<Rightarrow> string \<Rightarrow> string \<Rightarrow> ('e world, Deal) prog" where
  "Service_GetDealByID s dealID userID email =
     (if dealID = '''' then fail (errorf ErrInvalidInput '': deal id is required'')
      else
        bindE (Repo_GetDealByID (sv_platform s) (sv_key s) dealID) (\<lambda>deal.
          if \<not> may_see s deal userID email then fail (sentinel_err ErrForbidden) else ret deal))"

definition Service_ListByUser :: "'e svc \<Rightarrow> string \<Rightarrow> string \<Rightarrow> ('e world, Deal list) prog" where
  "Service_ListByUser s userID email =
     (if userID = '''' then fail (errorf ErrInvalidInput '': user id is required'')
      else Repo_ListForUser (sv_platform s) (sv_key s) userID email)"

definition Service_ListDisputes :: "'e svc \<Rightarrow> ('e world, Deal list) prog" where
  "Service_ListDisputes s = Repo_ListDisputed (sv_platform s) (sv_key s)"

section \<open>The freelancer's status moves\<close>

text \<open>
  Both operations read the deal, decide, and write in separate statements. The part before
  the write is named, since another request can run in between.
\<close>

definition money_status :: "Status \<Rightarrow> bool" where
  "money_status st \<longleftrightarrow> st \<in> {StatusLocked, StatusReleased, StatusDisputed, StatusRefunded}"

definition UpdateStatus_check ::
  "'e svc \<Rightarrow> string \<Rightarrow> string \<Rightarrow> Status \<Rightarrow> ('e world, Deal) prog" where
  "UpdateStatus_check s userID dealID newStatus =
     bindE (Repo_GetDealByID (sv_platform s) (sv_key s) dealID) (\<lambda>deal.
       if FreelancerID deal \<noteq> userID then fail (sentinel_err ErrForbidden)
       else if money_status newStatus
         then fail (errorf ErrInvalidTransition ('': '' @ status_string newStatus @
           '' is a backend-only money transition (payment detection, approve, dispute)''))
       else if \<not> CanTransition (DealStatus deal) newStatus
         then fail (transition_err (DealStatus deal) newStatus)
       else ret deal)"

definition Service_UpdateStatus ::
  "'e svc \<Rightarrow> string \<Rightarrow> string \<Rightarrow> Status \<Rightarrow> ('e world, unit) prog" where
  "Service_UpdateStatus s userID dealID newStatus =
     bindE (UpdateStatus_check s userID dealID newStatus) (\<lambda>_.
       Repo_UpdateStatus (sv_platform s) dealID newStatus)"

definition SubmitWork_check :: "'e svc \<Rightarrow> string \<Rightarrow> string \<Rightarrow> ('e world, Deal) prog" where
  "SubmitWork_check s userID dealID =
     (if dealID = '''' then fail (errorf ErrInvalidInput '': deal id is required'')
      else
        bindE (Repo_GetDealByID (sv_platform s) (sv_key s) dealID) (\<lambda>deal.
          if FreelancerID deal \<noteq> userID then fail (sentinel_err ErrForbidden)
          else
            bindE (wrapE (wrapf ''checking submitted artifacts: '')
                     (Repo_ListArtifactsByDeal (sv_platform s) dealID)) (\<lambda>artifacts.
              if length artifacts = 0
              then fail (errorf ErrInvalidInput '': submit requires at least one artifact'')
              else if \<not> CanTransition (DealStatus deal) StatusWorkSubmitted
              then fail (transition_err (DealStatus deal) StatusWorkSubmitted)
              else ret deal)))"

definition SubmitWork_write :: "'e svc \<Rightarrow> string \<Rightarrow> Deal \<Rightarrow> ('e world, Deal) prog" where
  "SubmitWork_write s dealID deal =
     bindE (wrapE (wrapf (''submitting work for deal '' @ dealID @ '': ''))
              (Repo_UpdateStatus (sv_platform s) dealID StatusWorkSubmitted)) (\<lambda>_.
       ret (deal\<lparr>DealStatus := StatusWorkSubmitted\<rparr>))"

definition Service_SubmitWork :: "'e svc \<Rightarrow> string \<Rightarrow> string \<Rightarrow> ('e world, Deal) prog" where
  "Service_SubmitWork s userID dealID =
     bindE (SubmitWork_check s userID dealID) (SubmitWork_write s dealID)"

definition Service_UpdatePayeeInvoice ::
  "'e svc \<Rightarrow> string \<Rightarrow> string \<Rightarrow> string \<Rightarrow> ('e world, Deal) prog" where
  "Service_UpdatePayeeInvoice s userID dealID0 bolt0 =
     (let dealID = TrimSpace dealID0; bolt11 = TrimSpace bolt0 in
      if dealID = '''' then fail (errorf ErrInvalidInput '': deal id is required'')
      else if bolt11 = '''' then fail (errorf ErrInvalidInput '': payee invoice is required'')
      else
        bindE (Repo_GetDealByID (sv_platform s) (sv_key s) dealID) (\<lambda>deal.
          if FreelancerID deal \<noteq> userID then fail (sentinel_err ErrForbidden)
          else if DealStatus deal = StatusReleased \<or> DealStatus deal = StatusRefunded
            then fail (errorf ErrInvalidInput ('': payee invoice is frozen once the deal is '' @
              status_string (DealStatus deal)))
          else if PayeeInvoice deal = bolt11 then ret deal
          else
            bindE (wrapE (wrapf ''updating payee invoice: '')
                     (Repo_UpdatePayeeInvoice (sv_platform s) dealID bolt11)) (\<lambda>_.
              ret (deal\<lparr>PayeeInvoice := bolt11\<rparr>))))"

section \<open>Disputes\<close>

definition maxDisputeReasonRunes :: nat where
  "maxDisputeReasonRunes = 2000"

definition Service_DisputeDeal ::
  "'e svc \<Rightarrow> string \<Rightarrow> string \<Rightarrow> string \<Rightarrow> ('e world, Deal) prog" where
  "Service_DisputeDeal s email dealID reason0 =
     (let P = sv_platform s; reason = TrimSpace reason0 in
      if dealID = '''' then fail (errorf ErrInvalidInput '': deal id is required'')
      else if reason = '''' then fail (errorf ErrInvalidInput '': a dispute reason is required'')
      else if length (runes reason) > maxDisputeReasonRunes
        then fail (errorf ErrInvalidInput ('': dispute reason must be at most '' @
          show_nat maxDisputeReasonRunes @ '' characters''))
      else
        bindE (Repo_GetDealByID P (sv_key s) dealID) (\<lambda>deal.
          if \<not> EqualFold (uni_fold P) (ClientEmail deal) email then fail (sentinel_err ErrForbidden)
          else if \<not> CanTransition (DealStatus deal) StatusDisputed
            then fail (transition_err (DealStatus deal) StatusDisputed)
          else
            bindE (wrapE (wrapf (''raising dispute for deal '' @ dealID @ '': ''))
                     (Repo_UpdateDisputeIfCurrent P dealID (DealStatus deal) reason)) (\<lambda>transitioned.
              if \<not> transitioned then fail (transition_err (DealStatus deal) StatusDisputed)
              else
                bindE (time_now P) (\<lambda>now.
                let d = deal\<lparr>DealStatus := StatusDisputed, DisputeReason := reason,
                          DisputedAt := Some now\<rparr>
                in bindE (notify s DealDisputed d) (\<lambda>_. ret d)))))"

section \<open>Payment detection\<close>

definition refreshPaymentStatus :: "'e svc \<Rightarrow> Deal \<Rightarrow> ('e world, Deal) prog" where
  "refreshPaymentStatus s deal =
     bindE (Client_CheckPayment (sv_platform s) (sv_lnbits s) (CheckingID deal)) (\<lambda>payment.
       if \<not> cp_Paid payment then ret deal
       else if DealStatus deal = StatusAwaitingPayment then
         bindE (Repo_UpdateStatusIfCurrent (sv_platform s) (ID deal)
                  StatusAwaitingPayment StatusLocked) (\<lambda>transitioned.
           if transitioned
           then (let d = deal\<lparr>DealStatus := StatusLocked\<rparr>
                 in bindE (notify s PaymentLocked d) (\<lambda>_. ret d))
           else ret deal)
       else ret deal)"

definition Service_CheckPayment :: "'e svc \<Rightarrow> string \<Rightarrow> string \<Rightarrow> ('e world, Deal) prog" where
  "Service_CheckPayment s userID dealID =
     bindE (Repo_GetDealByID (sv_platform s) (sv_key s) dealID) (\<lambda>deal.
       if FreelancerID deal \<noteq> userID then fail (sentinel_err ErrForbidden)
       else if CheckingID deal = '''' then fail (sentinel_err ErrNoCheckingID)
       else wrapE (wrapf ''checking payment with lnbits: '') (refreshPaymentStatus s deal))"

text \<open>The two states a payment status means for a hold and for an outgoing payout.\<close>

definition isHoldReleased :: "string \<Rightarrow> bool" where
  "isHoldReleased st \<longleftrightarrow> st \<in> {''UNPAID'', ''EXPIRED'', ''CANCELLED''}"

definition isPayoutConfirmed :: "string \<Rightarrow> bool" where
  "isPayoutConfirmed st \<longleftrightarrow> st \<in> {''SETTLED'', ''COMPLETE'', ''SUCCEEDED'', ''PAID''}"

definition isPayoutFailed :: "string \<Rightarrow> bool" where
  "isPayoutFailed st \<longleftrightarrow> st \<in> {''FAILED'', ''UNPAID'', ''CANCELLED'', ''EXPIRED''}"

section \<open>The hold-expiry sweep\<close>

fun sweep_deals :: "'e svc \<Rightarrow> Deal list \<Rightarrow> nat \<Rightarrow> ('e world, nat) prog" where
  "sweep_deals s [] swept = ret swept"
| "sweep_deals s (deal # deals) swept =
     (if CheckingID deal = '''' then sweep_deals s deals swept
      else
        bindR (Client_CheckPayment (sv_platform s) (sv_lnbits s) (CheckingID deal)) (\<lambda>r.
          case r of
            Inl _ \<Rightarrow> sweep_deals s deals swept
          | Inr payment \<Rightarrow>
              if cd_Status (cp_Details payment) \<in> {''UNPAID'', ''EXPIRED'', ''CANCELLED''} then
                bindR (Repo_UpdateStatusIfCurrent (sv_platform s) (ID deal) (DealStatus deal)
                         StatusRefunded) (\<lambda>t.
                  case t of
                    Inl _ \<Rightarrow> sweep_deals s deals swept
                  | Inr transitioned \<Rightarrow>
                      if \<not> transitioned then sweep_deals s deals swept
                      else
                        bindE (notify s DealRefunded (deal\<lparr>DealStatus := StatusRefunded\<rparr>)) (\<lambda>_.
                          sweep_deals s deals (swept + 1)))
              else sweep_deals s deals swept))"

definition Service_SweepExpiredHolds :: "'e svc \<Rightarrow> time \<Rightarrow> ('e world, nat) prog" where
  "Service_SweepExpiredHolds s cutoff =
     bindE (Repo_ListOpenBefore (sv_platform s) (sv_key s) cutoff) (\<lambda>open_deals.
       sweep_deals s open_deals 0)"

section \<open>Share links\<close>

definition Service_GetPublicDeal :: "'e svc \<Rightarrow> string \<Rightarrow> ('e world, PublicDeal) prog" where
  "Service_GetPublicDeal s shareToken =
     (if shareToken = '''' then fail (errorf ErrInvalidInput '': share token is required'')
      else
        bindE (Repo_GetDealByShareToken (sv_platform s) (sv_key s) shareToken) (\<lambda>deal.
        bindR (if CheckingID deal \<noteq> '''' \<and> DealStatus deal = StatusAwaitingPayment
               then refreshPaymentStatus s deal else ret deal) (\<lambda>r.
          let d = (case r of Inl _ \<Rightarrow> deal | Inr d \<Rightarrow> d)
          in ret \<lparr>pd_Title = Title d, pd_AmountSats = AmountSats d,
                pd_SourcePlatform = SourcePlatform d, pd_Invoice = Invoice d,
                pd_Status = DealStatus d, pd_DisputeReason = DisputeReason d,
                pd_CreatedAt = CreatedAt d\<rparr>)))"

definition Service_RotateShareLink :: "'e svc \<Rightarrow> string \<Rightarrow> string \<Rightarrow> ('e world, Deal) prog" where
  "Service_RotateShareLink s userID dealID =
     (if dealID = '''' then fail (errorf ErrInvalidInput '': deal id is required'')
      else
        bindE (Repo_GetDealByID (sv_platform s) (sv_key s) dealID) (\<lambda>deal.
          if FreelancerID deal \<noteq> userID then fail (sentinel_err ErrForbidden)
          else if DealStatus deal = StatusReleased \<or> DealStatus deal = StatusRefunded
            then fail (errorf ErrInvalidInput ('': share link is frozen once the deal is '' @
              status_string (DealStatus deal)))
          else
            bindE (wrapE (wrapf ''generating share token: '')
                     (generateShareToken (sv_platform s))) (\<lambda>token.
            bindE (wrapE (wrapf ''rotating share token: '')
                     (Repo_UpdateShareToken (sv_platform s) dealID token)) (\<lambda>_.
              ret (deal\<lparr>ShareToken := token\<rparr>)))))"

text \<open>One round of the background sweep (\<open>sweep.go\<close>): deals created before now minus the hold's
  lifetime, a 64-bit duration whose negation wraps; the outcome is only logged.\<close>

definition sweep :: "'e svc \<Rightarrow> int \<Rightarrow> ('e world, unit) prog" where
  "sweep s holdLifetime =
     bindE (time_now (sv_platform s)) (\<lambda>now.
       bindR (Service_SweepExpiredHolds s (now + sint (- word_of_int holdLifetime :: 64 word)))
         (\<lambda>_. ret ()))"

end
