(* ===== verification/Deal_Escrow.thy ===== *)
theory Deal_Escrow
  imports Deal_Service
begin

text \<open>
  The money paths of \<open>backend/internal/deals/service.go\<close>: the two-phase escrow release behind
  \<open>ApproveDeal\<close>, \<open>PublicApproveDeal\<close> and the operator's release verdict, the refund verdict,
  and the operator's reconciliation of a hung payout. The three phases of \<open>releaseEscrow\<close> are
  separate definitions because other requests run between them.
\<close>

section \<open>Network legs\<close>

definition settleHoldGuarded :: "'e svc \<Rightarrow> Deal \<Rightarrow> ('e world, unit) prog" where
  "settleHoldGuarded s deal =
     (if Preimage deal = ''''
      then fail (errorf ErrInvalidInput '': cannot release a deal without an escrow preimage'')
      else
        bindR (Client_SettleHold (sv_platform s) (sv_lnbits s) (Preimage deal)) (\<lambda>r.
          case r of
            Inr _ \<Rightarrow> ret ()
          | Inl e \<Rightarrow>
              bindR (Client_CheckPayment (sv_platform s) (sv_lnbits s) (CheckingID deal)) (\<lambda>q.
                case q of
                  Inl _ \<Rightarrow> fail (wrapf (''settling escrow for deal '' @ ID deal @ '': '') e)
                | Inr payment \<Rightarrow>
                    if cd_Status (cp_Details payment) \<noteq> ''SETTLED''
                    then fail (wrapf (''settling escrow for deal '' @ ID deal @ '': '') e)
                    else ret ())))"

text \<open>The pair \<open>(confirmed, failed)\<close>.\<close>

definition checkOutgoingPayout :: "'e svc \<Rightarrow> string \<Rightarrow> ('e world, bool \<times> bool) prog" where
  "checkOutgoingPayout s payoutCheckingID =
     bindE (Client_CheckPayment (sv_platform s) (sv_lnbits s) payoutCheckingID) (\<lambda>payment.
       if cp_Paid payment \<and> isPayoutConfirmed (cd_Status (cp_Details payment)) then ret (True, False)
       else if isPayoutFailed (cd_Status (cp_Details payment)) then ret (False, True)
       else ret (False, False))"

definition clearPayoutAttempt :: "'e svc \<Rightarrow> string \<Rightarrow> ('e world, unit) prog" where
  "clearPayoutAttempt s dealID =
     wrapE (wrapf (''resetting payout tracking for deal '' @ dealID @ '': ''))
       (Repo_ClearPayoutTracking (sv_platform s) dealID)"

definition anchorReleasedDeal :: "'e svc \<Rightarrow> Deal \<Rightarrow> ('e world, unit) prog" where
  "anchorReleasedDeal s deal =
     (case sv_cv s of
        None \<Rightarrow> ret ()
      | Some cv \<Rightarrow>
          bindE (modify (log_event (EvAnchor (FreelancerID deal) (ID deal)))) (\<lambda>_.
          bindR (cv (FreelancerID deal) (ID deal)) (\<lambda>_. ret ())))"

definition cancelEscrowHold :: "'e svc \<Rightarrow> Deal \<Rightarrow> ('e world, unit) prog" where
  "cancelEscrowHold s deal =
     (if PreimageHash deal = ''''
      then fail (errorf ErrInvalidInput '': cannot refund a deal without a preimage hash'')
      else
        bindR (Client_CancelHold (sv_platform s) (sv_lnbits s) (PreimageHash deal)) (\<lambda>r.
          case r of
            Inr _ \<Rightarrow> ret ()
          | Inl e \<Rightarrow>
              bindR (Client_CheckPayment (sv_platform s) (sv_lnbits s) (CheckingID deal)) (\<lambda>q.
                case q of
                  Inl _ \<Rightarrow> fail (wrapf (''cancelling escrow for deal '' @ ID deal @ '': '') e)
                | Inr payment \<Rightarrow>
                    if \<not> isHoldReleased (cd_Status (cp_Details payment))
                    then fail (wrapf (''cancelling escrow for deal '' @ ID deal @ '': '') e)
                    else ret ())))"

section \<open>Releasing the escrow\<close>

record 'e releaseEscrowOptions =
  ro_authorize :: "Deal \<Rightarrow> goerr option"
  ro_finalize :: "string \<Rightarrow> ('e world, unit) prog"

text \<open>The payout policy of phase 1: \<open>(confirmed, payoutCheckingID)\<close> or a refusal to go on.\<close>

definition payout_policy :: "'e svc \<Rightarrow> Deal \<Rightarrow> ('e world, bool \<times> string) prog" where
  "payout_policy s deal =
     (if PayoutCheckingID deal \<noteq> '''' then
        bindR (checkOutgoingPayout s (PayoutCheckingID deal)) (\<lambda>r.
          case r of
            Inl e \<Rightarrow> fail (errorf ErrPayoutInFlight ('': verifying payout '' @ PayoutCheckingID deal @
              '' for deal '' @ ID deal @ '': '' @ err_text e))
          | Inr (ok, failed) \<Rightarrow>
              if ok then ret (True, PayoutCheckingID deal)
              else if failed then
                bindE (wrapE (wrapf (''resetting payout tracking for deal '' @ ID deal @ '': ''))
                         (Repo_ClearPayoutTracking (sv_platform s) (ID deal))) (\<lambda>_.
                  ret (False, ''''))
              else fail (errorf ErrPayoutInFlight ('': payout '' @ PayoutCheckingID deal @
                '' for deal '' @ ID deal @ '' is not confirmed'')))
      else if PayoutAttemptedAt deal \<noteq> None then
        fail (errorf ErrPayoutInFlight ('': deal '' @ ID deal @ '' has an unconfirmed payout attempt''))
      else ret (False, PayoutCheckingID deal))"

definition release_phase1 ::
  "'e svc \<Rightarrow> string \<Rightarrow> 'e releaseEscrowOptions \<Rightarrow> ('e world, Deal \<times> bool \<times> string) prog" where
  "release_phase1 s dealID opts =
     withTx (sv_platform s)
       (bindE (Repo_GetDealForUpdate (sv_platform s) (sv_key s) dealID) (\<lambda>deal.
          case ro_authorize opts deal of
            Some e \<Rightarrow> fail e
          | None \<Rightarrow>
              bindE (payout_policy s deal) (\<lambda>(confirmed, payoutCheckingID).
              bindE (if confirmed then ret ()
                     else wrapE (wrapf (''recording payout attempt for deal '' @ ID deal @ '': ''))
                            (Repo_MarkPayoutAttempted (sv_platform s) (ID deal))) (\<lambda>_.
                ret (deal, confirmed, payoutCheckingID)))))"

definition release_phase2 :: "'e svc \<Rightarrow> Deal \<Rightarrow> bool \<Rightarrow> string \<Rightarrow> ('e world, string) prog" where
  "release_phase2 s deal confirmed payoutCheckingID =
     (if confirmed then ret payoutCheckingID
      else
        bindR (settleHoldGuarded s deal) (\<lambda>r.
          case r of
            Inl e \<Rightarrow> bindR (clearPayoutAttempt s (ID deal)) (\<lambda>_. fail e)
          | Inr _ \<Rightarrow>
              bindR (Client_PayInvoice (sv_platform s) (sv_lnbits s) (PayeeInvoice deal)) (\<lambda>p.
                case p of
                  Inl e \<Rightarrow>
                    if errors_Is e Lnbits_ErrPayoutRefused then
                      bindR (clearPayoutAttempt s (ID deal)) (\<lambda>_.
                        fail (wrapf (''paying freelancer for deal '' @ ID deal @ '': '') e))
                    else fail (errorf ErrPayoutInFlight ('': paying freelancer for deal '' @ ID deal @
                      '': '' @ err_text e))
                | Inr i \<Rightarrow> ret i)))"

definition phase3_body ::
  "'e svc \<Rightarrow> string \<Rightarrow> 'e releaseEscrowOptions \<Rightarrow> Deal \<Rightarrow> string \<Rightarrow> ('e world, Deal) prog" where
  "phase3_body s dealID opts deal payoutCheckingID =
     bindE (Repo_GetDealForUpdate (sv_platform s) (sv_key s) dealID) (\<lambda>deal2.
       if DealStatus deal \<noteq> StatusDisputed \<and> DealStatus deal2 = StatusDisputed
       then fail (errorf ErrInvalidTransition
         '': deal was disputed during release; cannot auto-release'')
       else if \<not> CanTransition (DealStatus deal2) StatusReleased
       then fail (transition_err (DealStatus deal2) StatusReleased)
       else
         bindE (if payoutCheckingID \<noteq> '''' \<and> PayoutCheckingID deal2 = ''''
                then wrapE (wrapf (''recording payout for deal '' @ ID deal @ '': ''))
                       (Repo_UpdatePayoutCheckingID (sv_platform s) dealID payoutCheckingID)
                else ret ()) (\<lambda>_.
         bindE (ro_finalize opts dealID) (\<lambda>_. ret deal2)))"

definition release_phase3 ::
  "'e svc \<Rightarrow> string \<Rightarrow> 'e releaseEscrowOptions \<Rightarrow> Deal \<Rightarrow> string \<Rightarrow> ('e world, Deal) prog" where
  "release_phase3 s dealID opts deal payoutCheckingID =
     withTx (sv_platform s) (phase3_body s dealID opts deal payoutCheckingID)"

definition releaseEscrow ::
  "'e svc \<Rightarrow> string \<Rightarrow> 'e releaseEscrowOptions \<Rightarrow> ('e world, Deal) prog" where
  "releaseEscrow s dealID opts =
     (if dealID = '''' then fail (errorf ErrInvalidInput '': deal id is required'')
      else
        bindE (release_phase1 s dealID opts) (\<lambda>(deal, confirmed, payoutCheckingID).
        bindE (release_phase2 s deal confirmed payoutCheckingID) (\<lambda>payoutCheckingID'.
        bindE (release_phase3 s dealID opts deal payoutCheckingID') (\<lambda>deal2.
        let d = deal2\<lparr>DealStatus := StatusReleased\<rparr>
        in bindE (anchorReleasedDeal s d) (\<lambda>_.
           bindE (notify s DealReleased d) (\<lambda>_. ret d))))))"

definition approve_options :: "'e svc \<Rightarrow> string \<Rightarrow> 'e releaseEscrowOptions" where
  "approve_options s email = \<lparr>
     ro_authorize = (\<lambda>deal.
       if \<not> EqualFold (uni_fold (sv_platform s)) (ClientEmail deal) email
       then Some (sentinel_err ErrForbidden)
       else if \<not> CanTransition (DealStatus deal) StatusReleased
       then Some (transition_err (DealStatus deal) StatusReleased)
       else None),
     ro_finalize = (\<lambda>i. Repo_UpdateStatus (sv_platform s) i StatusReleased)\<rparr>"

definition Service_ApproveDeal :: "'e svc \<Rightarrow> string \<Rightarrow> string \<Rightarrow> ('e world, Deal) prog" where
  "Service_ApproveDeal s email dealID =
     (if dealID = '''' then fail (errorf ErrInvalidInput '': deal id is required'')
      else releaseEscrow s dealID (approve_options s email))"

definition public_options :: "'e svc \<Rightarrow> 'e releaseEscrowOptions" where
  "public_options s = \<lparr>
     ro_authorize = (\<lambda>deal.
       if \<not> CanTransition (DealStatus deal) StatusReleased
       then Some (transition_err (DealStatus deal) StatusReleased)
       else None),
     ro_finalize = (\<lambda>i. Repo_UpdateStatus (sv_platform s) i StatusReleased)\<rparr>"

definition Service_PublicApproveDeal :: "'e svc \<Rightarrow> string \<Rightarrow> ('e world, Deal) prog" where
  "Service_PublicApproveDeal s shareToken =
     (if shareToken = '''' then fail (errorf ErrInvalidInput '': share token is required'')
      else
        bindE (Repo_GetDealByShareToken (sv_platform s) (sv_key s) shareToken) (\<lambda>deal0.
        bindR (if CheckingID deal0 \<noteq> '''' \<and> DealStatus deal0 = StatusAwaitingPayment
               then refreshPaymentStatus s deal0 else ret deal0) (\<lambda>r.
          let deal = (case r of Inl _ \<Rightarrow> deal0 | Inr d \<Rightarrow> d)
          in if DealStatus deal \<noteq> StatusLocked \<and> DealStatus deal \<noteq> StatusWorkSubmitted
             then fail (errorf ErrInvalidTransition ('': deal cannot be approved from status '' @
               status_string (DealStatus deal)))
             else releaseEscrow s (ID deal) (public_options s))))"

section \<open>Arbitration\<close>

definition resolve_options :: "'e svc \<Rightarrow> string \<Rightarrow> 'e releaseEscrowOptions" where
  "resolve_options s operatorEmail = \<lparr>
     ro_authorize = (\<lambda>deal.
       if DealStatus deal \<noteq> StatusDisputed
       then Some (errorf ErrInvalidTransition ('': only a disputed deal can be resolved, got '' @
         status_string (DealStatus deal)))
       else None),
     ro_finalize = (\<lambda>i. Repo_UpdateDisputeResolution (sv_platform s) i StatusReleased operatorEmail)\<rparr>"

definition refund_body :: "'e svc \<Rightarrow> string \<Rightarrow> string \<Rightarrow> ('e world, Deal) prog" where
  "refund_body s operatorEmail dealID =
     bindE (Repo_GetDealForUpdate (sv_platform s) (sv_key s) dealID) (\<lambda>deal.
       if DealStatus deal \<noteq> StatusDisputed
       then fail (errorf ErrInvalidTransition ('': only a disputed deal can be resolved, got '' @
         status_string (DealStatus deal)))
       else
         bindE (cancelEscrowHold s deal) (\<lambda>_.
         bindE (wrapE (wrapf (''recording dispute resolution for deal '' @ dealID @ '': ''))
                  (Repo_UpdateDisputeResolution (sv_platform s) dealID StatusRefunded
                     operatorEmail)) (\<lambda>_.
           ret deal)))"

definition refundDispute :: "'e svc \<Rightarrow> string \<Rightarrow> string \<Rightarrow> ('e world, Deal) prog" where
  "refundDispute s operatorEmail dealID =
     bindE (withTx (sv_platform s) (refund_body s operatorEmail dealID)) (\<lambda>deal.
     bindE (time_now (sv_platform s)) (\<lambda>now.
     let d = deal\<lparr>DealStatus := StatusRefunded, ResolvedAt := Some now, ResolvedBy := operatorEmail\<rparr>
     in bindE (notify s DealRefunded d) (\<lambda>_. ret d)))"

definition Service_ResolveDispute ::
  "'e svc \<Rightarrow> string \<Rightarrow> string \<Rightarrow> DisputeResolution \<Rightarrow> ('e world, Deal) prog" where
  "Service_ResolveDispute s operatorEmail0 dealID resolution =
     (if dealID = '''' then fail (errorf ErrInvalidInput '': deal id is required'')
      else
        let operatorEmail = ToLower (uni_lower (sv_platform s)) (TrimSpace operatorEmail0)
        in if operatorEmail = ''''
           then fail (errorf ErrInvalidInput '': operator email is required'')
           else
             (case resolution of
                DisputeResolutionRelease \<Rightarrow>
                  bindE (releaseEscrow s dealID (resolve_options s operatorEmail)) (\<lambda>deal.
                  bindE (time_now (sv_platform s)) (\<lambda>now.
                    ret (deal\<lparr>ResolvedAt := Some now, ResolvedBy := operatorEmail\<rparr>)))
              | DisputeResolutionRefund \<Rightarrow> refundDispute s operatorEmail dealID
              | DisputeResolutionOther _ \<Rightarrow>
                  fail (errorf ErrInvalidInput '': resolution must be \"release\" or \"refund\"'')))"

section \<open>Reconciling a hung payout\<close>

definition confirm_body :: "'e svc \<Rightarrow> string \<Rightarrow> string \<Rightarrow> ('e world, Deal) prog" where
  "confirm_body s dealID payoutCheckingID =
     bindE (Repo_GetDealForUpdate (sv_platform s) (sv_key s) dealID) (\<lambda>deal.
       if \<not> CanTransition (DealStatus deal) StatusReleased
       then fail (transition_err (DealStatus deal) StatusReleased)
       else
         bindE (if PayoutCheckingID deal \<noteq> payoutCheckingID
                then wrapE (wrapf (''recording reconciled payout for deal '' @ ID deal @ '': ''))
                       (Repo_UpdatePayoutCheckingID (sv_platform s) (ID deal) payoutCheckingID)
                else ret ()) (\<lambda>_.
         bindE (wrapE (wrapf (''releasing reconciled deal '' @ ID deal @ '': ''))
                  (Repo_UpdateStatus (sv_platform s) (ID deal) StatusReleased)) (\<lambda>_.
           ret deal)))"

definition reconcile_confirm :: "'e svc \<Rightarrow> string \<Rightarrow> string \<Rightarrow> ('e world, Deal) prog" where
  "reconcile_confirm s dealID payoutCheckingID0 =
     (let payoutCheckingID = TrimSpace payoutCheckingID0 in
      if payoutCheckingID = ''''
      then fail (errorf ErrInvalidInput
        '': confirm_payout requires the payout_checking_id from LNbits history'')
      else
        bindR (checkOutgoingPayout s payoutCheckingID) (\<lambda>r.
          case r of
            Inl e \<Rightarrow> fail (errorf ErrPayoutInFlight
              ('': verifying payout '' @ payoutCheckingID @ '': '' @ err_text e))
          | Inr (ok, _) \<Rightarrow>
              if \<not> ok
              then fail (errorf ErrInvalidInput
                ('': payout '' @ payoutCheckingID @ '' is not confirmed as paid''))
              else
                bindE (withTx (sv_platform s) (confirm_body s dealID payoutCheckingID)) (\<lambda>deal.
                let d = deal\<lparr>DealStatus := StatusReleased\<rparr>
                in bindE (anchorReleasedDeal s d) (\<lambda>_.
                   bindE (notify s DealReleased d) (\<lambda>_. ret d)))))"

definition reconcile_reset :: "'e svc \<Rightarrow> string \<Rightarrow> ('e world, Deal) prog" where
  "reconcile_reset s dealID =
     bindE (Repo_GetDealByID (sv_platform s) (sv_key s) dealID) (\<lambda>deal.
       if DealStatus deal = StatusReleased \<or> DealStatus deal = StatusRefunded
       then fail (errorf ErrInvalidTransition ('': deal '' @ ID deal @ '' is already '' @
         status_string (DealStatus deal)))
       else if PayoutCheckingID deal = '''' \<and> PayoutAttemptedAt deal = None
       then fail (errorf ErrInvalidInput
         ('': deal '' @ ID deal @ '' has no payout in flight to reset''))
       else
         bindE (wrapE (wrapf (''resetting payout tracking for deal '' @ dealID @ '': ''))
                  (Repo_ClearPayoutTracking (sv_platform s) dealID)) (\<lambda>_.
           ret (deal\<lparr>PayoutCheckingID := '''', PayoutAttemptedAt := None\<rparr>)))"

definition Service_ReconcilePayout ::
  "'e svc \<Rightarrow> string \<Rightarrow> string \<Rightarrow> ReconcileAction \<Rightarrow> string \<Rightarrow> ('e world, Deal) prog" where
  "Service_ReconcilePayout s operatorEmail0 dealID action payoutCheckingID =
     (let operatorEmail = ToLower (uni_lower (sv_platform s)) (TrimSpace operatorEmail0) in
      if operatorEmail = '''' then fail (errorf ErrInvalidInput '': operator email is required'')
      else if dealID = '''' then fail (errorf ErrInvalidInput '': deal id is required'')
      else
        (case action of
           ReconcileConfirmPayout \<Rightarrow> reconcile_confirm s dealID payoutCheckingID
         | ReconcileResetPayout \<Rightarrow> reconcile_reset s dealID
         | ReconcileOther _ \<Rightarrow> fail (errorf ErrInvalidInput
             '': reconcile action must be \"confirm_payout\" or \"reset_payout\"'')))"

end
