(* ===== verification/Deal_Release.thy ===== *)
theory Deal_Release
  imports Deal_Escrow
begin

text \<open>
  What a release of the escrow guarantees, whatever the network, the database and the clock
  do: phase by phase (what each phase writes and sends), then for a whole run, in the locale
  \<open>release_flow\<close> that \<open>ApproveDeal\<close>, \<open>PublicApproveDeal\<close> and the release verdict of
  \<open>ResolveDispute\<close> interpret.
\<close>

section \<open>What the network legs log\<close>

text \<open>The requests that move money: settling or cancelling a hold and paying out.\<close>

definition money_event :: "lnbits_client \<Rightarrow> event \<Rightarrow> bool" where
  "money_event c ev \<longleftrightarrow> is_settle c ev \<or> is_cancel c ev \<or> is_payout ev"

lemma money_event_simps [simp]:
  "money_event c (EvHttp (settle_request c p) res)"
  "money_event c (EvHttp (cancel_request c h) res)"
  "money_event c (EvHttp (pay_request c b) res)"
  "\<not> money_event c (EvHttp (check_request c i) res)"
  "\<not> money_event c (EvNotify n d)"
  "\<not> money_event c (EvAnchor f i)"
  "rq_method (check_request c i) = GET"
  by (simp_all add: money_event_def request_defs)

text \<open>
  The contract of the injected CV anchorer: it is not on the money path. It leaves the deals
  table alone and sends none of the money requests.
\<close>

definition anchor_ok :: "'e svc \<Rightarrow> bool" where
  "anchor_ok s \<longleftrightarrow>
     (\<forall>cv f i w r w'. sv_cv s = Some cv \<longrightarrow> cv f i w = (r, w') \<longrightarrow>
        t_deals (w_db w') = t_deals (w_db w) \<and>
        log_adds (\<lambda>ev. \<not> money_event (sv_lnbits s) ev) w w')"

abbreviation moneyless :: "'e svc \<Rightarrow> 'e world \<Rightarrow> 'e world \<Rightarrow> bool" where
  "moneyless s \<equiv> log_adds (\<lambda>ev. \<not> money_event (sv_lnbits s) ev)"

lemma notify_log [keeps_log]:
  "(\<And>d. S (EvNotify n d)) \<Longrightarrow> runs_in (log_adds S) (notify s n d)"
  by (auto simp: notify_def runs_in_def log_adds_def log_event_def)

lemma notify_db [keeps_db]: "runs_in same_db (notify s n d)"
  by (auto simp: notify_def runs_in_def same_db_def log_event_def)

lemma modify_log_event:
  "S ev \<Longrightarrow> runs_in (log_adds S) (modify (log_event ev))"
  by (auto simp: runs_in_def log_adds_def log_event_def)

lemma anchor_log:
  assumes "anchor_ok s"
  shows "runs_in (moneyless s) (anchorReleasedDeal s d)"
proof -
  have "runs_in (moneyless s) (cv f i)" if "sv_cv s = Some cv" for cv f i
    using assms that by (auto simp: anchor_ok_def intro: runs_inI)
  then show ?thesis
    unfolding anchorReleasedDeal_def
    by (auto intro!: log_frame.frame_intros modify_log_event split: option.split)
qed

lemma anchor_deals:
  assumes "anchor_ok s"
  shows "runs_in (\<lambda>w w'. t_deals (w_db w') = t_deals (w_db w)) (anchorReleasedDeal s d)"
proof -
  have "runs_in (\<lambda>w w'. t_deals (w_db w') = t_deals (w_db w)) (cv f i)"
    if "sv_cv s = Some cv" for cv f i
    using assms that by (auto simp: anchor_ok_def intro: runs_inI)
  moreover have "runs_in (\<lambda>w w'. t_deals (w_db w') = t_deals (w_db w))
      (modify (log_event ev) :: ('a world, unit) prog)" for ev
    by (auto simp: runs_in_def log_event_def)
  ultimately show ?thesis
    unfolding anchorReleasedDeal_def
    by (auto intro!: deals_frame.frame_bindE deals_frame.frame_bindR deals_frame.frame_ret
        split: option.split)
qed

lemma settle_db [keeps_db]: "runs_in same_db (settleHoldGuarded s d)"
  unfolding settleHoldGuarded_def
  by (intro db_frame.frame_intros settle_call.call_db check_call.call_db)

lemma settle_log [keeps_log]:
  assumes "\<And>res. S (EvHttp (settle_request (sv_lnbits s) (Preimage d)) res)"
    and "\<And>res. S (EvHttp (check_request (sv_lnbits s) (CheckingID d)) res)"
  shows "runs_in (log_adds S) (settleHoldGuarded s d)"
  unfolding settleHoldGuarded_def
  by (intro log_frame.frame_intros settle_call.call_adds check_call.call_adds assms)

lemma checkOutgoing_db [keeps_db]: "runs_in same_db (checkOutgoingPayout s i)"
  unfolding checkOutgoingPayout_def by (intro db_frame.frame_intros check_call.call_db)

lemma checkOutgoing_log [keeps_log]:
  "(\<And>res. S (EvHttp (check_request (sv_lnbits s) i) res)) \<Longrightarrow>
   runs_in (log_adds S) (checkOutgoingPayout s i)"
  unfolding checkOutgoingPayout_def by (intro log_frame.frame_intros check_call.call_adds)

lemma cancelEscrow_db [keeps_db]: "runs_in same_db (cancelEscrowHold s d)"
  unfolding cancelEscrowHold_def
  by (intro db_frame.frame_intros cancel_call.call_db check_call.call_db)

lemma clearPayoutAttempt_log [keeps_log]: "runs_in (log_adds S) (clearPayoutAttempt s i)"
  unfolding clearPayoutAttempt_def by (intro log_frame.frame_intros keeps_log)

lemma payout_policy_log [keeps_log]:
  "(\<And>res. S (EvHttp (check_request (sv_lnbits s) (PayoutCheckingID d)) res)) \<Longrightarrow>
   runs_in (log_adds S) (payout_policy s d)"
  unfolding payout_policy_def by (intro log_frame.frame_intros keeps_log)

lemma phase1_log:
  "runs_in (log_adds (\<lambda>ev. read_only ev \<and> \<not> money_event (sv_lnbits s) ev)) (release_phase1 s i opts)"
  unfolding release_phase1_def
  by (intro withTx_log log_frame.frame_intros keeps_log) simp_all

section \<open>Phase 1: the durable intent\<close>

text \<open>The ways out of the payout policy that let the release go on.\<close>

lemma payout_policy_Inr:
  assumes "payout_policy s deal w = (Inr (confirmed, pid), w')"
  obtains (confirmed) f where "confirmed" "pid = PayoutCheckingID deal" "pid \<noteq> ''''"
      "checkOutgoingPayout s pid w = (Inr (True, f), w')" "w_db w' = w_db w"
  | (failed) u where "\<not> confirmed" "pid = ''''" "PayoutCheckingID deal \<noteq> ''''"
      "checkOutgoingPayout s (PayoutCheckingID deal) w = (Inr (False, True), u)"
      "w_log w' = w_log u"
      "w_db w' = upd_deal (ID deal)
         (\<lambda>r. r\<lparr>c_payout_checking_id := None, c_payout_attempted_at := None\<rparr>) (w_db w)"
  | (fresh) "\<not> confirmed" "pid = ''''" "PayoutCheckingID deal = ''''"
      "PayoutAttemptedAt deal = None" "w' = w"
proof (cases "PayoutCheckingID deal = ''''")
  case True
  with assms fresh show ?thesis by (auto simp: payout_policy_def split: if_splits)
next
  case False
  obtain r u where q: "checkOutgoingPayout s (PayoutCheckingID deal) w = (r, u)"
    by (cases "checkOutgoingPayout s (PayoutCheckingID deal) w")
  have db: "w_db u = w_db w"
    using runs_inD [OF checkOutgoing_db q] by (simp add: same_db_def)
  from assms False q obtain ok fl where r: "r = Inr (ok, fl)"
    by (auto simp: payout_policy_def bindR_def split: sum.splits)
  show ?thesis
  proof (cases ok)
    case True
    with assms False q r db confirmed show ?thesis by (auto simp: payout_policy_def bindR_def)
  next
    case nok: False
    with assms False q r have fl: "fl" "\<not> confirmed" "pid = ''''"
      and clr: "Repo_ClearPayoutTracking (sv_platform s) (ID deal) u = (Inr (), w')"
      by (auto simp: payout_policy_def bindR_def run_iffs split: if_splits)
    from clr have log: "w_log w' = w_log u" by (rule same_logD) (rule keeps_log)
    from clr show ?thesis
      unfolding Repo_ClearPayoutTracking_def
      by (rule update_key_Inr) (use failed fl q r nok False db log in auto)
  qed
qed

text \<open>The row of \<open>i\<close> after phase 1 marked a payout attempt.\<close>

definition marked_db :: "string \<Rightarrow> Deal \<Rightarrow> time \<Rightarrow> database \<Rightarrow> database" where
  "marked_db i deal now d = upd_deal i (\<lambda>r. r\<lparr>c_payout_attempted_at := Some now\<rparr>)
     (if PayoutCheckingID deal = '''' then d
      else upd_deal i (\<lambda>r. r\<lparr>c_payout_checking_id := None, c_payout_attempted_at := None\<rparr>) d)"

lemma phase1_Inr:
  assumes "release_phase1 s i opts w = (Inr (deal, confirmed, pid), w')"
  obtains (confirmed) row u u' f where "find_deal i (w_db w) = Some row"
      "scanDeal (sv_platform s) (sv_key s) row = Inr deal" "ID deal = i"
      "ro_authorize opts deal = None"
      "confirmed" "pid = PayoutCheckingID deal" "pid \<noteq> ''''" "w_db w' = w_db w"
      "checkOutgoingPayout s pid u = (Inr (True, f), u')" "w_log u = w_log w" "w_log w' = w_log u'"
  | (marked) row now where "find_deal i (w_db w) = Some row"
      "scanDeal (sv_platform s) (sv_key s) row = Inr deal" "ID deal = i"
      "ro_authorize opts deal = None"
      "\<not> confirmed" "pid = ''''" "w_db w' = marked_db i deal now (w_db w)"
      "PayoutCheckingID deal = '''' \<Longrightarrow> PayoutAttemptedAt deal = None \<and> w_log w' = w_log w"
      "PayoutCheckingID deal \<noteq> '''' \<Longrightarrow> \<exists>u u'. w_log u = w_log w \<and> w_log w' = w_log u' \<and>
         checkOutgoingPayout s (PayoutCheckingID deal) u = (Inr (False, True), u')"
proof -
  from assms [unfolded release_phase1_def] obtain w0 w1 where
    w0: "w_db w0 = w_db w" "w_log w0 = w_log w" and
    body: "bindE (Repo_GetDealForUpdate (sv_platform s) (sv_key s) i) (\<lambda>deal.
          case ro_authorize opts deal of
            Some e \<Rightarrow> fail e
          | None \<Rightarrow>
              bindE (payout_policy s deal) (\<lambda>(confirmed, payoutCheckingID).
              bindE (if confirmed then ret ()
                     else wrapE (wrapf (''recording payout attempt for deal '' @ ID deal @ '': ''))
                            (Repo_MarkPayoutAttempted (sv_platform s) (ID deal))) (\<lambda>_.
                ret (deal, confirmed, payoutCheckingID)))) w0 = (Inr (deal, confirmed, pid), w1)" and
    w1: "w_db w' = w_db w1" "w_log w' = w_log w1"
    by (rule withTx_Inr)
  from body obtain u1 u2 where
    get: "Repo_GetDealForUpdate (sv_platform s) (sv_key s) i w0 = (Inr deal, u1)" and
    auth: "ro_authorize opts deal = None" and
    pol: "payout_policy s deal u1 = (Inr (confirmed, pid), u2)" and
    mark: "(if confirmed then ret ()
       else wrapE (wrapf (''recording payout attempt for deal '' @ ID deal @ '': ''))
              (Repo_MarkPayoutAttempted (sv_platform s) (ID deal))) u2 = (Inr (), w1)"
    by (auto simp: bindE_Inr_iff split: option.splits)
  have u1: "w_log u1 = w_log w0"
    using get by (rule same_logD) (rule keeps_log)
  from get obtain row where row: "find_deal i (w_db w) = Some row"
    "scanDeal (sv_platform s) (sv_key s) row = Inr deal" "ID deal = i" "w_db u1 = w_db w"
    using get_deal_Inr w0(1) by metis
  have marked: "\<exists>now. w_db w1 = upd_deal i (\<lambda>r. r\<lparr>c_payout_attempted_at := Some now\<rparr>) (w_db u2)"
    and log: "w_log w1 = w_log u2" if "\<not> confirmed"
  proof -
    from mark that have m: "Repo_MarkPayoutAttempted (sv_platform s) (ID deal) u2 = (Inr (), w1)"
      by (simp add: wrapE_Inr_iff)
    show "w_log w1 = w_log u2" using m by (rule same_logD) (rule keeps_log)
    from m show "\<exists>now. w_db w1 = upd_deal i (\<lambda>r. r\<lparr>c_payout_attempted_at := Some now\<rparr>) (w_db u2)"
      unfolding Repo_MarkPayoutAttempted_def row(3) by (rule update_key_Inr) auto
  qed
  from pol show thesis
  proof (cases rule: payout_policy_Inr)
    case (confirmed f)
    with mark have "w1 = u2" by simp
    with confirmed that(1) row auth w0 w1 u1 show thesis by metis
  next
    case (failed u)
    with marked obtain now where
      "w_db w1 = upd_deal i (\<lambda>r. r\<lparr>c_payout_attempted_at := Some now\<rparr>) (w_db u2)" by blast
    then have "w_db w' = marked_db i deal now (w_db w)"
      using failed row w1 by (simp add: marked_db_def)
    moreover have "\<exists>u u'. w_log u = w_log w \<and> w_log w' = w_log u' \<and>
        checkOutgoingPayout s (PayoutCheckingID deal) u = (Inr (False, True), u')"
      using failed log w1 w0 u1 by metis
    ultimately show thesis using that(2) [OF row(1-3) auth failed(1,2)] failed(3) by blast
  next
    case fresh
    with marked log obtain now where
      "w_db w1 = upd_deal i (\<lambda>r. r\<lparr>c_payout_attempted_at := Some now\<rparr>) (w_db u2)" by blast
    then have "w_db w' = marked_db i deal now (w_db w)"
      using fresh row w1 by (simp add: marked_db_def)
    moreover have "w_log w' = w_log w" using fresh log w1 w0 u1 by simp
    ultimately show thesis using that(2) [OF row(1-3) auth fresh(1,2)] fresh(3,4) by blast
  qed
qed

section \<open>Phase 2: the network legs\<close>

text \<open>The exchanges that prove a fact about a hold or a payout.\<close>

definition payment_answer ::
  "'e svc \<Rightarrow> string \<Rightarrow> (CheckPaymentResponse \<Rightarrow> bool) \<Rightarrow> event \<Rightarrow> bool" where
  "payment_answer s i Q ev \<longleftrightarrow>
     (\<exists>code t p. ev = EvHttp (check_request (sv_lnbits s) i) (Response code (Inr t)) \<and> code < 300 \<and>
        decode_body (sv_platform s) (decode_payment (sv_platform s)) (Inr t) = Inr p \<and> Q p)"

definition accepted :: "'e svc \<Rightarrow> http_request \<Rightarrow> event \<Rightarrow> bool" where
  "accepted s rq ev \<longleftrightarrow>
     (\<exists>code t out. ev = EvHttp rq (Response code (Inr t)) \<and> code < 300 \<and>
        decode_body (sv_platform s) (decode_simple (sv_platform s)) (Inr t) = Inr out \<and> si_OK out)"

definition settle_proof :: "'e svc \<Rightarrow> Deal \<Rightarrow> event \<Rightarrow> bool" where
  "settle_proof s deal ev \<longleftrightarrow>
     accepted s (settle_request (sv_lnbits s) (Preimage deal)) ev \<or>
     payment_answer s (CheckingID deal) (\<lambda>p. cd_Status (cp_Details p) = ''SETTLED'') ev"

lemma settle_Inr:
  assumes "settleHoldGuarded s deal w = (Inr u, w')"
  obtains evs ev where "w_log w' = w_log w @ evs @ [ev]" "settle_proof s deal ev"
    "w_db w' = w_db w" "Preimage deal \<noteq> ''''"
proof -
  let ?P = "sv_platform s" and ?c = "sv_lnbits s"
  have db: "w_db w' = w_db w" using assms by (rule same_dbD) (rule keeps_db)
  obtain r w1 where st: "Client_SettleHold ?P ?c (Preimage deal) w = (r, w1)"
    by (cases "Client_SettleHold ?P ?c (Preimage deal) w")
  have pre: "Preimage deal \<noteq> ''''" using assms by (auto simp: settleHoldGuarded_def)
  show thesis
  proof (cases r)
    case (Inr out)
    with assms st pre have "w' = w1" by (simp add: settleHoldGuarded_def bindR_def)
    moreover from st Inr SettleHold_success obtain code t where "code < 300" "si_OK out"
      "decode_body ?P (decode_simple ?P) (Inr t) = Inr out"
      "w_log w1 = w_log w @ [EvHttp (settle_request ?c (Preimage deal)) (Response code (Inr t))]"
      by metis
    ultimately show thesis
      using that [of "[]"] db pre by (auto simp: settle_proof_def accepted_def)
  next
    case (Inl e)
    with assms st pre obtain p where
      ck: "Client_CheckPayment ?P ?c (CheckingID deal) w1 = (Inr p, w')"
      and p: "cd_Status (cp_Details p) = ''SETTLED''"
      by (auto simp: settleHoldGuarded_def bindR_def split: prod.splits sum.splits if_splits)
    obtain evs where evs: "w_log w1 = w_log w @ evs"
      using runs_inD [OF settle_call.call_log st] by (auto simp: log_adds_def)
    from CheckPayment_success [OF ck] obtain code t where "code < 300"
      "decode_body ?P (decode_payment ?P) (Inr t) = Inr p"
      "w_log w' = w_log w1 @ [EvHttp (check_request ?c (CheckingID deal)) (Response code (Inr t))]" .
    with evs p that [of evs] db pre show thesis
      by (auto simp: settle_proof_def payment_answer_def)
  qed
qed

definition cleared_db :: "string \<Rightarrow> database \<Rightarrow> database" where
  "cleared_db i d = upd_deal i (\<lambda>r. r\<lparr>c_payout_checking_id := None, c_payout_attempted_at := None\<rparr>) d"

lemma clearPayoutAttempt_effect:
  assumes "clearPayoutAttempt s i w = (r, w')"
  shows "w_db w' = w_db w \<or> w_db w' = cleared_db i (w_db w)" and "w_log w' = w_log w"
    and "r = Inr u \<Longrightarrow> w_db w' = cleared_db i (w_db w)"
proof -
  from assms obtain q where q: "Repo_ClearPayoutTracking (sv_platform s) i w = (q, w')"
    "\<And>u. r = Inr u \<Longrightarrow> q = Inr u"
    by (auto simp: clearPayoutAttempt_def wrapE_def split: prod.splits sum.splits)
  from q(1) show "w_db w' = w_db w \<or> w_db w' = cleared_db i (w_db w)"
    unfolding Repo_ClearPayoutTracking_def
    by (rule update_key_any) (auto simp: cleared_db_def)
  show "w_log w' = w_log w" using q(1) by (rule same_logD) (rule keeps_log)
  assume "r = Inr u"
  with q have "Repo_ClearPayoutTracking (sv_platform s) i w = (Inr u, w')" by simp
  then show "w_db w' = cleared_db i (w_db w)"
    unfolding Repo_ClearPayoutTracking_def
    by (rule update_key_Inr) (auto simp: cleared_db_def)
qed

lemma settle_evs:
  assumes "settleHoldGuarded s deal w = (r, w')"
  obtains evs where "w_log w' = w_log w @ evs" "\<forall>ev \<in> set evs. \<not> is_payout ev"
  using runs_inD [OF settle_log [where S = "\<lambda>ev. \<not> is_payout ev"] assms]
  by (auto simp: log_adds_def request_defs)

lemma phase2_Inr:
  assumes "release_phase2 s deal False pid w = (Inr i, w')"
  obtains evs ev code t where "settle_proof s deal ev" "code < 300" "w_db w' = w_db w"
    "w_log w' = w_log w @ evs @ [ev, EvHttp (pay_request (sv_lnbits s) (PayeeInvoice deal))
       (Response code (Inr t))]" "\<forall>ev \<in> set evs. \<not> is_payout ev" "\<not> is_payout ev"
proof -
  obtain r w1 where st: "settleHoldGuarded s deal w = (r, w1)" by (cases "settleHoldGuarded s deal w")
  with assms obtain u where r: "r = Inr u"
    by (auto simp: release_phase2_def bindR_def split: sum.splits prod.splits)
  with st settle_Inr obtain evs ev where e1: "w_log w1 = w_log w @ evs @ [ev]"
    "settle_proof s deal ev" "w_db w1 = w_db w" by metis
  from st settle_evs obtain evs' where "w_log w1 = w_log w @ evs'" "\<forall>ev \<in> set evs'. \<not> is_payout ev"
    by metis
  with e1 have np: "\<forall>ev \<in> set evs. \<not> is_payout ev" "\<not> is_payout ev" by auto
  from assms st r have pay: "Client_PayInvoice (sv_platform s) (sv_lnbits s) (PayeeInvoice deal) w1
      = (Inr i, w')"
    by (auto simp: release_phase2_def bindR_def split: sum.splits prod.splits if_splits)
  have "w_db w' = w_db w1" using pay by (rule pay_call.call_state)
  with PayInvoice_success [OF pay] e1 np that show thesis by (metis append.assoc append_Cons append_Nil)
qed

text \<open>The three ways phase 2 fails: before the payout, with a refused payout, or with an
  outcome that is not known.\<close>

lemma phase2_Inl:
  assumes "release_phase2 s deal False pid w = (Inl e, w')"
  obtains (unsettled) evs where "w_log w' = w_log w @ evs" "\<forall>ev \<in> set evs. \<not> is_payout ev"
      "w_db w' = w_db w \<or> w_db w' = cleared_db (ID deal) (w_db w)"
  | (rejected) evs ev res where "settle_proof s deal ev" "refused res"
      "\<forall>ev \<in> set evs. \<not> is_payout ev" "\<not> is_payout ev"
      "w_log w' = w_log w @ evs @ [ev, EvHttp (pay_request (sv_lnbits s) (PayeeInvoice deal)) res]"
      "w_db w' = w_db w \<or> w_db w' = cleared_db (ID deal) (w_db w)"
      "errors_Is e Lnbits_ErrPayoutRefused"
  | (unknown) evs ev pays where "settle_proof s deal ev"
      "\<forall>ev \<in> set evs. \<not> is_payout ev" "\<not> is_payout ev"
      "w_log w' = w_log w @ evs @ ev # pays" "w_db w' = w_db w" "errors_Is e ErrPayoutInFlight"
      "pays = [] \<or> (\<exists>res. pays = [EvHttp (pay_request (sv_lnbits s) (PayeeInvoice deal)) res] \<and>
         \<not> refused res)"
proof -
  obtain r w1 where st: "settleHoldGuarded s deal w = (r, w1)" by (cases "settleHoldGuarded s deal w")
  from settle_evs [OF st] obtain evs' where evs': "w_log w1 = w_log w @ evs'"
    "\<forall>ev \<in> set evs'. \<not> is_payout ev" .
  show thesis
  proof (cases r)
    case (Inl e0)
    obtain q w2 where cl: "clearPayoutAttempt s (ID deal) w1 = (q, w2)"
      by (cases "clearPayoutAttempt s (ID deal) w1")
    from st have db: "w_db w1 = w_db w" by (rule same_dbD) (rule keeps_db)
    from assms st Inl cl have "w' = w2" by (auto simp: release_phase2_def bindR_def)
    with clearPayoutAttempt_effect [OF cl] evs' db unsettled show thesis by metis
  next
    case (Inr u)
    with st settle_Inr obtain evs ev where e1: "w_log w1 = w_log w @ evs @ [ev]"
      "settle_proof s deal ev" "w_db w1 = w_db w" by metis
    with evs' have np: "\<forall>ev \<in> set evs. \<not> is_payout ev" "\<not> is_payout ev" by auto
    obtain p w2 where pay: "Client_PayInvoice (sv_platform s) (sv_lnbits s) (PayeeInvoice deal) w1
      = (p, w2)" by (cases "Client_PayInvoice (sv_platform s) (sv_lnbits s) (PayeeInvoice deal) w1")
    from pay have db2: "w_db w2 = w_db w1" by (rule pay_call.call_state)
    from assms st Inr pay obtain e0 where p: "p = Inl e0"
      by (auto simp: release_phase2_def bindR_def split: sum.splits)
    show thesis
    proof (cases "errors_Is e0 Lnbits_ErrPayoutRefused")
      case True
      obtain q w3 where cl: "clearPayoutAttempt s (ID deal) w2 = (q, w3)"
        by (cases "clearPayoutAttempt s (ID deal) w2")
      from assms st Inr pay p True cl have w3: "w' = w3"
        "e = wrapf (''paying freelancer for deal '' @ ID deal @ '': '') e0"
        by (auto simp: release_phase2_def bindR_def)
      from pay p True obtain res where
        "w_log w2 = w_log w1 @ [EvHttp (pay_request (sv_lnbits s) (PayeeInvoice deal)) res]" "refused res"
        by (cases rule: PayInvoice_outcome) auto
      with w3 clearPayoutAttempt_effect [OF cl] e1 np db2 rejected True show thesis by auto
    next
      case False
      with assms st Inr pay p have w2: "w' = w2" "errors_Is e ErrPayoutInFlight"
        by (auto simp: release_phase2_def bindR_def)
      from pay p False obtain pays where "w_log w2 = w_log w1 @ pays"
        "pays = [] \<or> (\<exists>res. pays = [EvHttp (pay_request (sv_lnbits s) (PayeeInvoice deal)) res] \<and>
           \<not> refused res)"
        by (cases rule: PayInvoice_outcome) auto
      with w2 e1 np db2 unknown show thesis by (metis append.assoc append_Cons append_Nil)
    qed
  qed
qed

section \<open>Phase 3 and the whole release\<close>

text \<open>A row that was read under the lock and finalized.\<close>

definition released_row :: "string \<Rightarrow> deal_row \<Rightarrow> deal_row \<Rightarrow> bool" where
  "released_row pid r r' \<longleftrightarrow>
     c_status r' = StatusReleased \<and> c_verified_at r' \<noteq> None \<and>
     c_payout_attempted_at r' = c_payout_attempted_at r \<and>
     null_str (c_payout_checking_id r') =
       (if null_str (c_payout_checking_id r) = '''' then pid else null_str (c_payout_checking_id r))"

definition record_payout :: "string \<Rightarrow> string \<Rightarrow> deal_row \<Rightarrow> database \<Rightarrow> database" where
  "record_payout i pid row d =
     (if pid \<noteq> '''' \<and> null_str (c_payout_checking_id row) = ''''
      then upd_deal i (\<lambda>r. r\<lparr>c_payout_checking_id := Some pid\<rparr>) d else d)"

lemma record_payout_find:
  "find_deal i d = Some row \<Longrightarrow> find_deal i (record_payout i pid row d) =
    Some (if pid \<noteq> '''' \<and> null_str (c_payout_checking_id row) = ''''
          then row\<lparr>c_payout_checking_id := Some pid\<rparr> else row)"
  by (simp add: record_payout_def deals.lookup_alter_same)

text \<open>
  What \<open>releaseEscrow\<close> relies on in its callers: the final UPDATE releases the row and stamps
  \<open>verified_at\<close>, touches no payout tracking, and only legal releases are authorized.
\<close>

locale release_flow =
  fixes s :: "'e svc" and opts :: "'e releaseEscrowOptions"
    and pre :: string and fin :: "time \<Rightarrow> deal_row \<Rightarrow> deal_row"
  assumes finalize:
      "ro_finalize opts i = require_row (update_deals (sv_platform s) pre (\<lambda>r. c_id r = i) fin)"
    and fin_id: "c_id (fin now r) = c_id r"
    and fin_status: "c_status (fin now r) = StatusReleased"
    and fin_verified: "c_verified_at (fin now r) = Some now"
    and fin_payout: "c_payout_attempted_at (fin now r) = c_payout_attempted_at r"
      "c_payout_checking_id (fin now r) = c_payout_checking_id r"
    and fin_other: "c_preimage (fin now r) = c_preimage r"
    and authorize_legal: "ro_authorize opts d = None \<Longrightarrow> CanTransition (DealStatus d) StatusReleased"
begin

lemma phase3_log: "runs_in same_log (release_phase3 s i opts deal pid)"
  unfolding release_phase3_def phase3_body_def finalize
  by (intro withTx_log log_frame.frame_intros keeps_log)

lemma phase3_body_Inr:
  assumes "phase3_body s i opts deal pid w = (Inr d2, w')"
  obtains row now where "find_deal i (w_db w) = Some row"
    "scanDeal (sv_platform s) (sv_key s) row = Inr d2"
    "CanTransition (c_status row) StatusReleased"
    "DealStatus deal \<noteq> StatusDisputed \<Longrightarrow> c_status row \<noteq> StatusDisputed"
    "w_db w' = upd_deal i (fin now) (record_payout i pid row (w_db w))"
proof -
  let ?P = "sv_platform s"
  from assms [unfolded phase3_body_def] obtain u1 u2 where
    get: "Repo_GetDealForUpdate ?P (sv_key s) i w = (Inr d2, u1)" and
    ok: "\<not> (DealStatus deal \<noteq> StatusDisputed \<and> DealStatus d2 = StatusDisputed)"
      "CanTransition (DealStatus d2) StatusReleased" and
    rec: "(if pid \<noteq> '''' \<and> PayoutCheckingID d2 = ''''
           then wrapE (wrapf (''recording payout for deal '' @ ID deal @ '': ''))
                  (Repo_UpdatePayoutCheckingID ?P i pid)
           else ret ()) u1 = (Inr (), u2)" and
    fin: "ro_finalize opts i u2 = (Inr (), w')"
    by (auto simp: bindE_Inr_iff simp del: if_split split: if_splits)
  from get obtain row where row: "find_deal i (w_db w) = Some row"
    "scanDeal ?P (sv_key s) row = Inr d2" "w_db u1 = w_db w"
    using get_deal_Inr by metis
  have u2: "w_db u2 = record_payout i pid row (w_db w)"
  proof (cases "pid \<noteq> '''' \<and> PayoutCheckingID d2 = ''''")
    case True
    with rec have "Repo_UpdatePayoutCheckingID ?P i pid u1 = (Inr (), u2)"
      by (simp add: wrapE_Inr_iff)
    then show ?thesis
      unfolding Repo_UpdatePayoutCheckingID_def
      by (rule update_key_Inr)
        (use True row scanDeal_fields(5) [OF row(2)] in \<open>simp add: record_payout_def\<close>)
  next
    case False
    with rec row scanDeal_fields(5) [OF row(2)] show ?thesis
      by (auto simp: record_payout_def split: if_splits)
  qed
  from fin [unfolded finalize] show thesis
    by (rule update_key_Inr)
      (use row ok u2 scanDeal_fields(3) [OF row(2)] that in auto)
qed

lemma phase3_Inr:
  assumes "release_phase3 s i opts deal pid w = (Inr d2, w')"
  obtains row now where "find_deal i (w_db w) = Some row"
    "scanDeal (sv_platform s) (sv_key s) row = Inr d2"
    "CanTransition (c_status row) StatusReleased"
    "DealStatus deal \<noteq> StatusDisputed \<Longrightarrow> c_status row \<noteq> StatusDisputed"
    "w_db w' = upd_deal i (fin now) (record_payout i pid row (w_db w))"
    "w_log w' = w_log w"
proof -
  from assms [unfolded release_phase3_def] obtain w0 w1 where tx: "w_db w0 = w_db w"
    "phase3_body s i opts deal pid w0 = (Inr d2, w1)" "w_db w' = w_db w1"
    by (rule withTx_Inr)
  have log: "w_log w' = w_log w" using assms by (rule same_logD) (rule phase3_log)
  from tx(2) show thesis
    by (rule phase3_body_Inr) (use tx log that in auto)
qed

lemma phase3_row:
  assumes "release_phase3 s i opts deal pid w = (Inr d2, w')"
  obtains row row' where "find_deal i (w_db w) = Some row" "find_deal i (w_db w') = Some row'"
    "scanDeal (sv_platform s) (sv_key s) row = Inr d2"
    "CanTransition (c_status row) StatusReleased" "released_row pid row row'"
    "\<exists>now q. row' = fin now q"
    "DealStatus deal \<noteq> StatusDisputed \<Longrightarrow> c_status row \<noteq> StatusDisputed"
  using assms
proof (rule phase3_Inr)
  fix row now
  assume row: "find_deal i (w_db w) = Some row" "scanDeal (sv_platform s) (sv_key s) row = Inr d2"
    "CanTransition (c_status row) StatusReleased"
    "DealStatus deal \<noteq> StatusDisputed \<Longrightarrow> c_status row \<noteq> StatusDisputed"
    and db: "w_db w' = upd_deal i (fin now) (record_payout i pid row (w_db w))"
  let ?r = "if pid \<noteq> '''' \<and> null_str (c_payout_checking_id row) = ''''
    then row\<lparr>c_payout_checking_id := Some pid\<rparr> else row"
  have "find_deal i (w_db w') = Some (fin now ?r)"
    unfolding db by (rule deals.lookup_alter_same) (simp_all add: fin_id record_payout_find [OF row(1)])
  moreover have "released_row pid row (fin now ?r)"
    by (auto simp: released_row_def fin_status fin_verified fin_payout)
  ultimately show thesis using that row by blast
qed

end

lemma anchor_effect:
  assumes "anchorReleasedDeal s d w = (r, w')" and "anchor_ok s"
  shows "t_deals (w_db w') = t_deals (w_db w)" "moneyless s w w'" "r = Inr ()"
  using runs_inD [OF anchor_deals [OF assms(2)] assms(1)] runs_inD [OF anchor_log [OF assms(2)] assms(1)]
    assms(1)
  by (auto simp: anchorReleasedDeal_def bindE_def bindR_def split: option.splits prod.splits)

lemma notify_effect:
  assumes "notify s n d w = (r, w')"
  shows "w_db w' = w_db w" "moneyless s w w'" "r = Inr ()"
  using runs_inD [OF notify_db assms]
    runs_inD [OF notify_log [where S = "\<lambda>ev. \<not> money_event (sv_lnbits s) ev"] assms] assms
  by (auto simp: notify_def same_db_def split: if_splits)

context release_flow begin

text \<open>A release that returns a deal has run all three phases.\<close>

lemma release_Inr:
  assumes "releaseEscrow s i opts w = (Inr d, w')" and "anchor_ok s"
  obtains deal confirmed pid w1 pid' w2 d2 w3 where
    "release_phase1 s i opts w = (Inr (deal, confirmed, pid), w1)"
    "release_phase2 s deal confirmed pid w1 = (Inr pid', w2)"
    "release_phase3 s i opts deal pid' w2 = (Inr d2, w3)"
    "t_deals (w_db w') = t_deals (w_db w3)" "moneyless s w3 w'"
    "d = d2\<lparr>DealStatus := StatusReleased\<rparr>"
proof -
  from assms(1) obtain deal confirmed pid w1 pid' w2 d2 w3 u4 w4 u5 where
    ph: "release_phase1 s i opts w = (Inr (deal, confirmed, pid), w1)"
    "release_phase2 s deal confirmed pid w1 = (Inr pid', w2)"
    "release_phase3 s i opts deal pid' w2 = (Inr d2, w3)" and
    an: "anchorReleasedDeal s (d2\<lparr>DealStatus := StatusReleased\<rparr>) w3 = (Inr u4, w4)" and
    no: "notify s DealReleased (d2\<lparr>DealStatus := StatusReleased\<rparr>) w4 = (Inr u5, w')" and
    d: "d = d2\<lparr>DealStatus := StatusReleased\<rparr>"
    by (auto simp: releaseEscrow_def bindE_Inr_iff Let_def split: if_splits)
  have "moneyless s w3 w'"
    using anchor_effect(2) [OF an assms(2)] notify_effect(2) [OF no] by (rule log_adds_trans)
  moreover have "t_deals (w_db w') = t_deals (w_db w3)"
    using anchor_effect(1) [OF an assms(2)] notify_effect(1) [OF no] by simp
  ultimately show thesis using that ph d by blast
qed

text \<open>One that returns an error stopped in one of the phases.\<close>

lemma release_Inl:
  assumes "releaseEscrow s i opts w = (Inl e, w')" and "anchor_ok s"
  obtains (empty) "i = ''''" "w' = w"
  | (phase1) "release_phase1 s i opts w = (Inl e, w')"
  | (phase2) deal confirmed pid w1 where
      "release_phase1 s i opts w = (Inr (deal, confirmed, pid), w1)"
      "release_phase2 s deal confirmed pid w1 = (Inl e, w')"
  | (phase3) deal confirmed pid w1 pid' w2 where
      "release_phase1 s i opts w = (Inr (deal, confirmed, pid), w1)"
      "release_phase2 s deal confirmed pid w1 = (Inr pid', w2)"
      "release_phase3 s i opts deal pid' w2 = (Inl e, w')"
proof (cases "i = ''''")
  case True
  with assms(1) empty show ?thesis by (simp add: releaseEscrow_def)
next
  case i: False
  obtain r1 w1 where p1: "release_phase1 s i opts w = (r1, w1)"
    by (cases "release_phase1 s i opts w")
  show ?thesis
  proof (cases r1)
    case (Inl e1)
    with assms(1) i p1 phase1 show ?thesis by (simp add: releaseEscrow_def bindE_def)
  next
    case (Inr x)
    obtain deal confirmed pid where x: "x = (deal, confirmed, pid)" by (cases x)
    obtain r2 w2 where p2: "release_phase2 s deal confirmed pid w1 = (r2, w2)"
      by (cases "release_phase2 s deal confirmed pid w1")
    show ?thesis
    proof (cases r2)
      case (Inl e2)
      with assms(1) i p1 Inr x p2 phase2 show ?thesis by (simp add: releaseEscrow_def bindE_def)
    next
      case r2: (Inr pid')
      obtain r3 w3 where p3: "release_phase3 s i opts deal pid' w2 = (r3, w3)"
        by (cases "release_phase3 s i opts deal pid' w2")
      show ?thesis
      proof (cases r3)
        case (Inl e3)
        with assms(1) i p1 Inr x p2 r2 p3 phase3 show ?thesis
          by (simp add: releaseEscrow_def bindE_def)
      next
        case r3: (Inr d2)
        obtain q4 w4 where an: "anchorReleasedDeal s (d2\<lparr>DealStatus := StatusReleased\<rparr>) w3 = (q4, w4)"
          by (cases "anchorReleasedDeal s (d2\<lparr>DealStatus := StatusReleased\<rparr>) w3")
        obtain q5 w5 where no: "notify s DealReleased (d2\<lparr>DealStatus := StatusReleased\<rparr>) w4 = (q5, w5)"
          by (cases "notify s DealReleased (d2\<lparr>DealStatus := StatusReleased\<rparr>) w4")
        from assms(1) i p1 Inr x p2 r2 p3 r3 an no anchor_effect(3) [OF an assms(2)]
          notify_effect(3) [OF no]
        have False by (simp add: releaseEscrow_def bindE_def Let_def)
        then show ?thesis ..
      qed
    qed
  qed
qed

end

section \<open>What a release guarantees\<close>

lemma phase1_events:
  assumes "release_phase1 s i opts w = (r, w')"
  obtains evs where "w_log w' = w_log w @ evs"
    "\<forall>ev \<in> set evs. read_only ev \<and> \<not> money_event (sv_lnbits s) ev"
  using runs_inD [OF phase1_log assms] by (auto simp: log_adds_def)

lemma not_money_payout: "\<not> money_event c ev \<Longrightarrow> \<not> is_payout ev"
  by (simp add: money_event_def)

lemma moneylessD:
  assumes "moneyless s w w'"
  obtains evs where "w_log w' = w_log w @ evs" "\<forall>ev \<in> set evs. \<not> is_payout ev"
  using assms by (auto simp: log_adds_def dest: not_money_payout)

text \<open>The row of a deal carries a payout attempt: the marker or a payout id.\<close>

definition attempted :: "string \<Rightarrow> database \<Rightarrow> bool" where
  "attempted i d \<longleftrightarrow> (case find_deal i d of None \<Rightarrow> False | Some r \<Rightarrow> c_payout_attempted_at r \<noteq> None)"

lemma attempted_marked:
  "find_deal i d = Some row \<Longrightarrow> attempted i (marked_db i deal now d)"
  by (simp add: attempted_def marked_db_def deals.lookup_alter)

text \<open>A payout sent right after a proof of settlement, to the invoice on the deal.\<close>

definition single_payout :: "'e svc \<Rightarrow> Deal \<Rightarrow> event list \<Rightarrow> bool" where
  "single_payout s deal evs \<longleftrightarrow>
     (\<exists>a ev res b. evs = a @ [ev, EvHttp (pay_request (sv_lnbits s) (PayeeInvoice deal)) res] @ b \<and>
        settle_proof s deal ev \<and> (\<forall>x \<in> set (a @ ev # b). \<not> is_payout x))"

lemma phase2_events:
  assumes "release_phase2 s deal confirmed pid w = (r, w')"
  obtains (none) evs where "w_log w' = w_log w @ evs" "\<forall>ev \<in> set evs. \<not> is_payout ev"
  | (paid) evs where "w_log w' = w_log w @ evs" "single_payout s deal evs" "\<not> confirmed"
proof (cases confirmed)
  case True
  with assms have "w' = w" by (simp add: release_phase2_def)
  with none [of "[]"] show thesis by simp
next
  case False
  show thesis
  proof (cases r)
    case (Inr x)
    with assms False have "release_phase2 s deal False pid w = (Inr x, w')" by simp
    then obtain evs ev code t where "settle_proof s deal ev"
      "w_log w' = w_log w @ evs @ [ev, EvHttp (pay_request (sv_lnbits s) (PayeeInvoice deal))
         (Response code (Inr t))]" "\<forall>ev \<in> set evs. \<not> is_payout ev" "\<not> is_payout ev"
      by (rule phase2_Inr)
    with paid [of "evs @ [ev, EvHttp (pay_request (sv_lnbits s) (PayeeInvoice deal))
         (Response code (Inr t))]"] False show thesis
      by (fastforce simp: single_payout_def)
  next
    case (Inl e)
    with assms False have "release_phase2 s deal False pid w = (Inl e, w')" by simp
    then show thesis
    proof (cases rule: phase2_Inl)
      case (unsettled evs)
      then show thesis using none by blast
    next
      case (rejected evs ev res)
      then have "single_payout s deal
        (evs @ [ev, EvHttp (pay_request (sv_lnbits s) (PayeeInvoice deal)) res])"
        by (fastforce simp: single_payout_def)
      with rejected paid False show thesis by blast
    next
      case (unknown evs ev pays)
      from unknown(7) show thesis
      proof (elim disjE exE conjE)
        assume "pays = []"
        with unknown none [of "evs @ [ev]"] show thesis by auto
      next
        fix res assume p: "pays = [EvHttp (pay_request (sv_lnbits s) (PayeeInvoice deal)) res]"
        with unknown have "single_payout s deal (evs @ ev # pays)"
          by (fastforce simp: single_payout_def)
        with unknown paid False show thesis by blast
      qed
    qed
  qed
qed

lemma single_payout_pad:
  assumes "single_payout s deal evs" and "\<forall>ev \<in> set a. \<not> is_payout ev" "\<forall>ev \<in> set b. \<not> is_payout ev"
  shows "single_payout s deal (a @ evs @ b)"
proof -
  from assms(1) obtain a' ev res b' where
    "evs = a' @ [ev, EvHttp (pay_request (sv_lnbits s) (PayeeInvoice deal)) res] @ b'"
    "settle_proof s deal ev" "\<forall>x \<in> set (a' @ ev # b'). \<not> is_payout x"
    by (auto simp: single_payout_def)
  with assms(2,3) show ?thesis
    unfolding single_payout_def
    by (intro exI [of _ "a @ a'"] exI [of _ ev] exI [of _ res] exI [of _ "b' @ b"]) auto
qed

definition marker_kept :: "deal_row \<Rightarrow> deal_row \<Rightarrow> bool" where
  "marker_kept r r' \<longleftrightarrow> (c_payout_attempted_at r \<noteq> None \<longrightarrow> c_payout_attempted_at r' \<noteq> None)"

interpretation marker: row_relation marker_kept
  by unfold_locales (auto simp: marker_kept_def)

lemma marker_attempted: "row_wise marker_kept d d' \<Longrightarrow> attempted i d \<Longrightarrow> attempted i d'"
  by (auto simp: attempted_def marker_kept_def dest: row_wiseD split: option.splits)

context release_flow begin

text \<open>The shape of a run: it stopped in phase 1, or phase 1 committed and phase 2 ran.\<close>

lemma release_shape:
  assumes "releaseEscrow s i opts w = (r, w')" and "anchor_ok s"
  obtains (stopped) "i = ''''" "w' = w" "\<exists>e. r = Inl e"
  | (phase1) e where "release_phase1 s i opts w = (Inl e, w')" "r = Inl e"
  | (ran) deal confirmed pid w1 r2 w2 where
      "release_phase1 s i opts w = (Inr (deal, confirmed, pid), w1)"
      "release_phase2 s deal confirmed pid w1 = (r2, w2)"
      "moneyless s w2 w'" "\<And>e. r2 = Inl e \<Longrightarrow> r = Inl e \<and> w' = w2"
      "\<And>pid'. r2 = Inr pid' \<Longrightarrow> \<exists>r3 w3. release_phase3 s i opts deal pid' w2 = (r3, w3) \<and>
         t_deals (w_db w') = t_deals (w_db w3)"
proof (cases r)
  case (Inr d)
  with assms have "releaseEscrow s i opts w = (Inr d, w')" by simp
  then show thesis
  proof (rule release_Inr [OF _ assms(2)])
    fix deal confirmed pid w1 pid' w2 d2 w3
    assume p: "release_phase1 s i opts w = (Inr (deal, confirmed, pid), w1)"
      "release_phase2 s deal confirmed pid w1 = (Inr pid', w2)"
      "release_phase3 s i opts deal pid' w2 = (Inr d2, w3)"
      and t: "t_deals (w_db w') = t_deals (w_db w3)" "moneyless s w3 w'"
    have "w_log w3 = w_log w2" using p(3) by (rule same_logD) (rule phase3_log)
    with t(2) have "moneyless s w2 w'" by (simp add: log_adds_def)
    with p t(1) ran show thesis by (metis Inl_Inr_False Inr_inject)
  qed
next
  case (Inl e)
  with assms have "releaseEscrow s i opts w = (Inl e, w')" by simp
  from this assms(2) show thesis
  proof (cases rule: release_Inl)
    case empty
    with Inl stopped show thesis by blast
  next
    case phase1
    with Inl assms show thesis using that(2) by blast
  next
    case (phase2 deal confirmed pid w1)
    with Inl ran [of deal confirmed pid w1 "Inl e" w'] log_frame.frame_refl show thesis by auto
  next
    case (phase3 deal confirmed pid w1 pid' w2)
    have "w_log w' = w_log w2" using phase3(3) by (rule same_logD) (rule phase3_log)
    then have "moneyless s w2 w'" by (simp add: log_adds_def)
    with phase3 Inl ran [of deal confirmed pid w1 "Inr pid'" w2] show thesis by auto
  qed
qed

lemma release_payouts:
  assumes "releaseEscrow s i opts w = (r, w')" and "anchor_ok s"
  obtains (none) evs where "w_log w' = w_log w @ evs" "\<forall>ev \<in> set evs. \<not> is_payout ev"
  | (one) evs row deal where "w_log w' = w_log w @ evs" "find_deal i (w_db w) = Some row"
      "scanDeal (sv_platform s) (sv_key s) row = Inr deal" "ro_authorize opts deal = None"
      "single_payout s deal evs"
  using assms
proof (cases rule: release_shape)
  case stopped
  with none [of "[]"] show thesis by simp
next
  case (phase1 e)
  from phase1(1) show thesis by (rule phase1_events) (use none not_money_payout in metis)
next
  case (ran deal confirmed pid w1 r2 w2)
  from phase1_events [OF ran(1)] obtain a where a: "w_log w1 = w_log w @ a"
    "\<forall>ev \<in> set a. \<not> is_payout ev" using not_money_payout by metis
  from moneylessD [OF ran(3)] obtain b where b: "w_log w' = w_log w2 @ b"
    "\<forall>ev \<in> set b. \<not> is_payout ev" .
  from ran(2) show thesis
  proof (cases rule: phase2_events)
    case (none evs)
    with a b that(1) [of "a @ evs @ b"] show thesis by auto
  next
    case (paid evs)
    obtain row where "find_deal i (w_db w) = Some row"
      "scanDeal (sv_platform s) (sv_key s) row = Inr deal" "ro_authorize opts deal = None"
      using ran(1) by (rule phase1_Inr) blast+
    moreover have "single_payout s deal (a @ evs @ b)"
      using paid(2) a(2) b(2) by (rule single_payout_pad)
    moreover have "w_log w' = w_log w @ (a @ evs @ b)" using a b paid by simp
    ultimately show thesis using one by blast
  qed
qed

text \<open>A payout that may have moved money leaves its marker in the row, whatever happens next.\<close>

lemma phase3_attempted:
  assumes "release_phase3 s i opts deal pid w = (r, w')" and "attempted i (w_db w)"
  shows "attempted i (w_db w')"
proof -
  have "runs_in marker.rows.related (release_phase3 s i opts deal pid)"
    unfolding release_phase3_def phase3_body_def finalize Repo_UpdatePayoutCheckingID_def
    by (intro marker.rows_withTx marker.rows.rel.frame_intros marker.rows_update
        marker.rows.related_same_db [OF repo_read_db(4)])
      (simp_all add: fin_id fin_payout marker_kept_def)
  from runs_inD [OF this assms(1)] assms(2) show ?thesis
    by (auto simp: marker.rows.related_def intro: marker_attempted)
qed

lemma release_remembers:
  assumes "releaseEscrow s i opts w = (r, w')" and "anchor_ok s"
    and "w_log w' = w_log w @ evs" and "ev \<in> set evs" and "may_have_paid ev"
  shows "attempted i (w_db w')"
  using assms(1,2)
proof (cases rule: release_shape)
  case stopped
  with assms(3,4) show ?thesis by simp
next
  case (phase1 e)
  from phase1_events [OF phase1(1)] assms(3-5) show ?thesis
    using may_have_paid_payout not_money_payout by (metis same_append_eq)
next
  case (ran deal confirmed pid w1 r2 w2)
  from phase1_events [OF ran(1)] obtain a where a: "w_log w1 = w_log w @ a"
    "\<forall>ev \<in> set a. \<not> is_payout ev" using not_money_payout by metis
  from moneylessD [OF ran(3)] obtain c where c: "w_log w' = w_log w2 @ c"
    "\<forall>ev \<in> set c. \<not> is_payout ev" .
  have paid: "\<exists>b. w_log w2 = w_log w1 @ b \<and> ev \<in> set b" if "w_log w2 = w_log w1 @ b" for b
    using that a c assms(3-5) may_have_paid_payout by fastforce
  have unconf: "\<not> confirmed"
    using paid [of "[]"] ran(2) by (auto simp: release_phase2_def)
  have att: "attempted i (w_db w1)"
    using ran(1) by (rule phase1_Inr) (use unconf attempted_marked in auto)
  show ?thesis
  proof (cases r2)
    case (Inr pid')
    with ran(2) unconf have "release_phase2 s deal False pid w1 = (Inr pid', w2)" by simp
    then have "w_db w2 = w_db w1" by (rule phase2_Inr)
    moreover from ran(5) [OF Inr] obtain r3 w3 where
      "release_phase3 s i opts deal pid' w2 = (r3, w3)" "t_deals (w_db w') = t_deals (w_db w3)"
      by blast
    ultimately show ?thesis using phase3_attempted att by (simp add: attempted_def find_deal_def)
  next
    case (Inl e)
    with ran(4) have w': "w' = w2" by blast
    from Inl ran(2) unconf have "release_phase2 s deal False pid w1 = (Inl e, w2)" by simp
    then show ?thesis
    proof (cases rule: phase2_Inl)
      case (unsettled evs)
      with paid [of evs] may_have_paid_payout [OF assms(5)] show ?thesis by auto
    next
      case (rejected evs v res)
      with paid [of "evs @ [v, EvHttp (pay_request (sv_lnbits s) (PayeeInvoice deal)) res]"]
        may_have_paid_payout [OF assms(5)] assms(5)
      show ?thesis by auto
    next
      case (unknown evs v pays)
      with att w' show ?thesis by simp
    qed
  qed
qed

end

context release_flow begin

text \<open>No money moves before the durable marker is committed.\<close>

lemma release_marker_first:
  assumes "releaseEscrow s i opts w = (r, w')" and "anchor_ok s"
    and "w_log w' = w_log w @ evs" and "ev \<in> set evs" and "money_event (sv_lnbits s) ev"
  shows "\<exists>deal w1 a b. release_phase1 s i opts w = (Inr (deal, False, ''''), w1) \<and>
    attempted i (w_db w1) \<and> evs = a @ b \<and> w_log w1 = w_log w @ a \<and>
    (\<forall>x \<in> set a. \<not> money_event (sv_lnbits s) x)"
  using assms(1,2)
proof (cases rule: release_shape)
  case stopped
  with assms(3,4) show ?thesis by simp
next
  case (phase1 e)
  from phase1_events [OF phase1(1)] assms(3-5) show ?thesis by (metis same_append_eq)
next
  case (ran deal confirmed pid w1 r2 w2)
  from phase1_events [OF ran(1)] obtain a where a: "w_log w1 = w_log w @ a"
    "\<forall>x \<in> set a. \<not> money_event (sv_lnbits s) x" by metis
  obtain c where c: "w_log w' = w_log w2 @ c" "\<forall>x \<in> set c. \<not> money_event (sv_lnbits s) x"
    using ran(3) by (auto simp: log_adds_def)
  have unconf: "\<not> confirmed"
  proof
    assume confirmed
    with ran(2) have "w2 = w1" by (simp add: release_phase2_def)
    with a c assms(3-5) show False by auto
  qed
  have att: "attempted i (w_db w1)" and pid: "pid = ''''"
    using ran(1) by (rule phase1_Inr, use unconf attempted_marked in auto)+
  obtain b where "w_log w2 = w_log w1 @ b" using ran(2) by (rule phase2_events)
  with a c assms(3) have "evs = a @ b @ c" by simp
  with att pid unconf ran(1) a show ?thesis
    by (intro exI [of _ deal] exI [of _ w1] exI [of _ a] exI [of _ "b @ c"]) simp
qed

text \<open>An unresolved attempt stops a release before anything happens.\<close>

lemma phase1_in_flight:
  assumes "find_deal i (w_db w) = Some row" and "c_payout_attempted_at row \<noteq> None"
    and "null_str (c_payout_checking_id row) = ''''"
  shows "\<exists>e w'. release_phase1 s i opts w = (Inl e, w') \<and> w_db w' = w_db w \<and> w_log w' = w_log w"
proof -
  let ?body = "bindE (Repo_GetDealForUpdate (sv_platform s) (sv_key s) i) (\<lambda>deal.
          case ro_authorize opts deal of
            Some e \<Rightarrow> fail e
          | None \<Rightarrow>
              bindE (payout_policy s deal) (\<lambda>(confirmed, payoutCheckingID).
              bindE (if confirmed then ret ()
                     else wrapE (wrapf (''recording payout attempt for deal '' @ ID deal @ '': ''))
                            (Repo_MarkPayoutAttempted (sv_platform s) (ID deal))) (\<lambda>_.
                ret (deal, confirmed, payoutCheckingID))))"
  have body: "(\<exists>e. q = Inl e) \<and> w_log w1 = w_log w"
    if "w_db w0 = w_db w" "w_log w0 = w_log w" "?body w0 = (q, w1)" for w0 w1 q
  proof -
    obtain g u where q: "Repo_GetDealForUpdate (sv_platform s) (sv_key s) i w0 = (g, u)"
      by (cases "Repo_GetDealForUpdate (sv_platform s) (sv_key s) i w0")
    from q have log: "w_log u = w_log w0" by (rule same_logD) (rule keeps_log)
    show ?thesis
    proof (cases g)
      case (Inl e)
      with q log that show ?thesis by (auto simp: bindE_def)
    next
      case (Inr deal)
      with q get_deal_Inr [of "sv_platform s" "sv_key s" i w0 deal u] assms that(1)
      have "scanDeal (sv_platform s) (sv_key s) row = Inr deal" by auto
      from scanDeal_fields [OF this] assms have "PayoutCheckingID deal = ''''"
        "PayoutAttemptedAt deal \<noteq> None" by auto
      then have "\<exists>e. payout_policy s deal u = (Inl e, u)" by (auto simp: payout_policy_def)
      with q Inr log that show ?thesis
        by (auto simp: bindE_def split: option.splits)
    qed
  qed
  obtain r w' where run: "withTx (sv_platform s) ?body w = (r, w')"
    by (cases "withTx (sv_platform s) ?body w")
  then show ?thesis
  proof (cases rule: withTx_cases)
    case (not_begun e)
    with run show ?thesis by (auto simp: release_phase1_def)
  next
    case (ran w0 q w1)
    with body [OF ran(1-3)] run show ?thesis by (auto simp: release_phase1_def)
  qed
qed

lemma release_no_resend:
  assumes "find_deal i (w_db w) = Some row" and "c_payout_attempted_at row \<noteq> None"
    and "null_str (c_payout_checking_id row) = ''''"
    and "releaseEscrow s i opts w = (r, w')"
  shows "\<exists>e. r = Inl e \<and> w_db w' = w_db w \<and> w_log w' = w_log w"
proof (cases "i = ''''")
  case True
  with assms(4) show ?thesis by (auto simp: releaseEscrow_def)
next
  case False
  from phase1_in_flight [OF assms(1-3)] obtain e w1 where
    "release_phase1 s i opts w = (Inl e, w1)" "w_db w1 = w_db w" "w_log w1 = w_log w" by blast
  with assms(4) False show ?thesis by (auto simp: releaseEscrow_def bindE_def)
qed

end

lemma checkOutgoing_Inr:
  assumes "checkOutgoingPayout s i w = (Inr (ok, failed), w')"
  obtains ev where "w_log w' = w_log w @ [ev]"
    "ok \<Longrightarrow> payment_answer s i (\<lambda>p. cp_Paid p \<and> isPayoutConfirmed (cd_Status (cp_Details p))) ev"
    "failed \<Longrightarrow> payment_answer s i (\<lambda>p. isPayoutFailed (cd_Status (cp_Details p))) ev"
proof -
  from assms obtain p where ck: "Client_CheckPayment (sv_platform s) (sv_lnbits s) i w = (Inr p, w')"
    and c: "ok \<Longrightarrow> cp_Paid p \<and> isPayoutConfirmed (cd_Status (cp_Details p))"
      "failed \<Longrightarrow> isPayoutFailed (cd_Status (cp_Details p))"
    by (auto simp: checkOutgoingPayout_def bindE_Inr_iff split: if_splits)
  from ck show thesis
    by (rule CheckPayment_success) (use c that in \<open>auto simp: payment_answer_def\<close>)
qed

text \<open>The freelancer was paid: by a payout in these events, or by an earlier one that LNbits
  confirms.\<close>

definition paid_evidence :: "'e svc \<Rightarrow> Deal \<Rightarrow> event list \<Rightarrow> bool" where
  "paid_evidence s deal evs \<longleftrightarrow>
     (\<exists>a ev code t b. evs = a @ [ev, EvHttp (pay_request (sv_lnbits s) (PayeeInvoice deal))
          (Response code (Inr t))] @ b \<and> settle_proof s deal ev \<and> code < 300) \<or>
     (PayoutCheckingID deal \<noteq> '''' \<and> (\<exists>ev \<in> set evs. payment_answer s (PayoutCheckingID deal)
          (\<lambda>p. cp_Paid p \<and> isPayoutConfirmed (cd_Status (cp_Details p))) ev))"

lemma paid_evidence_pay:
  "settle_proof s deal ev \<Longrightarrow> code < 300 \<Longrightarrow>
   paid_evidence s deal (a @ [ev, EvHttp (pay_request (sv_lnbits s) (PayeeInvoice deal))
     (Response code (Inr t))] @ b)"
  unfolding paid_evidence_def by blast

context release_flow begin

lemma release_success:
  assumes "releaseEscrow s i opts w = (Inr d, w')" and "anchor_ok s"
  obtains row deal evs row' where "find_deal i (w_db w) = Some row"
    "scanDeal (sv_platform s) (sv_key s) row = Inr deal" "ro_authorize opts deal = None"
    "w_log w' = w_log w @ evs" "paid_evidence s deal evs"
    "find_deal i (w_db w') = Some row'" "c_status row' = StatusReleased"
    "c_verified_at row' \<noteq> None" "DealStatus d = StatusReleased" "ID d = i"
    "\<exists>now q. row' = fin now q"
  using assms
proof (rule release_Inr)
  fix deal confirmed pid w1 pid' w2 d2 w3
  assume p1: "release_phase1 s i opts w = (Inr (deal, confirmed, pid), w1)"
    and p2: "release_phase2 s deal confirmed pid w1 = (Inr pid', w2)"
    and p3: "release_phase3 s i opts deal pid' w2 = (Inr d2, w3)"
    and t: "t_deals (w_db w') = t_deals (w_db w3)" "moneyless s w3 w'"
    and d: "d = d2\<lparr>DealStatus := StatusReleased\<rparr>"
  have l3: "w_log w3 = w_log w2" using p3 by (rule same_logD) (rule phase3_log)
  obtain c where c: "w_log w' = w_log w2 @ c" using t(2) l3 by (auto simp: log_adds_def)
  obtain row where row: "find_deal i (w_db w) = Some row"
    "scanDeal (sv_platform s) (sv_key s) row = Inr deal" "ro_authorize opts deal = None"
    using p1 by (rule phase1_Inr) blast+
  obtain r2 r3 where fin: "find_deal i (w_db w3) = Some r3" "released_row pid' r2 r3"
    "find_deal i (w_db w2) = Some r2" "scanDeal (sv_platform s) (sv_key s) r2 = Inr d2"
    "\<exists>now q. r3 = fin now q"
    using p3 by (rule phase3_row) blast
  have find: "find_deal i (w_db w') = Some r3" using fin(1) t(1) by (simp add: find_deal_def)
  have id: "ID d = i" using scanDeal_ID [OF fin(4)] fin(3) deals.lookup_key d by fastforce
  have "\<exists>evs. w_log w' = w_log w @ evs \<and> paid_evidence s deal evs"
  proof (cases confirmed)
    case True
    with p1 obtain u u' f where ck: "checkOutgoingPayout s pid u = (Inr (True, f), u')"
      "w_log u = w_log w" "w_log w1 = w_log u'" "pid = PayoutCheckingID deal" "pid \<noteq> ''''"
      by (cases rule: phase1_Inr) auto
    from ck(1) obtain ev where "w_log u' = w_log u @ [ev]" "payment_answer s pid
        (\<lambda>p. cp_Paid p \<and> isPayoutConfirmed (cd_Status (cp_Details p))) ev"
      by (rule checkOutgoing_Inr) auto
    moreover from p2 True have "w2 = w1" by (simp add: release_phase2_def)
    ultimately show ?thesis using ck c
      by (intro exI [of _ "ev # c"]) (auto simp: paid_evidence_def)
  next
    case False
    with p2 have "release_phase2 s deal False pid w1 = (Inr pid', w2)" by simp
    then obtain evs ev code t where "settle_proof s deal ev" "code < 300"
      "w_log w2 = w_log w1 @ evs @ [ev, EvHttp (pay_request (sv_lnbits s) (PayeeInvoice deal))
         (Response code (Inr t))]" by (rule phase2_Inr)
    moreover obtain a where "w_log w1 = w_log w @ a" using p1 by (rule phase1_events)
    ultimately show ?thesis using c
      by (intro exI [of _ "(a @ evs) @ [ev, EvHttp (pay_request (sv_lnbits s) (PayeeInvoice deal))
         (Response code (Inr t))] @ c"] conjI paid_evidence_pay) simp_all
  qed
  then obtain evs where "w_log w' = w_log w @ evs" "paid_evidence s deal evs" by blast
  then show thesis
    by (rule that [OF row _ _ find _ _ _ id fin(5)]) (use fin(2) d in \<open>auto simp: released_row_def\<close>)
qed

end

section \<open>The callers of the release\<close>

interpretation approve: release_flow s "approve_options s email" "''repository: update deal status: ''"
    "set_status StatusReleased" for s email
  by unfold_locales
    (auto simp: approve_options_def Repo_UpdateStatus_def set_status_def split: if_splits)

interpretation public: release_flow s "public_options s" "''repository: update deal status: ''"
    "set_status StatusReleased" for s
  by unfold_locales
    (auto simp: public_options_def Repo_UpdateStatus_def set_status_def split: if_splits)

interpretation resolve: release_flow s "resolve_options s op"
    "''repository: update dispute resolution: ''" "set_resolution StatusReleased op" for s op
  by unfold_locales
    (auto simp: resolve_options_def Repo_UpdateDisputeResolution_def set_resolution_def
      split: if_splits)

text \<open>The three callers.\<close>

definition release_caller :: "'e svc \<Rightarrow> 'e releaseEscrowOptions \<Rightarrow> bool" where
  "release_caller s opts \<longleftrightarrow>
     (\<exists>email. opts = approve_options s email) \<or> opts = public_options s \<or>
     (\<exists>op. opts = resolve_options s op)"

lemma release_caller_flow:
  assumes "release_caller s opts"
  obtains pre fin where "release_flow s opts pre fin"
  using assms unfolding release_caller_def
  using approve.release_flow_axioms public.release_flow_axioms resolve.release_flow_axioms by metis

end
