(* ===== verification/Service_Frames.thy ===== *)
theory Service_Frames
  imports Deal_Release
begin

text \<open>
  What the requests can do to existing deals. A relation between the old and the new row that
  every assignment of the status, the dispute, the resolution, the payee invoice and the share
  token respects is respected by every request that is not an escrow release or a payout
  reconciliation (\<open>service_frame\<close>); when the payout tracking respects it too, by all
  (\<open>escrow_frame\<close>).
\<close>

section \<open>The frames\<close>

locale service_frame = row_relation R for R :: "deal_row \<Rightarrow> deal_row \<Rightarrow> bool" +
  assumes R_status: "R r (set_status st now r)"
    and R_dispute: "R r (set_dispute x now r)"
    and R_resolution: "R r (set_resolution st x now r)"
    and R_payee: "R r (r\<lparr>c_payee_invoice := p\<rparr>)"
    and R_token: "R r (r\<lparr>c_share_token := x\<rparr>)"
begin

lemma repo_frame:
  "runs_in rows.related (Repo_UpdateStatus P i st)"
  "runs_in rows.related (Repo_UpdateStatusIfCurrent P i ex st)"
  "runs_in rows.related (Repo_UpdateDisputeIfCurrent P i ex x)"
  "runs_in rows.related (Repo_UpdateDisputeResolution P i st x)"
  "runs_in rows.related (Repo_UpdatePayeeInvoice P i x)"
  "runs_in rows.related (Repo_UpdateShareToken P i x)"
  unfolding repo_update_defs repo_cas_defs
  by (intro rows_update rows_cas; simp add: R_status R_dispute R_resolution R_payee R_token)+

lemma read_frame: "runs_in same_db m \<Longrightarrow> runs_in rows.related m"
  by (rule rows.related_same_db)

lemma notify_frame: "runs_in rows.related (notify s n d)"
  by (rule read_frame [OF notify_db])

lemmas frame_rules = rows.rel.frame_intros repo_frame notify_frame rows_withTx rows_create
  read_frame [OF repo_read_db(1)] read_frame [OF repo_read_db(2)] read_frame [OF repo_read_db(3)]
  read_frame [OF repo_read_db(4)] read_frame [OF repo_read_db(5)] read_frame [OF repo_read_db(6)]
  read_frame [OF repo_read_db(7)] read_frame [OF repo_read_db'(1)] read_frame [OF repo_read_db'(2)]
  read_frame [OF repo_read_db'(3)] read_frame [OF repo_read_db'(4)]
  read_frame [OF read_rand_db] read_frame [OF time_now_db]
  read_frame [OF check_call.call_db] read_frame [OF settle_call.call_db]
  read_frame [OF cancel_call.call_db] read_frame [OF pay_call.call_db]
  read_frame [OF hold_call.call_db]

lemma CreateDeal_frame: "runs_in rows.related (Service_CreateDeal s deal)"
  unfolding Service_CreateDeal_def Let_def generateShareToken_def cancelOrphanHold_def
  by (intro frame_rules)

lemma UpdateStatus_frame: "runs_in rows.related (Service_UpdateStatus s u i st)"
  unfolding Service_UpdateStatus_def UpdateStatus_check_def by (intro frame_rules)

lemma SubmitWork_frame: "runs_in rows.related (Service_SubmitWork s u i)"
  unfolding Service_SubmitWork_def SubmitWork_check_def SubmitWork_write_def
  by (intro frame_rules)

lemma UpdatePayeeInvoice_frame: "runs_in rows.related (Service_UpdatePayeeInvoice s u i b)"
  unfolding Service_UpdatePayeeInvoice_def Let_def by (intro frame_rules)

lemma DisputeDeal_frame: "runs_in rows.related (Service_DisputeDeal s em i x)"
  unfolding Service_DisputeDeal_def Let_def by (intro frame_rules)

lemma refresh_frame: "runs_in rows.related (refreshPaymentStatus s d)"
  unfolding refreshPaymentStatus_def Let_def by (intro frame_rules)

lemma CheckPayment_frame: "runs_in rows.related (Service_CheckPayment s u i)"
  unfolding Service_CheckPayment_def by (intro frame_rules refresh_frame)

lemma sweep_frame: "runs_in rows.related (sweep_deals s ds n)"
  by (induction ds arbitrary: n) (unfold sweep_deals.simps, (intro frame_rules; assumption?)+)

lemma SweepExpiredHolds_frame: "runs_in rows.related (Service_SweepExpiredHolds s t)"
  unfolding Service_SweepExpiredHolds_def by (intro frame_rules sweep_frame)

lemma GetPublicDeal_frame: "runs_in rows.related (Service_GetPublicDeal s tok)"
  unfolding Service_GetPublicDeal_def Let_def by (intro frame_rules refresh_frame)

lemma RotateShareLink_frame: "runs_in rows.related (Service_RotateShareLink s u i)"
  unfolding Service_RotateShareLink_def generateShareToken_def by (intro frame_rules)

lemma reads_frame:
  "runs_in rows.related (Service_GetDealByID s i u em)"
  "runs_in rows.related (Service_ListByUser s u em)"
  "runs_in rows.related (Service_ListDisputes s)"
  unfolding Service_GetDealByID_def Service_ListByUser_def Service_ListDisputes_def
  by (intro frame_rules)+

lemma refundDispute_frame: "runs_in rows.related (refundDispute s op i)"
  unfolding refundDispute_def refund_body_def Let_def
  by (intro frame_rules read_frame [OF cancelEscrow_db])

lemma anchor_frame: "anchor_ok s \<Longrightarrow> runs_in rows.related (anchorReleasedDeal s d)"
  by (rule rows_same_deals [OF anchor_deals])

end

locale escrow_frame = service_frame +
  assumes R_payout_id: "R r (r\<lparr>c_payout_checking_id := x\<rparr>)"
    and R_attempted: "R r (r\<lparr>c_payout_attempted_at := y\<rparr>)"
begin

lemma R_cleared: "R r (r\<lparr>c_payout_checking_id := None, c_payout_attempted_at := None\<rparr>)"
  using R_trans [OF R_payout_id [of r None] R_attempted] by simp

lemma payout_frame:
  "runs_in rows.related (Repo_UpdatePayoutCheckingID P i x)"
  "runs_in rows.related (Repo_MarkPayoutAttempted P i)"
  "runs_in rows.related (Repo_ClearPayoutTracking P i)"
  unfolding repo_update_defs
  by (intro rows_update; simp add: R_payout_id R_attempted R_cleared)+

lemma policy_frame: "runs_in rows.related (payout_policy s d)"
  unfolding payout_policy_def checkOutgoingPayout_def
  by (intro frame_rules payout_frame)

lemma release_frame:
  assumes "release_flow s opts pre fin" and "\<And>now r. R r (fin now r)" and "anchor_ok s"
  shows "runs_in rows.related (releaseEscrow s i opts)"
proof -
  have fin: "runs_in rows.related (ro_finalize opts j)" for j
    unfolding release_flow.finalize [OF assms(1)]
    by (intro rows_update assms(2)) (rule release_flow.fin_id [OF assms(1)])
  show ?thesis
    unfolding releaseEscrow_def release_phase1_def release_phase2_def release_phase3_def
      phase3_body_def      settleHoldGuarded_def clearPayoutAttempt_def Let_def
    by (intro frame_rules payout_frame policy_frame fin anchor_frame assms(3))
qed

lemma ApproveDeal_frame: "anchor_ok s \<Longrightarrow> runs_in rows.related (Service_ApproveDeal s em i)"
  unfolding Service_ApproveDeal_def
  by (intro frame_rules release_frame [OF approve.release_flow_axioms] R_status)

lemma PublicApproveDeal_frame: "anchor_ok s \<Longrightarrow> runs_in rows.related (Service_PublicApproveDeal s tok)"
  unfolding Service_PublicApproveDeal_def Let_def
  by (intro frame_rules refresh_frame release_frame [OF public.release_flow_axioms] R_status)

lemma ResolveDispute_frame: "anchor_ok s \<Longrightarrow> runs_in rows.related (Service_ResolveDispute s op i v)"
  unfolding Service_ResolveDispute_def Let_def
  by (cases v; simp only: DisputeResolution.case;
    intro frame_rules refundDispute_frame R_resolution release_frame [OF resolve.release_flow_axioms])

lemma ReconcilePayout_frame:
  assumes "anchor_ok s"
  shows "runs_in rows.related (Service_ReconcilePayout s op i act x)"
  unfolding Service_ReconcilePayout_def reconcile_confirm_def confirm_body_def reconcile_reset_def
    checkOutgoingPayout_def Let_def
  by (cases act; simp only: ReconcileAction.case; intro frame_rules payout_frame anchor_frame assms)

end

section \<open>Payout tracking and the terms of a deal\<close>

definition payout_kept :: "deal_row \<Rightarrow> deal_row \<Rightarrow> bool" where
  "payout_kept r r' \<longleftrightarrow> c_payout_attempted_at r' = c_payout_attempted_at r \<and>
     c_payout_checking_id r' = c_payout_checking_id r"

text \<open>What the parties agreed on and the secrets of the escrow.\<close>

definition terms_kept :: "deal_row \<Rightarrow> deal_row \<Rightarrow> bool" where
  "terms_kept r r' \<longleftrightarrow>
     c_id r' = c_id r \<and> c_freelancer_id r' = c_freelancer_id r \<and>
     c_client_email r' = c_client_email r \<and> c_title r' = c_title r \<and>
     c_amount_sats r' = c_amount_sats r \<and> c_source_platform r' = c_source_platform r \<and>
     c_preimage_hash r' = c_preimage_hash r \<and> c_preimage r' = c_preimage r \<and>
     c_invoice r' = c_invoice r \<and> c_checking_id r' = c_checking_id r \<and>
     c_created_at r' = c_created_at r"

lemmas row_set_defs = set_status_def set_dispute_def set_resolution_def

interpretation payout: service_frame payout_kept
  by unfold_locales (auto simp: payout_kept_def row_set_defs)

interpretation terms: escrow_frame terms_kept
  by unfold_locales (auto simp: terms_kept_def row_set_defs)

end
