(* ===== verification/Service_Effects.thy ===== *)
theory Service_Effects
  imports Service_Frames
begin

text \<open>
  What each request of \<open>Deal_Service\<close> does, on every branch: the statement it ran, the
  conditions under which it ran it, and what it added to the log.
\<close>

section \<open>Reading and writing one row\<close>

lemma get_bind_cases:
  assumes "bindE (Repo_GetDealByID P key i) k w = (r, w')"
  obtains (failed) e where "r = Inl e" "w_db w' = w_db w" "w_log w' = w_log w"
    "Repo_GetDealByID P key i w = (Inl e, w')"
  | (got) deal row w1 where "find_deal i (w_db w) = Some row" "scanDeal P key row = Inr deal"
      "ID deal = i" "w_db w1 = w_db w" "w_log w1 = w_log w" "k deal w1 = (r, w')"
proof -
  obtain q w1 where g: "Repo_GetDealByID P key i w = (q, w1)" by (cases "Repo_GetDealByID P key i w")
  from g have log: "w_log w1 = w_log w" by (rule same_logD) (rule keeps_log)
  from g have db: "w_db w1 = w_db w" by (rule same_dbD) (rule keeps_db)
  show thesis
  proof (cases q)
    case (Inl e)
    with assms g have "r = Inl e" "w' = w1" by (auto simp: bindE_def)
    with g log db Inl failed show thesis by blast
  next
    case (Inr deal)
    with g obtain row where "find_deal i (w_db w) = Some row" "scanDeal P key row = Inr deal"
      "ID deal = i" using get_deal_Inr by metis
    with assms g Inr log db got show thesis by (simp add: bindE_def)
  qed
qed

lemma token_bind_cases:
  assumes "bindE (Repo_GetDealByShareToken P key tok) k w = (r, w')"
  obtains (failed) e where "r = Inl e" "w_db w' = w_db w" "w_log w' = w_log w"
  | (got) deal row w1 where "select_row (\<lambda>r. c_share_token r = tok) (t_deals (w_db w)) = Some row"
      "scanDeal P key row = Inr deal" "w_db w1 = w_db w" "w_log w1 = w_log w" "k deal w1 = (r, w')"
proof -
  obtain q w1 where g: "Repo_GetDealByShareToken P key tok w = (q, w1)"
    by (cases "Repo_GetDealByShareToken P key tok w")
  from g have log: "w_log w1 = w_log w" by (rule same_logD) (rule keeps_log)
  from g have db: "w_db w1 = w_db w" by (rule same_dbD) (rule keeps_db)
  show thesis
  proof (cases q)
    case (Inl e)
    with assms g have "r = Inl e" "w' = w1" by (auto simp: bindE_def)
    with log db failed show thesis by blast
  next
    case (Inr deal)
    with g have "select_deal P key ''repository: get deal by share_token: ''
        (\<lambda>r. c_share_token r = tok) w = (Inr deal, w1)"
      by (simp add: Repo_GetDealByShareToken_def)
    then obtain row where "select_row (\<lambda>r. c_share_token r = tok) (t_deals (w_db w)) = Some row"
      "scanDeal P key row = Inr deal" by (rule select_deal_Inr)
    with assms g Inr log db got show thesis by (simp add: bindE_def)
  qed
qed

lemma UpdateStatus_run:
  assumes "Repo_UpdateStatus P i st w = (r, w')"
  obtains (failed) e where "r = Inl e" "w_db w' = w_db w" "w_log w' = w_log w"
  | (ran) now where "w_db w' = upd_deal i (set_status st now) (w_db w)" "w_log w' = w_log w"
proof -
  from assms have log: "w_log w' = w_log w" by (rule same_logD) (rule keeps_log)
  show thesis
  proof (cases r)
    case (Inr u)
    with assms have "Repo_UpdateStatus P i st w = (Inr u, w')" by simp
    then show thesis unfolding Repo_UpdateStatus_def
      by (rule update_key_Inr) (use ran log in blast)
  next
    case (Inl e)
    with assms have "Repo_UpdateStatus P i st w = (Inl e, w')" by simp
    then show thesis unfolding Repo_UpdateStatus_def
      by (rule update_key_any) (use failed ran log Inl in blast)+
  qed
qed

section \<open>Status moves of the freelancer\<close>

lemma Service_UpdateStatus_effect:
  assumes "Service_UpdateStatus s u i st w = (r, w')"
  obtains (refused) e where "r = Inl e" "w_db w' = w_db w" "w_log w' = w_log w"
  | (ran) row now where "find_deal i (w_db w) = Some row" "c_freelancer_id row = u"
      "\<not> money_status st" "CanTransition (c_status row) st"
      "w_db w' = upd_deal i (set_status st now) (w_db w)" "w_log w' = w_log w"
  using assms [unfolded Service_UpdateStatus_def UpdateStatus_check_def bindE_assoc]
proof (cases rule: get_bind_cases)
  case (failed e)
  then show thesis using refused by blast
next
  case (got deal row w1)
  note fields = scanDeal_fields(1,3) [OF got(2)]
  show thesis
  proof (cases "FreelancerID deal = u \<and> \<not> money_status st \<and> CanTransition (DealStatus deal) st")
    case True
    with got(6) have "Repo_UpdateStatus (sv_platform s) i st w1 = (r, w')" by simp
    then show thesis
      by (rule UpdateStatus_run) (use refused ran got fields True in auto)
  next
    case False
    with got(6) have "\<exists>e. r = Inl e" "w' = w1" by (auto split: if_splits)
    with refused got show thesis by auto
  qed
qed

lemma SubmitWork_effect:
  assumes "Service_SubmitWork s u i w = (r, w')"
  obtains (refused) e where "r = Inl e" "w_db w' = w_db w" "w_log w' = w_log w"
  | (ran) row now where "find_deal i (w_db w) = Some row" "c_freelancer_id row = u"
      "\<exists>a \<in> set (t_artifacts (w_db w)). a_DealID a = i"
      "CanTransition (c_status row) StatusWorkSubmitted"
      "w_db w' = upd_deal i (set_status StatusWorkSubmitted now) (w_db w)" "w_log w' = w_log w"
proof (cases "i = ''''")
  case True
  with assms refused show thesis
    by (auto simp: Service_SubmitWork_def SubmitWork_check_def)
next
  case i: False
  show thesis
    using assms [unfolded Service_SubmitWork_def SubmitWork_check_def if_not_P [OF i] bindE_assoc]
  proof (cases rule: get_bind_cases)
    case (failed e)
    then show thesis using refused by blast
  next
    case (got deal row w1)
    let ?list = "Repo_ListArtifactsByDeal (sv_platform s) i"
    note fields = scanDeal_fields(1,3) [OF got(2)]
    obtain q w2 where q: "?list w1 = (q, w2)" by (cases "?list w1")
    from q have "w_db w2 = w_db w1" by (rule same_dbD) (rule keeps_db)
    moreover from q have "w_log w2 = w_log w1" by (rule same_logD) (rule keeps_log)
    ultimately have w2: "w_db w2 = w_db w1" "w_log w2 = w_log w1" by blast+
    show thesis
    proof (cases "FreelancerID deal = u \<and> (\<exists>as. q = Inr as \<and> length as \<noteq> 0) \<and>
        CanTransition (DealStatus deal) StatusWorkSubmitted")
      case True
      then obtain as where as: "q = Inr as" "as \<noteq> []" by auto
      with q have "set as \<subseteq> {a \<in> set (t_artifacts (w_db w)). a_DealID a = i}"
        unfolding Repo_ListArtifactsByDeal_def using got by (auto elim!: query_run)
      with as(2) have art: "\<exists>a \<in> set (t_artifacts (w_db w)). a_DealID a = i"
        by (cases as) auto
      from got(6) True q as have "SubmitWork_write s i deal w2 = (r, w')"
        by (simp add: bindE_def wrapE_def)
      then obtain q2 where u: "Repo_UpdateStatus (sv_platform s) i StatusWorkSubmitted w2 = (q2, w')"
        and q2: "\<And>e. q2 = Inl e \<Longrightarrow> \<exists>e'. r = Inl e'"
        by (cases "Repo_UpdateStatus (sv_platform s) i StatusWorkSubmitted w2")
          (auto simp: SubmitWork_write_def bindE_def wrapE_def split: sum.splits)
      from u show thesis
        by (rule UpdateStatus_run) (use refused ran got w2 fields True art q2 in auto)
    next
      case False
      with got(6) q have "\<exists>e. r = Inl e" "w' = w1 \<or> w' = w2"
        by (auto simp: bindE_def wrapE_def split: if_splits sum.splits)
      with refused got w2 show thesis by auto
    qed
  qed
qed

section \<open>Disputes\<close>

lemma DisputeIfCurrent_run:
  assumes "Repo_UpdateDisputeIfCurrent P i ex x w = (r, w')"
  obtains (failed) e where "r = Inl e" "w_db w' = w_db w" "w_log w' = w_log w"
  | (ran) now where "w_db w' = upd_deal i (cas_row ex (set_dispute x now)) (w_db w)"
      "w_log w' = w_log w"
      "\<And>b. r = Inr b \<Longrightarrow> b \<longleftrightarrow> (\<exists>row. find_deal i (w_db w) = Some row \<and> c_status row = ex)"
proof -
  from assms have log: "w_log w' = w_log w" by (rule same_logD) (rule keeps_log)
  show thesis
  proof (cases r)
    case (Inr b)
    with assms have "Repo_UpdateDisputeIfCurrent P i ex x w = (Inr b, w')" by simp
    then show thesis unfolding Repo_UpdateDisputeIfCurrent_def
      by (rule cas_Inr) (use ran log Inr in auto)
  next
    case (Inl e)
    with assms have "Repo_UpdateDisputeIfCurrent P i ex x w = (Inl e, w')" by simp
    then show thesis unfolding Repo_UpdateDisputeIfCurrent_def
      by (rule cas_any) (use failed ran log Inl in auto)
  qed
qed

lemma StatusIfCurrent_run:
  assumes "Repo_UpdateStatusIfCurrent P i ex st w = (r, w')"
  obtains (failed) e where "r = Inl e" "w_db w' = w_db w" "w_log w' = w_log w"
  | (ran) now where "w_db w' = upd_deal i (cas_row ex (set_status st now)) (w_db w)"
      "w_log w' = w_log w"
      "\<And>b. r = Inr b \<Longrightarrow> b \<longleftrightarrow> (\<exists>row. find_deal i (w_db w) = Some row \<and> c_status row = ex)"
proof -
  from assms have log: "w_log w' = w_log w" by (rule same_logD) (rule keeps_log)
  show thesis
  proof (cases r)
    case (Inr b)
    with assms have "Repo_UpdateStatusIfCurrent P i ex st w = (Inr b, w')" by simp
    then show thesis unfolding Repo_UpdateStatusIfCurrent_def
      by (rule cas_Inr) (use ran log Inr in auto)
  next
    case (Inl e)
    with assms have "Repo_UpdateStatusIfCurrent P i ex st w = (Inl e, w')" by simp
    then show thesis unfolding Repo_UpdateStatusIfCurrent_def
      by (rule cas_any) (use failed ran log Inl in auto)
  qed
qed

text \<open>On a row in the expected status the conditional update is the plain one.\<close>

lemma cas_hit:
  assumes "find_deal i d = Some row" "c_status row = ex" "\<And>r. c_id (f r) = c_id r"
  shows "find_deal i (upd_deal i (cas_row ex f) d) = Some (f row)"
  using deals.lookup_alter_same [of "cas_row ex f" i d row] assms by (simp add: cas_row_def)

lemma notify_run:
  assumes "notify s n d w = (r, w')"
  shows "r = Inr ()" "w_db w' = w_db w"
    "w_log w' = w_log w @ (if sv_notifier s then [EvNotify n d] else [])"
  using assms by (auto simp: notify_def log_event_def split: if_splits)

lemma time_now_run:
  assumes "time_now P w = (r, w')"
  shows "\<exists>t. r = Inr t" "w_db w' = w_db w" "w_log w' = w_log w"
  using assms by (auto simp: time_now_def split: prod.splits)

lemma DisputeDeal_effect:
  assumes "Service_DisputeDeal s em i x w = (r, w')"
  obtains (refused) e where "r = Inl e" "w_db w' = w_db w" "w_log w' = w_log w"
  | (lost) e row now where "r = Inl e" "find_deal i (w_db w) = Some row"
      "EqualFold (uni_fold (sv_platform s)) (c_client_email row) em"
      "CanTransition (c_status row) StatusDisputed"
      "w_db w' = upd_deal i (cas_row (c_status row) (set_dispute (TrimSpace x) now)) (w_db w)"
      "w_log w' = w_log w"
  | (ran) d row now where "r = Inr d" "find_deal i (w_db w) = Some row"
      "EqualFold (uni_fold (sv_platform s)) (c_client_email row) em"
      "CanTransition (c_status row) StatusDisputed" "TrimSpace x \<noteq> ''''"
      "length (runes (TrimSpace x)) \<le> maxDisputeReasonRunes"
      "w_db w' = upd_deal i (cas_row (c_status row) (set_dispute (TrimSpace x) now)) (w_db w)"
      "w_log w' = w_log w @ (if sv_notifier s then [EvNotify DealDisputed d] else [])"
      "ID d = i" "DealStatus d = StatusDisputed" "DisputeReason d = TrimSpace x"
proof -
  let ?P = "sv_platform s" and ?x = "TrimSpace x"
  consider "i = '''' \<or> ?x = '''' \<or> length (runes ?x) > maxDisputeReasonRunes"
    | "i \<noteq> ''''" "?x \<noteq> ''''" "\<not> length (runes ?x) > maxDisputeReasonRunes" by blast
  then show thesis
  proof cases
    case 1
    with assms refused show thesis by (auto simp: Service_DisputeDeal_def Let_def split: if_splits)
  next
    case 2
    show thesis
      using assms [unfolded Service_DisputeDeal_def Let_def if_not_P [OF 2(1)] if_not_P [OF 2(2)]
        if_not_P [OF 2(3)]]
    proof (cases rule: get_bind_cases)
      case (failed e)
      then show thesis using refused by blast
    next
      case (got deal row w1)
      note fields = scanDeal_fields(2,3) [OF got(2)]
      show thesis
      proof (cases "EqualFold (uni_fold ?P) (ClientEmail deal) em \<and>
          CanTransition (DealStatus deal) StatusDisputed")
        case False
        with got(6) have "\<exists>e. r = Inl e" "w' = w1" by (auto split: if_splits)
        with refused got show thesis by auto
      next
        case True
        obtain q w2 where q: "Repo_UpdateDisputeIfCurrent ?P i (DealStatus deal) ?x w1 = (q, w2)"
          by (cases "Repo_UpdateDisputeIfCurrent ?P i (DealStatus deal) ?x w1")
        from q show thesis
        proof (cases rule: DisputeIfCurrent_run)
          case (failed e)
          with got True q have "\<exists>e. r = Inl e" "w' = w2" by (auto simp: bindE_def wrapE_def)
          with refused got failed show thesis by auto
        next
          case (ran now)
          show thesis
          proof (cases "q = Inr True")
            case False
            with got True q have "\<exists>e. r = Inl e" "w' = w2"
              by (auto simp: bindE_def wrapE_def split: sum.splits if_splits)
            with lost got ran fields True show thesis by auto
          next
            case hit: True
            obtain t w3 where t: "time_now ?P w2 = (Inr t, w3)"
              using time_now_run(1) by (metis prod.collapse)
            let ?d = "deal\<lparr>DealStatus := StatusDisputed, DisputeReason := ?x, DisputedAt := Some t\<rparr>"
            obtain y w4 where n: "notify s DealDisputed ?d w3 = (y, w4)"
              by (cases "notify s DealDisputed ?d w3")
            from got True q hit t n notify_run(1) [OF n] have "r = Inr ?d" "w' = w4"
              by (auto simp: bindE_def wrapE_def)
            with that(3) [of ?d row now] got ran fields True 2 notify_run [OF n] time_now_run [OF t]
            show thesis by simp
          qed
        qed
      qed
    qed
  qed
qed

section \<open>Payment detection\<close>

lemma CheckPayment_run:
  assumes "Client_CheckPayment (sv_platform s) (sv_lnbits s) i w = (r, w')"
  obtains evs where "w_db w' = w_db w" "w_log w' = w_log w @ evs"
    "\<forall>ev \<in> set evs. \<exists>res. ev = EvHttp (check_request (sv_lnbits s) i) res"
    "\<And>p. r = Inr p \<Longrightarrow> \<exists>ev. evs = [ev] \<and> payment_answer s i (\<lambda>q. q = p) ev"
proof -
  from assms have db: "w_db w' = w_db w" by (rule check_call.call_state)
  obtain evs where evs: "w_log w' = w_log w @ evs"
    "\<forall>ev \<in> set evs. \<exists>res. ev = EvHttp (check_request (sv_lnbits s) i) res"
    using runs_inD [OF check_call.call_log assms] by (auto simp: log_adds_def)
  have "\<exists>ev. evs = [ev] \<and> payment_answer s i (\<lambda>q. q = p) ev" if "r = Inr p" for p
  proof -
    from assms that have "Client_CheckPayment (sv_platform s) (sv_lnbits s) i w = (Inr p, w')" by simp
    then show ?thesis by (rule CheckPayment_success) (use evs in \<open>auto simp: payment_answer_def\<close>)
  qed
  with db evs that show thesis by blast
qed

lemma payment_answer_mono:
  "payment_answer s i Q ev \<Longrightarrow> (\<And>p. Q p \<Longrightarrow> R p) \<Longrightarrow> payment_answer s i R ev"
  unfolding payment_answer_def by blast

text \<open>What an event of the payment detection is.\<close>

definition check_or_notice :: "'e svc \<Rightarrow> event \<Rightarrow> bool" where
  "check_or_notice s ev \<longleftrightarrow>
     (\<exists>i res. ev = EvHttp (check_request (sv_lnbits s) i) res) \<or> (\<exists>n d. ev = EvNotify n d)"

lemma check_or_notice_simps [simp]:
  "check_or_notice s (EvNotify n d)" "check_or_notice s (EvHttp (check_request (sv_lnbits s) i) res)"
  by (auto simp: check_or_notice_def)

lemma check_or_notice_read_only: "check_or_notice s ev \<Longrightarrow> read_only ev"
  by (auto simp: check_or_notice_def)

lemma check_or_notice_money: "check_or_notice s ev \<Longrightarrow> \<not> money_event (sv_lnbits s) ev"
  by (auto simp: check_or_notice_def)

lemma refresh_effect:
  assumes "refreshPaymentStatus s deal w = (r, w')"
  obtains (same) evs where "w_db w' = w_db w" "w_log w' = w_log w @ evs"
      "\<forall>ev \<in> set evs. check_or_notice s ev" "\<And>d. r = Inr d \<Longrightarrow> d = deal"
  | (locked) evs ev now where "w_log w' = w_log w @ evs" "\<forall>ev \<in> set evs. check_or_notice s ev"
      "ev \<in> set evs" "payment_answer s (CheckingID deal) cp_Paid ev"
      "DealStatus deal = StatusAwaitingPayment"
      "w_db w' = upd_deal (ID deal) (cas_row StatusAwaitingPayment (set_status StatusLocked now)) (w_db w)"
      "\<And>d. r = Inr d \<Longrightarrow> d = deal\<lparr>DealStatus := StatusLocked\<rparr> \<or> d = deal"
proof -
  let ?P = "sv_platform s"
  obtain q w1 where q: "Client_CheckPayment ?P (sv_lnbits s) (CheckingID deal) w = (q, w1)"
    by (cases "Client_CheckPayment ?P (sv_lnbits s) (CheckingID deal) w")
  from q obtain evs where e: "w_db w1 = w_db w" "w_log w1 = w_log w @ evs"
    "\<forall>ev \<in> set evs. \<exists>res. ev = EvHttp (check_request (sv_lnbits s) (CheckingID deal)) res"
    "\<And>p. q = Inr p \<Longrightarrow> \<exists>ev. evs = [ev] \<and> payment_answer s (CheckingID deal) (\<lambda>q. q = p) ev"
    by (rule CheckPayment_run) blast
  have con: "\<forall>ev \<in> set evs. check_or_notice s ev" using e(3) by fastforce
  show thesis
  proof (cases "\<exists>p. q = Inr p \<and> cp_Paid p \<and> DealStatus deal = StatusAwaitingPayment")
    case False
    with assms q have "w' = w1" "\<And>d. r = Inr d \<Longrightarrow> d = deal"
      by (auto simp: refreshPaymentStatus_def bindE_def split: sum.splits if_splits)
    with same e con show thesis by auto
  next
    case True
    then obtain p where p: "q = Inr p" "cp_Paid p" "DealStatus deal = StatusAwaitingPayment" by blast
    from e(4) [OF p(1)] obtain ev where "evs = [ev]"
      "payment_answer s (CheckingID deal) (\<lambda>q. q = p) ev" by blast
    then have ev: "ev \<in> set evs" "payment_answer s (CheckingID deal) cp_Paid ev"
      using payment_answer_mono [of s "CheckingID deal" "\<lambda>q. q = p" ev cp_Paid] p(2) by auto
    obtain b w2 where u: "Repo_UpdateStatusIfCurrent ?P (ID deal) StatusAwaitingPayment StatusLocked w1
        = (b, w2)"
      by (cases "Repo_UpdateStatusIfCurrent ?P (ID deal) StatusAwaitingPayment StatusLocked w1")
    have run: "r = Inl z \<and> w' = w2" if "b = Inl z" for z
      using assms q p u that by (auto simp: refreshPaymentStatus_def bindE_def)
    have miss: "r = Inr deal \<and> w' = w2" if "b = Inr False"
      using assms q p u that by (auto simp: refreshPaymentStatus_def bindE_def)
    have hit: "\<exists>ns. w_db w' = w_db w2 \<and> w_log w' = w_log w2 @ ns \<and>
        (\<forall>x \<in> set ns. check_or_notice s x) \<and> r = Inr (deal\<lparr>DealStatus := StatusLocked\<rparr>)"
      if "b = Inr True"
    proof -
      obtain y w3 where n: "notify s PaymentLocked (deal\<lparr>DealStatus := StatusLocked\<rparr>) w2 = (y, w3)"
        by (cases "notify s PaymentLocked (deal\<lparr>DealStatus := StatusLocked\<rparr>) w2")
      with assms q p u that notify_run(1) [OF n]
      have "w' = w3" "r = Inr (deal\<lparr>DealStatus := StatusLocked\<rparr>)"
        by (auto simp: refreshPaymentStatus_def bindE_def Let_def)
      with notify_run [OF n] show ?thesis by auto
    qed
    obtain ns where ns: "w_db w' = w_db w2" "w_log w' = w_log w2 @ ns"
      "\<forall>x \<in> set ns. check_or_notice s x"
      "\<And>d. r = Inr d \<Longrightarrow> d = deal\<lparr>DealStatus := StatusLocked\<rparr> \<or> d = deal"
    proof (cases b)
      case (Inl z)
      from run [OF Inl] that [of "[]"] show thesis by simp
    next
      case (Inr c)
      show thesis
      proof (cases c)
        case True
        with Inr hit obtain ns where "w_db w' = w_db w2" "w_log w' = w_log w2 @ ns"
          "\<forall>x \<in> set ns. check_or_notice s x" "r = Inr (deal\<lparr>DealStatus := StatusLocked\<rparr>)" by blast
        then show thesis by (intro that) auto
      next
        case False
        with Inr have "b = Inr False" by simp
        from miss [OF this] show thesis by (intro that [of "[]"]) auto
      qed
    qed
    from u show thesis
    proof (cases rule: StatusIfCurrent_run)
      case (failed z)
      with ns e con run [OF failed(1)] show thesis by (intro same [of "evs @ ns"]) auto
    next
      case (ran now)
      with ns e con ev p locked [of "evs @ ns" ev now] show thesis by auto
    qed
  qed
qed

lemma Service_CheckPayment_effect:
  assumes "Service_CheckPayment s u i w = (r, w')"
  obtains (same) evs where "w_db w' = w_db w" "w_log w' = w_log w @ evs"
      "\<forall>ev \<in> set evs. check_or_notice s ev"
  | (locked) evs ev now row where "w_log w' = w_log w @ evs" "\<forall>ev \<in> set evs. check_or_notice s ev"
      "ev \<in> set evs" "find_deal i (w_db w) = Some row" "c_freelancer_id row = u"
      "c_status row = StatusAwaitingPayment"
      "payment_answer s (null_str (c_checking_id row)) cp_Paid ev"
      "w_db w' = upd_deal i (cas_row StatusAwaitingPayment (set_status StatusLocked now)) (w_db w)"
  using assms [unfolded Service_CheckPayment_def]
proof (cases rule: get_bind_cases)
  case (failed e)
  with same [of "[]"] show thesis by simp
next
  case (got deal row w1)
  note fields = scanDeal_fields(1,3,8) [OF got(2)]
  show thesis
  proof (cases "FreelancerID deal = u \<and> CheckingID deal \<noteq> ''''")
    case False
    with got(6) have "w' = w1" by (auto split: if_splits)
    with got same [of "[]"] show thesis by simp
  next
    case True
    with got(6) obtain q where "refreshPaymentStatus s deal w1 = (q, w')"
      by (cases "refreshPaymentStatus s deal w1") (auto simp: wrapE_def split: sum.splits)
    then show thesis
      by (cases rule: refresh_effect) (use same locked got fields True in auto)
  qed
qed

lemma traverse_mem: "traverse f xs = Inr ys \<Longrightarrow> y \<in> set ys \<Longrightarrow> \<exists>x \<in> set xs. f x = Inr y"
  by (induction xs arbitrary: ys) (auto split: sum.splits)

section \<open>The sweep\<close>

definition swept :: "'e svc \<Rightarrow> Deal list \<Rightarrow> event list \<Rightarrow> string \<Rightarrow> deal_row \<Rightarrow> deal_row \<Rightarrow> bool" where
  "swept s ds evs i row row' \<longleftrightarrow> row' = row \<or>
     (row' = row\<lparr>c_status := StatusRefunded\<rparr> \<and>
      (\<exists>d \<in> set ds. ID d = i \<and> DealStatus d = c_status row \<and> CheckingID d \<noteq> '''' \<and>
         (\<exists>ev \<in> set evs. payment_answer s (CheckingID d)
            (\<lambda>p. isHoldReleased (cd_Status (cp_Details p))) ev)))"

definition sweep_step :: "'e svc \<Rightarrow> Deal list \<Rightarrow> event list \<Rightarrow> database \<Rightarrow> database \<Rightarrow> bool" where
  "sweep_step s ds evs d d' \<longleftrightarrow>
     (\<forall>i row. find_deal i d = Some row \<longrightarrow>
        (\<exists>row'. find_deal i d' = Some row' \<and> swept s ds evs i row row'))"

lemma sweep_step_refl: "sweep_step s ds evs d d"
  by (simp add: sweep_step_def swept_def)

lemma swept_mono:
  "swept s ds evs i row row' \<Longrightarrow> set ds \<subseteq> set ds' \<Longrightarrow> set evs \<subseteq> set evs' \<Longrightarrow>
   swept s ds' evs' i row row'"
  unfolding swept_def by blast

lemma sweep_step_trans:
  assumes "sweep_step s ds evs a b" and "sweep_step s ds' evs' b c"
    and "set ds \<subseteq> set ds''" "set ds' \<subseteq> set ds''" "set evs \<subseteq> set evs''" "set evs' \<subseteq> set evs''"
  shows "sweep_step s ds'' evs'' a c"
  unfolding sweep_step_def
proof (intro allI impI)
  fix i row assume "find_deal i a = Some row"
  with assms(1) obtain q where q: "find_deal i b = Some q" "swept s ds evs i row q"
    by (auto simp: sweep_step_def)
  with assms(2) obtain p where p: "find_deal i c = Some p" "swept s ds' evs' i q p"
    by (auto simp: sweep_step_def)
  note q2 = swept_mono [OF q(2) assms(3,5)] and p2 = swept_mono [OF p(2) assms(4,6)]
  have "swept s ds'' evs'' i row p"
  proof (cases "q = row")
    case True
    with p2 show ?thesis by simp
  next
    case False
    with q2 have "q = row\<lparr>c_status := StatusRefunded\<rparr>" by (auto simp: swept_def)
    with p2 have "p = q" by (auto simp: swept_def)
    with q2 show ?thesis by simp
  qed
  with p(1) show "\<exists>row'. find_deal i c = Some row' \<and> swept s ds'' evs'' i row row'" by blast
qed

lemma sweep_cas:
  assumes "CheckingID d \<noteq> ''''" and "ev \<in> set evs"
    and "payment_answer s (CheckingID d) (\<lambda>p. isHoldReleased (cd_Status (cp_Details p))) ev"
  shows "sweep_step s (d # ds) evs db
    (upd_deal (ID d) (cas_row (DealStatus d) (set_status StatusRefunded now)) db)"
  unfolding sweep_step_def
proof (intro allI impI)
  fix i row assume row: "find_deal i db = Some row"
  let ?f = "cas_row (DealStatus d) (set_status StatusRefunded now)"
  have id: "c_id (?f r) = c_id r" for r by (simp add: cas_row_def)
  show "\<exists>row'. find_deal i (upd_deal (ID d) ?f db) = Some row' \<and> swept s (d # ds) evs i row row'"
  proof (cases "ID d = i")
    case True
    with row have "find_deal i (upd_deal (ID d) ?f db) = Some (?f row)"
      by (simp add: deals.lookup_alter_same id)
    moreover have "swept s (d # ds) evs i row (?f row)"
      using assms True by (auto simp: swept_def cas_row_def set_status_def)
    ultimately show ?thesis by blast
  next
    case False
    with row show ?thesis by (simp add: deals.lookup_alter_other id swept_def)
  qed
qed

lemma sweep_deals_effect:
  assumes "sweep_deals s ds n w = (r, w')"
  shows "\<exists>evs. w_log w' = w_log w @ evs \<and> (\<forall>ev \<in> set evs. check_or_notice s ev) \<and>
    sweep_step s ds evs (w_db w) (w_db w')"
  using assms
proof (induction ds arbitrary: n w)
  case Nil
  then show ?case by (simp add: sweep_step_refl)
next
  case (Cons d ds)
  let ?P = "sv_platform s" and ?c = "sv_lnbits s"
  have rest: ?case if "sweep_deals s ds m u = (r, w')" "w_log u = w_log w @ a"
    "\<forall>ev \<in> set a. check_or_notice s ev" "sweep_step s (d # ds) a (w_db w) (w_db u)" for m u a
  proof -
    from Cons.IH [OF that(1)] obtain b where b: "w_log w' = w_log u @ b"
      "\<forall>ev \<in> set b. check_or_notice s ev" "sweep_step s ds b (w_db u) (w_db w')" by blast
    have "sweep_step s (d # ds) (a @ b) (w_db w) (w_db w')"
      by (rule sweep_step_trans [OF that(4) b(3)]) auto
    with b that(2,3) show ?thesis by (intro exI [of _ "a @ b"]) auto
  qed
  show ?case
  proof (cases "CheckingID d = ''''")
    case True
    with Cons.prems show ?thesis by (intro rest [of n w "[]"]) (simp_all add: sweep_step_refl)
  next
    case cid: False
    obtain q w1 where q: "Client_CheckPayment ?P ?c (CheckingID d) w = (q, w1)"
      by (cases "Client_CheckPayment ?P ?c (CheckingID d) w")
    from q obtain a where a: "w_db w1 = w_db w" "w_log w1 = w_log w @ a"
      "\<forall>ev \<in> set a. \<exists>res. ev = EvHttp (check_request ?c (CheckingID d)) res"
      "\<And>p. q = Inr p \<Longrightarrow> \<exists>ev. a = [ev] \<and> payment_answer s (CheckingID d) (\<lambda>q. q = p) ev"
      by (rule CheckPayment_run) blast
    have con: "\<forall>ev \<in> set a. check_or_notice s ev" using a(3) by fastforce
    show ?thesis
    proof (cases "\<exists>p. q = Inr p \<and> cd_Status (cp_Details p) \<in> {''UNPAID'', ''EXPIRED'', ''CANCELLED''}")
      case False
      with Cons.prems cid q have "sweep_deals s ds n w1 = (r, w')"
        by (auto simp: bindR_def split: sum.splits if_splits)
      with a con show ?thesis by (intro rest [of n w1 a]) (simp_all add: sweep_step_refl)
    next
      case True
      then obtain p where p: "q = Inr p" "isHoldReleased (cd_Status (cp_Details p))"
        by (auto simp: isHoldReleased_def)
      from a(4) [OF p(1)] obtain ev where ev: "ev \<in> set a"
        "payment_answer s (CheckingID d) (\<lambda>p. isHoldReleased (cd_Status (cp_Details p))) ev"
        using payment_answer_mono [of s "CheckingID d" "\<lambda>q. q = p"] p(2) by fastforce
      obtain b w2 where u: "Repo_UpdateStatusIfCurrent ?P (ID d) (DealStatus d) StatusRefunded w1
          = (b, w2)"
        by (cases "Repo_UpdateStatusIfCurrent ?P (ID d) (DealStatus d) StatusRefunded w1")
      have step: "sweep_step s (d # ds) a (w_db w) (w_db w2)" "w_log w2 = w_log w1"
        using u by (cases rule: StatusIfCurrent_run,
          use sweep_cas [OF cid ev] a(1) in \<open>auto simp: sweep_step_refl\<close>)+
      show ?thesis
      proof (cases "b = Inr True")
        case False
        with Cons.prems cid q p u have "sweep_deals s ds n w2 = (r, w')"
          by (auto simp: bindR_def isHoldReleased_def split: sum.splits)
        with a con step show ?thesis by (intro rest [of n w2 a]) simp_all
      next
        case hit: True
        obtain y w3 where n: "notify s DealRefunded (d\<lparr>DealStatus := StatusRefunded\<rparr>) w2 = (y, w3)"
          by (cases "notify s DealRefunded (d\<lparr>DealStatus := StatusRefunded\<rparr>) w2")
        note nr = notify_run [OF n]
        from Cons.prems cid q p u hit n nr(1) have "sweep_deals s ds (Suc n) w3 = (r, w')"
          by (auto simp: bindR_def bindE_def isHoldReleased_def)
        moreover have "sweep_step s (d # ds)
            (a @ (if sv_notifier s then [EvNotify DealRefunded (d\<lparr>DealStatus := StatusRefunded\<rparr>)] else []))
            (w_db w) (w_db w3)"
          unfolding nr(2)
          by (rule sweep_step_trans [OF step(1) sweep_step_refl [of s "[]" "[]"]]) auto
        ultimately show ?thesis
          using a con step nr
          by (intro rest [of "Suc n" w3 "a @ (if sv_notifier s
              then [EvNotify DealRefunded (d\<lparr>DealStatus := StatusRefunded\<rparr>)] else [])"]) auto
      qed
    qed
  qed
qed

lemma SweepExpiredHolds_effect:
  assumes "Service_SweepExpiredHolds s cutoff w = (r, w')"
    and "distinct (map c_id (t_deals (w_db w)))"
  obtains evs where "w_log w' = w_log w @ evs" "\<forall>ev \<in> set evs. check_or_notice s ev"
    "\<And>i row. find_deal i (w_db w) = Some row \<Longrightarrow> \<exists>row'. find_deal i (w_db w') = Some row' \<and>
       (row' = row \<or>
        (row' = row\<lparr>c_status := StatusRefunded\<rparr> \<and> c_status row \<in> set open_statuses \<and>
         c_created_at row < cutoff \<and>
         (\<exists>ev \<in> set evs. payment_answer s (null_str (c_checking_id row))
            (\<lambda>p. isHoldReleased (cd_Status (cp_Details p))) ev)))"
proof -
  let ?P = "sv_platform s" and ?list = "Repo_ListOpenBefore (sv_platform s) (sv_key s) cutoff"
  obtain q w1 where q: "?list w = (q, w1)" by (cases "?list w")
  from q have db: "w_db w1 = w_db w" by (rule same_dbD) (rule keeps_db)
  from q have log: "w_log w1 = w_log w" by (rule same_logD) (rule keeps_log)
  show thesis
  proof (cases q)
    case (Inl e)
    with assms q have "w' = w1" by (simp add: Service_SweepExpiredHolds_def bindE_def)
    with db log that [of "[]"] show thesis by simp
  next
    case (Inr ds)
    from q Inr obtain rs where rs: "traverse (scanDeal ?P (sv_key s)) rs = Inr ds"
      "\<forall>r \<in> set rs. r \<in> set (t_deals (w_db w)) \<and> c_status r \<in> set open_statuses \<and>
         c_created_at r < cutoff"
      unfolding Repo_ListOpenBefore_def select_deals_def
      by (auto simp: bindE_Inr_iff wrapE_Inr_iff elim!: query_run)
    have listed: "c_status row \<in> set open_statuses \<and> c_created_at row < cutoff \<and>
        CheckingID d = null_str (c_checking_id row)"
      if "find_deal i (w_db w) = Some row" "d \<in> set ds" "ID d = i" for i d row
    proof -
      from traverse_mem [OF rs(1) that(2)] obtain row2 where r2: "row2 \<in> set rs"
        "scanDeal ?P (sv_key s) row2 = Inr d" by blast
      with rs(2) that(3) have "row2 \<in> set (t_deals (w_db w))" "c_id row2 = i"
        by (auto dest: scanDeal_ID)
      with select_key_distinct [OF assms(2)] that(1) have "row2 = row"
        by (auto simp: find_deal_def)
      with r2 rs(2) show ?thesis by (auto simp: scanDeal_fields(8))
    qed
    from assms q Inr have "sweep_deals s ds 0 w1 = (r, w')"
      by (simp add: Service_SweepExpiredHolds_def bindE_def)
    from sweep_deals_effect [OF this] obtain evs where evs: "w_log w' = w_log w1 @ evs"
      "\<forall>ev \<in> set evs. check_or_notice s ev" "sweep_step s ds evs (w_db w1) (w_db w')" by blast
    show thesis
    proof (rule that [of evs])
      fix i row assume row: "find_deal i (w_db w) = Some row"
      with evs(3) db obtain row' where row': "find_deal i (w_db w') = Some row'"
        "swept s ds evs i row row'" by (auto simp: sweep_step_def)
      have "row' = row \<or>
        (row' = row\<lparr>c_status := StatusRefunded\<rparr> \<and> c_status row \<in> set open_statuses \<and>
         c_created_at row < cutoff \<and>
         (\<exists>ev \<in> set evs. payment_answer s (null_str (c_checking_id row))
            (\<lambda>p. isHoldReleased (cd_Status (cp_Details p))) ev))"
        using row'(2) unfolding swept_def
      proof (elim disjE conjE bexE)
        fix d ev assume "row' = row\<lparr>c_status := StatusRefunded\<rparr>" and d: "d \<in> set ds" "ID d = i"
          and "ev \<in> set evs" "payment_answer s (CheckingID d)
            (\<lambda>p. isHoldReleased (cd_Status (cp_Details p))) ev"
        with listed [OF row d] show ?thesis by auto
      qed simp
      with row'(1) show "\<exists>row'. find_deal i (w_db w') = Some row' \<and> (row' = row \<or>
        (row' = row\<lparr>c_status := StatusRefunded\<rparr> \<and> c_status row \<in> set open_statuses \<and>
         c_created_at row < cutoff \<and>
         (\<exists>ev \<in> set evs. payment_answer s (null_str (c_checking_id row))
            (\<lambda>p. isHoldReleased (cd_Status (cp_Details p))) ev)))" by blast
    qed (use evs log in simp_all)
  qed
qed

section \<open>Payee invoice and share link\<close>

definition terminal :: "Status \<Rightarrow> bool" where
  "terminal st \<longleftrightarrow> st = StatusReleased \<or> st = StatusRefunded"

lemma key_update_run:
  assumes "require_row (update_deals P pre (\<lambda>r. c_id r = i) f) w = (r, w')"
  obtains (failed) e where "r = Inl e" "w_db w' = w_db w" "w_log w' = w_log w"
  | (lost) e now where "r = Inl e" "w_db w' = upd_deal i (f now) (w_db w)" "w_log w' = w_log w"
      "deals_constraint (t_deals (w_db w')) = None"
  | (ran) now where "r = Inr ()" "w_db w' = upd_deal i (f now) (w_db w)" "w_log w' = w_log w"
      "deals_constraint (t_deals (w_db w')) = None"
proof -
  from assms have log: "w_log w' = w_log w"
    by (rule same_logD) (intro keeps_log)
  show thesis
  proof (cases r)
    case (Inr u)
    with assms have "require_row (update_deals P pre (\<lambda>r. c_id r = i) f) w = (Inr u, w')" by simp
    then show thesis by (rule update_key_Inr) (use ran log Inr in auto)
  next
    case (Inl e)
    from assms show thesis by (rule update_key_any) (use failed lost log Inl in auto)
  qed
qed

lemma UpdatePayeeInvoice_effect:
  assumes "Service_UpdatePayeeInvoice s u i b w = (r, w')"
  obtains (same) "w_db w' = w_db w" "w_log w' = w_log w"
  | (ran) row where "find_deal (TrimSpace i) (w_db w) = Some row" "c_freelancer_id row = u"
      "\<not> terminal (c_status row)" "w_log w' = w_log w"
      "w_db w' = upd_deal (TrimSpace i) (\<lambda>r. r\<lparr>c_payee_invoice := Some (TrimSpace b)\<rparr>) (w_db w)"
      "\<And>d. r = Inr d \<Longrightarrow> PayeeInvoice d = TrimSpace b"
proof -
  let ?P = "sv_platform s" and ?i = "TrimSpace i" and ?b = "TrimSpace b"
  show thesis
  proof (cases "?i = '''' \<or> ?b = ''''")
    case True
    with assms same show thesis by (auto simp: Service_UpdatePayeeInvoice_def Let_def split: if_splits)
  next
    case False
    then have ne: "?i \<noteq> ''''" "?b \<noteq> ''''" by auto
    show thesis
      using assms [unfolded Service_UpdatePayeeInvoice_def Let_def if_not_P [OF ne(1)]
        if_not_P [OF ne(2)]]
    proof (cases rule: get_bind_cases)
      case (failed e)
      then show thesis using same by blast
    next
      case (got deal row w1)
      note fields = scanDeal_fields(1,3) [OF got(2)]
      show thesis
      proof (cases "FreelancerID deal = u \<and> \<not> terminal (DealStatus deal) \<and> PayeeInvoice deal \<noteq> ?b")
        case False
        with got(6) have "w' = w1" by (auto simp: terminal_def split: if_splits)
        with same got show thesis by simp
      next
        case True
        obtain q w2 where q: "Repo_UpdatePayeeInvoice ?P ?i ?b w1 = (q, w2)"
          by (cases "Repo_UpdatePayeeInvoice ?P ?i ?b w1")
        from got(6) True q have w': "w' = w2" and r: "\<And>d. r = Inr d \<Longrightarrow> PayeeInvoice d = ?b"
          by (auto simp: terminal_def bindE_def wrapE_def split: sum.splits)
        from q [unfolded Repo_UpdatePayeeInvoice_def] show thesis
          by (cases rule: key_update_run) (use same ran got True fields w' r in auto)
      qed
    qed
  qed
qed

lemma generateShareToken_run:
  assumes "generateShareToken P w = (r, w')"
  shows "w_db w' = w_db w" "w_log w' = w_log w" "r = Inr tok \<Longrightarrow> url_safe tok"
  using assms
  by (auto simp: generateShareToken_def bindE_def read_rand_def RawURL_safe
      split: prod.splits sum.splits)

lemma RotateShareLink_effect:
  assumes "Service_RotateShareLink s u i w = (r, w')"
  obtains (refused) e where "r = Inl e" "w_db w' = w_db w" "w_log w' = w_log w"
  | (lost) e row tok where "r = Inl e" "find_deal i (w_db w) = Some row" "c_freelancer_id row = u"
      "\<not> terminal (c_status row)" "w_log w' = w_log w"
      "w_db w' = upd_deal i (\<lambda>r. r\<lparr>c_share_token := tok\<rparr>) (w_db w)"
  | (ran) d row where "r = Inr d" "find_deal i (w_db w) = Some row" "c_freelancer_id row = u"
      "\<not> terminal (c_status row)" "w_log w' = w_log w"
      "w_db w' = upd_deal i (\<lambda>r. r\<lparr>c_share_token := ShareToken d\<rparr>) (w_db w)"
      "deals_constraint (t_deals (w_db w')) = None" "url_safe (ShareToken d)"
proof (cases "i = ''''")
  case True
  with assms refused show thesis by (auto simp: Service_RotateShareLink_def)
next
  case i: False
  let ?P = "sv_platform s"
  show thesis
    using assms [unfolded Service_RotateShareLink_def if_not_P [OF i]]
  proof (cases rule: get_bind_cases)
    case (failed e)
    then show thesis using refused by blast
  next
    case (got deal row w1)
    note fields = scanDeal_fields(1,3) [OF got(2)]
    show thesis
    proof (cases "FreelancerID deal = u \<and> \<not> terminal (DealStatus deal)")
      case False
      with got(6) have "\<exists>e. r = Inl e" "w' = w1" by (auto simp: terminal_def split: if_splits)
      with refused got show thesis by auto
    next
      case True
      obtain t w2 where t: "generateShareToken ?P w1 = (t, w2)" by (cases "generateShareToken ?P w1")
      note t' = generateShareToken_run [OF t]
      show thesis
      proof (cases t)
        case (Inl e)
        with got(6) True t have "\<exists>e. r = Inl e" "w' = w2"
          by (auto simp: terminal_def bindE_def wrapE_def)
        with refused got t' show thesis by auto
      next
        case (Inr tok)
        obtain q w3 where q: "Repo_UpdateShareToken ?P i tok w2 = (q, w3)"
          by (cases "Repo_UpdateShareToken ?P i tok w2")
        from got(6) True t Inr q have w': "w' = w3"
          and r: "\<And>x. q = Inr x \<Longrightarrow> r = Inr (deal\<lparr>ShareToken := tok\<rparr>)"
            "\<And>e. q = Inl e \<Longrightarrow> \<exists>e. r = Inl e"
          by (auto simp: terminal_def bindE_def wrapE_def split: sum.splits)
        from q [unfolded Repo_UpdateShareToken_def] show thesis
        proof (cases rule: key_update_run)
          case (failed e)
          with r(2) [OF failed(1)] refused got t' w' show thesis by auto
        next
          case (lost e now)
          with r(2) [OF lost(1)] that(2) got t' w' True fields show thesis by auto
        next
          case (ran now)
          with r(1) [OF ran(1)] that(3) [of "deal\<lparr>ShareToken := tok\<rparr>" row] got t' Inr w' True fields
          show thesis by simp
        qed
      qed
    qed
  qed
qed

lemma GetPublicDeal_effect:
  assumes "Service_GetPublicDeal s tok w = (r, w')"
  obtains (same) evs where "w_db w' = w_db w" "w_log w' = w_log w @ evs"
      "\<forall>ev \<in> set evs. check_or_notice s ev"
      "\<And>v. r = Inr v \<Longrightarrow> \<exists>row deal. select_row (\<lambda>r. c_share_token r = tok) (t_deals (w_db w)) = Some row \<and>
         scanDeal (sv_platform s) (sv_key s) row = Inr deal \<and>
         (v = PublicView deal \<or> v = PublicView (deal\<lparr>DealStatus := StatusLocked\<rparr>))"
  | (locked) evs ev now row where "w_log w' = w_log w @ evs" "\<forall>ev \<in> set evs. check_or_notice s ev"
      "ev \<in> set evs" "select_row (\<lambda>r. c_share_token r = tok) (t_deals (w_db w)) = Some row"
      "c_status row = StatusAwaitingPayment"
      "payment_answer s (null_str (c_checking_id row)) cp_Paid ev"
      "w_db w' = upd_deal (c_id row) (cas_row StatusAwaitingPayment (set_status StatusLocked now)) (w_db w)"
      "\<And>v. r = Inr v \<Longrightarrow> \<exists>deal. scanDeal (sv_platform s) (sv_key s) row = Inr deal \<and>
         (v = PublicView deal \<or> v = PublicView (deal\<lparr>DealStatus := StatusLocked\<rparr>))"
proof (cases "tok = ''''")
  case True
  with assms same [of "[]"] show thesis by (auto simp: Service_GetPublicDeal_def)
next
  case False
  show thesis
    using assms [unfolded Service_GetPublicDeal_def if_not_P [OF False] Let_def]
  proof (cases rule: token_bind_cases)
    case (failed e)
    with same [of "[]"] show thesis by auto
  next
    case (got deal row w1)
    note fields = scanDeal_fields(3,8) [OF got(2)] scanDeal_ID [OF got(2)]
    show thesis
    proof (cases "CheckingID deal \<noteq> '''' \<and> DealStatus deal = StatusAwaitingPayment")
      case False
      with got(5) have "w' = w1" "r = Inr (PublicView deal)"
        by (auto simp: bindR_def PublicView_def)
      with got same [of "[]"] show thesis by auto
    next
      case True
      obtain q where q: "refreshPaymentStatus s deal w1 = (q, w')"
        and r: "r = Inr (PublicView (case q of Inl _ \<Rightarrow> deal | Inr d \<Rightarrow> d))"
        using got(5) True
        by (cases "refreshPaymentStatus s deal w1") (auto simp: bindR_def PublicView_def)
      from q show thesis
      proof (cases rule: refresh_effect)
        case (same evs)
        then have "r = Inr (PublicView deal)" using r by (auto split: sum.splits)
        with same got that(1) [of evs] show thesis by auto
      next
        case (locked evs ev now)
        then have "r = Inr (PublicView deal) \<or> r = Inr (PublicView (deal\<lparr>DealStatus := StatusLocked\<rparr>))"
          using r by (auto split: sum.splits)
        with locked got that(2) [of evs ev row now] True fields show thesis by auto
      qed
    qed
  qed
qed

end
