(* ===== verification/Escrow_Effects.thy ===== *)
theory Escrow_Effects
  imports Service_Effects
begin

text \<open>
  What the arbiter's refund, the two reconciliation actions and \<open>CreateDeal\<close> do, on every
  branch: under which conditions they write, what they write and what they send.
\<close>

section \<open>Refunding a dispute\<close>

text \<open>The hold is gone: cancelled just now, or LNbits reports it as no longer committed.\<close>

definition hold_gone :: "'e svc \<Rightarrow> string \<Rightarrow> string \<Rightarrow> event \<Rightarrow> bool" where
  "hold_gone s h cid ev \<longleftrightarrow>
     accepted s (cancel_request (sv_lnbits s) h) ev \<or>
     payment_answer s cid (\<lambda>p. isHoldReleased (cd_Status (cp_Details p))) ev"

lemma cancelEscrow_run:
  assumes "cancelEscrowHold s deal w = (r, w')"
  obtains evs where "w_db w' = w_db w" "w_log w' = w_log w @ evs"
    "\<forall>ev \<in> set evs. \<not> is_payout ev \<and> \<not> is_settle (sv_lnbits s) ev"
    "r = Inr () \<Longrightarrow> \<exists>ev \<in> set evs. hold_gone s (PreimageHash deal) (CheckingID deal) ev"
proof -
  let ?P = "sv_platform s" and ?c = "sv_lnbits s"
  have db: "w_db w' = w_db w" using assms by (rule same_dbD) (rule keeps_db)
  show thesis
  proof (cases "PreimageHash deal = ''''")
    case True
    with assms have "\<exists>e. r = Inl e" "w' = w" by (auto simp: cancelEscrowHold_def)
    with that [of "[]"] show thesis by auto
  next
    case pre: False
    obtain q w1 where q: "Client_CancelHold ?P ?c (PreimageHash deal) w = (q, w1)"
      by (cases "Client_CancelHold ?P ?c (PreimageHash deal) w")
    obtain a where a: "w_log w1 = w_log w @ a"
      "\<forall>ev \<in> set a. \<exists>res. ev = EvHttp (cancel_request ?c (PreimageHash deal)) res"
      using runs_inD [OF cancel_call.call_log q] by (auto simp: log_adds_def)
    have a': "\<forall>ev \<in> set a. \<not> is_payout ev \<and> \<not> is_settle ?c ev"
      using a(2) by (auto simp: request_defs)
    show thesis
    proof (cases q)
      case (Inr out)
      with q CancelHold_success obtain code t where "code < 300" "si_OK out"
        "decode_body ?P (decode_simple ?P) (Inr t) = Inr out"
        "w_log w1 = w_log w @ [EvHttp (cancel_request ?c (PreimageHash deal)) (Response code (Inr t))]"
        by metis
      then have "\<exists>ev \<in> set a. hold_gone s (PreimageHash deal) (CheckingID deal) ev"
        using a(1) by (auto simp: hold_gone_def accepted_def)
      moreover from assms pre q Inr have "w' = w1" by (simp add: cancelEscrowHold_def bindR_def)
      ultimately show thesis using that [of a] db a a' by simp
    next
      case (Inl e)
      obtain p w2 where p: "Client_CheckPayment ?P ?c (CheckingID deal) w1 = (p, w2)"
        by (cases "Client_CheckPayment ?P ?c (CheckingID deal) w1")
      from assms pre q Inl p have w': "w' = w2"
        and r: "r = Inr () \<Longrightarrow> \<exists>x. p = Inr x \<and> isHoldReleased (cd_Status (cp_Details x))"
        by (auto simp: cancelEscrowHold_def bindR_def split: sum.splits if_splits)
      from p obtain b where b: "w_log w2 = w_log w1 @ b"
        "\<forall>ev \<in> set b. \<exists>res. ev = EvHttp (check_request ?c (CheckingID deal)) res"
        "\<And>x. p = Inr x \<Longrightarrow> \<exists>ev. b = [ev] \<and> payment_answer s (CheckingID deal) (\<lambda>q. q = x) ev"
        by (rule CheckPayment_run) blast
      have b': "\<forall>ev \<in> set b. \<not> is_payout ev \<and> \<not> is_settle ?c ev"
        using b(2) by (auto simp: request_defs)
      have "\<exists>ev \<in> set (a @ b). hold_gone s (PreimageHash deal) (CheckingID deal) ev" if u: "r = Inr ()"
      proof -
        from r [OF u] obtain x where x: "p = Inr x" "isHoldReleased (cd_Status (cp_Details x))" by blast
        from b(3) [OF x(1)] obtain ev where "b = [ev]"
          "payment_answer s (CheckingID deal) (\<lambda>q. q = x) ev" by blast
        with x(2) show ?thesis
          using payment_answer_mono [of s "CheckingID deal" "\<lambda>q. q = x" ev
              "\<lambda>p. isHoldReleased (cd_Status (cp_Details p))"]
          by (auto simp: hold_gone_def)
      qed
      with that [of "a @ b"] db a(1) a' b(1) b' w' show thesis by auto
    qed
  qed
qed

lemma refund_body_effect:
  assumes "refund_body s op i v = (q, v')"
  shows "(\<exists>evs. w_log v' = w_log v @ evs \<and>
       (\<forall>ev \<in> set evs. \<not> is_payout ev \<and> \<not> is_settle (sv_lnbits s) ev) \<and>
       (\<forall>d. q = Inr d \<longrightarrow> (\<exists>row now. find_deal i (w_db v) = Some row \<and> c_status row = StatusDisputed \<and>
          w_db v' = upd_deal i (set_resolution StatusRefunded op now) (w_db v) \<and>
          (\<exists>ev \<in> set evs. hold_gone s (c_preimage_hash row) (null_str (c_checking_id row)) ev))))"
proof -
  let ?P = "sv_platform s"
  note run = assms
  obtain g v1 where g: "Repo_GetDealForUpdate ?P (sv_key s) i v = (g, v1)"
    by (cases "Repo_GetDealForUpdate ?P (sv_key s) i v")
  from g have l1: "w_log v1 = w_log v" by (rule same_logD) (rule keeps_log)
  show ?thesis
  proof (cases "\<exists>deal. g = Inr deal \<and> DealStatus deal = StatusDisputed")
    case False
    with run g have "v' = v1" "\<exists>e. q = Inl e" by (auto simp: refund_body_def bindE_def split: sum.splits if_splits)
    with l1 show ?thesis by (intro exI [of _ "[]"]) auto
  next
    case True
    then obtain deal where deal: "g = Inr deal" "DealStatus deal = StatusDisputed" by blast
    with g obtain row where row: "find_deal i (w_db v) = Some row"
      "scanDeal ?P (sv_key s) row = Inr deal" "w_db v1 = w_db v"
      using get_deal_Inr by metis
    note fields = scanDeal_fields(3,7,8) [OF row(2)]
    obtain c v2 where c: "cancelEscrowHold s deal v1 = (c, v2)" by (cases "cancelEscrowHold s deal v1")
    from c obtain evs where evs: "w_db v2 = w_db v1" "w_log v2 = w_log v1 @ evs"
      "\<forall>ev \<in> set evs. \<not> is_payout ev \<and> \<not> is_settle (sv_lnbits s) ev"
      "c = Inr () \<Longrightarrow> \<exists>ev \<in> set evs. hold_gone s (PreimageHash deal) (CheckingID deal) ev"
      by (rule cancelEscrow_run) blast
    show ?thesis
    proof (cases c)
      case (Inl e)
      with run g deal c have "v' = v2" "q = Inl e" by (auto simp: refund_body_def bindE_def)
      with l1 evs show ?thesis by (intro exI [of _ evs]) simp
    next
      case (Inr u)
      obtain x v3 where x: "Repo_UpdateDisputeResolution ?P i StatusRefunded op v2 = (x, v3)"
        by (cases "Repo_UpdateDisputeResolution ?P i StatusRefunded op v2")
      from run g deal c Inr x have v': "v' = v3" and q: "\<And>e. x = Inl e \<Longrightarrow> \<exists>e'. q = Inl e'"
        by (auto simp: refund_body_def bindE_def wrapE_def split: sum.splits)
      from x [unfolded Repo_UpdateDisputeResolution_def] show ?thesis
      proof (cases rule: key_update_run)
        case (failed e)
        with l1 evs v' q [OF failed(1)] show ?thesis by (intro exI [of _ evs]) auto
      next
        case (lost e now)
        with l1 evs v' q [OF lost(1)] show ?thesis by (intro exI [of _ evs]) auto
      next
        case (ran now)
        with l1 evs v' row fields deal Inr show ?thesis
          by (intro exI [of _ evs]) auto
      qed
    qed
  qed
qed

lemma refundDispute_effect:
  assumes "refundDispute s op i w = (r, w')"
  obtains (refused) e evs where "r = Inl e" "w_db w' = w_db w" "w_log w' = w_log w @ evs"
      "\<forall>ev \<in> set evs. \<not> is_payout ev \<and> \<not> is_settle (sv_lnbits s) ev"
  | (ran) row now evs where "find_deal i (w_db w) = Some row" "c_status row = StatusDisputed"
      "w_db w' = upd_deal i (set_resolution StatusRefunded op now) (w_db w)"
      "w_log w' = w_log w @ evs"
      "\<forall>ev \<in> set evs. \<not> is_payout ev \<and> \<not> is_settle (sv_lnbits s) ev"
      "\<exists>ev \<in> set evs. hold_gone s (c_preimage_hash row) (null_str (c_checking_id row)) ev"
      "\<And>d. r = Inr d \<Longrightarrow> DealStatus d = StatusRefunded \<and> ResolvedBy d = op"
proof -
  let ?P = "sv_platform s"
  let ?body = "refund_body s op i"
  obtain q w1 where q: "withTx ?P ?body w = (q, w1)" by (cases "withTx ?P ?body w")
  have cont: "(\<exists>e. q = Inl e \<and> r = Inl e \<and> w' = w1) \<or>
      (\<exists>d0 d ns. q = Inr d0 \<and> r = Inr d \<and> w_db w' = w_db w1 \<and> w_log w' = w_log w1 @ ns \<and>
         (\<forall>ev \<in> set ns. \<not> is_payout ev \<and> \<not> is_settle (sv_lnbits s) ev) \<and>
         DealStatus d = StatusRefunded \<and> ResolvedBy d = op)"
  proof (cases q)
    case (Inl e)
    with assms q show ?thesis by (auto simp: refundDispute_def bindE_def)
  next
    case (Inr d0)
    obtain t w2 where t: "time_now ?P w1 = (Inr t, w2)"
      using time_now_run(1) by (metis prod.collapse)
    let ?d = "d0\<lparr>DealStatus := StatusRefunded, ResolvedAt := Some t, ResolvedBy := op\<rparr>"
    obtain y w3 where n: "notify s DealRefunded ?d w2 = (y, w3)" by (cases "notify s DealRefunded ?d w2")
    from assms q Inr t n notify_run(1) [OF n] have "r = Inr ?d" "w' = w3"
      by (auto simp: refundDispute_def bindE_def Let_def)
    with Inr notify_run [OF n] time_now_run [OF t] show ?thesis by (intro disjI2) auto
  qed
  from q show thesis
  proof (cases rule: withTx_cases)
    case (not_begun e)
    with cont have "r = Inl e" "w' = w1" by auto
    with not_begun refused [of e "[]"] show thesis by simp
  next
    case inner: (ran v b v')
    from refund_body_effect [OF inner(3)] obtain evs where evs: "w_log v' = w_log v @ evs"
      "\<forall>ev \<in> set evs. \<not> is_payout ev \<and> \<not> is_settle (sv_lnbits s) ev"
      "\<And>d. b = Inr d \<Longrightarrow> \<exists>row now. find_deal i (w_db v) = Some row \<and> c_status row = StatusDisputed \<and>
          w_db v' = upd_deal i (set_resolution StatusRefunded op now) (w_db v) \<and>
          (\<exists>ev \<in> set evs. hold_gone s (c_preimage_hash row) (null_str (c_checking_id row)) ev)"
      by metis
    show thesis
    proof (cases b)
      case (Inl e)
      with inner(5) [OF Inl] cont have "r = Inl e" "w' = w1" "w_db w1 = w_db w" by auto
      with inner evs refused [of e evs] show thesis by simp
    next
      case (Inr d0)
      from evs(3) [OF Inr] inner(1) obtain row now where row:
        "find_deal i (w_db w) = Some row" "c_status row = StatusDisputed"
        "w_db v' = upd_deal i (set_resolution StatusRefunded op now) (w_db w)"
        "\<exists>ev \<in> set evs. hold_gone s (c_preimage_hash row) (null_str (c_checking_id row)) ev"
        by auto
      from inner(6) [OF Inr] consider (a) "q = Inr d0" "w_db w1 = w_db v'"
        | (b) e where "q = Inl e" "w_db w1 = w_db w" | (c) e where "q = Inl e" "w_db w1 = w_db v'"
        by blast
      then show thesis
      proof cases
        case a
        with cont obtain d ns where d: "r = Inr d" "w_db w' = w_db w1" "w_log w' = w_log w1 @ ns"
          "\<forall>ev \<in> set ns. \<not> is_payout ev \<and> \<not> is_settle (sv_lnbits s) ev"
          "DealStatus d = StatusRefunded" "ResolvedBy d = op" by auto
        show thesis
          by (rule ran [of row now "evs @ ns"]) (use d a row inner evs in auto)
      next
        case b
        with cont have "r = Inl e" "w' = w1" by auto
        with b inner evs refused [of e evs] show thesis by simp
      next
        case c
        with cont have "r = Inl e" "w' = w1" by auto
        with c row inner evs ran [of row now evs] show thesis by simp
      qed
    qed
  qed
qed

section \<open>Reconciling\<close>

lemma checkOutgoing_run:
  assumes "checkOutgoingPayout s i w = (r, w')"
  obtains evs where "w_db w' = w_db w" "w_log w' = w_log w @ evs"
    "\<forall>ev \<in> set evs. \<exists>res. ev = EvHttp (check_request (sv_lnbits s) i) res"
proof -
  have "w_db w' = w_db w" using assms by (rule same_dbD) (rule keeps_db)
  moreover have "runs_in (log_adds (\<lambda>ev. \<exists>res. ev = EvHttp (check_request (sv_lnbits s) i) res))
      (checkOutgoingPayout s i)"
    by (rule checkOutgoing_log) blast
  from runs_inD [OF this assms] obtain evs where "w_log w' = w_log w @ evs"
    "\<forall>ev \<in> set evs. \<exists>res. ev = EvHttp (check_request (sv_lnbits s) i) res"
    by (auto simp: log_adds_def)
  ultimately show thesis using that by blast
qed

definition confirmed_row :: "string \<Rightarrow> deal_row \<Rightarrow> deal_row \<Rightarrow> bool" where
  "confirmed_row x r r' \<longleftrightarrow>
     c_status r' = StatusReleased \<and> c_verified_at r' \<noteq> None \<and>
     null_str (c_payout_checking_id r') = x \<and>
     c_payout_attempted_at r' = c_payout_attempted_at r \<and>
     c_resolved_by r' = c_resolved_by r \<and> terms_kept r r'"

lemma confirm_body_log: "runs_in same_log (confirm_body s i x)"
  unfolding confirm_body_def by (intro log_frame.frame_intros keeps_log)

lemma confirm_body_Inr:
  assumes "confirm_body s i x v = (Inr d, v')"
  obtains row row' where "find_deal i (w_db v) = Some row" "CanTransition (c_status row) StatusReleased"
    "find_deal i (w_db v') = Some row'" "confirmed_row x row row'"
    "\<And>j. j \<noteq> i \<Longrightarrow> find_deal j (w_db v') = find_deal j (w_db v)"
proof -
  let ?P = "sv_platform s"
  from assms obtain v1 v2 where
    g: "Repo_GetDealForUpdate ?P (sv_key s) i v = (Inr d, v1)"
    and can: "CanTransition (DealStatus d) StatusReleased"
    and rec: "(if PayoutCheckingID d \<noteq> x
       then wrapE (wrapf (''recording reconciled payout for deal '' @ ID d @ '': ''))
              (Repo_UpdatePayoutCheckingID ?P (ID d) x)
       else ret ()) v1 = (Inr (), v2)"
    and upd: "Repo_UpdateStatus ?P (ID d) StatusReleased v2 = (Inr (), v')"
    by (auto simp: confirm_body_def bindE_Inr_iff wrapE_Inr_iff simp del: if_split split: if_splits)
  from g obtain row where row: "find_deal i (w_db v) = Some row"
    "scanDeal ?P (sv_key s) row = Inr d" "w_db v1 = w_db v" "ID d = i"
    using get_deal_Inr by metis
  note fields = scanDeal_fields(3,5) [OF row(2)]
  let ?row2 = "if PayoutCheckingID d \<noteq> x then row\<lparr>c_payout_checking_id := Some x\<rparr> else row"
  have v2: "find_deal i (w_db v2) = Some ?row2 \<and> (\<forall>j. j \<noteq> i \<longrightarrow> find_deal j (w_db v2) = find_deal j (w_db v))"
  proof (cases "PayoutCheckingID d = x")
    case True
    with rec row show ?thesis by simp
  next
    case False
    with rec row(4) have "Repo_UpdatePayoutCheckingID ?P i x v1 = (Inr (), v2)"
      by (simp add: wrapE_Inr_iff)
    then have "w_db v2 = upd_deal i (\<lambda>r. r\<lparr>c_payout_checking_id := Some x\<rparr>) (w_db v)"
      unfolding Repo_UpdatePayoutCheckingID_def by (rule update_key_Inr) (simp add: row)
    with row False show ?thesis by (simp add: deals.lookup_alter)
  qed
  from upd [unfolded row(4) Repo_UpdateStatus_def] obtain now where
    v': "w_db v' = upd_deal i (set_status StatusReleased now) (w_db v2)"
    by (rule update_key_Inr)
  show thesis
  proof (rule that [OF row(1)])
    show "CanTransition (c_status row) StatusReleased" using can fields by simp
    show "find_deal i (w_db v') = Some (set_status StatusReleased now ?row2)"
      unfolding v' using v2 by (intro deals.lookup_alter_same) simp_all
    show "confirmed_row x row (set_status StatusReleased now ?row2)"
      using fields by (auto simp: confirmed_row_def set_status_def terms_kept_def)
    show "find_deal j (w_db v') = find_deal j (w_db v)" if "j \<noteq> i" for j
      unfolding v' using v2 that by (simp add: deals.lookup_alter_other)
  qed
qed

lemma reconcile_confirm_effect:
  assumes "reconcile_confirm s i x w = (r, w')" and "anchor_ok s"
  obtains (refused) e where "r = Inl e" "t_deals (w_db w') = t_deals (w_db w)" "moneyless s w w'"
  | (ran) row row' ev evs where "find_deal i (w_db w) = Some row"
      "CanTransition (c_status row) StatusReleased"
      "find_deal i (w_db w') = Some row'" "confirmed_row (TrimSpace x) row row'"
      "\<And>j. j \<noteq> i \<Longrightarrow> find_deal j (w_db w') = find_deal j (w_db w)"
      "moneyless s w w'" "w_log w' = w_log w @ evs" "ev \<in> set evs"
      "payment_answer s (TrimSpace x)
         (\<lambda>p. cp_Paid p \<and> isPayoutConfirmed (cd_Status (cp_Details p))) ev"
proof -
  let ?P = "sv_platform s" and ?x = "TrimSpace x"
  show thesis
  proof (cases "?x = ''''")
    case True
    with assms refused log_frame.frame_refl show thesis
      by (auto simp: reconcile_confirm_def Let_def)
  next
    case x: False
    obtain q w1 where q: "checkOutgoingPayout s ?x w = (q, w1)" by (cases "checkOutgoingPayout s ?x w")
    from q obtain a where a: "w_db w1 = w_db w" "w_log w1 = w_log w @ a"
      "\<forall>ev \<in> set a. \<exists>res. ev = EvHttp (check_request (sv_lnbits s) ?x) res"
      by (rule checkOutgoing_run)
    have ml1: "moneyless s w w1" using a(2,3) by (auto simp: log_adds_def)
    show thesis
    proof (cases "\<exists>f. q = Inr (True, f)")
      case False
      with assms x q have "\<exists>e. r = Inl e" "w' = w1"
        by (auto simp: reconcile_confirm_def Let_def bindR_def split: sum.splits if_splits)
      with refused a ml1 show thesis by auto
    next
      case True
      then obtain f where f: "q = Inr (True, f)" by blast
      with q have "checkOutgoingPayout s ?x w = (Inr (True, f), w1)" by simp
      then obtain ev where "w_log w1 = w_log w @ [ev]" "payment_answer s ?x
          (\<lambda>p. cp_Paid p \<and> isPayoutConfirmed (cd_Status (cp_Details p))) ev"
        by (rule checkOutgoing_Inr) auto
      with a(2) have ev: "ev \<in> set a" "payment_answer s ?x
          (\<lambda>p. cp_Paid p \<and> isPayoutConfirmed (cd_Status (cp_Details p))) ev" by auto
      obtain b w2 where b: "withTx ?P (confirm_body s i ?x) w1 = (b, w2)"
        by (cases "withTx ?P (confirm_body s i ?x) w1")
      have l2: "w_log w2 = w_log w1"
        using b by (rule same_logD) (rule withTx_log [OF confirm_body_log])
      have cont: "(\<exists>e. b = Inl e \<and> r = Inl e \<and> w' = w2) \<or>
          (\<exists>d. b = Inr d \<and> t_deals (w_db w') = t_deals (w_db w2) \<and> moneyless s w2 w')"
      proof (cases b)
        case (Inl e)
        with assms(1) x q f b show ?thesis
          by (auto simp: reconcile_confirm_def Let_def bindR_def bindE_def)
      next
        case (Inr d)
        let ?d = "d\<lparr>DealStatus := StatusReleased\<rparr>"
        obtain y w3 where an: "anchorReleasedDeal s ?d w2 = (y, w3)" by (cases "anchorReleasedDeal s ?d w2")
        obtain z w4 where no: "notify s DealReleased ?d w3 = (z, w4)" by (cases "notify s DealReleased ?d w3")
        from assms(1) x q f b Inr an no anchor_effect(3) [OF an assms(2)] notify_effect(3) [OF no]
        have "w' = w4"
          by (auto simp: reconcile_confirm_def Let_def bindR_def bindE_def)
        moreover have "moneyless s w2 w4"
          using anchor_effect(2) [OF an assms(2)] notify_effect(2) [OF no] by (rule log_adds_trans)
        ultimately show ?thesis
          using Inr anchor_effect(1) [OF an assms(2)] notify_effect(1) [OF no] by auto
      qed
      have ml: "moneyless s w w'" using ml1 l2 cont by (auto simp: log_adds_def)
      obtain c where c: "w_log w' = w_log w @ a @ c" using a(2) l2 cont by (auto simp: log_adds_def)
      from b show thesis
      proof (cases rule: withTx_cases)
        case (not_begun e)
        with cont ml a refused show thesis by auto
      next
        case tx: (ran v0 g v1)
        show thesis
        proof (cases g)
          case (Inl e)
          with tx(5) [OF Inl] cont ml a refused show thesis by auto
        next
          case (Inr d)
          with tx have "confirm_body s i ?x v0 = (Inr d, v1)" by simp
          then obtain row row' where row: "find_deal i (w_db w) = Some row"
            "CanTransition (c_status row) StatusReleased"
            "find_deal i (w_db v1) = Some row'" "confirmed_row ?x row row'"
            "\<And>j. j \<noteq> i \<Longrightarrow> find_deal j (w_db v1) = find_deal j (w_db w)"
            by (rule confirm_body_Inr) (use tx a in auto)
          have done_: thesis if "t_deals (w_db w') = t_deals (w_db v1)"
            by (rule ran [of row row' "a @ c" ev]) (use that row ml c ev in \<open>auto simp: find_deal_def\<close>)
          show thesis
            using tx(6) [OF Inr] cont done_ ml a refused by auto
        qed
      qed
    qed
  qed
qed

lemma reconcile_reset_effect:
  assumes "reconcile_reset s i w = (r, w')"
  obtains (refused) e where "r = Inl e" "w_db w' = w_db w" "w_log w' = w_log w"
  | (ran) row where "find_deal i (w_db w) = Some row" "\<not> terminal (c_status row)"
      "c_payout_attempted_at row \<noteq> None \<or> null_str (c_payout_checking_id row) \<noteq> ''''"
      "w_db w' = cleared_db i (w_db w)" "w_log w' = w_log w"
      "\<And>d. r = Inr d \<Longrightarrow> PayoutCheckingID d = '''' \<and> PayoutAttemptedAt d = None"
  using assms [unfolded reconcile_reset_def]
proof (cases rule: get_bind_cases)
  case (failed e)
  then show thesis using refused by blast
next
  case (got deal row w1)
  note fields = scanDeal_fields(3,4,5) [OF got(2)]
  show thesis
  proof (cases "\<not> terminal (DealStatus deal) \<and> (PayoutCheckingID deal \<noteq> '''' \<or> PayoutAttemptedAt deal \<noteq> None)")
    case False
    with got(6) have "\<exists>e. r = Inl e" "w' = w1" by (auto simp: terminal_def split: if_splits)
    with refused got show thesis by auto
  next
    case True
    obtain q w2 where q: "Repo_ClearPayoutTracking (sv_platform s) i w1 = (q, w2)"
      by (cases "Repo_ClearPayoutTracking (sv_platform s) i w1")
    from got(6) True q have w': "w' = w2"
      and r: "\<And>d. r = Inr d \<Longrightarrow> PayoutCheckingID d = '''' \<and> PayoutAttemptedAt d = None"
        "\<And>e. q = Inl e \<Longrightarrow> \<exists>e. r = Inl e"
      by (auto simp: terminal_def bindE_def wrapE_def split: sum.splits)
    from q [unfolded Repo_ClearPayoutTracking_def] show thesis
    proof (cases rule: key_update_run)
      case (failed e)
      with r(2) [OF failed(1)] w' got refused show thesis by auto
    next
      case (lost e now)
      with w' got True fields r(1) ran [of row] show thesis by (auto simp: cleared_db_def)
    next
      case (ran now)
      with w' got True fields r(1) that(2) [of row] show thesis by (auto simp: cleared_db_def)
    qed
  qed
qed

section \<open>Creating a deal\<close>

lemma validate_deal_invalid:
  "validate_deal P d = Some e \<Longrightarrow> errors_Is e ErrInvalidInput"
  by (auto simp: validate_deal_def split: if_splits)

lemma read_rand_run:
  assumes "read_rand P n w = (r, w')"
  shows "w_db w' = w_db w" "w_log w' = w_log w"
  using assms by (auto simp: read_rand_def split: prod.splits sum.splits)

text \<open>The hold requested for a deal, and the answer that says it was drawn.\<close>

definition hold_drawn :: "'e svc \<Rightarrow> Deal \<Rightarrow> event \<Rightarrow> bool" where
  "hold_drawn s d ev \<longleftrightarrow>
     (\<exists>code t inv. ev = EvHttp (hold_request (sv_lnbits s) (hold_defaults (sv_lnbits s) (hold_for d)))
          (Response code (Inr t)) \<and> code < 300 \<and>
        decode_body (sv_platform s) (decode_invoice (sv_platform s)) (Inr t) = Inr inv \<and>
        Invoice d = inv_PaymentRequest inv \<and> CheckingID d = inv_CheckingID inv)"

lemma CreateDeal_cases:
  assumes "Service_CreateDeal s deal w = (r, w')"
  obtains (invalid) e where "validate_deal (sv_platform s) (normalize_deal (sv_platform s) deal) = Some e"
      "r = Inl e" "w' = w"
  | (no_entropy) e where "r = Inl e" "w_db w' = w_db w" "w_log w' = w_log w"
      "validate_deal (sv_platform s) (normalize_deal (sv_platform s) deal) = None"
  | (no_hold) e d evs where "r = Inl e" "w_db w' = w_db w" "w_log w' = w_log w @ evs"
      "\<forall>ev \<in> set evs. \<exists>res. ev = EvHttp (hold_request (sv_lnbits s)
         (hold_defaults (sv_lnbits s) (hold_for d))) res"
      "validate_deal (sv_platform s) (normalize_deal (sv_platform s) deal) = None"
  | (orphan) e d ev w1 evs q where "r = Inl e" "hold_drawn s d ev" "w_log w1 = w_log w @ [ev]"
      "Client_CancelHold (sv_platform s) (sv_lnbits s) (PreimageHash d) w1 = (q, w')"
      "w_log w' = w_log w @ ev # evs"
      "\<forall>ev \<in> set evs. \<exists>res. ev = EvHttp (cancel_request (sv_lnbits s) (PreimageHash d)) res"
      "validate_deal (sv_platform s) (normalize_deal (sv_platform s) deal) = None"
  | (stored) pre d0 d ev v0 v1 where "r = Inr d"
      "validate_deal (sv_platform s) (normalize_deal (sv_platform s) deal) = None"
      "d0 = normalize_deal (sv_platform s) deal\<lparr>Preimage := hex_EncodeToString pre,
         PreimageHash := hex_EncodeToString (sha256 (sv_platform s) pre),
         ShareToken := ShareToken d, Invoice := Invoice d, CheckingID := CheckingID d\<rparr>"
      "hold_drawn s d0 ev" "url_safe (ShareToken d)" "w_log w' = w_log w @ [ev]"
      "Repo_CreateDeal (sv_platform s) (sv_key s) d0 v0 = (Inr d, v1)" "w_db v0 = w_db w"
      "w_db w' = w_db v1"
proof -
  let ?P = "sv_platform s" and ?c = "sv_lnbits s"
  let ?d1 = "normalize_deal ?P deal"
  show thesis
  proof (cases "validate_deal ?P ?d1")
    case (Some e)
    with assms invalid show thesis by (auto simp: Service_CreateDeal_def Let_def)
  next
    case valid: None
    note run = assms [unfolded Service_CreateDeal_def Let_def valid option.case]
    obtain q1 w1 where p1: "read_rand ?P 32 w = (q1, w1)" by (cases "read_rand ?P 32 w")
    note p1' = read_rand_run [OF p1]
    obtain q2 w2 where p2: "generateShareToken ?P w1 = (q2, w2)" by (cases "generateShareToken ?P w1")
    note p2' = generateShareToken_run [OF p2]
    show thesis
    proof (cases "(\<exists>e. q1 = Inl e) \<or> (\<exists>e. q2 = Inl e)")
      case True
      have "(\<exists>e. r = Inl e) \<and> (w' = w1 \<or> w' = w2)"
      proof (cases q1)
        case (Inl e)
        with run p1 show ?thesis by (auto simp: bindE_def wrapE_def)
      next
        case (Inr pre)
        with True obtain e where "q2 = Inl e" by auto
        with run p1 Inr p2 show ?thesis by (auto simp: bindE_def wrapE_def)
      qed
      with no_entropy valid p1' p2' show thesis by auto
    next
      case False
      then obtain pre tok where q: "q1 = Inr pre" "q2 = Inr tok" by (cases q1; cases q2) auto
      let ?d2 = "?d1\<lparr>Preimage := hex_EncodeToString pre,
        PreimageHash := hex_EncodeToString (sha256 ?P pre), ShareToken := tok\<rparr>"
      obtain q3 w3 where p3: "Client_CreateHoldInvoice ?P ?c (hold_for ?d2) w2 = (q3, w3)"
        by (cases "Client_CreateHoldInvoice ?P ?c (hold_for ?d2) w2")
      from p3 have db3: "w_db w3 = w_db w2" by (rule hold_call.call_state)
      obtain evs3 where e3: "w_log w3 = w_log w2 @ evs3" "\<forall>ev \<in> set evs3. \<exists>res. ev =
          EvHttp (hold_request ?c (hold_defaults ?c (hold_for ?d2))) res"
        using runs_inD [OF hold_call.call_log p3] by (auto simp: log_adds_def)
      show thesis
      proof (cases q3)
        case (Inl e)
        with run p1 p2 q p3 have "\<exists>e. r = Inl e" "w' = w3"
          by (auto simp: bindE_def wrapE_def)
        with no_hold valid p1' p2' db3 e3 show thesis by auto
      next
        case (Inr inv)
        let ?d3 = "?d2\<lparr>Invoice := inv_PaymentRequest inv, CheckingID := inv_CheckingID inv\<rparr>"
        have hold: "hold_for ?d3 = hold_for ?d2" by (simp add: hold_for_def)
        from p3 Inr have "postJSON ?P (hold_request ?c (hold_defaults ?c (hold_for ?d2)))
            (decode_invoice ?P) w2 = (Inr inv, w3)"
          by (simp add: Client_CreateHoldInvoice_def wrapE_Inr_iff)
        then obtain ev where ev: "hold_drawn s ?d3 ev" "w_log w3 = w_log w2 @ [ev]"
          by (rule postJSON_success) (auto simp: hold_drawn_def hold [symmetric])
        obtain b w4 where p4: "withTx ?P (Repo_CreateDeal ?P (sv_key s) ?d3) w3 = (b, w4)"
          by (cases "withTx ?P (Repo_CreateDeal ?P (sv_key s) ?d3) w3")
        have l4: "w_log w4 = w_log w3"
          using p4 by (rule same_logD) (intro withTx_log keeps_log)
        show thesis
        proof (cases b)
          case (Inl e)
          obtain z w5 where p5: "Client_CancelHold ?P ?c (PreimageHash ?d3) w4 = (z, w5)"
            by (cases "Client_CancelHold ?P ?c (PreimageHash ?d3) w4")
          obtain evs where evs: "w_log w5 = w_log w4 @ evs"
            "\<forall>ev \<in> set evs. \<exists>res. ev = EvHttp (cancel_request ?c (PreimageHash ?d3)) res"
            using runs_inD [OF cancel_call.call_log p5] by (auto simp: log_adds_def)
          from run p1 p2 q p3 Inr p4 Inl p5 have "r = Inl e" "w' = w5"
            by (auto simp: cancelOrphanHold_def bindE_def bindR_def wrapE_def)
          then show thesis
            by (intro orphan [of e ?d3 ev w4 z evs])
              (use ev evs p1' p2' l4 p5 valid in simp_all)
        next
          case b: (Inr d)
          from run p1 p2 q p3 Inr p4 b have r: "r = Inr d" "w' = w4"
            by (auto simp: bindE_def bindR_def wrapE_def)
          from p4 b have "withTx ?P (Repo_CreateDeal ?P (sv_key s) ?d3) w3 = (Inr d, w4)" by simp
          then obtain v0 v1 where v: "w_db v0 = w_db w3"
            "Repo_CreateDeal ?P (sv_key s) ?d3 v0 = (Inr d, v1)" "w_db w4 = w_db v1"
            by (rule withTx_Inr)
          have "ShareToken d = tok" "Invoice d = inv_PaymentRequest inv"
            "CheckingID d = inv_CheckingID inv"
            using v(2) by (auto elim!: CreateDeal_Inr)
          then show thesis
            by (intro stored [of d ?d3 pre ev v0 v1])
              (use r ev p1' p2' l4 v db3 q valid in simp_all)
        qed
      qed
    qed
  qed
qed

section \<open>Releases that are refused\<close>

lemma denied_phase1:
  assumes "find_deal i (w_db w) = Some row"
    and "\<And>deal. scanDeal (sv_platform s) (sv_key s) row = Inr deal \<Longrightarrow> ro_authorize opts deal \<noteq> None"
  shows "\<exists>e w'. release_phase1 s i opts w = (Inl e, w') \<and> w_db w' = w_db w \<and> w_log w' = w_log w"
proof -
  obtain r w' where run: "release_phase1 s i opts w = (r, w')"
    by (cases "release_phase1 s i opts w")
  from run [unfolded release_phase1_def] show ?thesis
  proof (cases rule: withTx_cases)
    case (not_begun e)
    with run show ?thesis by auto
  next
    case (ran w0 q w1)
    obtain g u where g: "Repo_GetDealForUpdate (sv_platform s) (sv_key s) i w0 = (g, u)"
      by (cases "Repo_GetDealForUpdate (sv_platform s) (sv_key s) i w0")
    from g have log: "w_log u = w_log w0" by (rule same_logD) (rule keeps_log)
    have "\<exists>e. q = Inl e \<and> w1 = u"
    proof (cases g)
      case (Inl e)
      with g ran(3) show ?thesis by (auto simp: bindE_def)
    next
      case (Inr deal)
      with g get_deal_Inr [of "sv_platform s" "sv_key s" i w0 deal u] assms(1) ran(1)
      have "scanDeal (sv_platform s) (sv_key s) row = Inr deal" by auto
      then obtain e where "ro_authorize opts deal = Some e" using assms(2) by blast
      with g Inr ran(3) show ?thesis by (auto simp: bindE_def)
    qed
    with ran log run show ?thesis by auto
  qed
qed

lemma denied_release:
  assumes "find_deal i (w_db w) = Some row"
    and "\<And>deal. scanDeal (sv_platform s) (sv_key s) row = Inr deal \<Longrightarrow> ro_authorize opts deal \<noteq> None"
    and "releaseEscrow s i opts w = (r, w')"
  shows "\<exists>e. r = Inl e \<and> w_db w' = w_db w \<and> w_log w' = w_log w"
proof (cases "i = ''''")
  case True
  with assms(3) show ?thesis by (auto simp: releaseEscrow_def)
next
  case False
  obtain e w1 where "release_phase1 s i opts w = (Inl e, w1)" "w_db w1 = w_db w" "w_log w1 = w_log w"
    using denied_phase1 [of i w row s opts, OF assms(1,2)] by blast
  with assms(3) False show ?thesis by (auto simp: releaseEscrow_def bindE_def)
qed

lemma approve_denied:
  assumes "find_deal i (w_db w) = Some row"
    and "\<not> EqualFold (uni_fold (sv_platform s)) (c_client_email row) email"
    and "Service_ApproveDeal s email i w = (r, w')"
  shows "\<exists>e. r = Inl e \<and> w_db w' = w_db w \<and> w_log w' = w_log w"
proof (cases "i = ''''")
  case True
  with assms(3) show ?thesis by (auto simp: Service_ApproveDeal_def)
next
  case False
  with assms(3) have "releaseEscrow s i (approve_options s email) w = (r, w')"
    by (simp add: Service_ApproveDeal_def)
  with assms(1,2) show ?thesis
    by (intro denied_release) (auto simp: approve_options_def scanDeal_fields)
qed

end
