(* ===== verification/Demo_Platform.thy ===== *)
theory Demo_Platform
  imports Platform
begin

text \<open>
  A concrete platform, on which the witnesses run the program: the transport answers from a
  script, the database faults come from a script, the clock and the random source count. It
  satisfies the documented behaviour that the properties assume of the platform.
\<close>

record demo =
  dm_http :: "http_result list"
  dm_faults :: "dbfault option list"
  dm_tick :: int
  dm_seq :: nat

definition demo_docs :: "(string \<times> json) list" where
  "demo_docs = [
     (''OK'', JObj [(''ok'', JBool True)]),
     (''REFUSED'', JObj [(''ok'', JBool False), (''error_message'', JStr ''no'')]),
     (''PAYOUT'', JObj [(''checking_id'', JStr ''pay1'')]),
     (''HOLD'', JObj [(''checking_id'', JStr ''chk1''), (''payment_request'', JStr ''lnbc1'')]),
     (''PAID'', JObj [(''paid'', JBool True), (''details'', JObj [(''status'', JStr ''SETTLED'')])]),
     (''HELD'', JObj [(''paid'', JBool True), (''details'', JObj [(''status'', JStr ''ACCEPTED'')])]),
     (''GONE'', JObj [(''paid'', JBool False), (''details'', JObj [(''status'', JStr ''EXPIRED'')])])]"

definition demo_platform :: "demo platform" where
  "demo_platform = \<lparr>
     http_do = (\<lambda>_ e. case dm_http e of
        [] \<Rightarrow> (TransportError ''down'', e)
      | r # rs \<Rightarrow> (r, e\<lparr>dm_http := rs\<rparr>)),
     url_error = (\<lambda>_. None),
     json_parse = map_of demo_docs,
     rand_read = (\<lambda>n e. (Inr (replicate n (CHR ''r'')), e\<lparr>dm_seq := dm_seq e + 1\<rparr>)),
     clock = (\<lambda>e. (dm_tick e, e\<lparr>dm_tick := dm_tick e + 1\<rparr>)),
     pg_fault = (\<lambda>e. case dm_faults e of
        [] \<Rightarrow> (None, e)
      | f # fs \<Rightarrow> (f, e\<lparr>dm_faults := fs\<rparr>)),
     pg_uuid = (\<lambda>e. (''n'' @ replicate (dm_seq e) (CHR ''x''), e\<lparr>dm_seq := dm_seq e + 1\<rparr>)),
     sha256 = (\<lambda>s. take 32 (s @ replicate 32 (CHR ''h''))),
     aes_seal = (\<lambda>_ _ p. p),
     aes_open = (\<lambda>_ _ c. Some c),
     mail_address = (\<lambda>s. if CHR ''@'' \<in> set s then Some s else None),
     uni_lower = (\<lambda>r. r),
     uni_fold = (\<lambda>_ _. False)\<rparr>"

definition demo_ext :: "http_result list \<Rightarrow> dbfault option list \<Rightarrow> demo" where
  "demo_ext answers faults = \<lparr>dm_http = answers, dm_faults = faults, dm_tick = 100, dm_seq = 1\<rparr>"

definition answer :: "string \<Rightarrow> http_result" where
  "answer doc = Response 200 (Inr doc)"

lemma demo_fields [simp]:
  "http_do demo_platform rq e = (case dm_http e of
     [] \<Rightarrow> (TransportError ''down'', e) | r # rs \<Rightarrow> (r, e\<lparr>dm_http := rs\<rparr>))"
  "url_error demo_platform u = None"
  "json_parse demo_platform t = map_of demo_docs t"
  "rand_read demo_platform n e = (Inr (replicate n (CHR ''r'')), e\<lparr>dm_seq := dm_seq e + 1\<rparr>)"
  "clock demo_platform e = (dm_tick e, e\<lparr>dm_tick := dm_tick e + 1\<rparr>)"
  "pg_fault demo_platform e = (case dm_faults e of
     [] \<Rightarrow> (None, e) | f # fs \<Rightarrow> (f, e\<lparr>dm_faults := fs\<rparr>))"
  "pg_uuid demo_platform e = (''n'' @ replicate (dm_seq e) (CHR ''x''), e\<lparr>dm_seq := dm_seq e + 1\<rparr>)"
  "sha256 demo_platform s = take 32 (s @ replicate 32 (CHR ''h''))"
  "aes_seal demo_platform k iv p = p" "aes_open demo_platform k iv p = Some p"
  "mail_address demo_platform s = (if CHR ''@'' \<in> set s then Some s else None)"
  "uni_lower demo_platform r = r"
  "uni_fold demo_platform r q = False"
  by (simp_all add: demo_platform_def)

lemma demo_ext_fields [simp]:
  "dm_http (demo_ext a f) = a" "dm_faults (demo_ext a f) = f"
  "dm_tick (demo_ext a f) = 100" "dm_seq (demo_ext a f) = 1"
  by (simp_all add: demo_ext_def)

end
