(* ===== verification/Demo_Run.thy ===== *)
theory Demo_Run
  imports Deal_Escrow Demo_Platform
begin

text \<open>
  A concrete service on the demo platform, with one deal, and the rules that evaluate its
  requests. Witnesses run it.
\<close>

definition demo_lnbits :: lnbits_client where
  "demo_lnbits = \<lparr>lb_url = ''ln'', lb_apiKey = ''k'', lb_webhookURL = '''', lb_adminKey = ''a'',
     lb_holdExpiry = 60\<rparr>"

definition demo_svc :: "demo svc" where
  "demo_svc = \<lparr>sv_platform = demo_platform, sv_lnbits = demo_lnbits, sv_key = '''', sv_cv = None,
     sv_storage = None, sv_maxUploadBytes = 0, sv_notifier = True\<rparr>"

definition demo_row :: "Status \<Rightarrow> deal_row" where
  "demo_row st = \<lparr>c_id = ''d'', c_freelancer_id = ''f'', c_client_email = ''c@x'', c_title = ''t'',
     c_amount_sats = 5, c_source_platform = ''p'', c_preimage_hash = ''h'', c_preimage = Some ''s'',
     c_payee_invoice = Some ''b'', c_invoice = ''i'', c_checking_id = Some ''q'',
     c_payout_checking_id = None, c_payout_attempted_at = None, c_share_token = ''k'',
     c_status = st, c_created_at = 1, c_verified_at = None, c_dispute_reason = '''',
     c_disputed_at = None, c_resolved_at = None, c_resolved_by = None\<rparr>"

definition demo_world :: "deal_row list \<Rightarrow> http_result list \<Rightarrow> dbfault option list \<Rightarrow> demo world" where
  "demo_world rows answers faults =
     \<lparr>w_db = \<lparr>t_deals = rows, t_artifacts = [], t_verifications = [], t_users = [],
        t_refresh_tokens = [], t_cv_entries = []\<rparr>,
      w_ext = demo_ext answers faults, w_log = []\<rparr>"

lemmas demo_defs = demo_svc_def demo_lnbits_def demo_row_def demo_world_def answer_def demo_docs_def

text \<open>Unfolding one layer after the other evaluates a request on concrete arguments.\<close>

lemmas run_prims = bindE_def bindR_def wrapE_def query_def pg_step_def withTx_def do_http_def
  log_event_def read_rand_def time_now_def transport_def new_request_def decode_body_def field_def
  EqualFold_def runes_ascii bytes_def fold_rune_def notify_def Let_def

lemmas run_client = Client_CheckPayment_def postJSON_def Client_CreateHoldInvoice_def
  Client_SettleHold_def Client_CancelHold_def Client_PayInvoice_def decode_simple_def
  decode_invoice_def decode_payment_def decode_details_def zero_details_def bad_status_def

lemmas run_repo = select_deal_def select_row_def scanDeal_def decryptPreimage_def HasPrefix_def
  preimageEncPrefix_def require_row_def update_deals_def update_rows_def affected_def
  deals_constraint_def db_status_def Repo_GetDealForUpdate_def Repo_GetDealByID_def
  Repo_GetDealByShareToken_def Repo_MarkPayoutAttempted_def Repo_ClearPayoutTracking_def
  Repo_UpdatePayoutCheckingID_def Repo_UpdateStatus_def Repo_UpdateStatusIfCurrent_def
  Repo_UpdateDisputeIfCurrent_def Repo_UpdateDisputeResolution_def Repo_UpdateShareToken_def
  Repo_UpdatePayeeInvoice_def set_status_def set_dispute_def set_resolution_def

lemmas run_escrow = Service_ApproveDeal_def releaseEscrow_def release_phase1_def release_phase2_def
  release_phase3_def phase3_body_def approve_options_def public_options_def resolve_options_def payout_policy_def
  settleHoldGuarded_def anchorReleasedDeal_def clearPayoutAttempt_def checkOutgoingPayout_def
  cancelEscrowHold_def isHoldReleased_def isPayoutConfirmed_def isPayoutFailed_def

lemmas run = demo_defs run_prims run_client run_repo run_escrow

lemmas run_resolve = Service_ResolveDispute_def refundDispute_def refund_body_def

lemma demo_text [simp]:
  "TrimSpace ''op'' = ''op''" "TrimSpace ''r'' = ''r''" "TrimSpace ''pay1'' = ''pay1''"
  by (simp_all add: TrimSpace_ascii bytes_def of_bytes_def IsSpace_def char_of_def bit_0)

lemma demo_lower [simp]: "ToLower (uni_lower demo_platform) ''op'' = ''op''"
  by (simp add: ToLower_def runes_ascii bytes_def of_bytes_def of_runes_def lower_rune_def
    EncodeRune_def char_of_def bit_0)

text \<open>An approval that LNbits accepts on both legs.\<close>

definition happy_world :: "demo world" where
  "happy_world = demo_world [demo_row StatusWorkSubmitted] [answer ''OK'', answer ''PAYOUT''] []"

lemma demo_approve:
  "\<exists>d w'. Service_ApproveDeal demo_svc ''c@x'' ''d'' happy_world = (Inr d, w')"
  by (simp add: happy_world_def run)

end
