(* ===== verification/Escrow_Properties.thy ===== *)
theory Escrow_Properties
  imports Escrow_Effects Demo_Run
begin

text \<open>
  What the escrow operations promise to the two parties, and the requests that show each promise
  can be met: release, arbitration and reconciliation.
\<close>

section \<open>Releasing\<close>

lemma demo_anchor [simp]: "anchor_ok demo_svc"
  by (simp add: anchor_ok_def demo_svc_def)

text \<open>C1: one run of the escrow release, whichever endpoint asked for it, sends at most one
  payout; the payout goes to the invoice recorded on the locked deal and directly follows an
  exchange that proves the hold was settled.\<close>

theorem release_single_payout:
  assumes "release_caller s opts" and "anchor_ok s" and "releaseEscrow s i opts w = (r, w')"
  shows "\<exists>evs. w_log w' = w_log w @ evs \<and>
    ((\<forall>ev \<in> set evs. \<not> is_payout ev) \<or>
     (\<exists>row deal. find_deal i (w_db w) = Some row \<and>
        scanDeal (sv_platform s) (sv_key s) row = Inr deal \<and> single_payout s deal evs))"
proof -
  obtain pre fin where "release_flow s opts pre fin" using assms(1) by (rule release_caller_flow)
  then show ?thesis
    using assms(2,3) by (cases rule: release_flow.release_payouts) blast+
qed

lemma approve_caller [simp]: "release_caller s (approve_options s em)"
  by (auto simp: release_caller_def)

theorem release_single_payout_witness:
  "\<exists>evs. w_log (snd (releaseEscrow demo_svc ''d'' (approve_options demo_svc ''c@x'') happy_world)) =
      w_log happy_world @ evs \<and>
    ((\<forall>ev \<in> set evs. \<not> is_payout ev) \<or>
     (\<exists>row deal. find_deal ''d'' (w_db happy_world) = Some row \<and>
        scanDeal (sv_platform demo_svc) (sv_key demo_svc) row = Inr deal \<and>
        single_payout demo_svc deal evs))"
  by (rule release_single_payout [OF approve_caller demo_anchor prod.collapse [symmetric]])

text \<open>C2: no request that moves money (settle, cancel or payout) is sent before the payout
  marker of the deal is committed: the run of phase 1 that precedes it ended with the marker in
  the row, and sent no money request itself.\<close>

theorem release_marker_before_money:
  assumes "release_caller s opts" and "anchor_ok s" and "releaseEscrow s i opts w = (r, w')"
    and "w_log w' = w_log w @ evs" and "ev \<in> set evs" and "money_event (sv_lnbits s) ev"
  shows "\<exists>deal w1 a b. release_phase1 s i opts w = (Inr (deal, False, ''''), w1) \<and>
    attempted i (w_db w1) \<and> evs = a @ b \<and> w_log w1 = w_log w @ a \<and>
    (\<forall>x \<in> set a. \<not> money_event (sv_lnbits s) x)"
proof -
  obtain pre fin where "release_flow s opts pre fin" using assms(1) by (rule release_caller_flow)
  from release_flow.release_marker_first [OF this assms(3,2,4-6)] show ?thesis .
qed

lemma happy_log:
  "w_log (snd (releaseEscrow demo_svc ''d'' (approve_options demo_svc ''c@x'') happy_world)) =
   [EvHttp (settle_request demo_lnbits ''s'') (answer ''OK''),
    EvHttp (pay_request demo_lnbits ''b'') (answer ''PAYOUT'')] @
   drop 2 (w_log (snd (releaseEscrow demo_svc ''d'' (approve_options demo_svc ''c@x'') happy_world)))"
  by (simp add: happy_world_def run)

theorem release_marker_before_money_witness:
  "\<exists>deal w1. release_phase1 demo_svc ''d'' (approve_options demo_svc ''c@x'') happy_world =
     (Inr (deal, False, ''''), w1) \<and> attempted ''d'' (w_db w1)"
proof -
  let ?run = "releaseEscrow demo_svc ''d'' (approve_options demo_svc ''c@x'') happy_world"
  have log: "w_log (snd ?run) = w_log happy_world @ w_log (snd ?run)"
    by (simp add: happy_world_def demo_world_def)
  have ev: "EvHttp (settle_request demo_lnbits ''s'') (answer ''OK'') \<in> set (w_log (snd ?run))"
    by (subst happy_log) simp
  have money: "money_event (sv_lnbits demo_svc) (EvHttp (settle_request demo_lnbits ''s'') (answer ''OK''))"
    by (simp add: demo_svc_def)
  show ?thesis
    using release_marker_before_money [OF approve_caller demo_anchor prod.collapse [symmetric] log ev money]
    by blast
qed

text \<open>C3: a deal whose marker is set and whose payout id is unknown (the crash window) is never
  paid again: the release returns an error, and neither the database nor the network sees
  anything of it.\<close>

theorem release_never_resends:
  assumes "release_caller s opts" and "find_deal i (w_db w) = Some row"
    and "c_payout_attempted_at row \<noteq> None" and "null_str (c_payout_checking_id row) = ''''"
    and "releaseEscrow s i opts w = (r, w')"
  shows "\<exists>e. r = Inl e \<and> w_db w' = w_db w \<and> w_log w' = w_log w"
proof -
  obtain pre fin where "release_flow s opts pre fin" using assms(1) by (rule release_caller_flow)
  from release_flow.release_no_resend [OF this assms(2-5)] show ?thesis .
qed

definition stuck_row :: deal_row where
  "stuck_row = (demo_row StatusWorkSubmitted)\<lparr>c_payout_attempted_at := Some 9\<rparr>"

theorem release_never_resends_witness:
  "\<exists>e. fst (releaseEscrow demo_svc ''d'' (approve_options demo_svc ''c@x'')
      (demo_world [stuck_row] [answer ''OK''] [])) = Inl e \<and>
    w_log (snd (releaseEscrow demo_svc ''d'' (approve_options demo_svc ''c@x'')
      (demo_world [stuck_row] [answer ''OK''] []))) = []"
proof -
  have "find_deal ''d'' (w_db (demo_world [stuck_row] [answer ''OK''] [])) = Some stuck_row"
    by (simp add: find_deal_def select_row_def demo_world_def stuck_row_def demo_row_def)
  from release_never_resends [OF approve_caller this _ _ prod.collapse [symmetric],
      of demo_svc "''c@x''"]
  show ?thesis by (auto simp: stuck_row_def demo_row_def demo_world_def)
qed

text \<open>C4: a payout that may have moved money is never forgotten: whenever a run sent a payout
  request that LNbits did not refuse, the deal carries the payout marker at the end of the run,
  whatever the run returned.\<close>

theorem release_remembers_payout:
  assumes "release_caller s opts" and "anchor_ok s" and "releaseEscrow s i opts w = (r, w')"
    and "w_log w' = w_log w @ evs" and "ev \<in> set evs" and "may_have_paid ev"
  shows "attempted i (w_db w')"
proof -
  obtain pre fin where "release_flow s opts pre fin" using assms(1) by (rule release_caller_flow)
  from release_flow.release_remembers [OF this assms(3,2,4-6)] show ?thesis .
qed

theorem release_remembers_payout_witness:
  "attempted ''d''
     (w_db (snd (releaseEscrow demo_svc ''d'' (approve_options demo_svc ''c@x'') happy_world)))"
proof -
  let ?run = "releaseEscrow demo_svc ''d'' (approve_options demo_svc ''c@x'') happy_world"
  have log: "w_log (snd ?run) = w_log happy_world @ w_log (snd ?run)"
    by (simp add: happy_world_def demo_world_def)
  have ev: "EvHttp (pay_request demo_lnbits ''b'') (answer ''PAYOUT'') \<in> set (w_log (snd ?run))"
    by (subst happy_log) simp
  have paid: "may_have_paid (EvHttp (pay_request demo_lnbits ''b'') (answer ''PAYOUT''))"
    by (simp add: answer_def request_defs)
  show ?thesis
    by (rule release_remembers_payout [OF approve_caller demo_anchor prod.collapse [symmetric] log ev paid])
qed

text \<open>C7: when \<open>ApproveDeal\<close> returns a deal, the caller was the client on record, the deal was
  in a status from which a release is legal, the freelancer was paid (by a payout of this run
  that LNbits accepted after a proof of settlement, or by an earlier one that LNbits confirms),
  and the row is released and stamped.\<close>

theorem approve_releases:
  assumes "anchor_ok s" and "Service_ApproveDeal s email i w = (Inr d, w')"
  shows "\<exists>row deal evs row'. find_deal i (w_db w) = Some row \<and>
    scanDeal (sv_platform s) (sv_key s) row = Inr deal \<and>
    EqualFold (uni_fold (sv_platform s)) (c_client_email row) email \<and>
    CanTransition (c_status row) StatusReleased \<and>
    w_log w' = w_log w @ evs \<and> paid_evidence s deal evs \<and>
    find_deal i (w_db w') = Some row' \<and> c_status row' = StatusReleased \<and>
    c_verified_at row' \<noteq> None \<and> ID d = i \<and> DealStatus d = StatusReleased"
proof -
  from assms(2) have "releaseEscrow s i (approve_options s email) w = (Inr d, w')"
    by (auto simp: Service_ApproveDeal_def split: if_splits)
  then show ?thesis
  proof (rule approve.release_success [OF _ assms(1)])
    fix row deal evs row'
    assume *: "find_deal i (w_db w) = Some row" "scanDeal (sv_platform s) (sv_key s) row = Inr deal"
      "ro_authorize (approve_options s email) deal = None" "w_log w' = w_log w @ evs"
      "paid_evidence s deal evs" "find_deal i (w_db w') = Some row'" "c_status row' = StatusReleased"
      "c_verified_at row' \<noteq> None" "DealStatus d = StatusReleased" "ID d = i"
    from *(3) have "EqualFold (uni_fold (sv_platform s)) (c_client_email row) email \<and>
        CanTransition (c_status row) StatusReleased"
      by (auto simp: approve_options_def scanDeal_fields [OF *(2)] split: if_splits)
    with * show ?thesis by blast
  qed
qed

theorem approve_releases_witness:
  "\<exists>evs row'. w_log (snd (Service_ApproveDeal demo_svc ''c@x'' ''d'' happy_world)) = evs \<and>
    find_deal ''d'' (w_db (snd (Service_ApproveDeal demo_svc ''c@x'' ''d'' happy_world))) = Some row' \<and>
    c_status row' = StatusReleased"
proof -
  obtain d w' where run: "Service_ApproveDeal demo_svc ''c@x'' ''d'' happy_world = (Inr d, w')"
    using demo_approve by blast
  from approve_releases [OF demo_anchor run] run show ?thesis by auto
qed

text \<open>C8: nobody but the client on record can approve: for any other email \<open>ApproveDeal\<close> returns
  an error and has no effect on the database or the network.\<close>

theorem approve_forbidden:
  assumes "find_deal i (w_db w) = Some row"
    and "\<not> EqualFold (uni_fold (sv_platform s)) (c_client_email row) email"
    and "Service_ApproveDeal s email i w = (r, w')"
  shows "\<exists>e. r = Inl e \<and> w_db w' = w_db w \<and> w_log w' = w_log w"
  using assms by (rule approve_denied)

theorem approve_forbidden_witness:
  "\<exists>e. fst (Service_ApproveDeal demo_svc ''f@y'' ''d'' happy_world) = Inl e \<and>
    w_log (snd (Service_ApproveDeal demo_svc ''f@y'' ''d'' happy_world)) = []"
proof -
  have row: "find_deal ''d'' (w_db happy_world) = Some (demo_row StatusWorkSubmitted)"
    by (simp add: find_deal_def select_row_def happy_world_def demo_world_def demo_row_def)
  have other: "\<not> EqualFold (uni_fold (sv_platform demo_svc)) (c_client_email (demo_row StatusWorkSubmitted)) ''f@y''"
    by (simp add: demo_row_def EqualFold_def runes_ascii bytes_def fold_rune_def)
  from approve_forbidden [OF row other prod.collapse [symmetric]] show ?thesis
    by (simp add: happy_world_def demo_world_def)
qed

section \<open>Arbitration\<close>

lemma refundDispute_scan:
  assumes "refundDispute s op i w = (Inr d, w')"
  shows "\<exists>row deal. find_deal i (w_db w) = Some row \<and>
    scanDeal (sv_platform s) (sv_key s) row = Inr deal"
proof -
  from assms obtain d0 w1 where "withTx (sv_platform s) (refund_body s op i) w = (Inr d0, w1)"
    by (auto simp: refundDispute_def bindE_Inr_iff)
  then obtain v0 v1 where "w_db v0 = w_db w" "refund_body s op i v0 = (Inr d0, v1)"
    by (rule withTx_Inr)
  then obtain deal u where "Repo_GetDealForUpdate (sv_platform s) (sv_key s) i v0 = (Inr deal, u)"
    by (auto simp: refund_body_def bindE_Inr_iff)
  with \<open>w_db v0 = w_db w\<close> show ?thesis using get_deal_Inr by metis
qed

definition verdict_status :: "DisputeResolution \<Rightarrow> Status" where
  "verdict_status v = (if v = DisputeResolutionRelease then StatusReleased else StatusRefunded)"

text \<open>C9: a verdict returns a deal only when the deal was disputed: the row then carries the
  verdict's status and the operator; a release verdict has the payout evidence of a release,
  and a refund verdict has proof that the hold is gone and sent neither a settle nor a payout.\<close>

theorem resolve_records_verdict:
  assumes "anchor_ok s" and "Service_ResolveDispute s op0 i v w = (Inr d, w')"
  shows "\<exists>op row deal evs row'. op = ToLower (uni_lower (sv_platform s)) (TrimSpace op0) \<and> op \<noteq> '''' \<and>
    find_deal i (w_db w) = Some row \<and> scanDeal (sv_platform s) (sv_key s) row = Inr deal \<and>
    c_status row = StatusDisputed \<and> w_log w' = w_log w @ evs \<and>
    find_deal i (w_db w') = Some row' \<and> c_status row' = verdict_status v \<and>
    c_resolved_by row' = Some op \<and> ResolvedBy d = op \<and>
    (v = DisputeResolutionRelease \<and> paid_evidence s deal evs \<or>
     v = DisputeResolutionRefund \<and>
       (\<exists>ev \<in> set evs. hold_gone s (c_preimage_hash row) (null_str (c_checking_id row)) ev) \<and>
       (\<forall>ev \<in> set evs. \<not> is_payout ev \<and> \<not> is_settle (sv_lnbits s) ev))"
proof -
  let ?op = "ToLower (uni_lower (sv_platform s)) (TrimSpace op0)"
  from assms(2) have op: "?op \<noteq> ''''" and i: "i \<noteq> ''''"
    by (auto simp: Service_ResolveDispute_def Let_def split: if_splits)
  note run = assms(2) [unfolded Service_ResolveDispute_def Let_def if_not_P [OF i] if_not_P [OF op]]
  show ?thesis
  proof (cases v)
    case DisputeResolutionRelease
    with run obtain d0 w1 where rel: "releaseEscrow s i (resolve_options s ?op) w = (Inr d0, w1)"
      and tail: "bindE (time_now (sv_platform s)) (\<lambda>now.
        ret (d0\<lparr>ResolvedAt := Some now, ResolvedBy := ?op\<rparr>)) w1 = (Inr d, w')"
      by (auto simp: bindE_Inr_iff)
    from tail have t: "w_db w' = w_db w1" "w_log w' = w_log w1" "ResolvedBy d = ?op"
      by (auto simp: bindE_Inr_iff dest: time_now_run)
    from rel show ?thesis
    proof (rule resolve.release_success [OF _ assms(1)])
      fix row deal evs row'
      assume *: "find_deal i (w_db w) = Some row" "scanDeal (sv_platform s) (sv_key s) row = Inr deal"
        "ro_authorize (resolve_options s ?op) deal = None" "w_log w1 = w_log w @ evs"
        "paid_evidence s deal evs" "find_deal i (w_db w1) = Some row'" "c_status row' = StatusReleased"
        "\<exists>now q. row' = set_resolution StatusReleased ?op now q"
      have "c_status row = StatusDisputed"
        using *(3) scanDeal_fields(3) [OF *(2)] by (simp add: resolve_options_def split: if_splits)
      moreover have "c_resolved_by row' = Some ?op" using *(8) by (auto simp: set_resolution_def)
      ultimately show ?thesis
        using * t op DisputeResolutionRelease by (auto simp: verdict_status_def)
    qed
  next
    case DisputeResolutionRefund
    with run have "refundDispute s ?op i w = (Inr d, w')" by simp
    then show ?thesis
    proof (cases rule: refundDispute_effect)
      case (refused e evs)
      then show ?thesis by simp
    next
      case (ran row now evs)
      have "find_deal i (w_db w') = Some (set_resolution StatusRefunded ?op now row)"
        unfolding ran(3) using ran(1) by (intro deals.lookup_alter_same) simp_all
      moreover from assms(2) DisputeResolutionRefund obtain deal where
        "scanDeal (sv_platform s) (sv_key s) row = Inr deal"
        using refundDispute_scan [OF \<open>refundDispute s ?op i w = (Inr d, w')\<close>] ran(1) by auto
      ultimately show ?thesis
        using ran op DisputeResolutionRefund by (auto simp: verdict_status_def set_resolution_def)
    qed
  next
    case (DisputeResolutionOther x)
    with run show ?thesis by simp
  qed
qed

definition disputed_world :: "http_result list \<Rightarrow> demo world" where
  "disputed_world answers = demo_world [demo_row StatusDisputed] answers []"

theorem resolve_records_verdict_witness:
  "\<exists>d row'. fst (Service_ResolveDispute demo_svc ''op'' ''d'' DisputeResolutionRefund
      (disputed_world [answer ''OK''])) = Inr d \<and>
    find_deal ''d'' (w_db (snd (Service_ResolveDispute demo_svc ''op'' ''d'' DisputeResolutionRefund
      (disputed_world [answer ''OK''])))) = Some row' \<and>
    c_status row' = StatusRefunded \<and> c_resolved_by row' = Some (ResolvedBy d)"
proof -
  obtain d w' where run: "Service_ResolveDispute demo_svc ''op'' ''d'' DisputeResolutionRefund
      (disputed_world [answer ''OK'']) = (Inr d, w')"
    by (simp add: disputed_world_def run_resolve run)
  from resolve_records_verdict [OF demo_anchor run] run show ?thesis
    by (auto simp: verdict_status_def)
qed

text \<open>C12: reading the public share link of a locked deal and approving it always fails, without
  any effect: \<open>locked\<close> passes the check of \<open>PublicApproveDeal\<close> but is no status from which a
  release is legal.\<close>

theorem public_approve_locked:
  assumes "deals_constraint (t_deals (w_db w)) = None"
    and "select_row (\<lambda>r. c_share_token r = tok) (t_deals (w_db w)) = Some row"
    and "c_status row = StatusLocked"
    and "Service_PublicApproveDeal s tok w = (r, w')"
  shows "\<exists>e. r = Inl e \<and> w_db w' = w_db w \<and> w_log w' = w_log w"
proof (cases "tok = ''''")
  case True
  with assms(4) show ?thesis by (auto simp: Service_PublicApproveDeal_def)
next
  case False
  note run = assms(4) [unfolded Service_PublicApproveDeal_def if_not_P [OF False]]
  from run show ?thesis
  proof (cases rule: token_bind_cases)
    case (failed e)
    then show ?thesis by blast
  next
    case (got deal row' w1)
    with assms(2,3) have "DealStatus deal = StatusLocked" "ID deal = c_id row" "row' = row"
      by (auto simp: scanDeal_fields)
    with got(5) have "releaseEscrow s (c_id row) (public_options s) w1 = (r, w')"
      by (simp add: bindR_def ret_def)
    moreover have "find_deal (c_id row) (w_db w1) = Some row"
      using assms(1,2) got(3) by (simp add: deals_constraint_None find_by_id)
    ultimately have "\<exists>e. r = Inl e \<and> w_db w' = w_db w1 \<and> w_log w' = w_log w1"
      using assms(3) by (intro denied_release) (auto simp: public_options_def scanDeal_fields)
    with got show ?thesis by auto
  qed
qed

lemma locked_row: "select_row (\<lambda>r. c_share_token r = ''k'') (t_deals (w_db (demo_world [demo_row StatusLocked] a f)))
    = Some (demo_row StatusLocked)"
  by (simp add: select_row_def demo_world_def demo_row_def)

theorem public_approve_locked_witness:
  "\<exists>e. fst (Service_PublicApproveDeal demo_svc ''k'' (demo_world [demo_row StatusLocked] [] [])) = Inl e"
proof -
  have ok: "deals_constraint (t_deals (w_db (demo_world [demo_row StatusLocked] [] []))) = None"
    by (simp add: deals_constraint_def demo_world_def demo_row_def db_status_def)
  have st: "c_status (demo_row StatusLocked) = StatusLocked" by (simp add: demo_row_def)
  from public_approve_locked [OF ok locked_row st prod.collapse [symmetric]] show ?thesis
    by blast
qed


section \<open>Reconciliation\<close>



text \<open>\<open>reset_payout\<close> touches no other system and nothing but the payout tracking of the deal,
  and only on a deal that is not closed and has a payout in flight.\<close>

theorem reset_payout_effect:
  assumes "Service_ReconcilePayout s op i ReconcileResetPayout x w = (r, w')"
  shows "w_log w' = w_log w \<and>
    (w_db w' = w_db w \<and> (\<exists>e. r = Inl e) \<or>
     (\<exists>row. find_deal i (w_db w) = Some row \<and> \<not> terminal (c_status row) \<and>
        (c_payout_attempted_at row \<noteq> None \<or> null_str (c_payout_checking_id row) \<noteq> '''') \<and>
        w_db w' = upd_deal i (\<lambda>row. row\<lparr>c_payout_checking_id := None, c_payout_attempted_at := None\<rparr>)
          (w_db w)))"
proof (cases "ToLower (uni_lower (sv_platform s)) (TrimSpace op) = '''' \<or> i = ''''")
  case True
  with assms show ?thesis by (auto simp: Service_ReconcilePayout_def Let_def split: if_splits)
next
  case False
  with assms have "reconcile_reset s i w = (r, w')"
    by (simp add: Service_ReconcilePayout_def Let_def)
  then show ?thesis
    by (cases rule: reconcile_reset_effect) (auto simp: cleared_db_def)
qed

definition stuck_world :: "demo world" where
  "stuck_world = demo_world [stuck_row] [] []"

theorem reset_payout_effect_witness:
  "w_log (snd (Service_ReconcilePayout demo_svc ''op'' ''d'' ReconcileResetPayout '''' stuck_world)) = [] \<and>
   \<not> attempted ''d'' (w_db (snd (Service_ReconcilePayout demo_svc ''op'' ''d'' ReconcileResetPayout '''' stuck_world)))"
proof -
  let ?run = "Service_ReconcilePayout demo_svc ''op'' ''d'' ReconcileResetPayout '''' stuck_world"
  have ok: "\<exists>d. fst ?run = Inr d"
    by (simp add: stuck_world_def stuck_row_def Service_ReconcilePayout_def reconcile_reset_def run)
  have row: "find_deal ''d'' (w_db stuck_world) = Some stuck_row" "w_log stuck_world = []"
    by (simp_all add: stuck_world_def demo_world_def find_deal_def select_row_def stuck_row_def demo_row_def)
  from reset_payout_effect [OF prod.collapse [symmetric], of demo_svc "''op''" "''d''" "''''" stuck_world] ok row
  have "w_log (snd ?run) = []" "w_db (snd ?run) = upd_deal ''d''
      (\<lambda>row. row\<lparr>c_payout_checking_id := None, c_payout_attempted_at := None\<rparr>) (w_db stuck_world)"
    by auto
  then show ?thesis using row by (simp add: attempted_def deals.lookup_alter)
qed

end
