(* ===== verification/Release_Liveness.thy ===== *)
theory Release_Liveness
  imports Escrow_Properties
begin

text \<open>
  When nothing fails, the release completes: with a database that takes every statement and an
  LNbits that settles the hold and accepts the payout, an approval by the client of a deal with
  no payout in flight returns the released deal.
\<close>

section \<open>Total runs\<close>

definition yields :: "('w, 'a) prog \<Rightarrow> 'w \<Rightarrow> ('a \<Rightarrow> 'w \<Rightarrow> bool) \<Rightarrow> bool" where
  "yields m w Q \<longleftrightarrow> (\<exists>x w'. m w = (Inr x, w') \<and> Q x w')"

lemma yields_ret: "Q x w \<Longrightarrow> yields (ret x) w Q"
  by (simp add: yields_def)

lemma yields_bindE: "yields m w (\<lambda>x w'. yields (f x) w' Q) \<Longrightarrow> yields (bindE m f) w Q"
  by (auto simp: yields_def bindE_def)

lemma yields_wrapE: "yields m w Q \<Longrightarrow> yields (wrapE g m) w Q"
  by (auto simp: yields_def wrapE_def)

lemma yields_bindR: "yields m w (\<lambda>x w'. yields (f (Inr x)) w' Q) \<Longrightarrow> yields (bindR m f) w Q"
  by (auto simp: yields_def bindR_def)

lemma yields_mono: "yields m w Q \<Longrightarrow> (\<And>x w'. Q x w' \<Longrightarrow> R x w') \<Longrightarrow> yields m w R"
  by (auto simp: yields_def)

section \<open>Statements and calls that succeed\<close>

definition db_up :: "'e platform \<Rightarrow> bool" where
  "db_up P \<longleftrightarrow> (\<forall>e. fst (pg_fault P e) = None)"

definition settles :: "'e platform \<Rightarrow> lnbits_client \<Rightarrow> string \<Rightarrow> bool" where
  "settles P c pre \<longleftrightarrow> url_error P (rq_url (settle_request c pre)) = None \<and>
     (\<forall>e. \<exists>t out. fst (http_do P (settle_request c pre) e) = Response 200 (Inr t) \<and>
        decode_body P (decode_simple P) (Inr t) = Inr out \<and> si_OK out)"

definition pays :: "'e platform \<Rightarrow> lnbits_client \<Rightarrow> string \<Rightarrow> bool" where
  "pays P c bolt \<longleftrightarrow> url_error P (rq_url (pay_request c bolt)) = None \<and>
     (\<forall>e. \<exists>t inv. fst (http_do P (pay_request c bolt) e) = Response 200 (Inr t) \<and>
        decode_body P (decode_invoice P) (Inr t) = Inr inv)"

lemma query_up:
  assumes "db_up P" and "\<And>now uuid. \<exists>x. fst (f now uuid (w_db w)) = Inr x"
    and "\<And>now uuid x db w'. f now uuid (w_db w) = (Inr x, db) \<Longrightarrow> w_db w' = db \<Longrightarrow>
      w_log w' = w_log w \<Longrightarrow> Q x w'"
  shows "yields (query P pre f) w Q"
proof -
  obtain e where e: "pg_fault P (w_ext w) = (None, e)"
    using assms(1) by (metis db_up_def prod.collapse)
  obtain now e1 where n: "clock P e = (now, e1)" by (cases "clock P e")
  obtain uuid e2 where u: "pg_uuid P e1 = (uuid, e2)" by (cases "pg_uuid P e1")
  from assms(2) obtain x db where f: "f now uuid (w_db w) = (Inr x, db)"
    by (metis prod.collapse)
  then have "query P pre f w = (Inr x, w\<lparr>w_ext := e2, w_db := db\<rparr>)"
    using e n u by (simp add: query_def pg_step_def)
  moreover have "Q x (w\<lparr>w_ext := e2, w_db := db\<rparr>)"
    by (rule assms(3) [OF f]) simp_all
  ultimately show ?thesis by (simp add: yields_def)
qed

lemma get_up:
  assumes "db_up P" and "find_deal i (w_db w) = Some row" and "scanDeal P key row = Inr deal"
    and "\<And>w'. w_db w' = w_db w \<Longrightarrow> w_log w' = w_log w \<Longrightarrow> Q deal w'"
  shows "yields (Repo_GetDealForUpdate P key i) w Q"
  unfolding Repo_GetDealForUpdate_def select_deal_def
  by (rule yields_bindE, rule query_up [OF assms(1)])
    (use assms(2-) in \<open>auto simp: find_deal_def yields_def wrapE_def\<close>)

text \<open>An assignment that leaves the constrained columns alone.\<close>

definition plain_set :: "(deal_row \<Rightarrow> deal_row) \<Rightarrow> bool" where
  "plain_set f \<longleftrightarrow> (\<forall>r. c_id (f r) = c_id r \<and> c_preimage_hash (f r) = c_preimage_hash r \<and>
     c_share_token (f r) = c_share_token r \<and> (db_status (c_status r) \<longrightarrow> db_status (c_status (f r))))"

lemma constraint_update:
  assumes "plain_set f" and "deals_constraint rs = None"
  shows "deals_constraint (update_rows p f rs) = None"
proof -
  have m: "map g (update_rows p f rs) = map g rs" if "\<And>r. g (f r) = g r" for g :: "deal_row \<Rightarrow> string"
    using that by (simp add: update_rows_def)
  have keys: "map c_id (update_rows p f rs) = map c_id rs"
    "map c_preimage_hash (update_rows p f rs) = map c_preimage_hash rs"
    "map c_share_token (update_rows p f rs) = map c_share_token rs"
    using assms(1) by (auto intro!: m simp: plain_set_def)
  show ?thesis
    using assms unfolding deals_constraint_None keys
    by (auto simp: set_update_rows plain_set_def)
qed

lemma update_up:
  assumes "db_up P" and "find_deal i (w_db w) = Some row" and "deals_constraint (t_deals (w_db w)) = None"
    and "\<And>now. plain_set (f now)"
    and "\<And>now w'. w_db w' = upd_deal i (f now) (w_db w) \<Longrightarrow>
      deals_constraint (t_deals (w_db w')) = None \<Longrightarrow> w_log w' = w_log w \<Longrightarrow> Q () w'"
  shows "yields (require_row (update_deals P pre (\<lambda>r. c_id r = i) f)) w Q"
proof -
  have ok: "deals_constraint (update_rows (\<lambda>r. c_id r = i) (f now) (t_deals (w_db w))) = None" for now
    by (rule constraint_update [OF assms(4,3)])
  have "affected (\<lambda>r. c_id r = i) (t_deals (w_db w)) \<noteq> 0"
    using assms(2) by (auto simp: affected_0 find_deal_def dest: select_row_Some)
  then show ?thesis
    unfolding require_row_def update_deals_def
    by (intro yields_bindE query_up [OF assms(1)])
      (use assms(5) ok in \<open>auto simp: Let_def yields_def upd_deal_def\<close>)
qed

lemma withTx_up:
  assumes "db_up P"
    and "\<And>w0. w_db w0 = w_db w \<Longrightarrow> w_log w0 = w_log w \<Longrightarrow> yields body w0
      (\<lambda>x w1. \<forall>w2. w_db w2 = w_db w1 \<longrightarrow> w_log w2 = w_log w1 \<longrightarrow> Q x w2)"
  shows "yields (withTx P body) w Q"
proof -
  obtain e where e: "pg_fault P (w_ext w) = (None, e)"
    using assms(1) by (metis db_up_def prod.collapse)
  from assms(2) [of "w\<lparr>w_ext := e\<rparr>"] obtain x w1 where b: "body (w\<lparr>w_ext := e\<rparr>) = (Inr x, w1)"
    and Q: "\<And>w2. w_db w2 = w_db w1 \<Longrightarrow> w_log w2 = w_log w1 \<Longrightarrow> Q x w2"
    by (auto simp: yields_def)
  obtain e1 where e1: "pg_fault P (w_ext w1) = (None, e1)"
    using assms(1) by (metis db_up_def prod.collapse)
  have "withTx P body w = (Inr x, w1\<lparr>w_ext := e1\<rparr>)"
    using e b e1 by (simp add: withTx_def pg_step_def)
  then show ?thesis using Q by (simp add: yields_def)
qed

lemma settle_up:
  assumes "settles P c pre"
    and "\<And>out w' res. w_db w' = w_db w \<Longrightarrow> w_log w' = w_log w @ [EvHttp (settle_request c pre) res] \<Longrightarrow> Q out w'"
  shows "yields (Client_SettleHold P c pre) w Q"
proof -
  obtain t out e where "http_do P (settle_request c pre) (w_ext w) = (Response 200 (Inr t), e)"
    "decode_body P (decode_simple P) (Inr t) = Inr out" "si_OK out"
    using assms(1) by (metis settles_def prod.collapse)
  with assms show ?thesis
    by (auto simp: yields_def Client_SettleHold_def postJSON_def new_request_def transport_def
        do_http_def bindE_def wrapE_def settles_def log_event_def)
qed

lemma pay_up:
  assumes "pays P c bolt"
    and "\<And>x w' res. w_db w' = w_db w \<Longrightarrow> w_log w' = w_log w @ [EvHttp (pay_request c bolt) res] \<Longrightarrow> Q x w'"
  shows "yields (Client_PayInvoice P c bolt) w Q"
proof -
  obtain t out e where "http_do P (pay_request c bolt) (w_ext w) = (Response 200 (Inr t), e)"
    "decode_body P (decode_invoice P) (Inr t) = Inr out"
    using assms(1) by (metis pays_def prod.collapse)
  with assms show ?thesis
    by (auto simp: yields_def Client_PayInvoice_def new_request_def transport_def
        do_http_def bindE_def wrapE_def pays_def log_event_def)
qed

lemma notify_up:
  assumes "\<And>w'. w_db w' = w_db w \<Longrightarrow> Q () w'"
  shows "yields (notify s n d) w Q"
  using assms by (simp add: yields_def notify_def log_event_def)

lemma anchor_up:
  assumes "anchor_ok s" and "\<And>w'. t_deals (w_db w') = t_deals (w_db w) \<Longrightarrow> Q () w'"
  shows "yields (anchorReleasedDeal s d) w Q"
proof -
  obtain r w' where run: "anchorReleasedDeal s d w = (r, w')" by (cases "anchorReleasedDeal s d w")
  have "r = Inr ()"
    using run by (auto simp: anchorReleasedDeal_def bindE_def bindR_def split: option.splits prod.splits)
  moreover have "t_deals (w_db w') = t_deals (w_db w)"
    using anchor_deals [OF assms(1)] run by (rule runs_inD)
  ultimately show ?thesis using run assms(2) by (auto simp: yields_def)
qed

section \<open>The release\<close>

lemma upd_find:
  "find_deal i db = Some row \<Longrightarrow> (\<And>r. c_id (f r) = c_id r) \<Longrightarrow>
   find_deal i (upd_deal i f db) = Some (f row)"
  by (rule deals.lookup_alter_same)

definition marked_row :: "time \<Rightarrow> deal_row \<Rightarrow> deal_row" where
  "marked_row now row = row\<lparr>c_payout_attempted_at := Some now\<rparr>"

lemma scan_marked:
  "scanDeal P key row = Inr deal \<Longrightarrow> scanDeal P key (marked_row now row) =
   Inr (deal\<lparr>PayoutAttemptedAt := Some now\<rparr>)"
  by (auto simp: scanDeal_def marked_row_def split: sum.splits)

lemma phase1_up:
  assumes "db_up (sv_platform s)" and "find_deal i (w_db w) = Some row"
    and "deals_constraint (t_deals (w_db w)) = None"
    and "scanDeal (sv_platform s) (sv_key s) row = Inr deal" and "ro_authorize opts deal = None"
    and "c_payout_attempted_at row = None" and "null_str (c_payout_checking_id row) = ''''"
    and "\<And>now w'. find_deal i (w_db w') = Some (marked_row now row) \<Longrightarrow>
      deals_constraint (t_deals (w_db w')) = None \<Longrightarrow> w_log w' = w_log w \<Longrightarrow>
      Q (deal, False, '''') w'"
  shows "yields (release_phase1 s i opts) w Q"
proof -
  note f = scanDeal_fields(4,5) [OF assms(4)]
  have id: "ID deal = i"
    using scanDeal_fields(11) [OF assms(4)] assms(2) by (auto simp: find_deal_def dest: select_row_Some)
  show ?thesis
    unfolding release_phase1_def
  proof (rule withTx_up [OF assms(1)], rule yields_bindE, rule get_up [OF assms(1) _ assms(4)])
    fix w0 :: "'a world"
    assume "w_db w0 = w_db w"
    then show "find_deal i (w_db w0) = Some row" using assms(2) by simp
  next
    fix w0 w1 :: "'a world"
    assume w: "w_db w0 = w_db w" "w_log w0 = w_log w" "w_db w1 = w_db w0" "w_log w1 = w_log w0"
    show "yields (case ro_authorize opts deal of
        None \<Rightarrow> bindE (payout_policy s deal) (\<lambda>(confirmed, payoutCheckingID).
          bindE (if confirmed then ret ()
            else wrapE (wrapf (''recording payout attempt for deal '' @ ID deal @ '': ''))
              (Repo_MarkPayoutAttempted (sv_platform s) (ID deal))) (\<lambda>_.
            ret (deal, confirmed, payoutCheckingID)))
      | Some e \<Rightarrow> fail e) w1 (\<lambda>x w1. \<forall>w2. w_db w2 = w_db w1 \<longrightarrow> w_log w2 = w_log w1 \<longrightarrow> Q x w2)"
    proof -
      have row: "find_deal i (w_db w1) = Some row" using assms(2) w by simp
      have "yields (Repo_MarkPayoutAttempted (sv_platform s) i) w1 (\<lambda>_ w2. \<exists>now.
          find_deal i (w_db w2) = Some (marked_row now row) \<and>
          deals_constraint (t_deals (w_db w2)) = None \<and> w_log w2 = w_log w)"
        unfolding Repo_MarkPayoutAttempted_def
        by (rule update_up [OF assms(1) row])
          (use assms(3) w upd_find [OF row] in \<open>auto simp: plain_set_def marked_row_def\<close>)
      then obtain now w2 where m: "Repo_MarkPayoutAttempted (sv_platform s) i w1 = (Inr (), w2)"
        "find_deal i (w_db w2) = Some (marked_row now row)"
        "deals_constraint (t_deals (w_db w2)) = None" "w_log w2 = w_log w"
        by (auto simp: yields_def)
      have "Q (deal, False, '''') w3" if "w_db w3 = w_db w2" "w_log w3 = w_log w2" for w3
        using that m by (intro assms(8) [of w3 now]) simp_all
      with m(1) assms(5-7) f id show ?thesis
        by (simp add: yields_def payout_policy_def bindE_def wrapE_def)
    qed
  qed
qed

lemma phase2_up:
  assumes "settles (sv_platform s) (sv_lnbits s) (Preimage deal)"
    and "pays (sv_platform s) (sv_lnbits s) (PayeeInvoice deal)" and "Preimage deal \<noteq> ''''"
    and "\<And>x w'. w_db w' = w_db w \<Longrightarrow> Q x w'"
  shows "yields (release_phase2 s deal False y) w Q"
  unfolding release_phase2_def settleHoldGuarded_def
  using assms(3)
  by (auto intro!: yields_bindR settle_up [OF assms(1)] pay_up [OF assms(2)]
      simp: yields_def [of "ret _"] assms(4))

lemma phase3_up:
  assumes "db_up (sv_platform s)" and "find_deal i (w_db w) = Some row"
    and "deals_constraint (t_deals (w_db w)) = None"
    and "scanDeal (sv_platform s) (sv_key s) row = Inr deal2"
    and "CanTransition (c_status row) StatusReleased"
    and "c_status row = StatusDisputed \<Longrightarrow> DealStatus deal = StatusDisputed"
    and "\<And>row' w'. find_deal i (w_db w') = Some row' \<Longrightarrow> c_status row' = StatusReleased \<Longrightarrow>
      Q deal2 w'"
  shows "yields (release_phase3 s i (approve_options s em) deal x) w Q"
  unfolding release_phase3_def phase3_body_def
proof (rule withTx_up [OF assms(1)], rule yields_bindE, rule get_up [OF assms(1) _ assms(4)])
  fix w0 :: "'a world"
  assume "w_db w0 = w_db w"
  then show "find_deal i (w_db w0) = Some row" using assms(2) by simp
next
  fix w0 w1 :: "'a world"
  assume w: "w_db w0 = w_db w" "w_db w1 = w_db w0"
  let ?rec = "if x \<noteq> '''' \<and> PayoutCheckingID deal2 = ''''
    then wrapE (wrapf (''recording payout for deal '' @ ID deal @ '': ''))
           (Repo_UpdatePayoutCheckingID (sv_platform s) i x)
    else ret ()"
  have row: "find_deal i (w_db w1) = Some row" "deals_constraint (t_deals (w_db w1)) = None"
    using assms(2,3) w by simp_all
  have "yields ?rec w1 (\<lambda>_ w2. (\<exists>r. find_deal i (w_db w2) = Some r) \<and>
      deals_constraint (t_deals (w_db w2)) = None)"
    unfolding Repo_UpdatePayoutCheckingID_def using row upd_find [OF row(1)]
    by (auto simp: plain_set_def yields_def [of "ret _"]
        intro!: yields_wrapE update_up [OF assms(1) row(1)])
  then obtain w2 r where rec: "?rec w1 = (Inr (), w2)" "find_deal i (w_db w2) = Some r"
    "deals_constraint (t_deals (w_db w2)) = None"
    by (auto simp: yields_def)
  have "yields (ro_finalize (approve_options s em) i) w2 (\<lambda>_ w3. \<exists>row'.
      find_deal i (w_db w3) = Some row' \<and> c_status row' = StatusReleased)"
    unfolding approve_options_def releaseEscrowOptions.simps Repo_UpdateStatus_def
    by (rule update_up [OF assms(1) rec(2,3)])
      (use upd_find [OF rec(2)] in \<open>auto simp: plain_set_def set_status_def db_status_def\<close>)
  then obtain w3 row' where fin: "ro_finalize (approve_options s em) i w2 = (Inr (), w3)"
    "find_deal i (w_db w3) = Some row'" "c_status row' = StatusReleased"
    by (auto simp: yields_def)
  have "Q deal2 w4" if "w_db w4 = w_db w3" for w4
    using that fin by (intro assms(7)) simp_all
  with rec(1) fin(1) assms(5,6) scanDeal_fields(3) [OF assms(4)]
  show "yields (if DealStatus deal \<noteq> StatusDisputed \<and> DealStatus deal2 = StatusDisputed
      then fail (errorf ErrInvalidTransition
             '': deal was disputed during release; cannot auto-release'')
      else if \<not> CanTransition (DealStatus deal2) StatusReleased
      then fail (transition_err (DealStatus deal2) StatusReleased)
      else bindE ?rec (\<lambda>_. bindE (ro_finalize (approve_options s em) i) (\<lambda>_. ret deal2))) w1
      (\<lambda>x w1. \<forall>w2. w_db w2 = w_db w1 \<longrightarrow> w_log w2 = w_log w1 \<longrightarrow> Q x w2)"
    by (auto simp: yields_def bindE_def)
qed

text \<open>C11: an approval completes when nothing fails: the database takes every statement, LNbits
  settles the hold and accepts the payout, the caller is the client, the status admits a release
  and no payout is in flight. Then \<open>ApproveDeal\<close> returns the deal, released, and so is the row.\<close>

theorem approve_completes:
  assumes "db_up (sv_platform s)" and "anchor_ok s" and "i \<noteq> ''''"
    and "find_deal i (w_db w) = Some row" and "deals_constraint (t_deals (w_db w)) = None"
    and "scanDeal (sv_platform s) (sv_key s) row = Inr deal" and "Preimage deal \<noteq> ''''"
    and "settles (sv_platform s) (sv_lnbits s) (Preimage deal)"
    and "pays (sv_platform s) (sv_lnbits s) (PayeeInvoice deal)"
    and "EqualFold (uni_fold (sv_platform s)) (c_client_email row) email"
    and "CanTransition (c_status row) StatusReleased"
    and "c_payout_attempted_at row = None" and "null_str (c_payout_checking_id row) = ''''"
  shows "\<exists>d w' row'. Service_ApproveDeal s email i w = (Inr d, w') \<and> DealStatus d = StatusReleased \<and>
    find_deal i (w_db w') = Some row' \<and> c_status row' = StatusReleased"
proof -
  let ?opts = "approve_options s email"
  note f = scanDeal_fields [OF assms(6)]
  have ok: "ro_authorize ?opts deal = None"
    using assms(10,11) f by (simp add: approve_options_def)
  have "yields (releaseEscrow s i ?opts) w (\<lambda>d w'. DealStatus d = StatusReleased \<and>
      (\<exists>row'. find_deal i (w_db w') = Some row' \<and> c_status row' = StatusReleased))"
    unfolding releaseEscrow_def if_not_P [OF assms(3)]
  proof (rule yields_bindE, rule phase1_up [OF assms(1,4-6) ok assms(12,13)], unfold split_conv,
      rule yields_bindE, rule phase2_up [OF assms(8,9,7)], rule yields_bindE)
    fix now x and w1 w2 :: "'a world"
    assume w1: "find_deal i (w_db w1) = Some (marked_row now row)"
      "deals_constraint (t_deals (w_db w1)) = None" "w_db w2 = w_db w1"
    show "yields (release_phase3 s i ?opts deal x) w2
       (\<lambda>deal2 w'. yields (let d = deal2\<lparr>DealStatus := StatusReleased\<rparr>
          in bindE (anchorReleasedDeal s d) (\<lambda>_. bindE (notify s DealReleased d) (\<lambda>_. ret d))) w'
          (\<lambda>d w'. DealStatus d = StatusReleased \<and>
            (\<exists>row'. find_deal i (w_db w') = Some row' \<and> c_status row' = StatusReleased)))"
      by (rule phase3_up [OF assms(1) _ _ scan_marked [OF assms(6)]])
        (use w1 assms(11) f in \<open>auto simp: marked_row_def Let_def find_deal_def yields_def [of "ret _"]
          intro!: yields_bindE anchor_up [OF assms(2)] notify_up\<close>)
  qed
  then show ?thesis
    using assms(3) by (auto simp: yields_def Service_ApproveDeal_def)
qed

definition calm_svc :: "demo svc" where
  "calm_svc = demo_svc\<lparr>sv_platform := demo_platform\<lparr>pg_fault := \<lambda>e. (None, e),
     http_do := \<lambda>rq e. (answer (if rq = settle_request demo_lnbits ''s'' then ''OK'' else ''PAYOUT''), e)\<rparr>\<rparr>"

lemma calm_fields [simp]:
  "sv_lnbits calm_svc = demo_lnbits" "sv_key calm_svc = ''''"
  "pg_fault (sv_platform calm_svc) e = (None, e)"
  "http_do (sv_platform calm_svc) rq e =
    (answer (if rq = settle_request demo_lnbits ''s'' then ''OK'' else ''PAYOUT''), e)"
  "url_error (sv_platform calm_svc) u = None"
  "json_parse (sv_platform calm_svc) t = map_of demo_docs t"
  "anchor_ok calm_svc" "\<not> uni_fold (sv_platform calm_svc) a b"
  by (simp_all add: calm_svc_def demo_svc_def anchor_ok_def)

lemma calm_scan: "scanDeal (sv_platform calm_svc) '''' (demo_row StatusWorkSubmitted) =
    Inr (the (case scanDeal (sv_platform calm_svc) '''' (demo_row StatusWorkSubmitted) of
      Inl _ \<Rightarrow> None | Inr d \<Rightarrow> Some d))"
  by (simp add: scanDeal_def decryptPreimage_def HasPrefix_def preimageEncPrefix_def demo_row_def)

theorem approve_completes_witness:
  "\<exists>d w' row'. Service_ApproveDeal calm_svc ''c@x'' ''d'' happy_world = (Inr d, w') \<and>
    DealStatus d = StatusReleased \<and> find_deal ''d'' (w_db w') = Some row' \<and> c_status row' = StatusReleased"
proof (rule approve_completes [where row = "demo_row StatusWorkSubmitted"])
  show "db_up (sv_platform calm_svc)" by (simp add: db_up_def)
  show "find_deal ''d'' (w_db happy_world) = Some (demo_row StatusWorkSubmitted)"
    by (simp add: find_deal_def select_row_def happy_world_def demo_world_def demo_row_def)
  show "deals_constraint (t_deals (w_db happy_world)) = None"
    by (simp add: deals_constraint_def happy_world_def demo_world_def demo_row_def db_status_def)
  show "scanDeal (sv_platform calm_svc) (sv_key calm_svc) (demo_row StatusWorkSubmitted) =
    Inr (the (case scanDeal (sv_platform calm_svc) '''' (demo_row StatusWorkSubmitted) of
      Inl _ \<Rightarrow> None | Inr d \<Rightarrow> Some d))"
    using calm_scan by simp
qed (simp_all add: settles_def pays_def answer_def demo_row_def scanDeal_def decryptPreimage_def
    HasPrefix_def preimageEncPrefix_def request_defs demo_docs_def decode_body_def decode_simple_def
    decode_invoice_def field_def CanTransition_def EqualFold_def runes_ascii bytes_def fold_rune_def)

end
