(* ===== verification/Deal_Artifacts.thy ===== *)
theory Deal_Artifacts
  imports Deal_Service
begin

text \<open>
  Artifacts and verifications of \<open>backend/internal/deals/service.go\<close>: uploading a deliverable
  under a size cap, deleting, downloading and listing, and the verification records.
\<close>

section \<open>Storage keys\<close>

text \<open>\<open>filepath.Ext\<close>: the suffix from the last dot of the last path element.\<close>

definition filepath_Ext :: "string \<Rightarrow> string" where
  "filepath_Ext path =
     (let base = rev (takeWhile (\<lambda>c. c \<noteq> CHR ''/'') (rev path))
      in if CHR ''.'' \<in> set base
         then CHR ''.'' # rev (takeWhile (\<lambda>c. c \<noteq> CHR ''.'') (rev base)) else '''')"

definition safe_rune :: "rune \<Rightarrow> bool" where
  "safe_rune r \<longleftrightarrow> \<not> ((r < 97 \<or> r > 122) \<and> (r < 48 \<or> r > 57))"

definition sanitizeExt :: "'e platform \<Rightarrow> string \<Rightarrow> string" where
  "sanitizeExt P filename =
     (let ext = ToLower (uni_lower P) (filepath_Ext filename)
      in if length ext < 2 \<or> length ext > 10 then ''''
         else if \<not> list_all safe_rune (runes (drop 1 ext)) then '''' else ext)"

definition artifactStorageKey :: "'e platform \<Rightarrow> string \<Rightarrow> string \<Rightarrow> ('e world, string) prog" where
  "artifactStorageKey P dealID filename =
     bindE (read_rand P 32) (\<lambda>b.
       ret (''deals/'' @ dealID @ ''/'' @ hex_EncodeToString b @ sanitizeExt P filename))"

section \<open>Uploading\<close>

text \<open>\<open>io.LimitReader\<close>: at most \<open>n\<close> bytes, none when \<open>n\<close> is not positive; the end of the stream
  comes before an error of the reader that lies beyond the limit.\<close>

definition LimitReader :: "reader \<Rightarrow> 64 word \<Rightarrow> reader" where
  "LimitReader r n =
     (if sint n \<le> 0 then \<lparr>rd_content = '''', rd_error = None\<rparr>
      else if length (rd_content r) < nat (sint n) then r
      else \<lparr>rd_content = take (nat (sint n)) (rd_content r), rd_error = None\<rparr>)"

definition MaxUploadBytes :: "'e svc \<Rightarrow> 64 word" where
  "MaxUploadBytes s = (if sint (sv_maxUploadBytes s) \<le> 0 then 0 else sv_maxUploadBytes s)"

definition valid_kind :: "ArtifactKind \<Rightarrow> bool" where
  "valid_kind k \<longleftrightarrow> k = ArtifactSourceCode \<or> k = ArtifactSourceFile"

definition upload_closed :: "Status \<Rightarrow> bool" where
  "upload_closed st \<longleftrightarrow>
     st \<in> {StatusWorkSubmitted, StatusReviewing, StatusReleased, StatusDisputed, StatusRefunded}"

text \<open>The part of \<open>UploadArtifact\<close> from the storage on; \<open>storage\<close> is the configured backend.\<close>

definition upload_store ::
  "'e svc \<Rightarrow> 'e storage \<Rightarrow> string \<Rightarrow> ArtifactKind \<Rightarrow> string \<Rightarrow> reader \<Rightarrow> ('e world, Artifact) prog" where
  "upload_store s storage dealID kind key r =
     bindE (wrapE (wrapf ''storing artifact: '')
              (st_Save storage key (LimitReader r (sv_maxUploadBytes s + 1)))) (\<lambda>n.
       let counted = (of_nat n :: 64 word)
       in if sint counted > sint (sv_maxUploadBytes s)
          then bindR (st_Delete storage key) (\<lambda>_.
            fail (errorf ErrInvalidInput
              ('': upload exceeds '' @ show_int (sint (sv_maxUploadBytes s)) @ '' bytes'')))
          else
            bindR (Repo_CreateArtifact (sv_platform s)
                \<lparr>a_ID = '''', a_DealID = dealID, a_Kind = kind, a_StorageKey = key, a_UploadedAt = 0\<rparr>)
              (\<lambda>q. case q of
                 Inl e \<Rightarrow> bindR (st_Delete storage key) (\<lambda>_. fail e)
               | Inr a \<Rightarrow> ret a))"

definition Service_UploadArtifact ::
  "'e svc \<Rightarrow> string \<Rightarrow> string \<Rightarrow> ArtifactKind \<Rightarrow> string \<Rightarrow> reader option \<Rightarrow> ('e world, Artifact) prog" where
  "Service_UploadArtifact s userID dealID kind filename reader =
     (case sv_storage s of
        None \<Rightarrow> fail (errorf ErrInvalidInput '': artifact storage is not configured'')
      | Some storage \<Rightarrow>
          if sint (sv_maxUploadBytes s) \<le> 0
          then fail (errorf ErrInvalidInput '': artifact upload limit is not configured'')
          else if dealID = '''' then fail (errorf ErrInvalidInput '': deal id is required'')
          else if \<not> valid_kind kind then fail (errorf ErrInvalidInput '': invalid artifact kind'')
          else
            (case reader of
               None \<Rightarrow> fail (errorf ErrInvalidInput '': artifact content is required'')
             | Some r \<Rightarrow>
                 bindE (Repo_GetDealByID (sv_platform s) (sv_key s) dealID) (\<lambda>deal.
                   if FreelancerID deal \<noteq> userID then fail (sentinel_err ErrForbidden)
                   else if upload_closed (DealStatus deal)
                   then fail (errorf ErrInvalidInput '': uploads are no longer allowed'')
                   else
                     bindE (wrapE (wrapf ''generating artifact storage key: '')
                              (artifactStorageKey (sv_platform s) dealID filename)) (\<lambda>key.
                       upload_store s storage dealID kind key r))))"

section \<open>Deleting\<close>

definition Service_DeleteArtifact ::
  "'e svc \<Rightarrow> string \<Rightarrow> string \<Rightarrow> string \<Rightarrow> ('e world, unit) prog" where
  "Service_DeleteArtifact s userID dealID artifactID =
     (if dealID = '''' then fail (errorf ErrInvalidInput '': deal id is required'')
      else if artifactID = '''' then fail (errorf ErrInvalidInput '': artifact id is required'')
      else
        bindE (Repo_GetDealByID (sv_platform s) (sv_key s) dealID) (\<lambda>deal.
          if FreelancerID deal \<noteq> userID then fail (sentinel_err ErrForbidden)
          else
            bindE (Repo_GetArtifactByID (sv_platform s) artifactID) (\<lambda>artifact.
              if a_DealID artifact \<noteq> dealID then fail (sentinel_err ErrArtifactNotFound)
              else
                bindE (Repo_DeleteArtifact (sv_platform s) artifactID) (\<lambda>_.
                  case sv_storage s of
                    None \<Rightarrow> ret ()
                  | Some storage \<Rightarrow>
                      bindR (st_Delete storage (a_StorageKey artifact)) (\<lambda>_. ret ())))))"

section \<open>Reading\<close>

text \<open>The artifact of a deal, for a caller who takes part in the deal.\<close>

definition artifact_for ::
  "'e svc \<Rightarrow> string \<Rightarrow> string \<Rightarrow> string \<Rightarrow> string \<Rightarrow> ('e world, Artifact) prog" where
  "artifact_for s userID email dealID artifactID =
     bindE (Repo_GetArtifactByID (sv_platform s) artifactID) (\<lambda>artifact.
       if a_DealID artifact \<noteq> dealID then fail (sentinel_err ErrArtifactNotFound)
       else
         bindE (Repo_GetDealByID (sv_platform s) (sv_key s) (a_DealID artifact)) (\<lambda>deal.
           if \<not> may_see s deal userID email then fail (sentinel_err ErrForbidden)
           else ret artifact))"

definition Service_GetArtifactByID ::
  "'e svc \<Rightarrow> string \<Rightarrow> string \<Rightarrow> string \<Rightarrow> string \<Rightarrow> ('e world, Artifact) prog" where
  "Service_GetArtifactByID s userID email dealID artifactID =
     (if dealID = '''' then fail (errorf ErrInvalidInput '': deal id is required'')
      else if artifactID = '''' then fail (errorf ErrInvalidInput '': artifact id is required'')
      else artifact_for s userID email dealID artifactID)"

definition storage_error :: "string \<Rightarrow> goerr \<Rightarrow> goerr" where
  "storage_error what e =
     (if errors_Is e Storage_ErrNotFound then sentinel_err ErrArtifactNotFound else wrapf what e)"

definition Service_DownloadArtifact ::
  "'e svc \<Rightarrow> string \<Rightarrow> string \<Rightarrow> string \<Rightarrow> string \<Rightarrow> ('e world, Artifact \<times> string \<times> int) prog" where
  "Service_DownloadArtifact s userID email dealID artifactID =
     (case sv_storage s of
        None \<Rightarrow> fail (errorf ErrInvalidInput '': artifact storage is not configured'')
      | Some storage \<Rightarrow>
          if dealID = '''' then fail (errorf ErrInvalidInput '': deal id is required'')
          else if artifactID = '''' then fail (errorf ErrInvalidInput '': artifact id is required'')
          else
            bindE (artifact_for s userID email dealID artifactID) (\<lambda>artifact.
            bindE (wrapE (storage_error ''opening stored artifact: '')
                     (st_Open storage (a_StorageKey artifact))) (\<lambda>content.
            bindE (wrapE (storage_error ''sizing stored artifact: '')
                     (st_Size storage (a_StorageKey artifact))) (\<lambda>size.
              ret (artifact, content, size)))))"

definition Service_ListArtifactsByDeal ::
  "'e svc \<Rightarrow> string \<Rightarrow> string \<Rightarrow> string \<Rightarrow> ('e world, Artifact list) prog" where
  "Service_ListArtifactsByDeal s userID email dealID =
     (if dealID = '''' then fail (errorf ErrInvalidInput '': deal id is required'')
      else
        bindE (Repo_GetDealByID (sv_platform s) (sv_key s) dealID) (\<lambda>deal.
          if \<not> may_see s deal userID email then fail (sentinel_err ErrForbidden)
          else Repo_ListArtifactsByDeal (sv_platform s) dealID))"

section \<open>Verifications\<close>

definition valid_method :: "VerificationMethod \<Rightarrow> bool" where
  "valid_method m \<longleftrightarrow>
     m \<in> {VerificationSandbox, VerificationPreviewPDF, VerificationPreviewImage}"

definition Service_CreateVerification ::
  "'e svc \<Rightarrow> string \<Rightarrow> Verification \<Rightarrow> ('e world, Verification) prog" where
  "Service_CreateVerification s userID v =
     (if v_ArtifactID v = '''' then fail (errorf ErrInvalidInput '': artifact id is required'')
      else if v_Reference v = '''' then fail (errorf ErrInvalidInput '': reference is required'')
      else if \<not> valid_method (v_Method v)
      then fail (errorf ErrInvalidInput '': invalid verification method'')
      else
        bindE (Repo_GetArtifactByID (sv_platform s) (v_ArtifactID v)) (\<lambda>artifact.
        bindE (Repo_GetDealByID (sv_platform s) (sv_key s) (a_DealID artifact)) (\<lambda>deal.
          if FreelancerID deal \<noteq> userID then fail (sentinel_err ErrForbidden)
          else
            Repo_CreateVerification (sv_platform s)
              (if v_Status v = VerificationStatusOther '''' then v\<lparr>v_Status := VerificationPending\<rparr>
               else v))))"

definition Service_GetVerificationByID ::
  "'e svc \<Rightarrow> string \<Rightarrow> string \<Rightarrow> string \<Rightarrow> string \<Rightarrow> ('e world, Verification) prog" where
  "Service_GetVerificationByID s userID dealID artifactID verificationID =
     (if dealID = '''' then fail (errorf ErrInvalidInput '': deal id is required'')
      else if artifactID = '''' then fail (errorf ErrInvalidInput '': artifact id is required'')
      else if verificationID = ''''
      then fail (errorf ErrInvalidInput '': verification id is required'')
      else
        bindE (Repo_GetVerificationByID (sv_platform s) verificationID) (\<lambda>v.
          if v_ArtifactID v \<noteq> artifactID then fail (sentinel_err ErrVerificationNotFound)
          else
            bindE (Repo_GetArtifactByID (sv_platform s) (v_ArtifactID v)) (\<lambda>artifact.
              if a_DealID artifact \<noteq> dealID then fail (sentinel_err ErrVerificationNotFound)
              else
                bindE (Repo_GetDealByID (sv_platform s) (sv_key s) (a_DealID artifact)) (\<lambda>deal.
                  if FreelancerID deal \<noteq> userID then fail (sentinel_err ErrForbidden)
                  else ret v))))"

definition Service_ListVerificationsByArtifact ::
  "'e svc \<Rightarrow> string \<Rightarrow> string \<Rightarrow> ('e world, Verification list) prog" where
  "Service_ListVerificationsByArtifact s userID artifactID =
     (if artifactID = '''' then fail (errorf ErrInvalidInput '': artifact id is required'')
      else
        bindE (Repo_GetArtifactByID (sv_platform s) artifactID) (\<lambda>artifact.
        bindE (Repo_GetDealByID (sv_platform s) (sv_key s) (a_DealID artifact)) (\<lambda>deal.
          if FreelancerID deal \<noteq> userID then fail (sentinel_err ErrForbidden)
          else Repo_ListVerificationsByArtifact (sv_platform s) artifactID)))"

end
