(* ===== verification/Artifact_Store.thy ===== *)
theory Artifact_Store
  imports Deal_Artifacts Service_Effects
begin

text \<open>
  The blob store as the artifact operations see it, and what they promise on top of it:
  the size cap, and that an accepted upload is what a download returns.
\<close>

section \<open>The interface\<close>

text \<open>What \<open>storage.Storage\<close> documents. \<open>blob k w\<close> is the object at key \<open>k\<close>.\<close>

locale blob_store =
  fixes st :: "'e storage" and blob :: "string \<Rightarrow> 'e world \<Rightarrow> string option"
  assumes save_frame: "runs_in same_db (st_Save st k r)" "runs_in same_log (st_Save st k r)"
    and open_frame: "runs_in same_db (st_Open st k)" "runs_in same_log (st_Open st k)"
    and size_frame: "runs_in same_db (st_Size st k)" "runs_in same_log (st_Size st k)"
    and delete_frame: "runs_in same_db (st_Delete st k)" "runs_in same_log (st_Delete st k)"
    and save_ok: "st_Save st k r w = (Inr n, w') \<Longrightarrow>
      rd_error r = None \<and> n = length (rd_content r) \<and> blob k w' = Some (rd_content r)"
    and save_atomic: "st_Save st k r w = (q, w') \<Longrightarrow>
      blob k w' = blob k w \<or> blob k w' = Some (rd_content r)"
    and open_ok: "st_Open st k w = (Inr c, w') \<Longrightarrow> blob k w = Some c"
    and open_keeps: "st_Open st k w = (p, w') \<Longrightarrow> blob j w' = blob j w"
    and size_ok: "st_Size st k w = (Inr sz, w') \<Longrightarrow> \<exists>c. blob k w = Some c \<and> sz = int (length c)"
    and delete_ok: "st_Delete st k w = (Inr u, w') \<Longrightarrow> blob k w' = None"

section \<open>The size cap\<close>

lemma sint_of_nat64: "n < 2 ^ 63 \<Longrightarrow> sint (of_nat n :: 64 word) = int n"
  by (simp add: signed_of_nat signed_take_bit_int_eq_self_iff)

lemma sint_succ64:
  fixes m :: "64 word"
  assumes "sint m < 2 ^ 63 - 1"
  shows "sint (m + 1) = sint m + 1"
proof -
  have "- (2 ^ 63) \<le> sint m" using sint_ge [of m] by simp
  with assms show ?thesis
    by (simp add: sint_word_ariths signed_take_bit_int_eq_self_iff)
qed

text \<open>The limit one past the cap tells an oversized stream from a legal one.\<close>

lemma LimitReader_cap:
  fixes m :: "64 word"
  assumes "0 < sint m" and "sint m < 2 ^ 63 - 1"
    and n: "n = length (rd_content (LimitReader r (m + 1)))"
  shows "sint (of_nat n :: 64 word) > sint m \<longleftrightarrow> int (length (rd_content r)) > sint m"
    and "\<not> int (length (rd_content r)) > sint m \<Longrightarrow> LimitReader r (m + 1) = r"
proof -
  note s = sint_succ64 [OF assms(2)]
  have len: "n = min (length (rd_content r)) (nat (sint m + 1))"
    using assms(1) n by (auto simp: LimitReader_def s)
  then have "n < 2 ^ 63" using assms(2) by simp
  from sint_of_nat64 [OF this] len assms(1)
  show "sint (of_nat n :: 64 word) > sint m \<longleftrightarrow> int (length (rd_content r)) > sint m"
    by (auto simp: min_def)
  show "LimitReader r (m + 1) = r" if "\<not> int (length (rd_content r)) > sint m"
    using that assms(1) by (simp add: LimitReader_def s)
qed

text \<open>At the largest cap the limit wraps around and the stream is cut to nothing.\<close>

lemma LimitReader_wraps:
  fixes m :: "64 word"
  assumes "sint m = 2 ^ 63 - 1"
  shows "LimitReader r (m + 1) = \<lparr>rd_content = '''', rd_error = None\<rparr>"
proof -
  have "sint (m + 1) = - (2 ^ 63)"
    using assms by (simp add: sint_word_ariths)
  then show ?thesis by (simp add: LimitReader_def)
qed

section \<open>Uploading and downloading\<close>

text \<open>The artifact table after an insertion and in a lookup.\<close>

lemma CreateArtifact_Inr:
  assumes "Repo_CreateArtifact P a w = (Inr b, w')"
  obtains uuid now where "b = a\<lparr>a_ID := uuid, a_UploadedAt := now\<rparr>"
    "find_artifact (a_ID b) (w_db w') = Some b" "t_deals (w_db w') = t_deals (w_db w)"
    "t_artifacts (w_db w') = t_artifacts (w_db w) @ [b]"
proof -
  from assms [unfolded Repo_CreateArtifact_def] show thesis
  proof (rule query_run)
    fix now uuid
    let ?b = "a\<lparr>a_ID := uuid, a_UploadedAt := now\<rparr>"
    let ?db = "w_db w\<lparr>t_artifacts := t_artifacts (w_db w) @ [?b]\<rparr>"
    let ?f = "let a = ?b; db' = (w_db w)\<lparr>t_artifacts := t_artifacts (w_db w) @ [a]\<rparr>
       in case artifacts_constraint db' of
            Some c \<Rightarrow> (Inl (wrapf ''repository: create artifact: '' (new_err c)), w_db w)
          | None \<Rightarrow> (Inr a, db')"
    assume f: "fst ?f = Inr b" "w_db w' = snd ?f"
    then have b: "b = ?b" and db: "w_db w' = ?db" and ok: "artifacts_constraint ?db = None"
      by (auto simp: Let_def split: option.splits)
    have "distinct (map a_ID (t_artifacts (w_db w) @ [?b]))"
      using ok by (auto simp: artifacts_constraint_def split: if_splits)
    then have "select_row (\<lambda>x. a_ID x = a_ID ?b) (t_artifacts (w_db w)) = None"
      by (auto simp: select_row_None)
    then have "find_artifact (a_ID b) (w_db w') = Some b"
      by (simp add: find_artifact_def db b select_row_append)
    with that b db show thesis by simp
  qed
qed

lemma GetArtifact_Inr:
  assumes "Repo_GetArtifactByID P i w = (Inr a, w')"
  shows "find_artifact i (w_db w) = Some a" "w_db w' = w_db w"
proof -
  have "w_db w' = w_db w" using assms by (rule same_dbD) (rule keeps_db)
  then show "w_db w' = w_db w" .
  let ?q = "query P ''repository: get artifact by id: ''
    (\<lambda>_ _ db. (Inr (select_row (\<lambda>a. a_ID a = i) (t_artifacts db)), db))"
  from assms obtain x w1 where q: "?q w = (Inr x, w1)" and "x = Some a"
    unfolding Repo_GetArtifactByID_def bindE_Inr_iff by (auto split: option.split_asm)
  from query_result [OF q] \<open>x = Some a\<close> show "find_artifact i (w_db w) = Some a"
    by (auto simp: find_artifact_def)
qed

text \<open>An accepted upload was saved within the cap, and its row created.\<close>

lemma upload_store_created:
  assumes "upload_store s st i kind key r w = (Inr a, w')"
  obtains n w1 where "st_Save st key (LimitReader r (sv_maxUploadBytes s + 1)) w = (Inr n, w1)"
    "\<not> sint (of_nat n :: 64 word) > sint (sv_maxUploadBytes s)"
    "Repo_CreateArtifact (sv_platform s)
       \<lparr>a_ID = '''', a_DealID = i, a_Kind = kind, a_StorageKey = key, a_UploadedAt = 0\<rparr> w1 = (Inr a, w')"
proof -
  let ?row = "\<lparr>a_ID = '''', a_DealID = i, a_Kind = kind, a_StorageKey = key, a_UploadedAt = 0\<rparr>"
  let ?create = "Repo_CreateArtifact (sv_platform s) ?row"
  from assms obtain n w1 where save: "st_Save st key (LimitReader r (sv_maxUploadBytes s + 1)) w = (Inr n, w1)"
    and size: "\<not> sint (of_nat n :: 64 word) > sint (sv_maxUploadBytes s)"
    and rest: "bindR ?create (\<lambda>q. case q of Inl e \<Rightarrow> bindR (st_Delete st key) (\<lambda>_. fail e) | Inr a \<Rightarrow> ret a)
      w1 = (Inr a, w')"
    by (auto simp: upload_store_def bindE_Inr_iff wrapE_Inr_iff Let_def bindR_iff [of "st_Delete _ _"]
        split: if_splits)
  obtain c w2 where c: "?create w1 = (c, w2)" by (cases "?create w1")
  with rest have "?create w1 = (Inr a, w')"
    by (cases c) (auto simp: bindR_def split: prod.splits)
  with save size show thesis by (rule that)
qed

context blob_store begin

lemma upload_store_Inr:
  assumes "upload_store s st i kind key r w = (Inr a, w')"
    and "0 < sint (sv_maxUploadBytes s)" and "sint (sv_maxUploadBytes s) < 2 ^ 63 - 1"
  obtains w1 where "blob key w1 = Some (rd_content r)" "rd_error r = None"
    "int (length (rd_content r)) \<le> sint (sv_maxUploadBytes s)" "w_db w1 = w_db w"
    "Repo_CreateArtifact (sv_platform s)
       \<lparr>a_ID = '''', a_DealID = i, a_Kind = kind, a_StorageKey = key, a_UploadedAt = 0\<rparr> w1 = (Inr a, w')"
proof -
  let ?m = "sv_maxUploadBytes s" and ?l = "LimitReader r (sv_maxUploadBytes s + 1)"
  from assms(1) obtain n w1 where save: "st_Save st key ?l w = (Inr n, w1)"
    and size: "\<not> sint (of_nat n :: 64 word) > sint ?m"
    and create: "Repo_CreateArtifact (sv_platform s)
       \<lparr>a_ID = '''', a_DealID = i, a_Kind = kind, a_StorageKey = key, a_UploadedAt = 0\<rparr> w1 = (Inr a, w')"
    by (rule upload_store_created)
  note ok = save_ok [OF save]
  from LimitReader_cap [OF assms(2,3), of n r] ok size
  have cap: "int (length (rd_content r)) \<le> sint ?m" "?l = r" by auto
  have "w_db w1 = w_db w" using save by (rule same_dbD) (rule save_frame)
  with create ok cap show thesis by (intro that [of w1]) simp_all
qed

text \<open>An upload over the cap stores no row, and asks the backend to delete what was saved.\<close>

lemma upload_store_oversized:
  assumes "upload_store s st i kind key r w = (q, w')"
    and "0 < sint (sv_maxUploadBytes s)" and "sint (sv_maxUploadBytes s) < 2 ^ 63 - 1"
    and "int (length (rd_content r)) > sint (sv_maxUploadBytes s)"
  shows "\<exists>e. q = Inl e" "w_db w' = w_db w"
proof -
  let ?l = "LimitReader r (sv_maxUploadBytes s + 1)"
  obtain p w1 where save: "st_Save st key ?l w = (p, w1)" by (cases "st_Save st key ?l w")
  have db: "w_db w1 = w_db w" using save by (rule same_dbD) (rule save_frame)
  obtain z w2 where del: "st_Delete st key w1 = (z, w2)" by (cases "st_Delete st key w1")
  have db2: "w_db w2 = w_db w1" using del by (rule same_dbD) (rule delete_frame)
  have "sint (of_nat n :: 64 word) > sint (sv_maxUploadBytes s)" if "p = Inr n" for n
    using save_ok [OF save [unfolded that]] LimitReader_cap(1) [OF assms(2,3), of n r] assms(4) by simp
  with assms(1) save del db db2 show "\<exists>e. q = Inl e" "w_db w' = w_db w"
    by (auto simp: upload_store_def bindE_def wrapE_def bindR_def Let_def
        split: sum.splits prod.splits)
qed

end

text \<open>A platform whose clock, random source and database leave the blobs alone.\<close>

locale blob_service = blob_store st blob
  for st :: "'e storage" and blob :: "string \<Rightarrow> 'e world \<Rightarrow> string option" +
  fixes P :: "'e platform"
  assumes blob_ext: "w_ext w' = w_ext w \<Longrightarrow> blob k w' = blob k w"
    and apart: "blob k (w\<lparr>w_ext := snd (pg_fault P (w_ext w))\<rparr>) = blob k w"
      "blob k (w\<lparr>w_ext := snd (clock P (w_ext w))\<rparr>) = blob k w"
      "blob k (w\<lparr>w_ext := snd (pg_uuid P (w_ext w))\<rparr>) = blob k w"
begin

lemma query_blob:
  assumes "query P pre f w = (r, w')"
  shows "blob k w' = blob k w"
proof -
  obtain flt e where f: "pg_fault P (w_ext w) = (flt, e)" by (cases "pg_fault P (w_ext w)")
  obtain now e1 where n: "clock P e = (now, e1)" by (cases "clock P e")
  obtain uuid e2 where u: "pg_uuid P e1 = (uuid, e2)" by (cases "pg_uuid P e1")
  have "w_ext w' = e2"
    using assms f n u
    by (auto simp: query_def pg_step_def split: option.splits dbfault.splits prod.splits)
  then have "blob k w' = blob k (w\<lparr>w_ext := e2\<rparr>)" by (intro blob_ext) simp
  also have "\<dots> = blob k w"
    using apart(1) [of k w] apart(2) [of k "w\<lparr>w_ext := e\<rparr>"] apart(3) [of k "w\<lparr>w_ext := e1\<rparr>"] f n u
    by simp
  finally show ?thesis .
qed

lemma get_deal_blob:
  assumes "Repo_GetDealByID P key i w = (r, w')"
  shows "blob k w' = blob k w"
  using assms unfolding Repo_GetDealByID_def select_deal_def
  by (auto simp: bindE_def wrapE_def split: prod.splits sum.splits option.splits dest!: query_blob [where k = k])

lemma get_artifact_blob:
  assumes "Repo_GetArtifactByID P i w = (r, w')"
  shows "blob k w' = blob k w"
  using assms unfolding Repo_GetArtifactByID_def
  by (auto simp: bindE_def split: prod.splits sum.splits option.splits dest!: query_blob [where k = k])

lemma create_artifact_blob:
  "Repo_CreateArtifact P a w = (r, w') \<Longrightarrow> blob k w' = blob k w"
  unfolding Repo_CreateArtifact_def by (rule query_blob)

text \<open>What is downloaded is what was uploaded.\<close>

lemma upload_download:
  assumes up: "Service_UploadArtifact s u i kind fn (Some r) w = (Inr a, w')"
    and down: "Service_DownloadArtifact s u' em i (a_ID a) w' = (Inr (a', c, n), w'')"
    and s: "sv_platform s = P" "sv_storage s = Some st" "sint (sv_maxUploadBytes s) < 2 ^ 63 - 1"
  shows "a' = a" "c = rd_content r" "n = int (length c)"
    "int (length c) \<le> sint (sv_maxUploadBytes s)" "rd_error r = None" "a_DealID a = i" "a_Kind a = kind"
proof -
  from up s have pos: "0 < sint (sv_maxUploadBytes s)"
    by (auto simp: Service_UploadArtifact_def split: if_splits)
  from up s obtain w0 key where "upload_store s st i kind key r w0 = (Inr a, w')"
    by (auto simp: Service_UploadArtifact_def run_iffs split: if_splits)
  then obtain w1 where stored: "blob key w1 = Some (rd_content r)" "rd_error r = None"
    "int (length (rd_content r)) \<le> sint (sv_maxUploadBytes s)"
    "Repo_CreateArtifact P
       \<lparr>a_ID = '''', a_DealID = i, a_Kind = kind, a_StorageKey = key, a_UploadedAt = 0\<rparr> w1 = (Inr a, w')"
    by (rule upload_store_Inr [OF _ pos s(3)]) (use s in auto)
  from stored(4) have row: "find_artifact (a_ID a) (w_db w') = Some a" "a_StorageKey a = key"
    "a_DealID a = i" "a_Kind a = kind"
    by (auto elim!: CreateArtifact_Inr)
  have blob': "blob key w' = Some (rd_content r)"
    using create_artifact_blob [OF stored(4)] stored(1) by simp
  from down s obtain w2 w3 where
    art: "artifact_for s u' em i (a_ID a) w' = (Inr a', w2)"
    and opn: "st_Open st (a_StorageKey a') w2 = (Inr c, w3)"
    and siz: "st_Size st (a_StorageKey a') w3 = (Inr n, w'')"
    by (auto simp: Service_DownloadArtifact_def run_iffs split: if_splits)
  from art s obtain v1 v2 where g: "Repo_GetArtifactByID P (a_ID a) w' = (Inr a', v1)"
    and d: "Repo_GetDealByID P (sv_key s) (a_DealID a') v1 = (Inr v2, w2)"
    by (auto simp: artifact_for_def run_iffs split: if_splits)
  from GetArtifact_Inr(1) [OF g] row have a': "a' = a" by simp
  have b2: "blob key w2 = Some (rd_content r)"
    using get_artifact_blob [OF g] get_deal_blob [OF d] blob' by simp
  with open_ok [OF opn] a' row have c: "c = rd_content r" by simp
  moreover have "n = int (length c)"
    using size_ok [OF siz] open_keeps [OF opn] b2 a' row c by auto
  ultimately show "a' = a" "c = rd_content r" "n = int (length c)"
    "int (length c) \<le> sint (sv_maxUploadBytes s)" "rd_error r = None" "a_DealID a = i" "a_Kind a = kind"
    using a' stored row by simp_all
qed

end

section \<open>Who may upload, and how much\<close>

lemma artifactStorageKey_db: "runs_in same_db (artifactStorageKey P i fn)"
  unfolding artifactStorageKey_def by (intro db_frame.frame_intros read_rand_db)

context blob_store begin

lemma upload_Inr:
  assumes "Service_UploadArtifact s u i kind fn rd w = (Inr a, w')" and "sv_storage s = Some st"
  obtains r row w1 key where "rd = Some r" "find_deal i (w_db w) = Some row" "c_freelancer_id row = u"
    "\<not> upload_closed (c_status row)" "valid_kind kind" "0 < sint (sv_maxUploadBytes s)"
    "w_db w1 = w_db w" "upload_store s st i kind key r w1 = (Inr a, w')"
proof -
  obtain r where r: "rd = Some r"
    using assms by (auto simp: Service_UploadArtifact_def split: option.splits if_splits)
  let ?up = "\<lambda>deal. if FreelancerID deal \<noteq> u then fail (sentinel_err ErrForbidden)
    else if upload_closed (DealStatus deal)
    then fail (errorf ErrInvalidInput '': uploads are no longer allowed'')
    else bindE (wrapE (wrapf ''generating artifact storage key: '')
      (artifactStorageKey (sv_platform s) i fn)) (\<lambda>key. upload_store s st i kind key r)"
  have run: "bindE (Repo_GetDealByID (sv_platform s) (sv_key s) i) ?up w = (Inr a, w')"
    and valid: "valid_kind kind" "0 < sint (sv_maxUploadBytes s)"
    using assms r by (auto simp: Service_UploadArtifact_def split: if_splits)
  from run show thesis
  proof (cases rule: get_bind_cases)
    case (got deal row w1)
    note fields = scanDeal_fields(1,3) [OF got(2)]
    from got(6) obtain key w2 where key: "artifactStorageKey (sv_platform s) i fn w1 = (Inr key, w2)"
      and store: "upload_store s st i kind key r w2 = (Inr a, w')"
      and who: "FreelancerID deal = u" "\<not> upload_closed (DealStatus deal)"
      by (auto simp: run_iffs split: if_splits)
    from key have "w_db w2 = w_db w1" by (rule same_dbD) (rule artifactStorageKey_db)
    with that r got fields who valid store show thesis by auto
  qed simp
qed

text \<open>The rows an accepted upload writes.\<close>

lemma upload_store_rows:
  assumes "upload_store s st i kind key r w = (Inr a, w')"
  shows "t_artifacts (w_db w') = t_artifacts (w_db w) @ [a]" "t_deals (w_db w') = t_deals (w_db w)"
    "a_DealID a = i" "a_Kind a = kind" "a_StorageKey a = key"
proof -
  from assms obtain n w1 where save: "st_Save st key (LimitReader r (sv_maxUploadBytes s + 1)) w = (Inr n, w1)"
    and "Repo_CreateArtifact (sv_platform s)
      \<lparr>a_ID = '''', a_DealID = i, a_Kind = kind, a_StorageKey = key, a_UploadedAt = 0\<rparr> w1 = (Inr a, w')"
    by (rule upload_store_created)
  moreover have "w_db w1 = w_db w" using save by (rule same_dbD) (rule save_frame)
  ultimately show "t_artifacts (w_db w') = t_artifacts (w_db w) @ [a]" "t_deals (w_db w') = t_deals (w_db w)"
    "a_DealID a = i" "a_Kind a = kind" "a_StorageKey a = key"
    by (auto elim!: CreateArtifact_Inr)
qed

lemma upload_oversized:
  assumes "Service_UploadArtifact s u i kind fn (Some r) w = (q, w')" and "sv_storage s = Some st"
    and "sint (sv_maxUploadBytes s) < 2 ^ 63 - 1"
    and "int (length (rd_content r)) > sint (sv_maxUploadBytes s)"
  shows "\<exists>e. q = Inl e" "w_db w' = w_db w"
proof -
  have "(\<exists>e. q = Inl e) \<and> w_db w' = w_db w"
  proof (cases "sint (sv_maxUploadBytes s) \<le> 0 \<or> i = '''' \<or> \<not> valid_kind kind")
    case True
    with assms(1,2) show ?thesis by (auto simp: Service_UploadArtifact_def split: if_splits)
  next
    case False
    then have pos: "0 < sint (sv_maxUploadBytes s)" by simp
    from assms(1,2) False show ?thesis
      unfolding Service_UploadArtifact_def
    proof (simp, elim get_bind_cases)
      fix deal row w1
      assume db: "w_db w1 = w_db w"
        and run: "(if FreelancerID deal \<noteq> u then fail (sentinel_err ErrForbidden)
          else if upload_closed (DealStatus deal)
          then fail (errorf ErrInvalidInput '': uploads are no longer allowed'')
          else bindE (wrapE (wrapf ''generating artifact storage key: '')
            (artifactStorageKey (sv_platform s) i fn)) (\<lambda>key. upload_store s st i kind key r)) w1 = (q, w')"
      obtain z w2 where key: "artifactStorageKey (sv_platform s) i fn w1 = (z, w2)"
        by (cases "artifactStorageKey (sv_platform s) i fn w1")
      then have db2: "w_db w2 = w_db w1" by (rule same_dbD) (rule artifactStorageKey_db)
      show ?thesis
      proof (cases "FreelancerID deal = u \<and> \<not> upload_closed (DealStatus deal) \<and> (\<exists>k. z = Inr k)")
        case True
        with run key obtain k where "upload_store s st i kind k r w2 = (q, w')"
          by (auto simp: bindE_def wrapE_def)
        from upload_store_oversized [OF this pos assms(3,4)] db db2 show ?thesis by simp
      next
        case False
        with run key db db2 show ?thesis
          by (auto simp: bindE_def wrapE_def split: if_splits sum.splits)
      qed
    qed auto
  qed
  then show "\<exists>e. q = Inl e" "w_db w' = w_db w" by auto
qed

end

context blob_service begin

text \<open>At the largest possible cap the stored stream is empty, whatever was sent.\<close>

lemma upload_wraps:
  assumes "Service_UploadArtifact s u i kind fn (Some r) w = (Inr a, w')"
    and "sv_storage s = Some st" and "sv_platform s = P" and "sint (sv_maxUploadBytes s) = 2 ^ 63 - 1"
  shows "blob (a_StorageKey a) w' = Some ''''"
proof -
  from upload_Inr [OF assms(1,2)] obtain w1 key where
    up: "upload_store s st i kind key r w1 = (Inr a, w')" by (metis option.inject)
  note key = upload_store_rows(5) [OF up]
  from up assms(3) obtain n w2 where save: "st_Save st key (LimitReader r (sv_maxUploadBytes s + 1)) w1 = (Inr n, w2)"
    and "Repo_CreateArtifact P
      \<lparr>a_ID = '''', a_DealID = i, a_Kind = kind, a_StorageKey = key, a_UploadedAt = 0\<rparr> w2 = (Inr a, w')"
    by (auto elim: upload_store_created)
  from create_artifact_blob [OF this(2)] save_ok [OF save] LimitReader_wraps [OF assms(4)] key
  show ?thesis by simp
qed

end

end
