(* ===== verification/Storage_Local.thy ===== *)
theory Storage_Local
  imports Artifact_Store "HOL-Library.Sublist"
begin

text \<open>
  \<open>backend/internal/storage/local.go\<close>: blobs under a directory on disk, with traversal
  protection and atomic writes. The disk is a map from paths to contents; a script decides
  which system calls fail, and a failed copy leaves a prefix behind.
\<close>

section \<open>Paths\<close>

text \<open>\<open>filepath.Clean\<close> of a rooted path, element by element: the stack of elements kept so far.\<close>

definition clean_step :: "string list \<Rightarrow> string \<Rightarrow> string list" where
  "clean_step stack x =
     (if x = '''' \<or> x = ''.'' then stack else if x = ''..'' then drop 1 stack else x # stack)"

definition path_elems :: "string \<Rightarrow> string list" where
  "path_elems s = rev (foldl clean_step [] (split_on (CHR ''/'') s))"

definition filepath_Clean :: "string \<Rightarrow> string" where
  "filepath_Clean s = CHR ''/'' # join (CHR ''/'') (path_elems s)"

definition filepath_Join :: "string \<Rightarrow> string \<Rightarrow> string" where
  "filepath_Join a b = filepath_Clean (a @ ''/'' @ b)"

text \<open>\<open>filepath.Rel\<close> of two rooted paths.\<close>

definition filepath_Rel :: "string \<Rightarrow> string \<Rightarrow> string" where
  "filepath_Rel base targ =
     (let b = path_elems base; t = path_elems targ; n = length (longest_common_prefix b t);
          rel = replicate (length b - n) ''..'' @ drop n t
      in if rel = [] then ''.'' else join (CHR ''/'') rel)"

definition resolve :: "string \<Rightarrow> string \<Rightarrow> goerr + string" where
  "resolve root key =
     (if TrimSpace key = '''' then Inl (new_err ''storage: empty key'')
      else
        let joined = filepath_Join root key; rel = filepath_Rel root joined
        in if rel = ''..'' \<or> take 3 rel = ''../''
           then Inl (new_err (''storage: key '' @ key @ '' escapes storage root''))
           else Inr joined)"

definition plain :: "string \<Rightarrow> bool" where
  "plain x \<longleftrightarrow> x \<noteq> '''' \<and> x \<noteq> ''.'' \<and> x \<noteq> ''..'' \<and> CHR ''/'' \<notin> set x"

lemma clean_step_plain [simp]: "plain x \<Longrightarrow> clean_step stack x = x # stack"
  by (simp add: clean_step_def plain_def)

lemma foldl_plain: "\<forall>x \<in> set xs. plain x \<Longrightarrow> foldl clean_step stack xs = rev xs @ stack"
  by (induction xs arbitrary: stack) auto

lemma foldl_elems:
  assumes "\<forall>x \<in> set stack. plain x" and "\<forall>x \<in> set xs. CHR ''/'' \<notin> set x"
  shows "\<forall>x \<in> set (foldl clean_step stack xs). plain x"
  using assms
proof (induction xs arbitrary: stack)
  case (Cons x xs)
  have "set (drop 1 stack) \<subseteq> set stack" by (rule set_drop_subset)
  moreover have "plain x" if "x \<noteq> ''''" "x \<noteq> ''.''" "x \<noteq> ''..''"
    using that Cons.prems(2) by (simp add: plain_def)
  ultimately have "\<forall>y \<in> set (clean_step stack x). plain y"
    using Cons.prems(1) unfolding clean_step_def by auto
  then show ?case unfolding foldl_Cons
    by (rule Cons.IH) (use Cons.prems(2) in simp)
qed simp

lemma path_elems_plain: "\<forall>x \<in> set (path_elems s). plain x"
  unfolding path_elems_def using foldl_elems [of "[]" "split_on (CHR ''/'') s"] split_on_free by auto

lemma elems_of_path:
  assumes "\<forall>x \<in> set xs. plain x"
  shows "path_elems (CHR ''/'' # join (CHR ''/'') xs) = xs"
proof (cases "xs = []")
  case True
  then show ?thesis by (simp add: path_elems_def clean_step_def)
next
  case False
  then have "split_on (CHR ''/'') (join (CHR ''/'') xs) = xs"
    using assms by (intro split_join) (auto simp: plain_def)
  with assms show ?thesis
    by (simp add: path_elems_def foldl_plain clean_step_def)
qed

text \<open>Cleaning is idempotent, and a joined path starts from the elements of its base.\<close>

lemma filepath_Clean_idem: "filepath_Clean (filepath_Clean s) = filepath_Clean s"
  by (simp add: filepath_Clean_def elems_of_path path_elems_plain)

lemma join_elems:
  "path_elems (filepath_Join a b) =
     rev (foldl clean_step (rev (path_elems a)) (split_on (CHR ''/'') b))"
  using split_on_append [of "CHR ''/''" a b]
  by (simp add: filepath_Join_def filepath_Clean_def elems_of_path path_elems_plain)
    (simp add: path_elems_def)



lemma resolve_inside:
  assumes "resolve root key = Inr path"
  shows "\<exists>rest. path_elems path = path_elems root @ rest \<and> (\<forall>x \<in> set rest. plain x) \<and>
    path = CHR ''/'' # join (CHR ''/'') (path_elems root @ rest)"
proof -
  let ?b = "path_elems root" and ?t = "path_elems path"
  let ?n = "length (longest_common_prefix ?b ?t)"
  from assms have path: "path = filepath_Join root key"
    and rel: "filepath_Rel root path \<noteq> ''..''" "take 3 (filepath_Rel root path) \<noteq> ''../''"
    by (auto simp: resolve_def Let_def split: if_splits)
  have "length ?b - ?n = 0"
  proof (rule ccontr)
    assume "length ?b - ?n \<noteq> 0"
    then obtain m where m: "replicate (length ?b - ?n) ''..'' = ''..'' # replicate m ''..''"
      by (cases "length ?b - ?n") auto
    define xs where "xs = replicate m ''..'' @ drop ?n ?t"
    have "filepath_Rel root path = join (CHR ''/'') (''..'' # xs)"
      unfolding filepath_Rel_def Let_def m xs_def by simp
    with rel show False by (cases xs) auto
  qed
  moreover obtain zs where z: "longest_common_prefix ?b ?t @ zs = ?b"
    using longest_common_prefix_prefix1 [of ?b ?t] by (metis prefixE)
  moreover have "?n + length zs = length ?b" by (metis z length_append)
  ultimately have "length zs = 0" by linarith
  with z have "longest_common_prefix ?b ?t = ?b" by simp
  then have "prefix ?b ?t"
    by (metis longest_common_prefix_prefix2)
  then obtain rest where rest: "?t = ?b @ rest" by (auto simp: prefix_def)
  with path_elems_plain [of path] have "\<forall>x \<in> set rest. plain x" by auto
  moreover have "path = CHR ''/'' # join (CHR ''/'') ?t"
    by (simp add: path filepath_Join_def filepath_Clean_def elems_of_path path_elems_plain)
  ultimately show ?thesis using rest by auto
qed

text \<open>C25: a key never leaves the storage root: when \<open>resolve\<close> accepts a key, the path it returns
  has the elements of the root as a prefix, and what follows contains no parent reference.\<close>

theorem resolve_contained:
  assumes "resolve root key = Inr path"
  shows "\<exists>rest. path_elems path = path_elems root @ rest \<and> (\<forall>x \<in> set rest. plain x) \<and>
    path = CHR ''/'' # join (CHR ''/'') (path_elems root @ rest)"
  by (rule resolve_inside [OF assms])

text \<open>A relative key without empty or dotted elements is accepted.\<close>

lemma resolve_plain:
  assumes "\<forall>x \<in> set (split_on (CHR ''/'') key). plain x" and "TrimSpace key \<noteq> ''''"
  obtains path where "resolve root key = Inr path"
    "path_elems path = path_elems root @ split_on (CHR ''/'') key"
proof -
  let ?xs = "split_on (CHR ''/'') key" and ?path = "filepath_Join root key"
  have elems: "path_elems ?path = path_elems root @ ?xs"
    using assms(1) by (simp add: join_elems foldl_plain)
  moreover have "longest_common_prefix b (b @ t) = b" for b t :: "string list"
    by (induction b) auto
  ultimately have rel: "filepath_Rel root ?path = join (CHR ''/'') ?xs"
    by (simp add: filepath_Rel_def Let_def)
  have "join (CHR ''/'') ?xs \<noteq> ''..'' \<and> take 3 (join (CHR ''/'') ?xs) \<noteq> ''../''"
  proof (rule ccontr)
    assume bad: "\<not> ?thesis"
    obtain x zs where xs: "?xs = x # zs" by (cases ?xs) auto
    with assms(1) have "plain x" by simp
    obtain tl where tl: "join (CHR ''/'') ?xs = x @ tl" "tl = '''' \<or> (\<exists>t. tl = CHR ''/'' # t)"
      using xs by (cases zs) auto
    show False
    proof (cases x rule: remdups_adj.cases)
      case (3 a b as)
      with bad tl \<open>plain x\<close> show False by (cases as) (auto simp: plain_def)
    qed (use bad tl \<open>plain x\<close> in \<open>auto simp: plain_def\<close>)
  qed
  then show thesis
    using that [of ?path] rel elems assms(2) by (simp add: resolve_def Let_def)
qed

theorem resolve_contained_witness:
  "\<exists>path. resolve ''/up'' ''a'' = Inr path \<and> (\<exists>rest. path_elems path = path_elems ''/up'' @ rest)"
proof -
  obtain path where "resolve ''/up'' ''a'' = Inr path"
    by (rule resolve_plain [of "''a''" "''/up''"]) (simp_all add: plain_def TrimSpace_start IsSpace_def)
  with resolve_contained [OF this] show ?thesis by blast
qed

section \<open>The disk\<close>

text \<open>
  \<open>fs_faults\<close> tells for each system call whether it fails (\<open>Some n\<close>; a failed copy has written
  \<open>n\<close> bytes); \<open>fs_entropy\<close> holds the random bytes drawn next.
\<close>

record fs =
  fs_files :: "string \<Rightarrow> string option"
  fs_faults :: "nat option list"
  fs_entropy :: "string list"

datatype os_error = NotExist | OSError string

fun os_text :: "os_error \<Rightarrow> string" where
  "os_text NotExist = ''file does not exist''"
| "os_text (OSError m) = m"

definition sys_fault :: "fs \<Rightarrow> nat option \<times> fs" where
  "sys_fault d =
     (case fs_faults d of [] \<Rightarrow> (None, d) | f # fs \<Rightarrow> (f, d\<lparr>fs_faults := fs\<rparr>))"

text \<open>A system call: \<open>f\<close> is its effect, \<open>g n\<close> what a failure leaves.\<close>

definition syscall ::
  "(fs \<Rightarrow> (os_error + 'a) \<times> fs) \<Rightarrow> (nat \<Rightarrow> fs \<Rightarrow> fs) \<Rightarrow> fs \<Rightarrow> (os_error + 'a) \<times> fs" where
  "syscall f g d =
     (case sys_fault d of
        (None, d') \<Rightarrow> f d'
      | (Some n, d') \<Rightarrow> (Inl (OSError ''input/output error''), g n d'))"

definition set_file :: "string \<Rightarrow> string option \<Rightarrow> fs \<Rightarrow> fs" where
  "set_file p c d = d\<lparr>fs_files := (fs_files d)(p := c)\<rparr>"

definition os_ok :: "fs \<Rightarrow> (os_error + unit) \<times> fs" where
  "os_ok = syscall (\<lambda>d. (Inr (), d)) (\<lambda>_ d. d)"

definition os_Create :: "string \<Rightarrow> fs \<Rightarrow> (os_error + unit) \<times> fs" where
  "os_Create p = syscall (\<lambda>d. (Inr (), set_file p (Some '''') d)) (\<lambda>_ d. d)"

definition io_Copy :: "string \<Rightarrow> reader \<Rightarrow> fs \<Rightarrow> (os_error + nat) \<times> fs" where
  "io_Copy p r = syscall
     (\<lambda>d. (case rd_error r of
        None \<Rightarrow> (Inr (length (rd_content r)), set_file p (Some (rd_content r)) d)
      | Some m \<Rightarrow> (Inl (OSError m), set_file p (Some (rd_content r)) d)))
     (\<lambda>n d. set_file p (Some (take n (rd_content r))) d)"

definition os_Rename :: "string \<Rightarrow> string \<Rightarrow> fs \<Rightarrow> (os_error + unit) \<times> fs" where
  "os_Rename a b = syscall
     (\<lambda>d. (case fs_files d a of
        None \<Rightarrow> (Inl NotExist, d)
      | Some c \<Rightarrow> (Inr (), set_file a None (set_file b (Some c) d))))
     (\<lambda>_ d. d)"

definition os_Remove :: "string \<Rightarrow> fs \<Rightarrow> (os_error + unit) \<times> fs" where
  "os_Remove p = syscall
     (\<lambda>d. (case fs_files d p of None \<Rightarrow> (Inl NotExist, d) | Some _ \<Rightarrow> (Inr (), set_file p None d)))
     (\<lambda>_ d. d)"

definition os_Open :: "string \<Rightarrow> fs \<Rightarrow> (os_error + string) \<times> fs" where
  "os_Open p = syscall
     (\<lambda>d. (case fs_files d p of None \<Rightarrow> (Inl NotExist, d) | Some c \<Rightarrow> (Inr c, d))) (\<lambda>_ d. d)"

definition os_Stat :: "string \<Rightarrow> fs \<Rightarrow> (os_error + int) \<times> fs" where
  "os_Stat p = syscall
     (\<lambda>d. (case fs_files d p of None \<Rightarrow> (Inl NotExist, d) | Some c \<Rightarrow> (Inr (int (length c)), d)))
     (\<lambda>_ d. d)"

text \<open>\<open>if err != nil { return fmt.Errorf(pre + "%w", err) }\<close> after a system call, with the cleanup
  calls that run first.\<close>

definition os_try ::
  "string \<Rightarrow> (fs, unit) prog \<Rightarrow> (fs \<Rightarrow> (os_error + 'a) \<times> fs) \<Rightarrow> ('a \<Rightarrow> (fs, 'b) prog) \<Rightarrow> (fs, 'b) prog"
where
  "os_try pre cleanup f k d =
     (case f d of
        (Inl e, d1) \<Rightarrow> (case cleanup d1 of (_, d2) \<Rightarrow> (Inl (wrapf pre (new_err (os_text e))), d2))
      | (Inr x, d1) \<Rightarrow> k x d1)"

text \<open>A call whose error is ignored.\<close>

definition os_drop :: "(fs \<Rightarrow> (os_error + 'a) \<times> fs) \<Rightarrow> (fs, unit) prog" where
  "os_drop f d = (Inr (), snd (f d))"

section \<open>The backend\<close>

definition randomSuffix :: "(fs, string) prog" where
  "randomSuffix d =
     (case fs_entropy d of
        [] \<Rightarrow> (Inr (hex_EncodeToString (replicate 8 (char_of (0 :: nat)))), d)
      | b # bs \<Rightarrow> (Inr (hex_EncodeToString b), d\<lparr>fs_entropy := bs\<rparr>))"

text \<open>Opening and syncing the directory makes the rename durable.\<close>

definition sync_dir :: "nat \<Rightarrow> (fs, nat) prog" where
  "sync_dir n =
     os_try ''storage: opening dir for fsync: '' (ret ()) os_ok (\<lambda>_.
     os_try ''storage: syncing directory: '' (os_drop os_ok) os_ok (\<lambda>_.
     bindE (os_drop os_ok) (\<lambda>_. ret n)))"

text \<open>The atomic write: fill a temporary file, sync and close it, rename it to its place.\<close>

definition write_via :: "string \<Rightarrow> string \<Rightarrow> string \<Rightarrow> reader \<Rightarrow> (fs, nat) prog" where
  "write_via tmp path key r =
     (let rm = os_drop (os_Remove tmp) in
     os_try ''storage: creating temp file: '' (ret ()) (os_Create tmp) (\<lambda>_.
     os_try (''storage: writing '' @ key @ '': '') (bindE (os_drop os_ok) (\<lambda>_. rm)) (io_Copy tmp r) (\<lambda>n.
     os_try ''storage: syncing temp file: '' (bindE (os_drop os_ok) (\<lambda>_. rm)) os_ok (\<lambda>_.
     os_try ''storage: closing temp file: '' rm os_ok (\<lambda>_.
     os_try ''storage: renaming temp to final: '' rm (os_Rename tmp path) (\<lambda>_.
     sync_dir n))))))"

text \<open>\<open>NewLocal\<close>; \<open>cwd\<close> is the working directory of the process.\<close>

definition filepath_Abs :: "string \<Rightarrow> string \<Rightarrow> string" where
  "filepath_Abs cwd p =
     (if take 1 p = ''/'' then filepath_Clean p else filepath_Join cwd p)"

definition NewLocal :: "string \<Rightarrow> string \<Rightarrow> (fs, string) prog" where
  "NewLocal cwd root =
     (if TrimSpace root = '''' then fail (new_err ''storage: empty root path'')
      else
        let abs = filepath_Abs cwd root
        in os_try (''storage: creating root '' @ abs @ '': '') (ret ()) os_ok (\<lambda>_. ret abs))"

definition Local_Save :: "string \<Rightarrow> string \<Rightarrow> reader \<Rightarrow> (fs, nat) prog" where
  "Local_Save root key r =
     bindE (liftE (resolve root key)) (\<lambda>path.
     os_try ''storage: creating directories: '' (ret ()) os_ok (\<lambda>_.
     bindE randomSuffix (\<lambda>sfx.
     write_via (path @ ''.tmp.'' @ sfx) path key r)))"

definition os_read :: "string \<Rightarrow> (fs \<Rightarrow> (os_error + 'a) \<times> fs) \<Rightarrow> (fs, 'a) prog" where
  "os_read pre f d =
     (case f d of
        (Inl NotExist, d1) \<Rightarrow> (Inl (sentinel_err Storage_ErrNotFound), d1)
      | (Inl (OSError m), d1) \<Rightarrow> (Inl (wrapf pre (new_err m)), d1)
      | (Inr x, d1) \<Rightarrow> (Inr x, d1))"

definition Local_Open :: "string \<Rightarrow> string \<Rightarrow> (fs, string) prog" where
  "Local_Open root key =
     bindE (liftE (resolve root key)) (\<lambda>path. os_read (''storage: opening '' @ key @ '': '') (os_Open path))"

definition Local_Size :: "string \<Rightarrow> string \<Rightarrow> (fs, int) prog" where
  "Local_Size root key =
     bindE (liftE (resolve root key)) (\<lambda>path. os_read (''storage: stat '' @ key @ '': '') (os_Stat path))"

definition Local_Delete :: "string \<Rightarrow> string \<Rightarrow> (fs, unit) prog" where
  "Local_Delete root key =
     bindE (liftE (resolve root key)) (\<lambda>path d.
       case os_Remove path d of
         (Inl (OSError m), d1) \<Rightarrow> (Inl (wrapf (''storage: deleting '' @ key @ '': '') (new_err m)), d1)
       | (_, d1) \<Rightarrow> (Inr (), d1))"

lemma sys_fault_files: "sys_fault d = (f, d') \<Longrightarrow> fs_files d' = fs_files d"
  by (auto simp: sys_fault_def split: list.splits)

lemma set_file_files [simp]: "fs_files (set_file p c d) = (fs_files d)(p := c)"
  by (simp add: set_file_def)

lemma syscall_cases:
  assumes "syscall f g d = (r, d')"
  obtains (ran) d1 where "fs_files d1 = fs_files d" "f d1 = (r, d')"
  | (failed) n d1 m where "fs_files d1 = fs_files d" "r = Inl (OSError m)" "d' = g n d1"
  using assms unfolding syscall_def
  by (cases "sys_fault d") (auto split: option.splits dest: sys_fault_files)

text \<open>What each call does to the files.\<close>

lemma os_ok_files: "os_ok d = (r, d') \<Longrightarrow> fs_files d' = fs_files d"
  unfolding os_ok_def by (erule syscall_cases) auto

lemma os_drop_files: "os_drop f d = (r, d') \<Longrightarrow> \<exists>q. f d = (q, d')"
  by (auto simp: os_drop_def) (metis prod.collapse)

lemma os_Create_files: "os_Create p d = (r, d') \<Longrightarrow> x \<noteq> p \<Longrightarrow> fs_files d' x = fs_files d x"
  unfolding os_Create_def by (erule syscall_cases) auto

lemma io_Copy_files: "io_Copy p r d = (q, d') \<Longrightarrow> x \<noteq> p \<Longrightarrow> fs_files d' x = fs_files d x"
  unfolding io_Copy_def by (erule syscall_cases) (auto split: option.splits)

lemma io_Copy_ok:
  "io_Copy p r d = (Inr n, d') \<Longrightarrow>
   rd_error r = None \<and> n = length (rd_content r) \<and> fs_files d' p = Some (rd_content r)"
  unfolding io_Copy_def by (erule syscall_cases) (auto split: option.splits)

lemma os_Remove_files: "os_Remove p d = (r, d') \<Longrightarrow> x \<noteq> p \<Longrightarrow> fs_files d' x = fs_files d x"
  unfolding os_Remove_def by (erule syscall_cases) (auto split: option.splits)

lemma os_Rename_files:
  assumes "os_Rename a b d = (r, d')"
  shows "\<And>e. r = Inl e \<Longrightarrow> fs_files d' = fs_files d"
    and "r = Inr () \<Longrightarrow> a \<noteq> b \<Longrightarrow> fs_files d' b = fs_files d a"
    and "x \<noteq> a \<Longrightarrow> x \<noteq> b \<Longrightarrow> fs_files d' x = fs_files d x"
  using assms unfolding os_Rename_def by (auto elim!: syscall_cases split: option.splits)

lemma os_try_cases:
  assumes "os_try pre cleanup f k d = (r, d')"
  obtains (failed) e d1 q where "f d = (Inl e, d1)" "cleanup d1 = (q, d')" "\<exists>e. r = Inl e"
  | (went_on) x d1 where "f d = (Inr x, d1)" "k x d1 = (r, d')"
  using assms by (auto simp: os_try_def split: prod.splits sum.splits)

lemma randomSuffix_run:
  "randomSuffix d = (r, d') \<Longrightarrow> (\<exists>b. r = Inr (hex_EncodeToString b)) \<and> fs_files d' = fs_files d"
  by (auto simp: randomSuffix_def split: list.splits)

definition removal :: "string \<Rightarrow> (fs, unit) prog \<Rightarrow> bool" where
  "removal tmp m \<longleftrightarrow> (\<forall>d r d' x. m d = (r, d') \<longrightarrow> x \<noteq> tmp \<longrightarrow> fs_files d' x = fs_files d x)"

lemma removals:
  "removal tmp (ret ())" "removal tmp (os_drop (os_Remove tmp))"
  "removal tmp (bindE (os_drop os_ok) (\<lambda>_. os_drop (os_Remove tmp)))" "removal tmp (os_drop os_ok)"
  unfolding removal_def
  by (auto simp: bindE_def split: prod.splits sum.splits
      dest!: os_drop_files os_Remove_files os_ok_files)

lemma os_ok_snd [simp]: "fs_files (snd (os_ok d)) = fs_files d"
  by (cases "os_ok d") (auto dest: os_ok_files)

lemma sync_dir_files:
  assumes "sync_dir n d = (r, d')"
  shows "fs_files d' = fs_files d" and "r = Inr k \<Longrightarrow> k = n"
  using assms unfolding sync_dir_def
  by (auto elim!: os_try_cases dest!: os_ok_files os_drop_files simp: bindE_def os_drop_def
      split: prod.splits sum.splits)

text \<open>One fallible step whose failure touches at most the temporary file.\<close>

definition spares :: "string \<Rightarrow> (fs \<Rightarrow> (os_error + 'a) \<times> fs) \<Rightarrow> bool" where
  "spares tmp f \<longleftrightarrow> (\<forall>d e d1 x. f d = (Inl e, d1) \<longrightarrow> x \<noteq> tmp \<longrightarrow> fs_files d1 x = fs_files d x)"

lemma spares:
  "spares tmp os_ok" "spares tmp (os_Create tmp)" "spares tmp (io_Copy tmp r)"
  "spares tmp (os_Rename tmp path)"
  unfolding spares_def
  by (auto dest: os_ok_files os_Create_files io_Copy_files os_Rename_files(1))

lemma try_step:
  assumes "os_try pre cl f k d = (r, d')" and "removal tmp cl" and "spares tmp f"
  obtains (stopped) e where "r = Inl e" "\<forall>x. x \<noteq> tmp \<longrightarrow> fs_files d' x = fs_files d x"
  | (on) x d1 where "f d = (Inr x, d1)" "k x d1 = (r, d')"
  using assms(1)
proof (cases rule: os_try_cases)
  case (failed e d1 q)
  then have "\<forall>x. x \<noteq> tmp \<longrightarrow> fs_files d' x = fs_files d x"
    using assms(2,3) unfolding removal_def spares_def by metis
  with failed stopped show thesis by blast
next
  case (went_on x d1)
  with on show thesis by blast
qed

lemma write_via_effect:
  assumes "write_via tmp path key r d = (q, d')" and "tmp \<noteq> path"
  obtains (stopped) e where "q = Inl e" "\<forall>x. x \<noteq> tmp \<longrightarrow> fs_files d' x = fs_files d x"
  | (replaced) "rd_error r = None" "fs_files d' path = Some (rd_content r)"
      "\<forall>x. x \<noteq> tmp \<longrightarrow> x \<noteq> path \<longrightarrow> fs_files d' x = fs_files d x"
      "\<And>n. q = Inr n \<Longrightarrow> n = length (rd_content r)"
  using assms(1) [unfolded write_via_def Let_def]
proof (cases rule: try_step [OF _ removals(1) spares(2), consumes 1, case_names stopped on])
  case created: (on u d1)
  then have f1: "\<forall>x. x \<noteq> tmp \<longrightarrow> fs_files d1 x = fs_files d x" using os_Create_files by blast
  from created(2) show thesis
  proof (cases rule: try_step [OF _ removals(3) spares(3), consumes 1, case_names stopped on])
    case copied: (on n d2)
    then have f2: "\<forall>x. x \<noteq> tmp \<longrightarrow> fs_files d2 x = fs_files d x"
      using f1 io_Copy_files by metis
    note ok = io_Copy_ok [OF copied(1)]
    from copied(2) show thesis
    proof (cases rule: try_step [OF _ removals(3) spares(1), consumes 1, case_names stopped on])
      case synced: (on u d3)
      from synced(2) show thesis
      proof (cases rule: try_step [OF _ removals(2) spares(1), consumes 1, case_names stopped on])
        case closed: (on u d4)
        have f4: "fs_files d4 = fs_files d2"
          using os_ok_files synced(1) closed(1) by metis
        from closed(2) show thesis
        proof (cases rule: try_step [OF _ removals(2) spares(4), consumes 1, case_names stopped on])
          case renamed: (on u d5)
          have "fs_files d' = fs_files d5" "\<And>k. q = Inr k \<Longrightarrow> k = n"
            using sync_dir_files [OF renamed(2)] by auto
          with os_Rename_files [OF renamed(1)] assms(2) f4 f2 ok show thesis
            by (intro replaced) auto
        qed (use stopped f4 f2 in simp)
      qed (use stopped f2 os_ok_files [OF synced(1)] in simp)
    qed (use stopped f2 in simp)
  qed (use stopped f1 in simp)
qed (use stopped in simp)

section \<open>Atomic saves\<close>

lemma Local_Save_effect:
  assumes "Local_Save root key r d = (q, d')"
  obtains (rejected) e where "resolve root key = Inl e" "q = Inl e" "d' = d"
  | (stopped) path tmp e where "resolve root key = Inr path" "q = Inl e"
      "\<forall>x. x \<noteq> tmp \<longrightarrow> fs_files d' x = fs_files d x" "\<exists>b. tmp = path @ ''.tmp.'' @ hex_EncodeToString b"
  | (replaced) path tmp where "resolve root key = Inr path" "rd_error r = None"
      "fs_files d' path = Some (rd_content r)"
      "\<forall>x. x \<noteq> tmp \<longrightarrow> x \<noteq> path \<longrightarrow> fs_files d' x = fs_files d x"
      "\<exists>b. tmp = path @ ''.tmp.'' @ hex_EncodeToString b" "\<And>n. q = Inr n \<Longrightarrow> n = length (rd_content r)"
proof (cases "resolve root key")
  case (Inl e)
  with assms rejected show thesis by (auto simp: Local_Save_def bindE_def)
next
  case (Inr path)
  from assms Inr have run: "os_try ''storage: creating directories: '' (ret ()) os_ok (\<lambda>_.
      bindE randomSuffix (\<lambda>sfx. write_via (path @ ''.tmp.'' @ sfx) path key r)) d = (q, d')"
    by (simp add: Local_Save_def bindE_def [of "liftE _"])
  from run show thesis
  proof (cases rule: os_try_cases)
    case (failed e d1 z)
    then obtain e' where "q = Inl e'" "fs_files d' = fs_files d"
      using os_ok_files [OF failed(1)] by auto
    then show thesis
      by (intro stopped [OF Inr, of e' "path @ ''.tmp.'' @ hex_EncodeToString []"]) auto
  next
    case (went_on u d1)
    obtain b d2 where sfx: "randomSuffix d1 = (Inr (hex_EncodeToString b), d2)" "fs_files d2 = fs_files d1"
      using randomSuffix_run by (metis prod.collapse)
    let ?tmp = "path @ ''.tmp.'' @ hex_EncodeToString b"
    have files: "fs_files d2 = fs_files d" using sfx(2) os_ok_files [OF went_on(1)] by simp
    from went_on(2) sfx(1) have "write_via ?tmp path key r d2 = (q, d')"
      by (simp add: bindE_def)
    moreover have "?tmp \<noteq> path" by simp
    ultimately show thesis
      by (cases rule: write_via_effect)
        (use files in \<open>auto intro: stopped [OF Inr, of _ ?tmp] replaced [OF Inr, of ?tmp]\<close>)
  qed
qed

lemma Local_Save_all_or_nothing:
  assumes "Local_Save root key r d = (q, d')" and "resolve root key = Inr path"
  shows "(fs_files d' path = fs_files d path \<or> fs_files d' path = Some (rd_content r)) \<and>
    (\<forall>n. q = Inr n \<longrightarrow> fs_files d' path = Some (rd_content r) \<and> n = length (rd_content r) \<and>
       rd_error r = None)"
  using assms(1)
proof (cases rule: Local_Save_effect)
  case (stopped p tmp e)
  with assms(2) have "path \<noteq> tmp" by auto
  with stopped show ?thesis by auto
next
  case (replaced p tmp)
  with assms(2) show ?thesis by auto
qed (use assms(2) in auto)

text \<open>C24: saving is atomic: whatever system calls fail, and wherever the process stops (all later
  calls fail), the object at the key is afterwards the old one or the complete new one, never a
  part of it; a save that reports success has stored the complete stream.\<close>

theorem Local_Save_atomic:
  assumes "Local_Save root key r d = (q, d')" and "resolve root key = Inr path"
  shows "(fs_files d' path = fs_files d path \<or> fs_files d' path = Some (rd_content r)) \<and>
    (\<forall>n. q = Inr n \<longrightarrow> fs_files d' path = Some (rd_content r) \<and> n = length (rd_content r) \<and>
       rd_error r = None)"
  by (rule Local_Save_all_or_nothing [OF assms])

definition empty_disk :: fs where
  "empty_disk = \<lparr>fs_files = Map.empty, fs_faults = [None, None, Some 1], fs_entropy = []\<rparr>"

theorem Local_Save_atomic_witness:
  "\<exists>q d' path. Local_Save ''/up'' ''a'' \<lparr>rd_content = ''xyz'', rd_error = None\<rparr> empty_disk = (q, d') \<and>
    resolve ''/up'' ''a'' = Inr path \<and> (fs_files d' path = None \<or> fs_files d' path = Some ''xyz'')"
proof -
  obtain path where path: "resolve ''/up'' ''a'' = Inr path"
    by (rule resolve_plain [of "''a''" "''/up''"]) (simp_all add: plain_def TrimSpace_start IsSpace_def)
  obtain q d' where "Local_Save ''/up'' ''a'' \<lparr>rd_content = ''xyz'', rd_error = None\<rparr> empty_disk = (q, d')"
    by fastforce
  with path Local_Save_atomic [OF this path] show ?thesis by (auto simp: empty_disk_def)
qed

section \<open>As the storage of the service\<close>

definition on_disk :: "(fs, 'a) prog \<Rightarrow> ((fs \<times> 'x) world, 'a) prog" where
  "on_disk m w = (case m (fst (w_ext w)) of (r, d) \<Rightarrow> (r, w\<lparr>w_ext := (d, snd (w_ext w))\<rparr>))"

definition local_storage :: "string \<Rightarrow> (fs \<times> 'x) storage" where
  "local_storage root = \<lparr>
     st_Save = (\<lambda>key r. on_disk (Local_Save root key r)),
     st_Open = (\<lambda>key. on_disk (Local_Open root key)),
     st_Size = (\<lambda>key. on_disk (Local_Size root key)),
     st_Delete = (\<lambda>key. on_disk (Local_Delete root key))\<rparr>"

definition local_blob :: "string \<Rightarrow> string \<Rightarrow> (fs \<times> 'x) world \<Rightarrow> string option" where
  "local_blob root key w =
     (case resolve root key of Inl _ \<Rightarrow> None | Inr path \<Rightarrow> fs_files (fst (w_ext w)) path)"

lemma on_disk_frame:
  "runs_in same_db (on_disk m)" "runs_in same_log (on_disk m)"
  by (auto simp: runs_in_def on_disk_def same_db_def same_log_iff split: prod.splits)

lemma on_disk_run:
  assumes "on_disk m w = (r, w')"
  shows "m (fst (w_ext w)) = (r, fst (w_ext w'))" "snd (w_ext w') = snd (w_ext w)"
  using assms by (auto simp: on_disk_def split: prod.splits)

lemma local_fields [simp]:
  "st_Save (local_storage root) key r = on_disk (Local_Save root key r)"
  "st_Open (local_storage root) key = on_disk (Local_Open root key)"
  "st_Size (local_storage root) key = on_disk (Local_Size root key)"
  "st_Delete (local_storage root) key = on_disk (Local_Delete root key)"
  by (simp_all add: local_storage_def)

lemma os_read_run:
  assumes "os_read pre f d = (r, d')"
  shows "\<exists>q. f d = (q, d') \<and> (\<forall>x. r = Inr x \<longrightarrow> q = Inr x)"
  using assms by (auto simp: os_read_def split: prod.splits sum.splits os_error.splits)

lemma os_Open_run:
  assumes "os_Open p d = (q, d')"
  shows "fs_files d' = fs_files d" "q = Inr c \<Longrightarrow> fs_files d p = Some c"
  using assms unfolding os_Open_def by (auto elim!: syscall_cases split: option.splits)

lemma os_Stat_run:
  assumes "os_Stat p d = (q, d')"
  shows "fs_files d' = fs_files d" "q = Inr n \<Longrightarrow> \<exists>c. fs_files d p = Some c \<and> n = int (length c)"
  using assms unfolding os_Stat_def by (auto elim!: syscall_cases split: option.splits)

lemma Local_Open_run:
  assumes "Local_Open root key d = (r, d')"
  shows "fs_files d' = fs_files d"
    and "r = Inr c \<Longrightarrow> \<exists>path. resolve root key = Inr path \<and> fs_files d path = Some c"
proof -
  have "fs_files d' = fs_files d \<and>
    (r = Inr c \<longrightarrow> (\<exists>path. resolve root key = Inr path \<and> fs_files d path = Some c))"
  proof (cases "resolve root key")
    case (Inl e)
    with assms show ?thesis by (auto simp: Local_Open_def bindE_def)
  next
    case (Inr path)
    with assms have "os_read (''storage: opening '' @ key @ '': '') (os_Open path) d = (r, d')"
      by (simp add: Local_Open_def bindE_def)
    from os_read_run [OF this] obtain q where q: "os_Open path d = (q, d')"
      "\<forall>x. r = Inr x \<longrightarrow> q = Inr x" by blast
    with os_Open_run [OF q(1)] Inr show ?thesis by auto
  qed
  then show "fs_files d' = fs_files d"
    and "r = Inr c \<Longrightarrow> \<exists>path. resolve root key = Inr path \<and> fs_files d path = Some c" by auto
qed

lemma Local_Size_run:
  assumes "Local_Size root key d = (Inr n, d')"
  shows "\<exists>path c. resolve root key = Inr path \<and> fs_files d path = Some c \<and> n = int (length c)"
proof (cases "resolve root key")
  case (Inl e)
  with assms show ?thesis by (auto simp: Local_Size_def bindE_def)
next
  case (Inr path)
  with assms have "os_read (''storage: stat '' @ key @ '': '') (os_Stat path) d = (Inr n, d')"
    by (simp add: Local_Size_def bindE_def)
  from os_read_run [OF this] have "os_Stat path d = (Inr n, d')" by auto
  from os_Stat_run(2) [OF this] Inr show ?thesis by auto
qed

lemma Local_Delete_ok:
  assumes "Local_Delete root key d = (Inr u, d')"
  shows "\<exists>path. resolve root key = Inr path \<and> fs_files d' path = None"
  using assms unfolding Local_Delete_def os_Remove_def
  by (auto simp: bindE_def split: sum.splits prod.splits os_error.splits option.splits
      elim!: syscall_cases)

lemma on_disk_Local:
  "st_Save (local_storage root) k r w = (a, w') \<Longrightarrow>
     Local_Save root k r (fst (w_ext w)) = (a, fst (w_ext w'))"
  "st_Open (local_storage root) k w = (b, w') \<Longrightarrow>
     Local_Open root k (fst (w_ext w)) = (b, fst (w_ext w'))"
  "st_Size (local_storage root) k w = (c, w') \<Longrightarrow>
     Local_Size root k (fst (w_ext w)) = (c, fst (w_ext w'))"
  "st_Delete (local_storage root) k w = (d, w') \<Longrightarrow>
     Local_Delete root k (fst (w_ext w)) = (d, fst (w_ext w'))"
  by (simp_all add: on_disk_run(1))

interpretation disk: blob_store "local_storage root" "local_blob root" for root
proof
  fix k r n q c p j sz u and w w' :: "(fs \<times> 'a) world"
  show "rd_error r = None \<and> n = length (rd_content r) \<and> local_blob root k w' = Some (rd_content r)"
    if "st_Save (local_storage root) k r w = (Inr n, w')"
    using on_disk_Local(1) [OF that]
    by (cases rule: Local_Save_effect) (auto simp: local_blob_def)
  show "local_blob root k w' = local_blob root k w \<or> local_blob root k w' = Some (rd_content r)"
    if "st_Save (local_storage root) k r w = (q, w')"
    using Local_Save_all_or_nothing [OF on_disk_Local(1) [OF that]]
    by (auto simp: local_blob_def split: sum.split)
  show "local_blob root k w = Some c" if "st_Open (local_storage root) k w = (Inr c, w')"
    using Local_Open_run(2) [OF on_disk_Local(2) [OF that] refl] by (auto simp: local_blob_def)
  show "local_blob root j w' = local_blob root j w" if "st_Open (local_storage root) k w = (p, w')"
    using Local_Open_run(1) [OF on_disk_Local(2) [OF that]]
    by (auto simp: local_blob_def split: sum.split)
  show "\<exists>c. local_blob root k w = Some c \<and> sz = int (length c)"
    if "st_Size (local_storage root) k w = (Inr sz, w')"
    using Local_Size_run [OF on_disk_Local(3) [OF that]] by (auto simp: local_blob_def)
  show "local_blob root k w' = None" if "st_Delete (local_storage root) k w = (Inr u, w')"
    using Local_Delete_ok [OF on_disk_Local(4) [OF that]] by (auto simp: local_blob_def)
qed (auto simp: on_disk_frame)

text \<open>A platform whose services do not touch the disk, next to it.\<close>

definition beside :: "('x \<Rightarrow> 'r \<times> 'x) \<Rightarrow> fs \<times> 'x \<Rightarrow> 'r \<times> (fs \<times> 'x)" where
  "beside f e = (case f (snd e) of (r, x) \<Rightarrow> (r, (fst e, x)))"

definition with_disk :: "'x platform \<Rightarrow> (fs \<times> 'x) platform" where
  "with_disk P = \<lparr>
     http_do = (\<lambda>rq. beside (http_do P rq)), url_error = url_error P, json_parse = json_parse P,
     rand_read = (\<lambda>n. beside (rand_read P n)), clock = beside (clock P),
     pg_fault = beside (pg_fault P), pg_uuid = beside (pg_uuid P), sha256 = sha256 P,
     aes_seal = aes_seal P, aes_open = aes_open P, mail_address = mail_address P,
     uni_lower = uni_lower P, uni_fold = uni_fold P\<rparr>"

lemma with_disk_fields [simp]:
  "http_do (with_disk P) rq = beside (http_do P rq)" "rand_read (with_disk P) n = beside (rand_read P n)"
  "clock (with_disk P) = beside (clock P)" "pg_fault (with_disk P) = beside (pg_fault P)"
  "pg_uuid (with_disk P) = beside (pg_uuid P)" "url_error (with_disk P) = url_error P"
  "json_parse (with_disk P) = json_parse P" "sha256 (with_disk P) = sha256 P"
  "aes_seal (with_disk P) = aes_seal P" "aes_open (with_disk P) = aes_open P"
  "mail_address (with_disk P) = mail_address P" "uni_lower (with_disk P) = uni_lower P"
  "uni_fold (with_disk P) = uni_fold P"
  by (simp_all add: with_disk_def)

lemma beside_fst [simp]: "fst (snd (beside f e)) = fst e"
  by (simp add: beside_def split: prod.split)

interpretation disk_service: blob_service "local_storage root" "local_blob root" "with_disk P" for root P
  by unfold_locales (auto simp: local_blob_def split: sum.split)


end
