(* ===== verification/Artifact_Properties.thy ===== *)
theory Artifact_Properties
  imports Storage_Local Demo_Run
begin

text \<open>
  What the artifact operations and the disk backend promise together: keys that stay in the
  deal's directory, uploads that are complete and within the cap, who may upload and when.
\<close>

section \<open>Storage keys\<close>

lemma runes_safe: "list_all safe_rune (runes s) \<Longrightarrow> list_all safe_rune (bytes s)"
proof -
  assume "list_all safe_rune (runes s)"
  then have "\<forall>(r, c) \<in> set (rune_chunks (bytes s)). r < 128"
    by (auto simp: runes_def list_all_iff safe_rune_def)
  from ascii_runes [OF this] \<open>list_all safe_rune (runes s)\<close> show ?thesis by (simp add: runes_def)
qed

lemma sanitizeExt_shape:
  obtains (none) "sanitizeExt P fn = ''''"
  | (ext) e where "sanitizeExt P fn = CHR ''.'' # e" "list_all safe_rune (bytes e)" "e \<noteq> ''''" "length e \<le> 9"
proof (cases "sanitizeExt P fn = ''''")
  case False
  define ext where "ext = ToLower (uni_lower P) (filepath_Ext fn)"
  from False have ext: "sanitizeExt P fn = ext" "2 \<le> length ext" "length ext \<le> 10"
    "list_all safe_rune (runes (drop 1 ext))"
    by (auto simp: sanitizeExt_def ext_def Let_def split: if_splits)
  moreover have "\<exists>e. ext = CHR ''.'' # e" if "filepath_Ext fn = CHR ''.'' # r" for r
    using that
    by (simp add: ext_def ToLower_def runes_def bytes_def of_runes_def of_bytes_def lower_rune_def
        EncodeRune_def char_of_def bit_0)
  moreover have "filepath_Ext fn = '''' \<or> (\<exists>r. filepath_Ext fn = CHR ''.'' # r)"
    by (simp add: filepath_Ext_def Let_def)
  moreover have "ToLower (uni_lower P) '''' = ''''"
    by (simp add: ToLower_def runes_def bytes_def of_runes_def of_bytes_def)
  ultimately obtain e where "ext = CHR ''.'' # e"
    by (metis ext_def list.size(3) not_numeral_le_zero)
  with ext show thesis by (intro that(2) [of e]) (auto dest: runes_safe)
qed (rule none)

lemma plain_long: "2 < length x \<Longrightarrow> CHR ''/'' \<notin> set x \<Longrightarrow> plain x"
  by (auto simp: plain_def)

lemma plain_name:
  assumes "length b = 32"
  shows "plain (hex_EncodeToString b @ sanitizeExt P fn)"
proof -
  have hex: "CHR ''/'' \<notin> set (hex_EncodeToString b)"
    using hex_EncodeToString_chars [of "CHR ''/''" b] by (auto simp: of_char_def)
  have "CHR ''/'' \<notin> set (sanitizeExt P fn)"
    by (cases rule: sanitizeExt_shape [of P fn])
      (auto simp: list_all_iff bytes_def safe_rune_def)
  moreover have "64 \<le> length (hex_EncodeToString b @ sanitizeExt P fn)"
    using assms by (simp add: hex_EncodeToString_length)
  ultimately show ?thesis using hex by (intro plain_long) auto
qed

lemma upload_key_inside:
  assumes "artifactStorageKey P i fn w = (Inr key, w')" and "rand_fills P" and "plain i"
  shows "\<exists>path name. resolve root key = Inr path \<and> plain name \<and>
    path_elems path = path_elems root @ [''deals'', i, name] \<and>
    path = CHR ''/'' # join (CHR ''/'') (path_elems path)"
proof -
  from assms(1) obtain b w1 where b: "read_rand P 32 w = (Inr b, w1)"
    and key: "key = ''deals/'' @ i @ ''/'' @ hex_EncodeToString b @ sanitizeExt P fn"
    by (auto simp: artifactStorageKey_def bindE_Inr_iff ret_def)
  let ?name = "hex_EncodeToString b @ sanitizeExt P fn"
  have name: "plain ?name" by (rule plain_name) (rule read_rand_length [OF assms(2) b])
  have "split_on (CHR ''/'') (join (CHR ''/'') [''deals'', i, ?name]) = [''deals'', i, ?name]"
    using assms(3) name by (intro split_join) (auto simp: plain_def)
  then have split: "split_on (CHR ''/'') key = [''deals'', i, ?name]" by (simp add: key)
  have "TrimSpace key \<noteq> ''''"
    by (simp add: key TrimSpace_start IsSpace_def)
  with split name assms(3) obtain path where "resolve root key = Inr path"
    "path_elems path = path_elems root @ [''deals'', i, ?name]"
    by (elim resolve_plain [of key root, rotated]) (auto simp: plain_def)
  with name resolve_inside show ?thesis by metis
qed

text \<open>Whatever file name the uploader chose, the key made for an upload is accepted by the disk
  backend and names a file directly inside the deal's own directory below the root.\<close>

theorem upload_key_contained:
  assumes "artifactStorageKey P i fn w = (Inr key, w')" and "rand_fills P" and "plain i"
  shows "\<exists>path name. resolve root key = Inr path \<and> plain name \<and>
    path_elems path = path_elems root @ [''deals'', i, name] \<and>
    path = CHR ''/'' # join (CHR ''/'') (path_elems path)"
  by (rule upload_key_inside [OF assms])

lemma demo_rand: "rand_fills demo_platform"
  by (simp add: rand_fills_def)

lemma plain_d: "plain ''d''"
  by (simp add: plain_def)

theorem upload_key_contained_witness:
  "\<exists>key w' path name. artifactStorageKey demo_platform ''d'' ''../../x.SH'' happy_world = (Inr key, w') \<and>
    resolve ''/up'' key = Inr path \<and> path_elems path = path_elems ''/up'' @ [''deals'', ''d'', name]"
proof -
  have "\<exists>key w'. artifactStorageKey demo_platform ''d'' ''../../x.SH'' happy_world = (Inr key, w')"
    by (simp add: artifactStorageKey_def run_prims happy_world_def demo_world_def)
  then show ?thesis using upload_key_contained [OF _ demo_rand plain_d, of _ _ _ _ "''/up''"] by blast
qed

definition disk_svc :: "(fs \<times> demo) svc" where
  "disk_svc = \<lparr>sv_platform = with_disk demo_platform, sv_lnbits = demo_lnbits, sv_key = '''', sv_cv = None,
     sv_storage = Some (local_storage ''/up''), sv_maxUploadBytes = 10, sv_notifier = True\<rparr>"

definition disk_world :: "(fs \<times> demo) world" where
  "disk_world =
     \<lparr>w_db = \<lparr>t_deals = [demo_row StatusLocked], t_artifacts = [], t_verifications = [],
        t_users = [], t_refresh_tokens = [], t_cv_entries = []\<rparr>,
      w_ext = (empty_disk\<lparr>fs_faults := []\<rparr>, demo_ext [] []), w_log = []\<rparr>"

lemma disk_rand: "rand_fills (with_disk demo_platform)"
  by (auto simp: rand_fills_def beside_def)

lemma Local_Save_calm:
  assumes "fs_faults d = []" and "resolve root key = Inr path" and "rd_error r = None"
  shows "\<exists>d'. Local_Save root key r d = (Inr (length (rd_content r)), d') \<and> fs_faults d' = [] \<and>
    fs_files d' path = Some (rd_content r)"
  using assms
  by (simp add: Local_Save_def write_via_def sync_dir_def os_try_def os_ok_def os_Create_def io_Copy_def
      os_Rename_def os_drop_def os_Remove_def syscall_def sys_fault_def set_file_def randomSuffix_def
      bindE_def Let_def split: list.split)

definition demo_key :: string where
  "demo_key = ''deals/d/'' @ hex_EncodeToString (replicate 32 (CHR ''r'')) @
     sanitizeExt (with_disk demo_platform) ''x''"

lemma demo_key_run:
  "artifactStorageKey (with_disk demo_platform) ''d'' ''x'' w =
    (Inr demo_key, w\<lparr>w_ext := (fst (w_ext w), (snd (w_ext w))\<lparr>dm_seq := dm_seq (snd (w_ext w)) + 1\<rparr>)\<rparr>)"
  by (simp add: artifactStorageKey_def bindE_def read_rand_def beside_def demo_key_def)

lemma demo_key_resolve: obtains path where "resolve ''/up'' demo_key = Inr path"
  using upload_key_inside [OF demo_key_run disk_rand plain_d] by blast

lemma saved_world:
  "\<exists>d1 path. resolve ''/up'' demo_key = Inr path \<and> fs_faults d1 = [] \<and> fs_files d1 path = Some ''pdf'' \<and>
    Local_Save ''/up'' demo_key \<lparr>rd_content = ''pdf'', rd_error = None\<rparr> (empty_disk\<lparr>fs_faults := []\<rparr>) = (Inr 3, d1)"
proof -
  obtain path where p: "resolve ''/up'' demo_key = Inr path" by (rule demo_key_resolve)
  with Local_Save_calm [of "empty_disk\<lparr>fs_faults := []\<rparr>", OF _ p, of "\<lparr>rd_content = ''pdf'', rd_error = None\<rparr>"]
  show ?thesis by auto
qed

lemmas run_upload = Service_UploadArtifact_def upload_store_def valid_kind_def upload_closed_def
  LimitReader_def on_disk_def beside_def disk_svc_def disk_world_def Repo_CreateArtifact_def
  artifacts_constraint_def

lemmas run_download = Service_DownloadArtifact_def artifact_for_def Repo_GetArtifactByID_def may_see_def
  Local_Open_def Local_Size_def os_read_def os_Open_def os_Stat_def syscall_def sys_fault_def

lemma demo_transfer:
  assumes "Local_Save ''/up'' demo_key \<lparr>rd_content = ''pdf'', rd_error = None\<rparr> (empty_disk\<lparr>fs_faults := []\<rparr>) = (Inr 3, d1)"
    and "resolve ''/up'' demo_key = Inr path" "fs_faults d1 = []" "fs_files d1 path = Some ''pdf''"
  shows "\<exists>a w' n w''.
    Service_UploadArtifact disk_svc ''f'' ''d'' ArtifactSourceFile ''x''
      (Some \<lparr>rd_content = ''pdf'', rd_error = None\<rparr>) disk_world = (Inr a, w') \<and>
    Service_DownloadArtifact disk_svc ''f'' ''f@x'' ''d'' (a_ID a) w' = (Inr (a, ''pdf'', n), w'')"
  by (simp add: run_upload run_download assms demo_key_run run_prims run_repo demo_row_def)

text \<open>C23: with the disk backend, what a party downloads is what the freelancer uploaded: the whole
  stream and its size, never longer than the cap, under the artifact's own record.\<close>

theorem upload_then_download:
  assumes "Service_UploadArtifact s u i kind fn (Some r) w = (Inr a, w')"
    and "Service_DownloadArtifact s u' em i (a_ID a) w' = (Inr (a', c, n), w'')"
    and "sv_platform s = with_disk P" "sv_storage s = Some (local_storage root)"
    and "sint (sv_maxUploadBytes s) < 2 ^ 63 - 1"
  shows "a' = a \<and> c = rd_content r \<and> n = int (length c) \<and> n \<le> sint (sv_maxUploadBytes s) \<and>
    a_DealID a = i \<and> a_Kind a = kind"
  using disk_service.upload_download [OF assms] by blast

theorem upload_then_download_witness:
  "\<exists>a w' n w''.
    Service_UploadArtifact disk_svc ''f'' ''d'' ArtifactSourceFile ''x''
      (Some \<lparr>rd_content = ''pdf'', rd_error = None\<rparr>) disk_world = (Inr a, w') \<and>
    Service_DownloadArtifact disk_svc ''f'' ''f@x'' ''d'' (a_ID a) w' = (Inr (a, ''pdf'', n), w'') \<and>
    n = 3 \<and> a_DealID a = ''d''"
proof -
  obtain d1 path where "resolve ''/up'' demo_key = Inr path" "fs_faults d1 = []" "fs_files d1 path = Some ''pdf''"
    "Local_Save ''/up'' demo_key \<lparr>rd_content = ''pdf'', rd_error = None\<rparr> (empty_disk\<lparr>fs_faults := []\<rparr>) = (Inr 3, d1)"
    using saved_world by blast
  from demo_transfer [OF this(4,1-3)] obtain a w' n w'' where
    up: "Service_UploadArtifact disk_svc ''f'' ''d'' ArtifactSourceFile ''x''
      (Some \<lparr>rd_content = ''pdf'', rd_error = None\<rparr>) disk_world = (Inr a, w')" and
    down: "Service_DownloadArtifact disk_svc ''f'' ''f@x'' ''d'' (a_ID a) w' = (Inr (a, ''pdf'', n), w'')"
    by blast
  from upload_then_download [OF up down] up down show ?thesis by (auto simp: disk_svc_def)
qed

section \<open>Who may upload, and how much\<close>

text \<open>An upload is accepted only from the deal's freelancer, with a legal kind, while the deal
  has not been submitted, disputed or closed; it adds exactly the returned record to the artifacts
  of that deal and leaves the deals alone.\<close>

theorem upload_accepted:
  assumes "Service_UploadArtifact s u i kind fn rd w = (Inr a, w')"
    and "sv_storage s = Some (local_storage root)"
  shows "\<exists>row. find_deal i (w_db w) = Some row \<and> c_freelancer_id row = u \<and>
    c_status row \<notin> {StatusWorkSubmitted, StatusReviewing, StatusReleased, StatusDisputed, StatusRefunded} \<and>
    valid_kind kind \<and>
    t_artifacts (w_db w') = t_artifacts (w_db w) @ [a] \<and> a_DealID a = i \<and> a_Kind a = kind \<and>
    t_deals (w_db w') = t_deals (w_db w)"
proof -
  from disk.upload_Inr [OF assms] obtain r row w1 key where up:
    "find_deal i (w_db w) = Some row" "c_freelancer_id row = u" "\<not> upload_closed (c_status row)"
    "valid_kind kind" "w_db w1 = w_db w"
    and store: "upload_store s (local_storage root) i kind key r w1 = (Inr a, w')" by metis
  from up disk.upload_store_rows [OF store] show ?thesis
    by (auto simp: upload_closed_def)
qed

theorem upload_accepted_witness:
  "\<exists>a w' row.
    Service_UploadArtifact disk_svc ''f'' ''d'' ArtifactSourceFile ''x''
      (Some \<lparr>rd_content = ''pdf'', rd_error = None\<rparr>) disk_world = (Inr a, w') \<and>
    find_deal ''d'' (w_db disk_world) = Some row \<and> c_freelancer_id row = ''f'' \<and>
    t_artifacts (w_db w') = [a]"
proof -
  obtain d1 path where "resolve ''/up'' demo_key = Inr path" "fs_faults d1 = []" "fs_files d1 path = Some ''pdf''"
    "Local_Save ''/up'' demo_key \<lparr>rd_content = ''pdf'', rd_error = None\<rparr> (empty_disk\<lparr>fs_faults := []\<rparr>) = (Inr 3, d1)"
    using saved_world by blast
  from demo_transfer [OF this(4,1-3)] obtain a w' where
    up: "Service_UploadArtifact disk_svc ''f'' ''d'' ArtifactSourceFile ''x''
      (Some \<lparr>rd_content = ''pdf'', rd_error = None\<rparr>) disk_world = (Inr a, w')"
    by blast
  have "sv_storage disk_svc = Some (local_storage ''/up'')" "t_artifacts (w_db disk_world) = []"
    by (simp_all add: disk_svc_def disk_world_def)
  with upload_accepted [OF up] up show ?thesis by auto
qed

text \<open>The size cap holds: an upload longer than the configured cap (below the largest 64-bit
  value) is refused, and the database is as before.\<close>

theorem upload_too_large:
  assumes "Service_UploadArtifact s u i kind fn (Some r) w = (q, w')"
    and "sv_storage s = Some (local_storage root)"
    and "sint (sv_maxUploadBytes s) < 2 ^ 63 - 1"
    and "int (length (rd_content r)) > sint (sv_maxUploadBytes s)"
  shows "(\<exists>e. q = Inl e) \<and> w_db w' = w_db w"
  using disk.upload_oversized [OF assms] by blast

theorem upload_too_large_witness:
  "\<exists>e w'. Service_UploadArtifact disk_svc ''f'' ''d'' ArtifactSourceFile ''x''
      (Some \<lparr>rd_content = replicate 11 (CHR ''a''), rd_error = None\<rparr>) disk_world = (Inl e, w') \<and>
    t_artifacts (w_db w') = []"
proof -
  obtain q w' where run: "Service_UploadArtifact disk_svc ''f'' ''d'' ArtifactSourceFile ''x''
      (Some \<lparr>rd_content = replicate 11 (CHR ''a''), rd_error = None\<rparr>) disk_world = (q, w')"
    by (meson surj_pair)
  have "sv_storage disk_svc = Some (local_storage ''/up'')" "sint (sv_maxUploadBytes disk_svc) = 10"
    by (simp_all add: disk_svc_def)
  with upload_too_large [OF run] run show ?thesis by (auto simp: disk_world_def)
qed

text \<open>C26: at the largest cap the limit given to the reader wraps around to a negative number: every
  accepted upload is then stored as an empty blob, whatever was sent.\<close>

theorem upload_overflow:
  assumes "Service_UploadArtifact s u i kind fn (Some r) w = (Inr a, w')"
    and "sv_storage s = Some (local_storage root)" and "sv_platform s = with_disk P"
    and "sint (sv_maxUploadBytes s) = 2 ^ 63 - 1"
  shows "local_blob root (a_StorageKey a) w' = Some ''''"
  using disk_service.upload_wraps [OF assms] .

definition open_svc :: "(fs \<times> demo) svc" where
  "open_svc = disk_svc\<lparr>sv_maxUploadBytes := 9223372036854775807\<rparr>"

lemma open_cap: "sint (sv_maxUploadBytes open_svc) = 2 ^ 63 - 1"
  by (simp add: open_svc_def)

theorem upload_overflow_witness:
  "\<exists>a w'. Service_UploadArtifact open_svc ''f'' ''d'' ArtifactSourceFile ''x''
      (Some \<lparr>rd_content = ''pdf'', rd_error = None\<rparr>) disk_world = (Inr a, w') \<and>
    local_blob ''/up'' (a_StorageKey a) w' = Some ''''"
proof -
  let ?e = "\<lparr>rd_content = '''', rd_error = None\<rparr>"
  obtain path where p: "resolve ''/up'' demo_key = Inr path" by (rule demo_key_resolve)
  from Local_Save_calm [of "empty_disk\<lparr>fs_faults := []\<rparr>", OF _ p, of ?e] obtain d1 where
    save: "Local_Save ''/up'' demo_key ?e (empty_disk\<lparr>fs_faults := []\<rparr>) = (Inr 0, d1)" by auto
  have cut: "LimitReader r (- 9223372036854775808) = ?e" for r
    by (simp add: LimitReader_def)
  obtain a w' where up: "Service_UploadArtifact open_svc ''f'' ''d'' ArtifactSourceFile ''x''
      (Some \<lparr>rd_content = ''pdf'', rd_error = None\<rparr>) disk_world = (Inr a, w')"
    by (simp add: open_svc_def run_upload save cut demo_key_run run_prims run_repo demo_row_def)
  have "sv_storage open_svc = Some (local_storage ''/up'')" "sv_platform open_svc = with_disk demo_platform"
    by (simp_all add: open_svc_def disk_svc_def)
  from upload_overflow [OF up this open_cap] up show ?thesis by blast
qed

lemma DeleteArtifact_run:
  assumes "Repo_DeleteArtifact P i w = (Inr u, w')"
  shows "t_artifacts (w_db w') = filter (\<lambda>a. a_ID a \<noteq> i) (t_artifacts (w_db w))"
    "t_verifications (w_db w') = filter (\<lambda>v. v_ArtifactID v \<noteq> i) (t_verifications (w_db w))"
    "t_deals (w_db w') = t_deals (w_db w)"
  using assms unfolding Repo_DeleteArtifact_def
  by (auto simp: run_iffs elim!: query_run split: if_splits)

text \<open>Deleting an artifact asks only who owns the deal: the freelancer removes the row of an
  artifact of their deal, with its verifications, whatever the status of the deal; the deal stays.\<close>

theorem delete_artifact_effect:
  assumes "Service_DeleteArtifact s u i j w = (Inr x, w')"
    and "sv_storage s = Some (local_storage root)"
  shows "\<exists>row a. find_deal i (w_db w) = Some row \<and> c_freelancer_id row = u \<and>
    find_artifact j (w_db w) = Some a \<and> a_DealID a = i \<and>
    t_artifacts (w_db w') = filter (\<lambda>a. a_ID a \<noteq> j) (t_artifacts (w_db w)) \<and>
    t_verifications (w_db w') = filter (\<lambda>v. v_ArtifactID v \<noteq> j) (t_verifications (w_db w)) \<and>
    t_deals (w_db w') = t_deals (w_db w)"
proof -
  let ?body = "\<lambda>deal. if FreelancerID deal \<noteq> u then fail (sentinel_err ErrForbidden)
    else bindE (Repo_GetArtifactByID (sv_platform s) j) (\<lambda>artifact.
      if a_DealID artifact \<noteq> i then fail (sentinel_err ErrArtifactNotFound)
      else bindE (Repo_DeleteArtifact (sv_platform s) j) (\<lambda>_.
        bindR (st_Delete (local_storage root) (a_StorageKey artifact)) (\<lambda>_. ret ())))"
  from assms have "bindE (Repo_GetDealByID (sv_platform s) (sv_key s) i) ?body w = (Inr x, w')"
    by (auto simp: Service_DeleteArtifact_def cong: if_cong split: if_splits)
  then show ?thesis
  proof (cases rule: get_bind_cases)
    case (got deal row w1)
    from got(6) obtain a w2 w3 b where a: "Repo_GetArtifactByID (sv_platform s) j w1 = (Inr a, w2)"
      and d: "Repo_DeleteArtifact (sv_platform s) j w2 = (Inr (), w3)"
      and del: "on_disk (Local_Delete root (a_StorageKey a)) w3 = (b, w')"
      and who: "FreelancerID deal = u" "a_DealID a = i"
      by (auto simp: run_iffs split: if_splits)
    from del have "w_db w' = w_db w3" by (rule same_dbD) (rule on_disk_frame)
    with GetArtifact_Inr [OF a] DeleteArtifact_run [OF d] scanDeal_fields(1) [OF got(2)] got who
    show ?thesis by simp
  qed simp
qed

definition submitted_world :: "(fs \<times> demo) world" where
  "submitted_world = disk_world\<lparr>w_db := \<lparr>t_deals = [demo_row StatusWorkSubmitted],
     t_artifacts = [\<lparr>a_ID = ''a'', a_DealID = ''d'', a_Kind = ArtifactSourceFile,
       a_StorageKey = ''a'', a_UploadedAt = 1\<rparr>], t_verifications = [],
     t_users = [], t_refresh_tokens = [], t_cv_entries = []\<rparr>\<rparr>"

theorem delete_artifact_effect_witness:
  "\<exists>w'. Service_DeleteArtifact disk_svc ''f'' ''d'' ''a'' submitted_world = (Inr (), w') \<and>
    t_deals (w_db w') = [demo_row StatusWorkSubmitted] \<and> t_artifacts (w_db w') = []"
proof -
  obtain b d where "Local_Delete ''/up'' ''a'' (empty_disk\<lparr>fs_faults := []\<rparr>) = (b, d)"
    by fastforce
  then obtain w' where run: "Service_DeleteArtifact disk_svc ''f'' ''d'' ''a'' submitted_world = (Inr (), w')"
    by (simp add: Service_DeleteArtifact_def submitted_world_def Repo_DeleteArtifact_def affected_def
        run_upload run_download run_prims run_repo demo_row_def split: prod.splits)
  have "sv_storage disk_svc = Some (local_storage ''/up'')" by (simp add: disk_svc_def)
  with delete_artifact_effect [OF run] run show ?thesis by (auto simp: submitted_world_def)
qed

end
