(* ===== verification/Webhook.thy ===== *)
theory Webhook
  imports Deal_Service
begin

text \<open>
  \<open>backend/internal/webhook\<close>: payment notifications from LNbits. The signature check of
  \<open>signature.go\<close>, the service that locks the deal of a confirmed payment, and the HTTP handler
  with the status each outcome is answered with.

  The webhook's \<open>Service\<close> holds the same repository, LNbits client and mailer as the deal
  service (\<open>cmd/api/router.go\<close>), so the model passes the same record.
\<close>

section \<open>Signatures\<close>

text \<open>HMAC (\<open>crypto/hmac\<close>) over the platform's SHA-256, with its block of 64 bytes.\<close>

definition hmac_pad :: "string \<Rightarrow> nat \<Rightarrow> string" where
  "hmac_pad key c =
     of_bytes (map (\<lambda>b. xor b c) (take 64 (bytes key @ replicate 64 0)))"

definition hmac_sha256 :: "'e platform \<Rightarrow> string \<Rightarrow> string \<Rightarrow> string" where
  "hmac_sha256 P key msg =
     (let k = (if length key > 64 then sha256 P key else key)
      in sha256 P (hmac_pad k 92 @ sha256 P (hmac_pad k 54 @ msg)))"

text \<open>The items of the header: a comma-separated list of \<open>name=value\<close>; the last of equal names
  counts, and a part without \<open>=\<close> rejects the whole header.\<close>

fun signature_items :: "string list \<Rightarrow> (string \<Rightarrow> string option) \<Rightarrow> (string \<Rightarrow> string option) option" where
  "signature_items [] items = Some items"
| "signature_items (part # parts) items =
     (case cut (CHR ''='') part of
        None \<Rightarrow> None
      | Some (k, v) \<Rightarrow> signature_items parts (items(TrimSpace k \<mapsto> v)))"

definition item :: "(string \<Rightarrow> string option) \<Rightarrow> string \<Rightarrow> string" where
  "item items k = (case items k of None \<Rightarrow> '''' | Some v \<Rightarrow> v)"

text \<open>Five minutes and one second, in nanoseconds: the unit of the clock.\<close>

definition signatureTolerance :: int where
  "signatureTolerance = 300000000000"

definition second :: int where
  "second = 1000000000"

definition VerifyLNbitsSignature ::
  "'e platform \<Rightarrow> time \<Rightarrow> string \<Rightarrow> string \<Rightarrow> string \<Rightarrow> bool" where
  "VerifyLNbitsSignature P now rawBody signatureHeader secret =
     (if secret = '''' then True
      else if signatureHeader = '''' then False
      else
        (case signature_items (split_on (CHR '','') signatureHeader) Map.empty of
           None \<Rightarrow> False
         | Some items \<Rightarrow>
             (case ParseInt64 (item items ''t'') of
                None \<Rightarrow> False
              | Some timestamp \<Rightarrow>
                  let diff = now - timestamp * second
                  in if diff < - signatureTolerance \<or> diff > signatureTolerance then False
                     else
                       (case hex_DecodeString (item items ''v1'') of
                          None \<Rightarrow> False
                        | Some got \<Rightarrow>
                            hmac_sha256 P secret (item items ''t'' @ ''.'' @ rawBody) = got))))"

section \<open>The service\<close>

record PaymentNotification =
  pn_CheckingID :: string
  pn_PaymentHash :: string
  pn_Amount :: int
  pn_Fee :: int
  pn_Memo :: string
  pn_Status :: string

definition decode_notification ::
  "'e platform \<Rightarrow> (string \<times> json) list \<Rightarrow> PaymentNotification option" where
  "decode_notification P kvs =
     (case (field P ''checking_id'' json_string '''' kvs, field P ''payment_hash'' json_string '''' kvs,
            field P ''amount'' json_int64 0 kvs, field P ''fee'' json_int64 0 kvs,
            field P ''memo'' json_string '''' kvs, field P ''status'' json_string '''' kvs) of
        (Some cid, Some h, Some a, Some f, Some m, Some st) \<Rightarrow>
          Some \<lparr>pn_CheckingID = cid, pn_PaymentHash = h, pn_Amount = a, pn_Fee = f, pn_Memo = m,
            pn_Status = st\<rparr>
      | _ \<Rightarrow> None)"

definition HandlePayment :: "'e svc \<Rightarrow> PaymentNotification \<Rightarrow> ('e world, unit) prog" where
  "HandlePayment s notification =
     (if pn_CheckingID notification = ''''
      then fail (errorf Webhook_ErrMalformedPayload '': missing checking_id'')
      else
        bindE (wrapE (wrapf ''verify payment with lnbits: '')
                 (Client_CheckPayment (sv_platform s) (sv_lnbits s) (pn_CheckingID notification))) (\<lambda>payment.
        if \<not> cp_Paid payment
        then fail (errorf Webhook_ErrPaymentFailed '': payment not confirmed by lnbits'')
        else
          bindE (wrapE (\<lambda>e. if errors_Is e ErrDealNotFound
                             then errorf Webhook_ErrDealNotFound ('': '' @ pn_CheckingID notification)
                             else wrapf ''lookup deal by checking_id: '' e)
                   (Repo_GetDealByCheckingID (sv_platform s) (sv_key s) (pn_CheckingID notification))) (\<lambda>deal.
          bindE (wrapE (wrapf (''transition deal '' @ ID deal @ '' to locked: ''))
                   (Repo_UpdateStatusIfCurrent (sv_platform s) (ID deal)
                      StatusAwaitingPayment StatusLocked)) (\<lambda>transitioned.
            if transitioned then notify s PaymentLocked deal else ret ()))))"

section \<open>The handler\<close>

text \<open>A response of a handler: the HTTP status and the JSON body.\<close>

type_synonym response = "nat \<times> json"

definition json_error :: "nat \<Rightarrow> string \<Rightarrow> response" where
  "json_error code msg = (code, JObj [(''error'', JStr msg)])"

definition maxWebhookBodyBytes :: nat where
  "maxWebhookBodyBytes = 1048576"

text \<open>\<open>io.ReadAll(http.MaxBytesReader(...))\<close>: too long, a failed read, or the body.\<close>

datatype body_read = TooLarge | ReadFailed | Body string

definition read_capped :: "reader \<Rightarrow> nat \<Rightarrow> body_read" where
  "read_capped r limit =
     (if length (rd_content r) > limit then TooLarge
      else case rd_error r of Some _ \<Rightarrow> ReadFailed | None \<Rightarrow> Body (rd_content r))"

definition webhook_error :: "goerr \<Rightarrow> response" where
  "webhook_error e =
     (if errors_Is e Webhook_ErrMalformedPayload then json_error 400 ''malformed payload''
      else if errors_Is e Webhook_ErrPaymentFailed
      then (200, JObj [(''status'', JStr ''ignored''), (''reason'', JStr ''payment not successful'')])
      else if errors_Is e Webhook_ErrDealNotFound then json_error 404 ''no deal for checking_id''
      else json_error 500 ''internal failure'')"

text \<open>\<open>unmarshal\<close> is the parser behind \<open>json.Unmarshal\<close>, which wants exactly one value.\<close>

definition HandleLNbitsWebhook ::
  "'e svc \<Rightarrow> (string \<Rightarrow> json option) \<Rightarrow> string \<Rightarrow> reader \<Rightarrow> string \<Rightarrow> ('e world, response) prog" where
  "HandleLNbitsWebhook s unmarshal secret body header =
     (case read_capped body maxWebhookBodyBytes of
        TooLarge \<Rightarrow> ret (json_error 413 ''request body too large'')
      | ReadFailed \<Rightarrow> ret (json_error 400 ''failed to read request body'')
      | Body rawBody \<Rightarrow>
          bindE (if secret = '''' then ret True
                 else bindE (time_now (sv_platform s)) (\<lambda>now.
                   ret (VerifyLNbitsSignature (sv_platform s) now rawBody header secret))) (\<lambda>signed.
          if \<not> signed then ret (json_error 401 ''invalid signature'')
          else
            (case Option.bind (Option.bind (unmarshal rawBody) json_object)
                    (decode_notification (sv_platform s)) of
               None \<Rightarrow> ret (json_error 400 ''invalid webhook payload'')
             | Some notification \<Rightarrow>
                 bindR (HandlePayment s notification) (\<lambda>r.
                   case r of
                     Inl e \<Rightarrow> ret (webhook_error e)
                   | Inr _ \<Rightarrow> ret (200, JObj [(''status'', JStr ''ok'')])))))"

end
