(* ===== verification/Auth.thy ===== *)
theory Auth
  imports Webhook
begin

text \<open>
  \<open>backend/internal/auth\<close>: the accounts repository, tokens, the service and the HTTP handlers,
  and the gates of \<open>middleware/auth.go\<close>. The JWT and bcrypt libraries and the Unicode tables
  are arguments, collected in the service record.
\<close>

section \<open>Tokens\<close>

record Claims =
  cl_UserID :: string
  cl_Email :: string
  cl_IsOperator :: bool
  cl_ExpiresAt :: time
  cl_IssuedAt :: time
  cl_ID :: string

text \<open>
  \<open>auth.Service\<close> with its repository and \<open>TokenManager\<close>. \<open>au_sign\<close> is \<open>SignedString\<close> of an HS256
  token, \<open>au_parse\<close> is \<open>jwt.ParseWithClaims\<close> with a key function that accepts HMAC methods
  only, at a time. \<open>au_driver_arrays\<close> tells whether the database driver accepts a \<open>[]string\<close>
  argument.
\<close>

record 'e auth_service =
  au_platform :: "'e platform"
  au_access :: string
  au_refresh :: string
  au_sign :: "string \<Rightarrow> Claims \<Rightarrow> string + string"
  au_parse :: "string \<Rightarrow> time \<Rightarrow> string \<Rightarrow> Claims option"
  au_bcrypt :: "string \<Rightarrow> 'e \<Rightarrow> (string + string) \<times> 'e"
  au_bcrypt_ok :: "string \<Rightarrow> string \<Rightarrow> bool"
  au_letter :: "rune \<Rightarrow> bool"
  au_digit :: "rune \<Rightarrow> bool"
  au_driver_arrays :: bool

definition accessTokenTTL :: int where
  "accessTokenTTL = 15 * 60 * second"

definition RefreshTokenTTL :: int where
  "RefreshTokenTTL = 7 * 24 * 60 * 60 * second"

text \<open>\<open>jwt.NewNumericDate\<close> keeps whole seconds.\<close>

definition NumericDate :: "time \<Rightarrow> time" where
  "NumericDate t = t - t mod second"

definition sign_token :: "'e auth_service \<Rightarrow> string \<Rightarrow> Claims \<Rightarrow> ('e world, string) prog" where
  "sign_token s secret c =
     liftE (case au_sign s secret c of Inl m \<Rightarrow> Inl (new_err m) | Inr t \<Rightarrow> Inr t)"

definition GenerateAccessToken ::
  "'e auth_service \<Rightarrow> string \<Rightarrow> string \<Rightarrow> bool \<Rightarrow> ('e world, string) prog" where
  "GenerateAccessToken s userID email isOperator =
     bindE (time_now (au_platform s)) (\<lambda>t1.
     bindE (time_now (au_platform s)) (\<lambda>t2.
       sign_token s (au_access s)
         \<lparr>cl_UserID = userID, cl_Email = email, cl_IsOperator = isOperator,
          cl_ExpiresAt = NumericDate (t1 + accessTokenTTL), cl_IssuedAt = NumericDate t2, cl_ID = ''''\<rparr>))"

definition randomTokenID :: "'e auth_service \<Rightarrow> ('e world, string) prog" where
  "randomTokenID s = bindE (read_rand (au_platform s) 16) (\<lambda>b. ret (hex_EncodeToString b))"

definition GenerateRefreshToken ::
  "'e auth_service \<Rightarrow> string \<Rightarrow> string \<Rightarrow> ('e world, string) prog" where
  "GenerateRefreshToken s userID email =
     bindE (randomTokenID s) (\<lambda>tokenID.
     bindE (time_now (au_platform s)) (\<lambda>t1.
     bindE (time_now (au_platform s)) (\<lambda>t2.
       sign_token s (au_refresh s)
         \<lparr>cl_UserID = userID, cl_Email = email, cl_IsOperator = False,
          cl_ExpiresAt = NumericDate (t1 + RefreshTokenTTL), cl_IssuedAt = NumericDate t2,
          cl_ID = tokenID\<rparr>)))"

definition verify_token :: "'e auth_service \<Rightarrow> string \<Rightarrow> string \<Rightarrow> ('e world, Claims) prog" where
  "verify_token s secret token =
     bindE (time_now (au_platform s)) (\<lambda>now.
       case au_parse s secret now token of
         None \<Rightarrow> fail (sentinel_err Auth_ErrInvalidToken)
       | Some c \<Rightarrow> ret c)"

definition VerifyAccessToken :: "'e auth_service \<Rightarrow> string \<Rightarrow> ('e world, Claims) prog" where
  "VerifyAccessToken s token = verify_token s (au_access s) token"

definition VerifyRefreshToken :: "'e auth_service \<Rightarrow> string \<Rightarrow> ('e world, Claims) prog" where
  "VerifyRefreshToken s token = verify_token s (au_refresh s) token"

section \<open>The repository\<close>

definition users_constraint :: "User list \<Rightarrow> string option" where
  "users_constraint us =
     (if \<not> distinct (map u_ID us) then Some ''users_pkey''
      else if \<not> distinct (map u_Email us) then Some ''users_email_key''
      else if \<not> distinct (map u_Slug us) then Some ''users_slug_key'' else None)"

text \<open>What the lookups without the \<open>password_hash\<close> column return.\<close>

definition public_user :: "User \<Rightarrow> User" where
  "public_user u = u\<lparr>u_PasswordHash := ''''\<rparr>"

definition Users_Create ::
  "'e platform \<Rightarrow> string \<Rightarrow> string \<Rightarrow> string \<Rightarrow> string \<Rightarrow> ('e world, User) prog" where
  "Users_Create P email passwordHash displayName slug =
     query P ''repository: create user: '' (\<lambda>now uuid db.
       let u = \<lparr>u_ID = uuid, u_Email = email, u_PasswordHash = passwordHash,
                u_DisplayName = displayName, u_Slug = slug, u_BitcoinAddress = '''',
                u_TrustScore = 100, u_IsOperator = False, u_CreatedAt = now\<rparr>;
           us = t_users db @ [u]
       in case users_constraint us of
            Some c \<Rightarrow> (Inl (wrapf ''repository: create user: '' (new_err c)), db)
          | None \<Rightarrow> (Inr (public_user u), db\<lparr>t_users := us\<rparr>))"

definition find_user ::
  "'e platform \<Rightarrow> string \<Rightarrow> (User \<Rightarrow> bool) \<Rightarrow> ('e world, User option) prog" where
  "find_user P pre p = query P pre (\<lambda>_ _ db. (Inr (select_row p (t_users db)), db))"

definition Users_FindByEmail :: "'e platform \<Rightarrow> string \<Rightarrow> ('e world, User option) prog" where
  "Users_FindByEmail P email =
     find_user P ''repository: find user by email: '' (\<lambda>u. u_Email u = email)"

definition Users_FindBySlug :: "'e platform \<Rightarrow> string \<Rightarrow> ('e world, User option) prog" where
  "Users_FindBySlug P slug =
     bindE (find_user P ''repository: find user by slug: '' (\<lambda>u. u_Slug u = slug))
       (\<lambda>u. ret (map_option public_user u))"

definition Users_FindByID :: "'e platform \<Rightarrow> string \<Rightarrow> ('e world, User option) prog" where
  "Users_FindByID P i =
     bindE (find_user P ''repository: find user by id: '' (\<lambda>u. u_ID u = i))
       (\<lambda>u. ret (map_option public_user u))"

definition Users_EmailExists :: "'e platform \<Rightarrow> string \<Rightarrow> ('e world, bool) prog" where
  "Users_EmailExists P email =
     query P ''repository: email exists: ''
       (\<lambda>_ _ db. (Inr (list_ex (\<lambda>u. u_Email u = email) (t_users db)), db))"

definition Users_SlugExists :: "'e platform \<Rightarrow> string \<Rightarrow> ('e world, bool) prog" where
  "Users_SlugExists P slug =
     query P ''repository: slug exists: ''
       (\<lambda>_ _ db. (Inr (list_ex (\<lambda>u. u_Slug u = slug) (t_users db)), db))"

definition clean_emails :: "'e platform \<Rightarrow> string list \<Rightarrow> string list" where
  "clean_emails P emails =
     filter (\<lambda>e. e \<noteq> '''') (map (\<lambda>e. ToLower (uni_lower P) (TrimSpace e)) emails)"

definition Users_PromoteOperators :: "'e auth_service \<Rightarrow> string list \<Rightarrow> ('e world, unit) prog" where
  "Users_PromoteOperators s emails =
     (let cleaned = clean_emails (au_platform s) emails in
      if length cleaned = 0 then ret ()
      else if \<not> au_driver_arrays s
      then fail (wrapf ''repository: promote operators: '' (new_err ''sql: converting argument $1 type: unsupported type []string, a slice of string''))
      else
        query (au_platform s) ''repository: promote operators: '' (\<lambda>_ _ db.
          (Inr (), db\<lparr>t_users := update_rows (\<lambda>u. u_Email u \<in> set cleaned)
                              (\<lambda>u. u\<lparr>u_IsOperator := True\<rparr>) (t_users db)\<rparr>)))"

definition Tokens_Store ::
  "'e platform \<Rightarrow> string \<Rightarrow> string \<Rightarrow> time \<Rightarrow> ('e world, unit) prog" where
  "Tokens_Store P userID tokenHash expiresAt =
     query P ''repository: store refresh token: '' (\<lambda>now uuid db.
       let t = \<lparr>rt_ID = uuid, rt_UserID = userID, rt_TokenHash = tokenHash,
                rt_ExpiresAt = expiresAt, rt_CreatedAt = now\<rparr>;
           ts = t_refresh_tokens db @ [t]
       in if \<not> distinct (map rt_ID ts) then (Inl (wrapf ''repository: store refresh token: '' (new_err ''refresh_tokens_pkey'')), db)
          else if \<not> distinct (map rt_TokenHash ts)
          then (Inl (wrapf ''repository: store refresh token: '' (new_err ''refresh_tokens_token_hash_key'')), db)
          else if \<not> list_ex (\<lambda>u. u_ID u = userID) (t_users db)
          then (Inl (wrapf ''repository: store refresh token: '' (new_err ''refresh_tokens_user_id_fkey'')), db)
          else (Inr (), db\<lparr>t_refresh_tokens := ts\<rparr>))"

definition Tokens_Find :: "'e platform \<Rightarrow> string \<Rightarrow> ('e world, StoredRefreshToken) prog" where
  "Tokens_Find P tokenHash =
     bindE (query P ''repository: find refresh token: ''
              (\<lambda>_ _ db. (Inr (select_row (\<lambda>t. rt_TokenHash t = tokenHash) (t_refresh_tokens db)), db)))
       (\<lambda>r. case r of
          None \<Rightarrow> fail (sentinel_err Auth_ErrRefreshTokenNotFound)
        | Some t \<Rightarrow> ret t)"

definition Tokens_Revoke :: "'e platform \<Rightarrow> string \<Rightarrow> ('e world, unit) prog" where
  "Tokens_Revoke P tokenHash =
     bindE (query P ''repository: revoke refresh token: '' (\<lambda>_ _ db.
              (Inr (affected (\<lambda>t. rt_TokenHash t = tokenHash) (t_refresh_tokens db)),
               db\<lparr>t_refresh_tokens := filter (\<lambda>t. rt_TokenHash t \<noteq> tokenHash) (t_refresh_tokens db)\<rparr>)))
       (\<lambda>rows. if rows = 0 then fail (sentinel_err Auth_ErrRefreshTokenNotFound) else ret ())"

definition CleanupExpiredRefreshTokens :: "'e platform \<Rightarrow> ('e world, nat) prog" where
  "CleanupExpiredRefreshTokens P =
     bindE (time_now P) (\<lambda>now.
       query P '''' (\<lambda>_ _ db.
         (Inr (affected (\<lambda>t. rt_ExpiresAt t < now) (t_refresh_tokens db)),
          db\<lparr>t_refresh_tokens := filter (\<lambda>t. \<not> rt_ExpiresAt t < now) (t_refresh_tokens db)\<rparr>)))"

end
