(* ===== verification/Auth_Service.thy ===== *)
theory Auth_Service
  imports Auth
begin

text \<open>
  \<open>auth/service.go\<close>: registration, login, refresh-token rotation, logout; then the handlers of
  \<open>auth/handler.go\<close> and the gates of \<open>middleware/auth.go\<close>.
\<close>

section \<open>Input checks\<close>

definition ascii_letter :: "char \<Rightarrow> bool" where
  "ascii_letter c \<longleftrightarrow> (97 \<le> (of_char c :: nat) \<and> of_char c \<le> (122 :: nat)) \<or>
     (65 \<le> (of_char c :: nat) \<and> of_char c \<le> (90 :: nat))"

definition local_char :: "char \<Rightarrow> bool" where
  "local_char c \<longleftrightarrow> ascii_letter c \<or> digit c \<or> c \<in> set ''._%+-''"

definition domain_char :: "char \<Rightarrow> bool" where
  "domain_char c \<longleftrightarrow> ascii_letter c \<or> digit c \<or> c \<in> set ''.-''"

text \<open>\<open>emailPattern.MatchString\<close>: the classes determine where a match splits, at the only \<open>@\<close> and
  at the last dot.\<close>

definition top_level :: "string \<Rightarrow> string" where
  "top_level d = rev (takeWhile (\<lambda>c. c \<noteq> CHR ''.'') (rev d))"

definition emailPattern :: "string \<Rightarrow> bool" where
  "emailPattern s =
     (case cut (CHR ''@'') s of
        None \<Rightarrow> False
      | Some (l, d) \<Rightarrow>
          l \<noteq> '''' \<and> list_all local_char l \<and> list_all domain_char d \<and> CHR ''.'' \<in> set d \<and>
          length (top_level d) \<ge> 2 \<and> list_all ascii_letter (top_level d) \<and>
          length d > length (top_level d) + 1)"

definition IsLetter :: "'e auth_service \<Rightarrow> rune \<Rightarrow> bool" where
  "IsLetter s r =
     (if r < 128 then (97 \<le> r \<and> r \<le> 122) \<or> (65 \<le> r \<and> r \<le> 90) else au_letter s r)"

definition IsDigit :: "'e auth_service \<Rightarrow> rune \<Rightarrow> bool" where
  "IsDigit s r = (if r < 128 then 48 \<le> r \<and> r \<le> 57 else au_digit s r)"

text \<open>\<open>fmt.Errorf("%w: %w", ErrInvalidInput, err)\<close>.\<close>

definition invalid_because :: "sentinel \<Rightarrow> goerr" where
  "invalid_because x =
     GoErr [Auth_ErrInvalidInput, x] (sentinel_text Auth_ErrInvalidInput @ '': '' @ sentinel_text x)"

definition normal_email :: "'e auth_service \<Rightarrow> string \<Rightarrow> string" where
  "normal_email s email = ToLower (uni_lower (au_platform s)) (TrimSpace email)"

section \<open>Slugs\<close>

fun slug_loop :: "rune list \<Rightarrow> string \<Rightarrow> bool \<Rightarrow> string" where
  "slug_loop [] b lastWasHyphen = b"
| "slug_loop (r # rs) b lastWasHyphen =
     (if (97 \<le> r \<and> r \<le> 122) \<or> (48 \<le> r \<and> r \<le> 57)
      then slug_loop rs (b @ [char_of r]) False
      else if r = 32 \<or> r = 45 \<or> r = 95 then
        (if \<not> lastWasHyphen \<and> length b > 0 then slug_loop rs (b @ ''-'') True
         else slug_loop rs b lastWasHyphen)
      else slug_loop rs b lastWasHyphen)"

text \<open>\<open>strings.Trim(s, "-")\<close>.\<close>

definition trim_hyphens :: "string \<Rightarrow> string" where
  "trim_hyphens s =
     rev (dropWhile (\<lambda>c. c = CHR ''-'') (rev (dropWhile (\<lambda>c. c = CHR ''-'') s)))"

definition slugify :: "(rune \<Rightarrow> rune) \<Rightarrow> string \<Rightarrow> string" where
  "slugify lower name =
     (let slug = trim_hyphens (slug_loop (runes (ToLower lower (TrimSpace name))) '''' False)
      in if slug = '''' then ''user'' else slug)"

text \<open>At most \<open>n\<close> attempts with a random suffix.\<close>

fun slug_attempts :: "'e auth_service \<Rightarrow> string \<Rightarrow> nat \<Rightarrow> ('e world, string) prog" where
  "slug_attempts s base 0 = fail (errorf Auth_ErrInvalidInput '': could not generate a unique slug'')"
| "slug_attempts s base (Suc n) =
     bindE (wrapE (wrapf ''generating slug suffix: '') (read_rand (au_platform s) 3)) (\<lambda>buf.
       let slug = base @ ''-'' @ hex_EncodeToString buf in
       bindE (wrapE (wrapf ''checking slug availability: '')
                (Users_SlugExists (au_platform s) slug)) (\<lambda>taken.
         if \<not> taken then ret slug else slug_attempts s base n))"

definition generateUniqueSlug :: "'e auth_service \<Rightarrow> string \<Rightarrow> ('e world, string) prog" where
  "generateUniqueSlug s displayName =
     (let base = slugify (uni_lower (au_platform s)) displayName in
      bindE (wrapE (wrapf ''checking slug availability: '')
               (Users_SlugExists (au_platform s) base)) (\<lambda>taken.
        if \<not> taken then ret base else slug_attempts s base 5))"

section \<open>Issuing tokens\<close>

record AuthResponse =
  ar_User :: User
  ar_AccessToken :: string
  ar_RefreshToken :: string

definition hashRefreshToken :: "'e auth_service \<Rightarrow> string \<Rightarrow> string" where
  "hashRefreshToken s token = hex_EncodeToString (sha256 (au_platform s) token)"

definition issueTokens :: "'e auth_service \<Rightarrow> User \<Rightarrow> ('e world, AuthResponse) prog" where
  "issueTokens s user =
     bindE (wrapE (wrapf ''generating access token: '')
              (GenerateAccessToken s (u_ID user) (u_Email user) (u_IsOperator user))) (\<lambda>accessToken.
     bindE (wrapE (wrapf ''generating refresh token: '')
              (GenerateRefreshToken s (u_ID user) (u_Email user))) (\<lambda>refreshToken.
     bindE (time_now (au_platform s)) (\<lambda>now.
     bindE (wrapE (wrapf ''storing refresh token: '')
              (Tokens_Store (au_platform s) (u_ID user) (hashRefreshToken s refreshToken)
                 (now + RefreshTokenTTL))) (\<lambda>_.
       ret \<lparr>ar_User = user, ar_AccessToken = accessToken, ar_RefreshToken = refreshToken\<rparr>))))"

section \<open>Registration and login\<close>

definition register_check :: "'e auth_service \<Rightarrow> string \<Rightarrow> string \<Rightarrow> string \<Rightarrow> goerr option" where
  "register_check s email password displayName =
     (if \<not> emailPattern email then Some (invalid_because Auth_ErrInvalidEmail)
      else if length password < 8 then Some (invalid_because Auth_ErrPasswordTooShort)
      else if \<not> list_ex (IsLetter s) (runes password) \<or> \<not> list_ex (IsDigit s) (runes password)
      then Some (errorf Auth_ErrInvalidInput '': password must contain a letter and a digit'')
      else if TrimSpace displayName = ''''
      then Some (errorf Auth_ErrInvalidInput '': display name is required'')
      else None)"

definition hash_password :: "'e auth_service \<Rightarrow> string \<Rightarrow> ('e world, string) prog" where
  "hash_password s password w =
     (case au_bcrypt s password (w_ext w) of
        (Inl m, e) \<Rightarrow> (Inl (new_err m), w\<lparr>w_ext := e\<rparr>)
      | (Inr h, e) \<Rightarrow> (Inr h, w\<lparr>w_ext := e\<rparr>))"

definition Service_Register ::
  "'e auth_service \<Rightarrow> string \<Rightarrow> string \<Rightarrow> string \<Rightarrow> ('e world, AuthResponse) prog" where
  "Service_Register s email0 password displayName =
     (let email = normal_email s email0 in
      case register_check s email password displayName of
        Some e \<Rightarrow> fail e
      | None \<Rightarrow>
          bindE (wrapE (wrapf ''checking email availability: '')
                   (Users_EmailExists (au_platform s) email)) (\<lambda>taken.
          if taken then fail (sentinel_err Auth_ErrEmailTaken)
          else
            bindE (wrapE (wrapf ''generating slug: '') (generateUniqueSlug s displayName)) (\<lambda>slug.
            bindE (wrapE (wrapf ''hashing password: '') (hash_password s password)) (\<lambda>passwordHash.
            bindE (wrapE (wrapf ''creating user: '')
                     (Users_Create (au_platform s) email passwordHash (TrimSpace displayName) slug)) (\<lambda>user.
              issueTokens s user)))))"

definition Service_Authenticate ::
  "'e auth_service \<Rightarrow> string \<Rightarrow> string \<Rightarrow> ('e world, AuthResponse) prog" where
  "Service_Authenticate s email0 password =
     (let email = normal_email s email0 in
      if \<not> emailPattern email then fail (invalid_because Auth_ErrInvalidEmail)
      else if TrimSpace password = ''''
      then fail (errorf Auth_ErrInvalidInput '': password is required'')
      else
        bindE (wrapE (wrapf ''looking up user: '') (Users_FindByEmail (au_platform s) email)) (\<lambda>u.
          case u of
            None \<Rightarrow> fail (sentinel_err Auth_ErrInvalidCredentials)
          | Some user \<Rightarrow>
              if \<not> au_bcrypt_ok s (u_PasswordHash user) password
              then fail (sentinel_err Auth_ErrInvalidCredentials)
              else issueTokens s user))"

definition Service_ApplyOperatorRole :: "'e auth_service \<Rightarrow> string list \<Rightarrow> ('e world, unit) prog" where
  "Service_ApplyOperatorRole s emails =
     wrapE (wrapf ''applying operator role: '') (Users_PromoteOperators s emails)"

section \<open>Rotation and logout\<close>

definition find_stored :: "'e auth_service \<Rightarrow> string \<Rightarrow> ('e world, StoredRefreshToken) prog" where
  "find_stored s tokenHash =
     wrapE (\<lambda>e. if errors_Is e Auth_ErrRefreshTokenNotFound then sentinel_err Auth_ErrInvalidToken
                else wrapf ''finding refresh token: '' e)
       (Tokens_Find (au_platform s) tokenHash)"

text \<open>\<open>RefreshToken\<close> up to the point where a valid token is about to be revoked.\<close>

definition refresh_check :: "'e auth_service \<Rightarrow> string \<Rightarrow> ('e world, User) prog" where
  "refresh_check s refreshToken =
     bindE (wrapE (wrapf ''verifying refresh token: '') (VerifyRefreshToken s refreshToken)) (\<lambda>claims.
     bindE (wrapE (wrapf ''finding user: '')
              (Users_FindByEmail (au_platform s) (cl_Email claims))) (\<lambda>u.
       case u of
         None \<Rightarrow> fail (sentinel_err Auth_ErrInvalidToken)
       | Some user \<Rightarrow>
           bindE (find_stored s (hashRefreshToken s refreshToken)) (\<lambda>stored.
           bindE (time_now (au_platform s)) (\<lambda>now.
             if now > rt_ExpiresAt stored then
               bindE (wrapE (wrapf ''revoking expired refresh token: '')
                        (Tokens_Revoke (au_platform s) (hashRefreshToken s refreshToken))) (\<lambda>_.
                 fail (sentinel_err Auth_ErrInvalidToken))
             else ret user))))"

definition refresh_revoke :: "'e auth_service \<Rightarrow> string \<Rightarrow> ('e world, unit) prog" where
  "refresh_revoke s refreshToken =
     wrapE (wrapf ''revoking refresh token: '')
       (Tokens_Revoke (au_platform s) (hashRefreshToken s refreshToken))"

definition Service_RefreshToken :: "'e auth_service \<Rightarrow> string \<Rightarrow> ('e world, AuthResponse) prog" where
  "Service_RefreshToken s refreshToken =
     bindE (refresh_check s refreshToken) (\<lambda>user.
     bindE (refresh_revoke s refreshToken) (\<lambda>_.
       issueTokens s user))"

definition Service_Logout :: "'e auth_service \<Rightarrow> string \<Rightarrow> ('e world, unit) prog" where
  "Service_Logout s refreshToken =
     bindE (wrapE (wrapf ''verifying refresh token: '') (VerifyRefreshToken s refreshToken)) (\<lambda>_.
     bindE (find_stored s (hashRefreshToken s refreshToken)) (\<lambda>_.
       refresh_revoke s refreshToken))"

definition Service_GetMe :: "'e auth_service \<Rightarrow> string \<Rightarrow> ('e world, User option) prog" where
  "Service_GetMe s userID =
     (if userID = '''' then fail (errorf Auth_ErrInvalidInput '': user id is required'')
      else Users_FindByID (au_platform s) userID)"

section \<open>Handlers\<close>

text \<open>\<open>ShouldBindJSON\<close> into a struct whose string fields are all \<open>binding:"required"\<close>.\<close>

fun required_fields :: "'e platform \<Rightarrow> (string \<times> json) list \<Rightarrow> string list \<Rightarrow> string list option" where
  "required_fields P kvs [] = Some []"
| "required_fields P kvs (k # ks) =
     (case (field P k json_string '''' kvs, required_fields P kvs ks) of
        (Some v, Some vs) \<Rightarrow> if v = '''' then None else Some (v # vs)
      | _ \<Rightarrow> None)"

definition bind_strings :: "'e platform \<Rightarrow> string \<Rightarrow> string list \<Rightarrow> string list option" where
  "bind_strings P body ks =
     Option.bind (Option.bind (json_parse P body) json_object) (\<lambda>kvs. required_fields P kvs ks)"

text \<open>The password hash is tagged \<open>json:"-"\<close>.\<close>

definition user_json :: "User \<Rightarrow> json" where
  "user_json u = JObj
     [(''id'', JStr (u_ID u)), (''email'', JStr (u_Email u)), (''display_name'', JStr (u_DisplayName u)),
      (''slug'', JStr (u_Slug u)), (''bitcoin_address'', JStr (u_BitcoinAddress u)),
      (''trust_score'', JInt (u_TrustScore u)), (''is_operator'', JBool (u_IsOperator u)),
      (''created_at'', JInt (u_CreatedAt u))]"

definition auth_json :: "AuthResponse \<Rightarrow> json" where
  "auth_json r = JObj
     [(''user'', user_json (ar_User r)), (''access_token'', JStr (ar_AccessToken r)),
      (''refresh_token'', JStr (ar_RefreshToken r))]"

definition bad_body :: response where
  "bad_body = json_error 400 ''invalid request body''"

definition server_error :: response where
  "server_error = json_error 500 ''internal server error''"

definition signup_error :: "goerr \<Rightarrow> response" where
  "signup_error e =
     (if errors_Is e Auth_ErrInvalidInput \<or> errors_Is e Auth_ErrEmailTaken \<or> errors_Is e Auth_ErrSlugTaken
      then json_error 400 (err_text e) else server_error)"

definition Handler_Signup :: "'e auth_service \<Rightarrow> string \<Rightarrow> ('e world, response) prog" where
  "Handler_Signup s body =
     (case bind_strings (au_platform s) body [''email'', ''password'', ''display_name''] of
        Some [email, password, displayName] \<Rightarrow>
          bindR (Service_Register s email password displayName) (\<lambda>r.
            ret (case r of Inl e \<Rightarrow> signup_error e | Inr a \<Rightarrow> (201, auth_json a)))
      | _ \<Rightarrow> ret bad_body)"

definition login_error :: "goerr \<Rightarrow> response" where
  "login_error e =
     (if errors_Is e Auth_ErrInvalidInput then json_error 400 (err_text e)
      else if errors_Is e Auth_ErrInvalidCredentials then json_error 401 (err_text e)
      else server_error)"

definition Handler_Login :: "'e auth_service \<Rightarrow> string \<Rightarrow> ('e world, response) prog" where
  "Handler_Login s body =
     (case bind_strings (au_platform s) body [''email'', ''password''] of
        Some [email, password] \<Rightarrow>
          bindR (Service_Authenticate s email password) (\<lambda>r.
            ret (case r of Inl e \<Rightarrow> login_error e | Inr a \<Rightarrow> (200, auth_json a)))
      | _ \<Rightarrow> ret bad_body)"

definition token_error :: "goerr \<Rightarrow> response" where
  "token_error e =
     (if errors_Is e Auth_ErrInvalidToken then json_error 401 (err_text e) else server_error)"

definition Handler_Logout :: "'e auth_service \<Rightarrow> string \<Rightarrow> ('e world, response) prog" where
  "Handler_Logout s body =
     (case bind_strings (au_platform s) body [''refresh_token''] of
        Some [token] \<Rightarrow>
          bindR (Service_Logout s token) (\<lambda>r.
            ret (case r of Inl e \<Rightarrow> token_error e
                 | Inr _ \<Rightarrow> (200, JObj [(''message'', JStr ''logged out successfully'')])))
      | _ \<Rightarrow> ret bad_body)"

definition Handler_RefreshToken :: "'e auth_service \<Rightarrow> string \<Rightarrow> ('e world, response) prog" where
  "Handler_RefreshToken s body =
     (case bind_strings (au_platform s) body [''refresh_token''] of
        Some [token] \<Rightarrow>
          bindR (Service_RefreshToken s token) (\<lambda>r.
            ret (case r of Inl e \<Rightarrow> token_error e | Inr a \<Rightarrow> (200, auth_json a)))
      | _ \<Rightarrow> ret bad_body)"

definition Handler_GetMe :: "'e auth_service \<Rightarrow> string \<Rightarrow> ('e world, response) prog" where
  "Handler_GetMe s userID =
     bindR (Service_GetMe s userID) (\<lambda>r.
       ret (case r of
              Inl e \<Rightarrow> server_error
            | Inr None \<Rightarrow> json_error 404 ''user not found''
            | Inr (Some u) \<Rightarrow> (200, JObj [(''user'', user_json u)])))"

section \<open>Gates\<close>

text \<open>What \<open>AuthRequired\<close> puts into the request context: the claims; or its refusal.\<close>

definition AuthRequired :: "'e auth_service \<Rightarrow> string \<Rightarrow> ('e world, response + Claims) prog" where
  "AuthRequired s header =
     (if header = '''' then ret (Inl (json_error 401 ''missing authorization header''))
      else if \<not> HasPrefix header ''Bearer ''
      then ret (Inl (json_error 401 ''invalid authorization header''))
      else
        bindR (VerifyAccessToken s (TrimPrefix header ''Bearer '')) (\<lambda>r.
          ret (case r of
                 Inl e \<Rightarrow> Inl (json_error 401 ''invalid access token'')
               | Inr claims \<Rightarrow> Inr claims)))"

definition OperatorRequired :: "Claims \<Rightarrow> response option" where
  "OperatorRequired claims =
     (if \<not> cl_IsOperator claims then Some (json_error 403 ''operator privileges required'') else None)"

end
