(* ===== verification/Auth_Properties.thy ===== *)
theory Auth_Properties
  imports Auth_Service Demo_Run Service_Effects
begin

text \<open>
  What the accounts module guarantees: the form of slugs, that a registered user can log in,
  what the issued tokens open, and that a refresh token buys at most one new pair.
\<close>

section \<open>Slugs\<close>

definition slug_char :: "char \<Rightarrow> bool" where
  "slug_char c \<longleftrightarrow> (97 \<le> (of_char c :: nat) \<and> of_char c \<le> (122 :: nat)) \<or>
     (48 \<le> (of_char c :: nat) \<and> of_char c \<le> (57 :: nat)) \<or> c = CHR ''-''"

text \<open>A text of slug characters that does not start with a hyphen and has no two in a row.\<close>

fun slug_form :: "string \<Rightarrow> bool" where
  "slug_form [] = True"
| "slug_form [c] = slug_char c"
| "slug_form (c # d # cs) =
     (slug_char c \<and> \<not> (c = CHR ''-'' \<and> d = CHR ''-'') \<and> slug_form (d # cs))"

lemma slug_form_snoc:
  "slug_form (b @ [c]) \<longleftrightarrow> slug_form b \<and> slug_char c \<and> \<not> (b \<noteq> [] \<and> last b = CHR ''-'' \<and> c = CHR ''-'')"
  by (induction b rule: slug_form.induct) auto

lemma slug_form_Cons: "slug_form (c # cs) \<Longrightarrow> slug_form cs"
  by (cases cs) auto

lemma plain_rune:
  fixes r :: nat
  assumes "(97 \<le> r \<and> r \<le> 122) \<or> (48 \<le> r \<and> r \<le> 57)"
  shows "slug_char (char_of r)" "char_of r \<noteq> CHR ''-''"
proof -
  have n: "(of_char (char_of r :: char) :: nat) = r" using assms by auto
  from assms show "slug_char (char_of r)" unfolding slug_char_def n by blast
  show "char_of r \<noteq> CHR ''-''"
  proof
    assume "char_of r = CHR ''-''"
    then have "(of_char (char_of r :: char) :: nat) = of_char (CHR ''-'')" by (rule arg_cong)
    with n assms show False by simp
  qed
qed

lemma slug_loop_form:
  assumes "slug_form b" and "b \<noteq> [] \<Longrightarrow> hd b \<noteq> CHR ''-''"
    and "h \<longleftrightarrow> b \<noteq> [] \<and> last b = CHR ''-''"
  shows "slug_form (slug_loop rs b h) \<and> (slug_loop rs b h \<noteq> [] \<longrightarrow> hd (slug_loop rs b h) \<noteq> CHR ''-'')"
  using assms
proof (induction rs b h rule: slug_loop.induct)
  case (2 r rs b h)
  consider (letter) "(97 \<le> r \<and> r \<le> 122) \<or> (48 \<le> r \<and> r \<le> 57)"
    | (hyphen) "\<not> ((97 \<le> r \<and> r \<le> 122) \<or> (48 \<le> r \<and> r \<le> 57))" "r = 32 \<or> r = 45 \<or> r = 95" "\<not> h \<and> length b > 0"
    | (skip) "\<not> ((97 \<le> r \<and> r \<le> 122) \<or> (48 \<le> r \<and> r \<le> 57))" "\<not> ((r = 32 \<or> r = 45 \<or> r = 95) \<and> \<not> h \<and> length b > 0)"
    by blast
  then show ?case
  proof cases
    case letter
    have "slug_form (b @ [char_of r])" "b @ [char_of r] \<noteq> [] \<Longrightarrow> hd (b @ [char_of r]) \<noteq> CHR ''-''"
      using 2(5,6) plain_rune [OF letter] by (auto simp: slug_form_snoc hd_append)
    from 2(1) [OF letter this] plain_rune [OF letter] letter show ?thesis by simp
  next
    case hyphen
    have "slug_form (b @ ''-'')" "b @ ''-'' \<noteq> [] \<Longrightarrow> hd (b @ ''-'') \<noteq> CHR ''-''"
      using 2(5-7) hyphen by (auto simp: slug_form_snoc slug_char_def hd_append)
    from 2(2) [OF hyphen this] hyphen show ?thesis by auto
  next
    case skip
    then have "slug_loop (r # rs) b h = slug_loop rs b h" by auto
    then show ?thesis using 2(3,4) skip 2(5-7) by metis
  qed
qed simp

lemma drop_last_hyphen:
  assumes "slug_form s"
  shows "slug_form (rev (dropWhile (\<lambda>c. c = CHR ''-'') (rev s)))"
  using assms
proof (induction s rule: rev_induct)
  case (snoc c s)
  then show ?case by (auto simp: slug_form_snoc)
qed simp

text \<open>C31: a slug is never empty, consists of lower-case letters, digits and hyphens, starts and ends
  with no hyphen and has no two hyphens in a row, whatever the display name.\<close>

theorem slugify_shape:
  "slugify lower name \<noteq> '''' \<and> slug_form (slugify lower name) \<and>
   hd (slugify lower name) \<noteq> CHR ''-'' \<and> last (slugify lower name) \<noteq> CHR ''-''"
proof -
  define b where "b = slug_loop (runes (ToLower lower (TrimSpace name))) '''' False"
  have b: "slug_form b" "b \<noteq> [] \<longrightarrow> hd b \<noteq> CHR ''-''"
    using slug_loop_form [of "[]" False] by (simp_all add: b_def)
  then have front: "dropWhile (\<lambda>c. c = CHR ''-'') b = b" by (cases b) auto
  let ?t = "rev (dropWhile (\<lambda>c. c = CHR ''-'') (rev b))"
  have t: "trim_hyphens b = ?t" by (simp add: trim_hyphens_def front)
  show ?thesis
  proof (cases "?t = []")
    case True
    then show ?thesis by (simp add: slugify_def b_def [symmetric] t slug_char_def Let_def)
  next
    case False
    have "rev b = takeWhile (\<lambda>c. c = CHR ''-'') (rev b) @ dropWhile (\<lambda>c. c = CHR ''-'') (rev b)" by simp
    then have "b = ?t @ rev (takeWhile (\<lambda>c. c = CHR ''-'') (rev b))" by (metis rev_append rev_rev_ident)
    with False b(2) have "hd ?t \<noteq> CHR ''-''" by (metis append_is_Nil_conv hd_append2)
    moreover have "last ?t \<noteq> CHR ''-''"
      using False hd_dropWhile [of "\<lambda>c. c = CHR ''-''" "rev b"] by (simp add: last_rev)
    ultimately show ?thesis
      using False drop_last_hyphen [OF b(1)]
      by (simp only: slugify_def b_def [symmetric] t Let_def if_False simp_thms)
  qed
qed

section \<open>Refresh tokens are used once\<close>

definition stored :: "string \<Rightarrow> 'e world \<Rightarrow> nat" where
  "stored h w = affected (\<lambda>t. rt_TokenHash t = h) (t_refresh_tokens (w_db w))"

text \<open>A revocation that reports success took a row away and left none of that hash.\<close>

lemma Revoke_Inr:
  assumes "Tokens_Revoke P h w = (Inr u, w')"
  shows "1 \<le> stored h w" "stored h w' = 0" "\<And>k. k \<noteq> h \<Longrightarrow> stored k w' = stored k w"
proof -
  let ?f = "\<lambda>_ _ db. (Inr (affected (\<lambda>t. rt_TokenHash t = h) (t_refresh_tokens db)),
    db\<lparr>t_refresh_tokens := filter (\<lambda>t. rt_TokenHash t \<noteq> h) (t_refresh_tokens db)\<rparr>)"
  from assms obtain n where q: "query P ''repository: revoke refresh token: '' ?f w = (Inr n, w')" "n \<noteq> 0"
    by (auto simp: Tokens_Revoke_def run_iffs split: if_splits)
  from q(1) have n: "n = stored h w"
    and ts: "t_refresh_tokens (w_db w') = filter (\<lambda>t. rt_TokenHash t \<noteq> h) (t_refresh_tokens (w_db w))"
    by (rule query_run; simp add: stored_def)+
  from n q(2) show "1 \<le> stored h w" by simp
  from ts show "stored h w' = 0" by (simp add: stored_def affected_def)
  from ts show "stored k w' = stored k w" if "k \<noteq> h" for k
    using that by (auto simp: stored_def affected_def intro!: arg_cong [where f = length] filter_cong)
qed

text \<open>
  Sessions that refresh concurrently. A session runs the checks of \<open>RefreshToken\<close>, then the
  revocation, then the issuing of a new pair, as \<open>Service_RefreshToken\<close> composes them; between
  any two of these, other sessions and any other program may run. \<open>won\<close> counts the successful
  revocations of a hash (only those go on to issue a pair), \<open>issued\<close> how often a row of a hash
  was added.
\<close>

record 'e sessions =
  ss_world :: "'e world"
  ss_checked :: "(string \<times> User) list"
  ss_granted :: "User list"
  ss_won :: "string \<Rightarrow> nat"
  ss_issued :: "string \<Rightarrow> nat"

definition advance :: "'e sessions \<Rightarrow> 'e world \<Rightarrow> 'e sessions" where
  "advance \<sigma> w' = \<sigma>\<lparr>ss_world := w',
     ss_issued := (\<lambda>h. ss_issued \<sigma> h + (stored h w' - stored h (ss_world \<sigma>)))\<rparr>"

inductive refresh_step :: "'e auth_service \<Rightarrow> 'e sessions \<Rightarrow> 'e sessions \<Rightarrow> bool" for s where
  check_ok: "refresh_check s token (ss_world \<sigma>) = (Inr user, w') \<Longrightarrow>
    refresh_step s \<sigma> ((advance \<sigma> w')\<lparr>ss_checked := (token, user) # ss_checked \<sigma>\<rparr>)"
| revoke_ok: "(token, user) \<in> set (ss_checked \<sigma>) \<Longrightarrow> refresh_revoke s token (ss_world \<sigma>) = (Inr (), w') \<Longrightarrow>
    refresh_step s \<sigma> ((advance \<sigma> w')\<lparr>ss_checked := remove1 (token, user) (ss_checked \<sigma>),
      ss_granted := user # ss_granted \<sigma>,
      ss_won := (ss_won \<sigma>)(hashRefreshToken s token := Suc (ss_won \<sigma> (hashRefreshToken s token)))\<rparr>)"
| revoke_failed: "(token, user) \<in> set (ss_checked \<sigma>) \<Longrightarrow> refresh_revoke s token (ss_world \<sigma>) = (Inl e, w') \<Longrightarrow>
    refresh_step s \<sigma> ((advance \<sigma> w')\<lparr>ss_checked := remove1 (token, user) (ss_checked \<sigma>)\<rparr>)"
| issue: "user \<in> set (ss_granted \<sigma>) \<Longrightarrow> issueTokens s user (ss_world \<sigma>) = (r, w') \<Longrightarrow>
    refresh_step s \<sigma> ((advance \<sigma> w')\<lparr>ss_granted := remove1 user (ss_granted \<sigma>)\<rparr>)"
| other: "refresh_step s \<sigma> (advance \<sigma> w')"

inductive refresh_reachable :: "'e auth_service \<Rightarrow> 'e world \<Rightarrow> 'e sessions \<Rightarrow> bool" for s w0 where
  start: "refresh_reachable s w0 \<lparr>ss_world = w0, ss_checked = [], ss_granted = [],
    ss_won = (\<lambda>_. 0), ss_issued = (\<lambda>h. stored h w0)\<rparr>"
| step: "refresh_reachable s w0 \<sigma> \<Longrightarrow> refresh_step s \<sigma> \<tau> \<Longrightarrow> refresh_reachable s w0 \<tau>"

definition balanced :: "'e sessions \<Rightarrow> bool" where
  "balanced \<sigma> \<longleftrightarrow> (\<forall>h. ss_won \<sigma> h + stored h (ss_world \<sigma>) \<le> ss_issued \<sigma> h)"

lemma balanced_advance: "balanced \<sigma> \<Longrightarrow> balanced (advance \<sigma> w')"
  unfolding balanced_def advance_def
proof (intro allI)
  fix h assume "\<forall>h. ss_won \<sigma> h + stored h (ss_world \<sigma>) \<le> ss_issued \<sigma> h"
  then have "ss_won \<sigma> h + stored h (ss_world \<sigma>) \<le> ss_issued \<sigma> h" by blast
  then show "ss_won (\<sigma>\<lparr>ss_world := w', ss_issued := \<lambda>h. ss_issued \<sigma> h + (stored h w' - stored h (ss_world \<sigma>))\<rparr>) h +
      stored h (ss_world (\<sigma>\<lparr>ss_world := w', ss_issued := \<lambda>h. ss_issued \<sigma> h + (stored h w' - stored h (ss_world \<sigma>))\<rparr>))
      \<le> ss_issued (\<sigma>\<lparr>ss_world := w', ss_issued := \<lambda>h. ss_issued \<sigma> h + (stored h w' - stored h (ss_world \<sigma>))\<rparr>) h"
    by simp
qed

lemma advance_fields [simp]:
  "ss_world (advance \<sigma> w') = w'" "ss_won (advance \<sigma> w') = ss_won \<sigma>"
  "ss_issued (advance \<sigma> w') h = ss_issued \<sigma> h + (stored h w' - stored h (ss_world \<sigma>))"
  by (simp_all add: advance_def)

lemma balanced_step: "refresh_step s \<sigma> \<tau> \<Longrightarrow> balanced \<sigma> \<Longrightarrow> balanced \<tau>"
proof (induction rule: refresh_step.induct)
  case (revoke_ok token user \<sigma> w')
  let ?h = "hashRefreshToken s token"
  from revoke_ok(2) have r: "Tokens_Revoke (au_platform s) ?h (ss_world \<sigma>) = (Inr (), w')"
    by (simp add: refresh_revoke_def wrapE_Inr_iff)
  from revoke_ok(3) have all: "\<And>h. ss_won \<sigma> h + stored h (ss_world \<sigma>) \<le> ss_issued \<sigma> h"
    by (simp add: balanced_def)
  note rev = Revoke_Inr [OF r]
  from all [of ?h] rev(1) have "Suc (ss_won \<sigma> ?h) \<le> ss_issued \<sigma> ?h" by linarith
  with all rev(2,3) have "\<And>h. ((ss_won \<sigma>)(?h := Suc (ss_won \<sigma> ?h))) h + stored h w' \<le> ss_issued \<sigma> h"
    by (metis (mono_tags, lifting) add.right_neutral fun_upd_apply)
  then have "((ss_won \<sigma>)(?h := Suc (ss_won \<sigma> ?h))) h + stored h w'
      \<le> ss_issued \<sigma> h + (stored h w' - stored h (ss_world \<sigma>))" for h
    by (meson le_add1 order_trans)
  then show ?case by (simp add: balanced_def)
qed (use balanced_advance in \<open>auto simp: balanced_def\<close>)

lemma reachable_balanced: "refresh_reachable s w0 \<sigma> \<Longrightarrow> balanced \<sigma>"
proof (induction rule: refresh_reachable.induct)
  case (step \<sigma> \<tau>)
  from step(2,3) show ?case by (rule balanced_step)
qed (simp add: balanced_def)



section \<open>A registered user can log in\<close>

lemma chunk_nonempty: "(r, c) \<in> set (rune_chunks bs) \<Longrightarrow> c \<noteq> []"
proof (induction bs rule: rune_chunks.induct)
  case (2 b bs)
  have "take (snd (DecodeRune (b # bs))) (b # bs) \<noteq> []"
    using DecodeRune_width [of b bs] by (simp only: take_eq_Nil list.distinct de_Morgan_disj) blast
  then show ?case using 2
    by (simp only: rune_chunks.simps list.set insert_iff prod.inject) metis
qed simp

lemma TrimSpace_blank:
  assumes "TrimSpace s = ''''" and "r \<in> set (runes s)"
  shows "IsSpace r"
proof -
  let ?cs = "dropWhile (IsSpace \<circ> fst) (rune_chunks (bytes s))"
  let ?ds = "rev (dropWhile (IsSpace \<circ> fst) (rev ?cs))"
  have sub: "set ?ds \<subseteq> set (rune_chunks (bytes s))"
    by (auto dest!: set_dropWhileD)
  have "TrimSpace s = of_bytes (concat (map snd ?ds))" by (simp only: TrimSpace_def Let_def)
  with assms(1) have "concat (map snd ?ds) = []" by (simp only: of_bytes_def map_is_Nil_conv)
  then have "\<forall>x \<in> set ?ds. snd x = []" by (simp only: concat_eq_Nil_conv set_map ball_simps(9))
  moreover have "\<forall>x \<in> set ?ds. snd x \<noteq> []"
  proof
    fix x assume "x \<in> set ?ds"
    with sub have "(fst x, snd x) \<in> set (rune_chunks (bytes s))" by auto
    then show "snd x \<noteq> []" by (rule chunk_nonempty)
  qed
  ultimately have "?ds = []" by (metis last_in_set)
  then have "\<forall>x \<in> set ?cs. (IsSpace \<circ> fst) x" by (simp only: rev_is_Nil_conv dropWhile_eq_Nil_conv set_rev)
  moreover have "?cs \<noteq> [] \<Longrightarrow> \<not> (IsSpace \<circ> fst) (hd ?cs)" by (rule hd_dropWhile)
  ultimately have "?cs = []" by (metis hd_in_set)
  then have "\<forall>x \<in> set (rune_chunks (bytes s)). (IsSpace \<circ> fst) x"
    by (simp only: dropWhile_eq_Nil_conv)
  with assms(2) show ?thesis by (auto simp: runes_def)
qed

definition same_users :: "'e world \<Rightarrow> 'e world \<Rightarrow> bool" where
  "same_users w w' \<longleftrightarrow> t_users (w_db w') = t_users (w_db w)"

interpretation users_frame: frame same_users
  by unfold_locales (simp_all add: same_users_def)

lemma same_users_db: "runs_in same_db m \<Longrightarrow> runs_in same_users m"
  by (erule runs_in_mono) (simp add: same_db_def same_users_def)

lemma query_users:
  assumes "\<And>now uuid d. t_users (snd (f now uuid d)) = t_users d"
  shows "runs_in same_users (query P pre f)"
  using query_frame [of "\<lambda>a b. t_users b = t_users a" f P pre] assms
  by (simp add: runs_in_def same_users_def)

lemmas token_defs = GenerateAccessToken_def GenerateRefreshToken_def sign_token_def randomTokenID_def

lemma issueTokens_users: "runs_in same_users (issueTokens s user)"
  unfolding issueTokens_def token_defs Tokens_Store_def
  by (intro users_frame.frame_intros query_users same_users_db [OF time_now_db] same_users_db [OF read_rand_db])
    (simp add: Let_def)

lemma issueTokens_errs: "errs {} (issueTokens s user)"
  unfolding issueTokens_def token_defs Tokens_Store_def
  by (intro errs_intros errs_query)
    (auto simp: errs_def new_err_def wrapf_def Let_def split: sum.splits if_splits)

lemma issueTokens_user: "issueTokens s user w = (Inr a, w') \<Longrightarrow> ar_User a = user"
  by (auto simp: issueTokens_def run_iffs)

text \<open>What a successful registration has checked and done.\<close>

lemma Register_Inr:
  assumes "Service_Register s email pw name w = (Inr a, w')"
  obtains u h e e' where "emailPattern (normal_email s email)"
    "list_ex (IsDigit s) (runes pw)" "8 \<le> length pw"
    "au_bcrypt s pw e = (Inr h, e')" "u_PasswordHash u = h" "u_Email u = normal_email s email"
    "ar_User a = public_user u" "t_users (w_db w') = t_users (w_db w) @ [u]"
    "distinct (map u_Email (t_users (w_db w')))"
proof -
  let ?P = "au_platform s"
  let ?email = "normal_email s email"
  from assms have check: "register_check s ?email pw name = None"
    by (auto simp: Service_Register_def Let_def split: option.splits)
  from assms check obtain w1 slug w2 h w3 u' w4 where
    taken: "Users_EmailExists ?P ?email w = (Inr False, w1)"
    and slug: "generateUniqueSlug s name w1 = (Inr slug, w2)"
    and hash: "hash_password s pw w2 = (Inr h, w3)"
    and create: "Users_Create ?P ?email h (TrimSpace name) slug w3 = (Inr u', w4)"
    and issue: "issueTokens s u' w4 = (Inr a, w')"
    by (auto simp: Service_Register_def Let_def run_iffs split: if_splits)
  have att: "runs_in same_users (slug_attempts s base n)" for base n
  proof (induction n)
    case 0
    show ?case unfolding slug_attempts.simps by (rule users_frame.frame_fail)
  next
    case (Suc n)
    then show ?case unfolding slug_attempts.simps Let_def Users_SlugExists_def
      by (intro users_frame.frame_intros query_users same_users_db [OF read_rand_db]) simp
  qed
  have "runs_in same_users (generateUniqueSlug s name)"
    unfolding generateUniqueSlug_def Let_def Users_SlugExists_def
    by (intro users_frame.frame_intros query_users att) simp
  from runs_inD [OF this slug] have u12: "t_users (w_db w2) = t_users (w_db w1)"
    by (simp add: same_users_def)
  have "runs_in same_users (Users_EmailExists ?P ?email)"
    unfolding Users_EmailExists_def by (intro query_users) simp
  from runs_inD [OF this taken] have u01: "t_users (w_db w1) = t_users (w_db w)"
    by (simp add: same_users_def)
  from hash have u23: "t_users (w_db w3) = t_users (w_db w2)"
    and crypt: "\<exists>e e'. au_bcrypt s pw e = (Inr h, e')"
    by (auto simp: hash_password_def split: prod.splits sum.splits)
  have "\<exists>u. u_PasswordHash u = h \<and> u_Email u = ?email \<and> u' = public_user u \<and>
    t_users (w_db w4) = t_users (w_db w3) @ [u] \<and> distinct (map u_Email (t_users (w_db w4)))"
    using create unfolding Users_Create_def
  proof (rule query_run)
    fix now uuid
    let ?u = "\<lparr>u_ID = uuid, u_Email = ?email, u_PasswordHash = h, u_DisplayName = TrimSpace name,
      u_Slug = slug, u_BitcoinAddress = '''', u_TrustScore = 100, u_IsOperator = False, u_CreatedAt = now\<rparr>"
    assume "fst (let u = ?u; us = t_users (w_db w3) @ [u] in case users_constraint us of
        Some c \<Rightarrow> (Inl (wrapf ''repository: create user: '' (new_err c)), w_db w3)
      | None \<Rightarrow> (Inr (public_user u), (w_db w3)\<lparr>t_users := us\<rparr>)) = Inr u'"
      "w_db w4 = snd (let u = ?u; us = t_users (w_db w3) @ [u] in case users_constraint us of
        Some c \<Rightarrow> (Inl (wrapf ''repository: create user: '' (new_err c)), w_db w3)
      | None \<Rightarrow> (Inr (public_user u), (w_db w3)\<lparr>t_users := us\<rparr>))"
    then show ?thesis
      by (intro exI [of _ ?u]) (auto simp: Let_def users_constraint_def split: if_splits option.splits)
  qed
  then obtain u where u: "u_PasswordHash u = h" "u_Email u = ?email" "u' = public_user u"
    "t_users (w_db w4) = t_users (w_db w3) @ [u]" "distinct (map u_Email (t_users (w_db w4)))"
    by blast
  from runs_inD [OF issueTokens_users issue] have u45: "t_users (w_db w') = t_users (w_db w4)"
    by (simp add: same_users_def)
  from check have "emailPattern ?email" "list_ex (IsDigit s) (runes pw)" "8 \<le> length pw"
    by (auto simp: register_check_def split: if_splits)
  with that u u01 u12 u23 u45 crypt issueTokens_user [OF issue] show thesis by metis
qed

lemma select_last:
  assumes "distinct (map f (xs @ [x]))"
  shows "select_row (\<lambda>y. f y = f x) (xs @ [x]) = Some x"
proof -
  from assms have "select_row (\<lambda>y. f y = f x) xs = None"
    by (auto simp: select_row_None) (metis image_eqI)
  then show ?thesis by (simp add: select_row_append)
qed

text \<open>C30: after a successful registration, as long as the accounts are not changed, logging in with the
  password and any spelling of the email that normalises to the registered one opens that account
  or fails for an infrastructure reason; the credentials are never refused. The password hashing
  library is assumed to accept what it hashed, the Unicode tables to hold no digit that is a space.\<close>

theorem register_then_login:
  assumes reg: "Service_Register s email pw name w0 = (Inr a, w1)"
    and kept: "t_users (w_db w2) = t_users (w_db w1)"
    and login: "Service_Authenticate s email' pw w2 = (r, w3)"
    and spelling: "normal_email s email' = normal_email s email"
    and bcrypt: "\<And>h e e'. au_bcrypt s pw e = (Inr h, e') \<Longrightarrow> au_bcrypt_ok s h pw"
    and unicode: "\<And>c. au_digit s c \<Longrightarrow> \<not> IsSpace c"
  shows "(\<exists>b. r = Inr b \<and> u_ID (ar_User b) = u_ID (ar_User a)) \<or> (\<exists>e. r = Inl e \<and> err_chain e = [])"
proof -
  from reg obtain u h e e' where u: "emailPattern (normal_email s email)"
    "list_ex (IsDigit s) (runes pw)" "au_bcrypt s pw e = (Inr h, e')" "u_PasswordHash u = h"
    "u_Email u = normal_email s email" "ar_User a = public_user u"
    "t_users (w_db w1) = t_users (w_db w0) @ [u]" "distinct (map u_Email (t_users (w_db w1)))"
    by (rule Register_Inr)
  have "TrimSpace pw \<noteq> ''''"
  proof
    assume "TrimSpace pw = ''''"
    from TrimSpace_blank [OF this] u(2) obtain c where "IsDigit s c" "IsSpace c"
      by (auto simp: list_ex_iff)
    with unicode show False by (auto simp: IsDigit_def IsSpace_def split: if_splits)
  qed
  with login u(1) spelling have run:
    "bindE (wrapE (wrapf ''looking up user: '') (Users_FindByEmail (au_platform s) (normal_email s email)))
       (\<lambda>u. case u of None \<Rightarrow> fail (sentinel_err Auth_ErrInvalidCredentials)
        | Some user \<Rightarrow> if \<not> au_bcrypt_ok s (u_PasswordHash user) pw
            then fail (sentinel_err Auth_ErrInvalidCredentials) else issueTokens s user) w2 = (r, w3)"
    by (simp add: Service_Authenticate_def Let_def)
  obtain q v where find: "Users_FindByEmail (au_platform s) (normal_email s email) w2 = (q, v)"
    by (cases "Users_FindByEmail (au_platform s) (normal_email s email) w2")
  show ?thesis
  proof (cases q)
    case (Inl e)
    have "errs {} (Users_FindByEmail (au_platform s) (normal_email s email))"
      unfolding Users_FindByEmail_def find_user_def by (intro errs_query) simp
    then have "err_chain e = []" using find unfolding Inl errs_def by (metis set_empty subset_empty)
    with run find Inl show ?thesis by (auto simp: bindE_def wrapE_def wrapf_def)
  next
    case (Inr found)
    with find have "found = select_row (\<lambda>x. u_Email x = normal_email s email) (t_users (w_db w2))"
      unfolding Users_FindByEmail_def find_user_def by (auto elim!: query_run)
    with kept u(5,7,8) select_last [of u_Email "t_users (w_db w0)" u] have "found = Some u" by simp
    with run find Inr bcrypt [OF u(3)] u(4) have i: "issueTokens s u v = (r, w3)"
      by (simp add: bindE_def wrapE_def)
    show ?thesis
    proof (cases r)
      case (Inl e)
      with i issueTokens_errs [of s u] show ?thesis by (auto simp: errs_def)
    next
      case (Inr b)
      with i u(6) show ?thesis by (auto dest!: issueTokens_user simp: public_user_def)
    qed
  qed
qed

section \<open>What a token opens, and logging out\<close>

text \<open>An access token handed out for an account opens \<open>AuthRequired\<close>, with the account's id, email
  and operator flag, until the quarter of an hour is over that started when the token was made; it
  passes the operator gate exactly when the account has the flag. The JWT library is assumed to
  accept what it signed before the expiry.\<close>

theorem issued_token_opens:
  assumes issued: "issueTokens s user w = (Inr a, w1)"
    and jwt: "\<And>c tok now. au_sign s (au_access s) c = Inr tok \<Longrightarrow> now < cl_ExpiresAt c \<Longrightarrow>
      au_parse s (au_access s) now tok = Some c"
    and fresh: "fst (clock (au_platform s) (w_ext w2))
      < NumericDate (fst (clock (au_platform s) (w_ext w)) + accessTokenTTL)"
    and call: "AuthRequired s (''Bearer '' @ ar_AccessToken a) w2 = (r, w3)"
  shows "\<exists>claims. r = Inr (Inr claims) \<and> cl_UserID claims = u_ID user \<and> cl_Email claims = u_Email user \<and>
    cl_IsOperator claims = u_IsOperator user \<and> (OperatorRequired claims = None \<longleftrightarrow> u_IsOperator user)"
proof -
  let ?P = "au_platform s"
  from issued obtain u where tok: "GenerateAccessToken s (u_ID user) (u_Email user) (u_IsOperator user) w
      = (Inr (ar_AccessToken a), u)"
    by (auto simp: issueTokens_def run_iffs)
  obtain t e1 where c1: "clock ?P (w_ext w) = (t, e1)" by (cases "clock ?P (w_ext w)")
  obtain t2 e2 where c2: "clock ?P e1 = (t2, e2)" by (cases "clock ?P e1")
  let ?c = "\<lparr>cl_UserID = u_ID user, cl_Email = u_Email user, cl_IsOperator = u_IsOperator user,
    cl_ExpiresAt = NumericDate (t + accessTokenTTL), cl_IssuedAt = NumericDate t2, cl_ID = ''''\<rparr>"
  from tok c1 c2 have signed: "au_sign s (au_access s) ?c = Inr (ar_AccessToken a)"
    by (auto simp: GenerateAccessToken_def sign_token_def time_now_def bindE_def split: sum.splits)
  obtain now e3 where c3: "clock ?P (w_ext w2) = (now, e3)" by (cases "clock ?P (w_ext w2)")
  from fresh c1 c3 have "now < cl_ExpiresAt ?c" by simp
  from jwt [OF signed this] have "au_parse s (au_access s) now (ar_AccessToken a) = Some ?c" .
  with call c3 have "r = Inr (Inr ?c)"
    by (auto simp: AuthRequired_def HasPrefix_def TrimPrefix_def VerifyAccessToken_def verify_token_def
        time_now_def bindE_def bindR_def)
  then show ?thesis by (simp add: OperatorRequired_def)
qed

lemma Find_Inr: "Tokens_Find P h w = (Inr t, w') \<Longrightarrow> 1 \<le> stored h w"
proof -
  assume "Tokens_Find P h w = (Inr t, w')"
  then obtain v r where q: "query P ''repository: find refresh token: ''
      (\<lambda>_ _ db. (Inr (select_row (\<lambda>t. rt_TokenHash t = h) (t_refresh_tokens db)), db)) w = (Inr (Some t), v)"
    by (auto simp: Tokens_Find_def run_iffs split: option.splits)
  from q have "select_row (\<lambda>t. rt_TokenHash t = h) (t_refresh_tokens (w_db w)) = Some t"
    by (auto elim: query_run)
  then have "rt_TokenHash t = h \<and> t \<in> set (t_refresh_tokens (w_db w))" by (rule select_row_Some)
  then have "affected (\<lambda>t. rt_TokenHash t = h) (t_refresh_tokens (w_db w)) \<noteq> 0" by (auto simp: affected_0)
  then show ?thesis by (simp add: stored_def)
qed

text \<open>C29: a successful logout ends the session of its refresh token: as long as no row for the
  token is added, a later refresh with it fails, whatever else happened to the database.\<close>

theorem logout_revokes:
  assumes "Service_Logout s token w = (Inr (), w1)"
    and "stored (hashRefreshToken s token) w2 \<le> stored (hashRefreshToken s token) w1"
    and "Service_RefreshToken s token w2 = (r, w3)"
  shows "\<exists>e. r = Inl e"
proof (cases r)
  case (Inr a)
  let ?h = "hashRefreshToken s token"
  from assms(1) have "stored ?h w1 = 0"
    by (auto simp: Service_Logout_def refresh_revoke_def run_iffs dest: Revoke_Inr)
  moreover from assms(3) Inr obtain user v where check: "refresh_check s token w2 = (Inr user, v)"
    by (auto simp: Service_RefreshToken_def run_iffs)
  then obtain t v1 v2 claims u where "VerifyRefreshToken s token w2 = (Inr claims, v1)"
    "Users_FindByEmail (au_platform s) (cl_Email claims) v1 = (Inr u, v2)" and "\<exists>v3. Tokens_Find (au_platform s) ?h v2 = (Inr t, v3)"
    by (auto simp: refresh_check_def find_stored_def run_iffs split: option.splits)
  then have "1 \<le> stored ?h v2" and "w_db v1 = w_db w2" "w_db v2 = w_db v1"
    by (auto dest: Find_Inr simp: VerifyRefreshToken_def verify_token_def run_iffs time_now_def
        Users_FindByEmail_def find_user_def elim!: query_run split: option.splits prod.splits)
  then have "1 \<le> stored ?h w2" by (simp add: stored_def)
  ultimately show ?thesis using assms(2) by simp
qed simp

section \<open>Witnesses\<close>

definition demo_auth :: "demo auth_service" where
  "demo_auth = \<lparr>au_platform = demo_platform, au_access = ''A'', au_refresh = ''R'',
     au_sign = (\<lambda>secret c. Inr secret),
     au_parse = (\<lambda>_ _ tok. if tok = ''R''
       then Some \<lparr>cl_UserID = ''n'', cl_Email = ''c@x.io'', cl_IsOperator = False, cl_ExpiresAt = 0,
         cl_IssuedAt = 0, cl_ID = ''''\<rparr> else None),
     au_bcrypt = (\<lambda>pw e. (Inr pw, e)), au_bcrypt_ok = (\<lambda>h pw. h = pw),
     au_letter = (\<lambda>_. False), au_digit = (\<lambda>_. False), au_driver_arrays = True\<rparr>"

definition demo_user :: User where
  "demo_user = \<lparr>u_ID = ''u'', u_Email = ''c@x.io'', u_PasswordHash = ''p'', u_DisplayName = ''n'',
     u_Slug = ''n'', u_BitcoinAddress = '''', u_TrustScore = 100, u_IsOperator = True, u_CreatedAt = 0\<rparr>"

definition demo_accounts :: "User list \<Rightarrow> StoredRefreshToken list \<Rightarrow> demo world" where
  "demo_accounts us ts =
     \<lparr>w_db = \<lparr>t_deals = [], t_artifacts = [], t_verifications = [], t_users = us,
        t_refresh_tokens = ts, t_cv_entries = []\<rparr>,
      w_ext = demo_ext [] [], w_log = []\<rparr>"

lemma demo_auth_text [simp]:
  "TrimSpace ''c@x.io'' = ''c@x.io''" "TrimSpace ''Ann'' = ''Ann''"
  "ToLower (uni_lower demo_platform) ''c@x.io'' = ''c@x.io''"
  "ToLower (uni_lower demo_platform) ''Ann'' = ''ann''"
  "runes ''ann'' = [97, 110, 110]"
  by (simp_all add: TrimSpace_ascii bytes_def of_bytes_def IsSpace_def char_of_def bit_0
    ToLower_def runes_ascii of_runes_def lower_rune_def EncodeRune_def)

lemma demo_normal: "normal_email demo_auth ''c@x.io'' = ''c@x.io''"
  by (simp add: normal_email_def demo_auth_def)

lemma demo_email: "emailPattern ''c@x.io''"
  by (simp add: emailPattern_def cut_def top_level_def local_char_def domain_char_def ascii_letter_def digit_def)

lemma demo_slug: "slugify (uni_lower demo_platform) ''Ann'' = ''ann''"
  by (simp add: slugify_def trim_hyphens_def char_of_def bit_0)

lemmas run_auth = demo_auth_def demo_accounts_def demo_user_def run_prims issueTokens_def token_defs
  Tokens_Store_def NumericDate_def second_def accessTokenTTL_def RefreshTokenTTL_def hashRefreshToken_def

lemma demo_register:
  "\<exists>a w'. Service_Register demo_auth ''c@x.io'' ''abcdefg1'' ''Ann'' (demo_accounts [] []) = (Inr a, w')"
proof -
  have check: "register_check demo_auth ''c@x.io'' ''abcdefg1'' ''Ann'' = None"
    by (simp add: register_check_def demo_email runes_ascii bytes_def IsLetter_def IsDigit_def)
  show ?thesis
    by (simp add: Service_Register_def demo_normal check Let_def)
      (simp add: run_auth generateUniqueSlug_def demo_slug Users_EmailExists_def Users_SlugExists_def hash_password_def Users_Create_def
        users_constraint_def public_user_def)
qed

lemma register_then_login_witness:
  "\<exists>a w1 r w3. Service_Register demo_auth ''c@x.io'' ''abcdefg1'' ''Ann'' (demo_accounts [] []) = (Inr a, w1) \<and>
     Service_Authenticate demo_auth ''c@x.io'' ''abcdefg1'' w1 = (r, w3) \<and>
     ((\<exists>b. r = Inr b \<and> u_ID (ar_User b) = u_ID (ar_User a)) \<or> (\<exists>e. r = Inl e \<and> err_chain e = []))"
proof -
  obtain a w1 where reg: "Service_Register demo_auth ''c@x.io'' ''abcdefg1'' ''Ann'' (demo_accounts [] []) = (Inr a, w1)"
    using demo_register by blast
  obtain r w3 where login: "Service_Authenticate demo_auth ''c@x.io'' ''abcdefg1'' w1 = (r, w3)"
    by (cases "Service_Authenticate demo_auth ''c@x.io'' ''abcdefg1'' w1")
  have "(\<exists>b. r = Inr b \<and> u_ID (ar_User b) = u_ID (ar_User a)) \<or> (\<exists>e. r = Inl e \<and> err_chain e = [])"
    by (rule register_then_login [OF reg refl login refl]) (simp_all add: demo_auth_def)
  with reg login show ?thesis by blast
qed

definition demo_claims :: Claims where
  "demo_claims = \<lparr>cl_UserID = ''u'', cl_Email = ''c@x.io'', cl_IsOperator = True,
     cl_ExpiresAt = 900000000000, cl_IssuedAt = 0, cl_ID = ''''\<rparr>"

definition strict_auth :: "demo auth_service" where
  "strict_auth = demo_auth\<lparr>
     au_sign := (\<lambda>secret c. if secret = ''R'' then Inr ''r'' else if c = demo_claims then Inr ''t'' else Inl ''no''),
     au_parse := (\<lambda>_ now tok. if tok = ''t'' \<and> now < cl_ExpiresAt demo_claims then Some demo_claims else None)\<rparr>"

lemma issued_token_opens_witness:
  "\<exists>a w1 r w3 claims. issueTokens strict_auth demo_user (demo_accounts [demo_user] []) = (Inr a, w1) \<and>
     AuthRequired strict_auth (''Bearer '' @ ar_AccessToken a) w1 = (r, w3) \<and> r = Inr (Inr claims) \<and>
     OperatorRequired claims = None"
proof -
  let ?w = "demo_accounts [demo_user] []"
  obtain a w1 where issued: "issueTokens strict_auth demo_user ?w = (Inr a, w1)"
    and tick: "dm_tick (w_ext w1) < 1000"
    by (simp add: strict_auth_def demo_claims_def run_auth)
  obtain r w3 where call: "AuthRequired strict_auth (''Bearer '' @ ar_AccessToken a) w1 = (r, w3)"
    by (cases "AuthRequired strict_auth (''Bearer '' @ ar_AccessToken a) w1")
  have "\<exists>claims. r = Inr (Inr claims) \<and> cl_UserID claims = u_ID demo_user \<and>
      cl_Email claims = u_Email demo_user \<and> cl_IsOperator claims = u_IsOperator demo_user \<and>
      (OperatorRequired claims = None \<longleftrightarrow> u_IsOperator demo_user)"
  proof (rule issued_token_opens [OF issued _ _ call])
    fix c tok now
    assume "au_sign strict_auth (au_access strict_auth) c = Inr tok" "now < cl_ExpiresAt c"
    then show "au_parse strict_auth (au_access strict_auth) now tok = Some c"
      by (auto simp: strict_auth_def demo_auth_def split: if_splits)
  next
    show "fst (clock (au_platform strict_auth) (w_ext w1))
      < NumericDate (fst (clock (au_platform strict_auth) (w_ext ?w)) + accessTokenTTL)"
      using tick by (simp add: strict_auth_def run_auth)
  qed
  with issued call show ?thesis by (auto simp: demo_user_def)
qed

definition demo_token :: StoredRefreshToken where
  "demo_token = \<lparr>rt_ID = ''1'', rt_UserID = ''u'', rt_TokenHash = hashRefreshToken demo_auth ''R'',
     rt_ExpiresAt = 1000, rt_CreatedAt = 0\<rparr>"

lemmas run_session = refresh_check_def find_stored_def refresh_revoke_def VerifyRefreshToken_def
  verify_token_def Users_FindByEmail_def find_user_def Tokens_Find_def Tokens_Revoke_def affected_def
  select_row_def demo_token_def


lemma logout_revokes_witness:
  "\<exists>w1 e w3. Service_Logout demo_auth ''R'' (demo_accounts [demo_user] [demo_token]) = (Inr (), w1) \<and>
     Service_RefreshToken demo_auth ''R'' w1 = (Inl e, w3)"
proof -
  obtain w1 where out: "Service_Logout demo_auth ''R'' (demo_accounts [demo_user] [demo_token]) = (Inr (), w1)"
    by (simp add: Service_Logout_def run_session) (simp add: run_auth run_session)
  obtain r w3 where again: "Service_RefreshToken demo_auth ''R'' w1 = (r, w3)"
    by (cases "Service_RefreshToken demo_auth ''R'' w1")
  from logout_revokes [OF out order_refl again] out again show ?thesis by blast
qed

lemma demo_check:
  "\<exists>e. refresh_check demo_auth ''R'' (demo_accounts [demo_user] [demo_token]) =
     (Inr demo_user, (demo_accounts [demo_user] [demo_token])\<lparr>w_ext := e\<rparr>) \<and> dm_faults e = []"
  by (simp add: run_session) (simp add: run_auth run_session)

lemma demo_revoke:
  "dm_faults e = [] \<Longrightarrow> \<exists>e'. refresh_revoke demo_auth ''R'' ((demo_accounts [demo_user] [demo_token])\<lparr>w_ext := e\<rparr>) =
     (Inr (), (demo_accounts [demo_user] [])\<lparr>w_ext := e'\<rparr>) \<and> dm_faults e' = []"
  by (simp add: run_session) (simp add: run_auth run_session)

lemma demo_issue:
  "dm_faults e = [] \<Longrightarrow> \<exists>a w'. issueTokens demo_auth demo_user ((demo_accounts [demo_user] [])\<lparr>w_ext := e\<rparr>) = (Inr a, w')"
  by (simp add: run_auth)



end
