(* ===== verification/Requests.thy ===== *)
theory Requests
  imports Escrow_Properties
begin

text \<open>
  The requests of the deal service, one after the other: what any of them can do to a deal.
  Every status change follows the lifecycle, and the terms of a deal never change.
\<close>

section \<open>Requests\<close>

datatype request =
    ReqCreate Deal
  | ReqGet string string string
  | ReqList string string
  | ReqUpdateStatus string string Status
  | ReqSubmit string string
  | ReqApprove string string
  | ReqDispute string string string
  | ReqListDisputes
  | ReqResolve string string DisputeResolution
  | ReqReconcile string string ReconcileAction string
  | ReqCheckPayment string string
  | ReqSweep time
  | ReqPayeeInvoice string string string
  | ReqPublicGet string
  | ReqPublicApprove string
  | ReqRotate string string

definition answered :: "('w, 'a) prog \<Rightarrow> ('w, unit) prog" where
  "answered m = bindE m (\<lambda>_. ret ())"

fun serve :: "'e svc \<Rightarrow> request \<Rightarrow> ('e world, unit) prog" where
  "serve s (ReqCreate d) = answered (Service_CreateDeal s d)"
| "serve s (ReqGet i u em) = answered (Service_GetDealByID s i u em)"
| "serve s (ReqList u em) = answered (Service_ListByUser s u em)"
| "serve s (ReqUpdateStatus u i st) = Service_UpdateStatus s u i st"
| "serve s (ReqSubmit u i) = answered (Service_SubmitWork s u i)"
| "serve s (ReqApprove em i) = answered (Service_ApproveDeal s em i)"
| "serve s (ReqDispute em i x) = answered (Service_DisputeDeal s em i x)"
| "serve s ReqListDisputes = answered (Service_ListDisputes s)"
| "serve s (ReqResolve op i v) = answered (Service_ResolveDispute s op i v)"
| "serve s (ReqReconcile op i a x) = answered (Service_ReconcilePayout s op i a x)"
| "serve s (ReqCheckPayment u i) = answered (Service_CheckPayment s u i)"
| "serve s (ReqSweep t) = answered (Service_SweepExpiredHolds s t)"
| "serve s (ReqPayeeInvoice u i b) = answered (Service_UpdatePayeeInvoice s u i b)"
| "serve s (ReqPublicGet tok) = answered (Service_GetPublicDeal s tok)"
| "serve s (ReqPublicApprove tok) = answered (Service_PublicApproveDeal s tok)"
| "serve s (ReqRotate u i) = answered (Service_RotateShareLink s u i)"

lemma answered_state: "answered m w = (r, w') \<Longrightarrow> \<exists>q. m w = (q, w')"
  by (auto simp: answered_def bindE_def split: prod.splits sum.splits)

context escrow_frame begin

lemma answered_frame: "runs_in rows.related m \<Longrightarrow> runs_in rows.related (answered m)"
  unfolding answered_def by (intro frame_rules)

lemma serve_frame: "anchor_ok s \<Longrightarrow> runs_in rows.related (serve s rq)"
  by (cases rq) (simp_all add: answered_frame CreateDeal_frame reads_frame UpdateStatus_frame SubmitWork_frame
      ApproveDeal_frame DisputeDeal_frame ResolveDispute_frame ReconcilePayout_frame CheckPayment_frame
      SweepExpiredHolds_frame UpdatePayeeInvoice_frame GetPublicDeal_frame PublicApproveDeal_frame
      RotateShareLink_frame)

end

section \<open>The lifecycle\<close>

text \<open>A status change of the lifecycle: a legal transition, or the sweep closing an open deal
  whose hold is gone.\<close>

definition moves :: "Status \<Rightarrow> Status \<Rightarrow> bool" where
  "moves a b \<longleftrightarrow> CanTransition a b \<or> (a \<in> set open_statuses \<and> b = StatusRefunded)"

definition moved :: "deal_row \<Rightarrow> deal_row \<Rightarrow> bool" where
  "moved r r' \<longleftrightarrow> moves\<^sup>*\<^sup>* (c_status r) (c_status r')"

interpretation life: row_relation moved
  by unfold_locales (auto simp: moved_def)

lemma moves_rank: "moves a b \<Longrightarrow> status_rank a < status_rank b"
  by (auto simp: moves_def open_statuses_def dest: CanTransition_rank)

lemma moves_path_rank: "moves\<^sup>*\<^sup>* a b \<Longrightarrow> a = b \<or> status_rank a < status_rank b"
  by (induction rule: rtranclp_induct) (auto dest: moves_rank)

lemma moved_closed: "moves\<^sup>*\<^sup>* a b \<Longrightarrow> terminal a \<Longrightarrow> b = a"
  by (induction rule: rtranclp_induct) (auto simp: terminal_def moves_def open_statuses_def)

abbreviation alive :: "database \<Rightarrow> database \<Rightarrow> bool" where
  "alive \<equiv> row_wise moved"

lemma alive_upd:
  assumes "\<And>r. c_id (f r) = c_id r" and "\<And>r. find_deal i d = Some r \<Longrightarrow> moves\<^sup>*\<^sup>* (c_status r) (c_status (f r))"
  shows "alive d (upd_deal i f d)"
  using assms by (intro life.row_wise_upd) (simp_all add: moved_def)

lemma alive_same: "t_deals d' = t_deals d \<Longrightarrow> alive d d'"
  by (rule life.row_wise_same)

lemma alive_refl [simp]: "alive d d"
  by (rule alive_same) simp

lemma alive_step: "c_status r' = st \<Longrightarrow> moves (c_status r) st \<Longrightarrow> moves\<^sup>*\<^sup>* (c_status r) (c_status r')"
  by auto

text \<open>Compare-and-set writes follow the lifecycle when the expected status does.\<close>

lemma alive_cas:
  assumes "\<And>r. c_id (f r) = c_id r" and "\<And>r. moves ex (c_status (f r))"
  shows "alive d (upd_deal i (cas_row ex f) d)"
proof (rule alive_upd)
  show "moves\<^sup>*\<^sup>* (c_status r) (c_status (cas_row ex f r))" for r
    using r_into_rtranclp [of moves, OF assms(2) [of r]] by (auto simp: cas_row_def)
qed (simp add: cas_row_def assms(1))

lemma alive_quiet:
  "(\<And>r. c_id (f r) = c_id r) \<Longrightarrow> (\<And>r. c_status (f r) = c_status r) \<Longrightarrow> alive d (upd_deal i f d)"
  by (rule alive_upd) simp_all

lemmas life_read = life.rows.related_same_db

lemma CreateDeal_alive: "runs_in life.rows.related (Service_CreateDeal s deal)"
  unfolding Service_CreateDeal_def Let_def generateShareToken_def cancelOrphanHold_def
  by (intro life.rows.rel.frame_intros life.rows_withTx life.rows_create
      life_read [OF read_rand_db] life_read [OF cancel_call.call_db] life_read [OF hold_call.call_db])

lemma lifeI:
  "(\<And>w r w'. m w = (r, w') \<Longrightarrow> alive (w_db w) (w_db w')) \<Longrightarrow> runs_in life.rows.related m"
  by (rule runs_inI) (simp add: life.rows.related_def)

lemma UpdateStatus_alive: "runs_in life.rows.related (Service_UpdateStatus s u i st)"
proof (rule lifeI)
  fix w r w' assume "Service_UpdateStatus s u i st w = (r, w')"
  then show "alive (w_db w) (w_db w')"
    by (cases rule: Service_UpdateStatus_effect)
      (auto intro!: alive_upd r_into_rtranclp simp: set_status_def moves_def)
qed

lemma SubmitWork_alive: "runs_in life.rows.related (Service_SubmitWork s u i)"
proof (rule lifeI)
  fix w r w' assume "Service_SubmitWork s u i w = (r, w')"
  then show "alive (w_db w) (w_db w')"
    by (cases rule: SubmitWork_effect)
      (auto intro!: alive_upd r_into_rtranclp simp: set_status_def moves_def)
qed

lemma DisputeDeal_alive: "runs_in life.rows.related (Service_DisputeDeal s em i x)"
proof (rule lifeI)
  fix w r w' assume "Service_DisputeDeal s em i x w = (r, w')"
  then show "alive (w_db w) (w_db w')"
    by (cases rule: DisputeDeal_effect)
      (auto intro!: alive_cas simp: set_dispute_def moves_def)
qed

lemma refresh_alive: "runs_in life.rows.related (refreshPaymentStatus s d)"
proof (rule lifeI)
  fix w r w' assume "refreshPaymentStatus s d w = (r, w')"
  then show "alive (w_db w) (w_db w')"
    by (cases rule: refresh_effect)
      (auto intro!: alive_cas simp: set_status_def moves_def)
qed

lemma CheckPayment_alive: "runs_in life.rows.related (Service_CheckPayment s u i)"
  unfolding Service_CheckPayment_def
  by (intro life.rows.rel.frame_intros life_read [OF repo_read_db(1)] refresh_alive)

lemma GetPublicDeal_alive: "runs_in life.rows.related (Service_GetPublicDeal s tok)"
  unfolding Service_GetPublicDeal_def Let_def
  by (intro life.rows.rel.frame_intros life_read [OF repo_read_db(3)] refresh_alive)

lemma PayeeInvoice_alive: "runs_in life.rows.related (Service_UpdatePayeeInvoice s u i b)"
proof (rule lifeI)
  fix w r w' assume "Service_UpdatePayeeInvoice s u i b w = (r, w')"
  then show "alive (w_db w) (w_db w')"
    by (cases rule: UpdatePayeeInvoice_effect) (auto intro!: alive_quiet)
qed

lemma RotateShareLink_alive: "runs_in life.rows.related (Service_RotateShareLink s u i)"
proof (rule lifeI)
  fix w r w' assume "Service_RotateShareLink s u i w = (r, w')"
  then show "alive (w_db w) (w_db w')"
    by (cases rule: RotateShareLink_effect) (auto intro!: alive_quiet)
qed

lemma sweep_alive:
  assumes "sweep_deals s ds n w = (r, w')" and "\<forall>d \<in> set ds. DealStatus d \<in> set open_statuses"
  shows "alive (w_db w) (w_db w')"
proof -
  from sweep_deals_effect [OF assms(1)] obtain evs where
    "sweep_step s ds evs (w_db w) (w_db w')" by blast
  moreover have "moved row row'" if sw: "swept s ds evs i row row'" for i row row'
  proof (cases "row' = row")
    case True
    then show ?thesis by (simp add: moved_def)
  next
    case False
    with sw assms(2) have "c_status row \<in> set open_statuses" "c_status row' = StatusRefunded"
      by (fastforce simp: swept_def)+
    then show ?thesis by (auto simp: moved_def moves_def intro!: r_into_rtranclp)
  qed
  ultimately show ?thesis unfolding sweep_step_def row_wise_def by meson
qed

lemma SweepExpiredHolds_alive: "runs_in life.rows.related (Service_SweepExpiredHolds s t)"
proof (rule lifeI)
  fix w r w' assume run: "Service_SweepExpiredHolds s t w = (r, w')"
  obtain q w1 where q: "Repo_ListOpenBefore (sv_platform s) (sv_key s) t w = (q, w1)"
    by (cases "Repo_ListOpenBefore (sv_platform s) (sv_key s) t w")
  then have db: "w_db w1 = w_db w" by (rule same_dbD) (rule keeps_db)
  show "alive (w_db w) (w_db w')"
  proof (cases q)
    case (Inl e)
    with run q db show ?thesis by (simp add: Service_SweepExpiredHolds_def bindE_def)
  next
    case (Inr ds)
    with q obtain rs where rs: "traverse (scanDeal (sv_platform s) (sv_key s)) rs = Inr ds"
      "\<forall>r \<in> set rs. c_status r \<in> set open_statuses"
      unfolding Repo_ListOpenBefore_def select_deals_def
      by (auto simp: bindE_Inr_iff wrapE_Inr_iff elim!: query_run)
    have "\<forall>d \<in> set ds. DealStatus d \<in> set open_statuses"
      using traverse_mem [OF rs(1)] rs(2) by (metis scanDeal_fields(3))
    moreover from run q Inr have "sweep_deals s ds 0 w1 = (r, w')"
      by (simp add: Service_SweepExpiredHolds_def bindE_def)
    ultimately show ?thesis using sweep_alive [of s ds 0 w1 r w'] db by simp
  qed
qed

section \<open>Releases and verdicts\<close>

lemma withTx_alive:
  assumes "\<And>w0 x w1. body w0 = (Inr x, w1) \<Longrightarrow> alive (w_db w0) (w_db w1)"
  shows "runs_in life.rows.related (withTx P body)"
proof (rule lifeI)
  fix w r w' assume "withTx P body w = (r, w')"
  then show "alive (w_db w) (w_db w')"
    by (cases rule: withTx_db_cases) (auto intro: alive_same dest: assms)
qed

lemma payout_alive:
  "runs_in life.rows.related (Repo_MarkPayoutAttempted P i)"
  "runs_in life.rows.related (Repo_ClearPayoutTracking P i)"
  "runs_in life.rows.related (Repo_UpdatePayoutCheckingID P i x)"
  unfolding repo_update_defs by (intro life.rows_update; simp add: moved_def)+

lemma phase3_alive:
  assumes "release_flow s opts pre fin"
  shows "runs_in life.rows.related (release_phase3 s i opts deal pid)"
  unfolding release_phase3_def
proof (rule withTx_alive)
  fix w0 d w1 assume "phase3_body s i opts deal pid w0 = (Inr d, w1)"
  then show "alive (w_db w0) (w_db w1)"
  proof (rule release_flow.phase3_body_Inr [OF assms])
    fix row now
    assume row: "find_deal i (w_db w0) = Some row" "CanTransition (c_status row) StatusReleased"
      and w1: "w_db w1 = upd_deal i (fin now) (record_payout i pid row (w_db w0))"
    have "alive (w_db w0) (record_payout i pid row (w_db w0))"
      by (auto simp: record_payout_def intro!: alive_quiet)
    moreover have "alive (record_payout i pid row (w_db w0)) (w_db w1)"
      unfolding w1
    proof (rule alive_upd)
      fix r assume "find_deal i (record_payout i pid row (w_db w0)) = Some r"
      with record_payout_find [OF row(1)] have "c_status r = c_status row"
        by (auto split: if_splits)
      with row(2) show "moves\<^sup>*\<^sup>* (c_status r) (c_status (fin now r))"
        by (auto simp: release_flow.fin_status [OF assms] moves_def)
    qed (rule release_flow.fin_id [OF assms])
    ultimately show ?thesis by (rule life.row_wise_trans)
  qed
qed

lemma release_alive:
  assumes "release_flow s opts pre fin" and "anchor_ok s"
  shows "runs_in life.rows.related (releaseEscrow s i opts)"
proof -
  have notify: "runs_in life.rows.related (notify s n d)" for n d
    by (rule life_read [OF notify_db])
  have anchor: "runs_in life.rows.related (anchorReleasedDeal s d)" for d
    by (rule life.rows_same_deals [OF anchor_deals [OF assms(2)]])
  show ?thesis
    unfolding releaseEscrow_def release_phase1_def release_phase2_def payout_policy_def
      checkOutgoingPayout_def clearPayoutAttempt_def Let_def
    by (intro life.rows.rel.frame_intros life.rows_withTx payout_alive notify anchor
        phase3_alive [OF assms(1)] life_read [OF settle_db] life_read [OF repo_read_db(4)]
        life_read [OF check_call.call_db] life_read [OF pay_call.call_db])
qed

lemma refundDispute_alive: "runs_in life.rows.related (refundDispute s op i)"
proof (rule lifeI)
  fix w r w' assume "refundDispute s op i w = (r, w')"
  then show "alive (w_db w) (w_db w')"
    by (cases rule: refundDispute_effect)
      (auto intro!: alive_upd r_into_rtranclp simp: set_resolution_def moves_def)
qed

lemma reconcile_alive:
  assumes "anchor_ok s"
  shows "runs_in life.rows.related (reconcile_confirm s i x)"
    and "runs_in life.rows.related (reconcile_reset s i)"
proof -
  have body: "runs_in life.rows.related (withTx (sv_platform s) (confirm_body s i y))" for y
  proof (rule withTx_alive)
    fix w0 d w1 assume "confirm_body s i y w0 = (Inr d, w1)"
    then show "alive (w_db w0) (w_db w1)"
    proof (rule confirm_body_Inr)
      fix row row' assume row: "find_deal i (w_db w0) = Some row"
        "CanTransition (c_status row) StatusReleased" "find_deal i (w_db w1) = Some row'"
        "confirmed_row y row row'" and other: "\<And>j. j \<noteq> i \<Longrightarrow> find_deal j (w_db w1) = find_deal j (w_db w0)"
      have "moved row row'"
        using row by (auto simp: moved_def confirmed_row_def moves_def intro!: r_into_rtranclp)
      then show ?thesis
        using row other unfolding row_wise_def by (metis life.R_refl option.inject)
    qed
  qed
  show "runs_in life.rows.related (reconcile_confirm s i x)"
    unfolding reconcile_confirm_def Let_def
    by (intro life.rows.rel.frame_intros body life_read [OF notify_db] life_read [OF checkOutgoing_db]
        life.rows_same_deals [OF anchor_deals [OF assms]])
  show "runs_in life.rows.related (reconcile_reset s i)"
    unfolding reconcile_reset_def
    by (intro life.rows.rel.frame_intros life_read [OF repo_read_db(1)] payout_alive)
qed

lemma PublicApproveDeal_alive:
  "anchor_ok s \<Longrightarrow> runs_in life.rows.related (Service_PublicApproveDeal s tok)"
  unfolding Service_PublicApproveDeal_def Let_def
  by (intro life.rows.rel.frame_intros life_read [OF repo_read_db(3)] refresh_alive
      release_alive [OF public.release_flow_axioms])

lemma ResolveDispute_alive:
  "anchor_ok s \<Longrightarrow> runs_in life.rows.related (Service_ResolveDispute s op i v)"
  unfolding Service_ResolveDispute_def Let_def
  by (cases v; simp only: DisputeResolution.case; intro life.rows.rel.frame_intros
      refundDispute_alive life_read [OF time_now_db] release_alive [OF resolve.release_flow_axioms])

lemma ReconcilePayout_alive:
  "anchor_ok s \<Longrightarrow> runs_in life.rows.related (Service_ReconcilePayout s op i a x)"
  unfolding Service_ReconcilePayout_def Let_def
  by (cases a; simp only: ReconcileAction.case; intro life.rows.rel.frame_intros reconcile_alive)

lemma answered_alive: "runs_in life.rows.related m \<Longrightarrow> runs_in life.rows.related (answered m)"
  unfolding answered_def by (intro life.rows.rel.frame_intros)

lemma ApproveDeal_alive: "anchor_ok s \<Longrightarrow> runs_in life.rows.related (Service_ApproveDeal s em i)"
  unfolding Service_ApproveDeal_def
  by (intro life.rows.rel.frame_intros release_alive [OF approve.release_flow_axioms])

lemma reads_alive:
  "runs_in life.rows.related (Service_GetDealByID s i u em)"
  "runs_in life.rows.related (Service_ListByUser s u em)"
  "runs_in life.rows.related (Service_ListDisputes s)"
  unfolding Service_GetDealByID_def Service_ListByUser_def Service_ListDisputes_def
  by (intro life.rows.rel.frame_intros life_read [OF repo_read_db(1)] life_read [OF repo_read_db(6)]
      life_read [OF repo_read_db(7)])+

lemma serve_alive: "anchor_ok s \<Longrightarrow> runs_in life.rows.related (serve s rq)"
  by (cases rq) (simp_all add: answered_alive CreateDeal_alive reads_alive UpdateStatus_alive
      SubmitWork_alive ApproveDeal_alive DisputeDeal_alive ResolveDispute_alive ReconcilePayout_alive
      CheckPayment_alive SweepExpiredHolds_alive PayeeInvoice_alive GetPublicDeal_alive
      PublicApproveDeal_alive RotateShareLink_alive)

section \<open>Histories\<close>

fun serve_all :: "'e svc \<Rightarrow> request list \<Rightarrow> 'e world \<Rightarrow> 'e world" where
  "serve_all s [] w = w"
| "serve_all s (rq # rqs) w = serve_all s rqs (snd (serve s rq w))"

lemma serve_all_alive: "anchor_ok s \<Longrightarrow> alive (w_db w) (w_db (serve_all s rqs w))"
proof (induction rqs arbitrary: w)
  case (Cons rq rqs)
  from serve_alive [OF Cons.prems] have "alive (w_db w) (w_db (snd (serve s rq w)))"
    by (simp add: runs_in_def life.rows.related_def)
  with Cons show ?case by (auto intro: life.row_wise_trans)
qed simp

lemma serve_all_terms: "anchor_ok s \<Longrightarrow> row_wise terms_kept (w_db w) (w_db (serve_all s rqs w))"
proof (induction rqs arbitrary: w)
  case Nil
  show ?case by (simp add: terms.row_wise_same)
next
  case (Cons rq rqs)
  from terms.serve_frame [OF Cons.prems] have "row_wise terms_kept (w_db w) (w_db (snd (serve s rq w)))"
    by (simp add: runs_in_def terms.rows.related_def)
  with Cons show ?case by (auto intro: terms.row_wise_trans)
qed

text \<open>Whatever requests are served, in any order and with any faults of the database and of
  LNbits, a deal is never lost and its status only moves along the lifecycle: legal transitions,
  and the sweep closing an open deal.\<close>

theorem history_follows_lifecycle:
  assumes "anchor_ok s" and "find_deal i (w_db w) = Some row"
  shows "\<exists>row'. find_deal i (w_db (serve_all s rqs w)) = Some row' \<and>
    moves\<^sup>*\<^sup>* (c_status row) (c_status row')"
  using row_wiseD [OF serve_all_alive [OF assms(1)] assms(2)] by (simp add: moved_def)

text \<open>A closed deal stays closed: once a deal is released (or refunded), no later history of
  requests refunds (or releases) it, or reopens it.\<close>

theorem history_closed_final:
  assumes "anchor_ok s" and "find_deal i (w_db w) = Some row"
    and "c_status row = StatusReleased \<or> c_status row = StatusRefunded"
  shows "\<exists>row'. find_deal i (w_db (serve_all s rqs w)) = Some row' \<and> c_status row' = c_status row"
proof -
  obtain row' where row': "find_deal i (w_db (serve_all s rqs w)) = Some row'"
    "moves\<^sup>*\<^sup>* (c_status row) (c_status row')"
    using row_wiseD [OF serve_all_alive [OF assms(1)] assms(2)] by (auto simp: moved_def)
  moreover have "terminal (c_status row)" using assms(3) by (simp add: terminal_def)
  ultimately show ?thesis using moved_closed by blast
qed

text \<open>The terms of a deal never change: the parties, the title, the amount, the platform, the
  payment hash, the encrypted preimage, the hold and the creation time are the ones it was
  created with, after any history of requests.\<close>

theorem history_keeps_terms:
  assumes "anchor_ok s" and "find_deal i (w_db w) = Some row"
  shows "\<exists>row'. find_deal i (w_db (serve_all s rqs w)) = Some row' \<and> terms_kept row row'"
  by (rule row_wiseD [OF serve_all_terms [OF assms(1)] assms(2)])

section \<open>A history\<close>

definition demo_history :: "request list" where
  "demo_history = [ReqPublicGet ''k'', ReqApprove ''c@x'' ''d'', ReqDispute ''c@x'' ''d'' ''r'',
     ReqResolve ''op'' ''d'' DisputeResolutionRefund]"

lemma happy_row: "find_deal ''d'' (w_db happy_world) = Some (demo_row StatusWorkSubmitted)"
  by (simp add: find_deal_def select_row_def happy_world_def demo_world_def demo_row_def)

theorem history_follows_lifecycle_witness:
  "\<exists>row'. find_deal ''d'' (w_db (serve_all demo_svc demo_history happy_world)) = Some row' \<and>
    moves\<^sup>*\<^sup>* StatusWorkSubmitted (c_status row')"
  using history_follows_lifecycle [OF demo_anchor happy_row, of demo_history]
  by (simp add: demo_row_def)

definition released_world :: "demo world" where
  "released_world = demo_world [demo_row StatusReleased] [answer ''GONE'', answer ''OK''] []"

lemma released_find: "find_deal ''d'' (w_db released_world) = Some (demo_row StatusReleased)"
  by (simp add: find_deal_def select_row_def released_world_def demo_world_def demo_row_def)

theorem history_closed_final_witness:
  "\<exists>row'. find_deal ''d'' (w_db (serve_all demo_svc demo_history released_world)) = Some row' \<and>
    c_status row' = StatusReleased"
  using history_closed_final [OF demo_anchor released_find, of demo_history]
  by (simp add: demo_row_def)

theorem history_keeps_terms_witness:
  "\<exists>row'. find_deal ''d'' (w_db (serve_all demo_svc demo_history happy_world)) = Some row' \<and>
    c_amount_sats row' = 5 \<and> c_preimage_hash row' = ''h''"
  using history_keeps_terms [OF demo_anchor happy_row, of demo_history]
  by (auto simp: terms_kept_def demo_row_def)

end
