(* ===== verification/Deal_Handlers.thy ===== *)
theory Deal_Handlers
  imports Deal_Artifacts Deal_Escrow Auth_Service
begin

text \<open>
  The HTTP handlers of the deal component (\<open>deals/handler.go\<close>, \<open>artifact_handler.go\<close>,
  \<open>verification_handler.go\<close>): decoding of the request, the service call, the status each error is
  answered with, and the JSON of the answers. Path parameters and what \<open>AuthRequired\<close> left in the
  request context (\<open>userID\<close>, \<open>email\<close>) are arguments. \<open>log.Printf\<close> has no effect.
\<close>

section \<open>Answers\<close>

text \<open>The \<open>switch\<close> on \<open>errors.Is\<close>: cases in order, each a list of sentinels and a status that is
  answered with the text of the error; then the default.\<close>

fun error_switch :: "(sentinel list \<times> nat) list \<Rightarrow> response \<Rightarrow> goerr \<Rightarrow> response" where
  "error_switch [] otherwise e = otherwise"
| "error_switch ((ss, code) # cases) otherwise e =
     (if list_ex (errors_Is e) ss then json_error code (err_text e)
      else error_switch cases otherwise e)"

text \<open>Call the service, then answer with its result.\<close>

definition respond ::
  "('w, 'a) prog \<Rightarrow> (goerr \<Rightarrow> response) \<Rightarrow> ('a \<Rightarrow> response) \<Rightarrow> ('w, response) prog" where
  "respond m on_error on_success =
     bindR m (\<lambda>r. ret (case r of Inl e \<Rightarrow> on_error e | Inr x \<Rightarrow> on_success x))"

definition time_or_null :: "time option \<Rightarrow> json" where
  "time_or_null t = (case t of None \<Rightarrow> JNull | Some t \<Rightarrow> JInt t)"

text \<open>\<open>encoding/json\<close> on \<open>DealView\<close>, with \<open>omitempty\<close> on \<open>resolved_by\<close>, and on \<open>PublicDeal\<close>.\<close>

definition deal_view_json :: "DealView \<Rightarrow> json" where
  "deal_view_json v = JObj
     ([(''id'', JStr (dv_ID v)), (''freelancer_id'', JStr (dv_FreelancerID v)),
       (''client_email'', JStr (dv_ClientEmail v)), (''title'', JStr (dv_Title v)),
       (''amount_sats'', JInt (dv_AmountSats v)), (''source_platform'', JStr (dv_SourcePlatform v)),
       (''preimage_hash'', JStr (dv_PreimageHash v)), (''invoice'', JStr (dv_Invoice v)),
       (''checking_id'', JStr (dv_CheckingID v)), (''share_token'', JStr (dv_ShareToken v)),
       (''status'', JStr (status_string (dv_Status v))),
       (''dispute_reason'', JStr (dv_DisputeReason v)),
       (''disputed_at'', time_or_null (dv_DisputedAt v)),
       (''resolved_at'', time_or_null (dv_ResolvedAt v))] @
      (if dv_ResolvedBy v = '''' then [] else [(''resolved_by'', JStr (dv_ResolvedBy v))]) @
      [(''created_at'', JInt (dv_CreatedAt v)), (''verified_at'', time_or_null (dv_VerifiedAt v))])"

definition public_deal_json :: "PublicDeal \<Rightarrow> json" where
  "public_deal_json p = JObj
     [(''title'', JStr (pd_Title p)), (''amount_sats'', JInt (pd_AmountSats p)),
      (''source_platform'', JStr (pd_SourcePlatform p)), (''invoice'', JStr (pd_Invoice p)),
      (''status'', JStr (status_string (pd_Status p))),
      (''dispute_reason'', JStr (pd_DisputeReason p)), (''created_at'', JInt (pd_CreatedAt p))]"

definition deal_body :: "Deal \<Rightarrow> response" where
  "deal_body d = (200, JObj [(''deal'', deal_view_json (View d))])"

definition deals_json :: "Deal list \<Rightarrow> json" where
  "deals_json ds = JArr (map deal_view_json (dealsView ds))"

definition message_body :: "string \<Rightarrow> json \<Rightarrow> response" where
  "message_body m d = (200, JObj [(''message'', JStr m), (''deal'', d)])"

text \<open>The em dash of the messages, in UTF-8.\<close>

definition em_dash :: string where
  "em_dash = of_bytes [226, 128, 148]"

section \<open>Requests\<close>

definition bind_object :: "'e platform \<Rightarrow> string \<Rightarrow> (string \<times> json) list option" where
  "bind_object P body = Option.bind (json_parse P body) json_object"

text \<open>\<open>createDealRequest\<close>: for an \<open>int64\<close>, \<open>binding:"required"\<close> rejects zero.\<close>

definition bind_create :: "'e platform \<Rightarrow> string \<Rightarrow> (string \<times> int \<times> string \<times> string \<times> string) option" where
  "bind_create P body =
     (case bind_object P body of
        None \<Rightarrow> None
      | Some kvs \<Rightarrow>
          (case (required_fields P kvs [''title'', ''source_platform'', ''client_email'', ''payee_invoice''],
                 field P ''amount_sats'' json_int64 0 kvs) of
             (Some [title, platform, email, invoice], Some amount) \<Rightarrow>
               if amount = 0 then None else Some (title, amount, platform, email, invoice)
           | _ \<Rightarrow> None))"

text \<open>\<open>reconcileDealRequest\<close>: the payment id is optional.\<close>

definition bind_reconcile :: "'e platform \<Rightarrow> string \<Rightarrow> (string \<times> string) option" where
  "bind_reconcile P body =
     (case bind_object P body of
        None \<Rightarrow> None
      | Some kvs \<Rightarrow>
          (case (required_fields P kvs [''action''], field P ''payout_checking_id'' json_string '''' kvs) of
             (Some [action], Some payout) \<Rightarrow> Some (action, payout)
           | _ \<Rightarrow> None))"

text \<open>A deal of a create request, before the service fills it in: Go's zero values elsewhere. The
  zero \<open>time.Time\<close> of \<open>CreatedAt\<close> is overwritten by the insert.\<close>

definition new_deal :: "string \<Rightarrow> string \<Rightarrow> int \<Rightarrow> string \<Rightarrow> string \<Rightarrow> string \<Rightarrow> Deal" where
  "new_deal userID title amount platform email invoice = \<lparr>
     ID = '''', FreelancerID = userID, ClientEmail = email, Title = title, AmountSats = amount,
     SourcePlatform = platform, PreimageHash = '''', Preimage = '''', PayeeInvoice = invoice,
     Invoice = '''', CheckingID = '''', PayoutCheckingID = '''', PayoutAttemptedAt = None,
     ShareToken = '''', DealStatus = StatusOther '''', DisputeReason = '''', DisputedAt = None,
     ResolvedAt = None, ResolvedBy = '''', CreatedAt = 0, VerifiedAt = None\<rparr>"

section \<open>Deals\<close>

definition provider_error :: response where
  "provider_error = json_error 502
     (''payment provider error: could not create the escrow hold invoice. Your LNbits wallet must '' @
      ''support hold (HODL) invoices '' @ em_dash @ '' see backend/.env LNBITS_URL.'')"

definition Handler_CreateDeal :: "'e svc \<Rightarrow> string \<Rightarrow> string \<Rightarrow> ('e world, response) prog" where
  "Handler_CreateDeal s userID body =
     (case bind_create (sv_platform s) body of
        None \<Rightarrow> ret bad_body
      | Some (title, amount, platform, email, invoice) \<Rightarrow>
          respond (Service_CreateDeal s (new_deal userID title amount platform email invoice))
            (error_switch [([ErrInvalidInput], 400)] provider_error)
            (\<lambda>d. (201, JObj [(''deal'', deal_view_json (View d))])))"

definition Handler_GetDealByID ::
  "'e svc \<Rightarrow> string \<Rightarrow> string \<Rightarrow> string \<Rightarrow> ('e world, response) prog" where
  "Handler_GetDealByID s userID email dealID =
     respond (Service_GetDealByID s dealID userID email)
       (error_switch [([ErrInvalidInput], 400), ([ErrForbidden], 403), ([ErrDealNotFound], 404)]
          server_error) deal_body"

definition Handler_ListDeals :: "'e svc \<Rightarrow> string \<Rightarrow> string \<Rightarrow> ('e world, response) prog" where
  "Handler_ListDeals s userID email =
     respond (Service_ListByUser s userID email)
       (error_switch [([ErrInvalidInput], 400)] server_error)
       (\<lambda>ds. (200, JObj [(''deals'', deals_json ds)]))"

text \<open>The switch most handlers share.\<close>

definition deal_cases :: "(sentinel list \<times> nat) list" where
  "deal_cases =
     [([ErrInvalidInput, ErrInvalidTransition], 400), ([ErrForbidden], 403), ([ErrDealNotFound], 404)]"

definition Handler_UpdateDealStatus ::
  "'e svc \<Rightarrow> string \<Rightarrow> string \<Rightarrow> string \<Rightarrow> ('e world, response) prog" where
  "Handler_UpdateDealStatus s userID dealID body =
     (case bind_strings (sv_platform s) body [''status''] of
        Some [status] \<Rightarrow>
          respond (Service_UpdateStatus s userID dealID (status_of_string status))
            (error_switch deal_cases server_error)
            (\<lambda>_. (200, JObj [(''message'', JStr ''deal status updated'')]))
      | _ \<Rightarrow> ret bad_body)"

definition Handler_CheckPayment :: "'e svc \<Rightarrow> string \<Rightarrow> string \<Rightarrow> ('e world, response) prog" where
  "Handler_CheckPayment s userID dealID =
     respond (Service_CheckPayment s userID dealID)
       (error_switch [([ErrForbidden], 403), ([ErrDealNotFound], 404), ([ErrNoCheckingID], 400)]
          server_error) deal_body"

definition Handler_SubmitWork :: "'e svc \<Rightarrow> string \<Rightarrow> string \<Rightarrow> ('e world, response) prog" where
  "Handler_SubmitWork s userID dealID =
     respond (Service_SubmitWork s userID dealID) (error_switch deal_cases server_error)
       (\<lambda>d. message_body ''work submitted'' (deal_view_json (View d)))"

definition Handler_ApproveDeal :: "'e svc \<Rightarrow> string \<Rightarrow> string \<Rightarrow> ('e world, response) prog" where
  "Handler_ApproveDeal s email dealID =
     respond (Service_ApproveDeal s email dealID) (error_switch deal_cases server_error)
       (\<lambda>d. message_body ''deal approved and escrow released'' (deal_view_json (View d)))"

definition Handler_DisputeDeal ::
  "'e svc \<Rightarrow> string \<Rightarrow> string \<Rightarrow> string \<Rightarrow> ('e world, response) prog" where
  "Handler_DisputeDeal s email dealID body =
     (case bind_strings (sv_platform s) body [''reason''] of
        Some [reason] \<Rightarrow>
          respond (Service_DisputeDeal s email dealID reason) (error_switch deal_cases server_error)
            (\<lambda>d. message_body (''dispute raised '' @ em_dash @ '' funds frozen pending arbitration'')
              (deal_view_json (View d)))
      | _ \<Rightarrow> ret (json_error 400 ''dispute reason is required''))"

section \<open>Arbitration\<close>

definition Handler_ListDisputes :: "'e svc \<Rightarrow> ('e world, response) prog" where
  "Handler_ListDisputes s =
     respond (Service_ListDisputes s) (\<lambda>_. server_error)
       (\<lambda>ds. (200, JObj [(''disputes'', deals_json ds)]))"

definition Handler_ResolveDispute ::
  "'e svc \<Rightarrow> string \<Rightarrow> string \<Rightarrow> string \<Rightarrow> ('e world, response) prog" where
  "Handler_ResolveDispute s email dealID body =
     (case bind_strings (sv_platform s) body [''resolution''] of
        Some [resolution] \<Rightarrow>
          respond (Service_ResolveDispute s email dealID (resolution_of_string resolution))
            (error_switch deal_cases server_error)
            (\<lambda>d. message_body
               (if DealStatus d = StatusRefunded
                then ''dispute resolved '' @ em_dash @ '' escrow refunded to the client''
                else ''dispute resolved '' @ em_dash @ '' escrow released to the freelancer'')
               (deal_view_json (View d)))
      | _ \<Rightarrow> ret (json_error 400 ''resolution is required''))"

definition Handler_ReconcileDeal ::
  "'e svc \<Rightarrow> string \<Rightarrow> string \<Rightarrow> string \<Rightarrow> ('e world, response) prog" where
  "Handler_ReconcileDeal s email dealID body =
     (case bind_reconcile (sv_platform s) body of
        None \<Rightarrow> ret bad_body
      | Some (action, payoutCheckingID) \<Rightarrow>
          respond (Service_ReconcilePayout s email dealID (reconcile_of_string action) payoutCheckingID)
            (error_switch (deal_cases @ [([ErrPayoutInFlight], 409)]) server_error) deal_body)"

section \<open>Invoices and share links\<close>

definition Handler_UpdatePayeeInvoice ::
  "'e svc \<Rightarrow> string \<Rightarrow> string \<Rightarrow> string \<Rightarrow> ('e world, response) prog" where
  "Handler_UpdatePayeeInvoice s userID dealID body =
     (case bind_strings (sv_platform s) body [''payee_invoice''] of
        Some [invoice] \<Rightarrow>
          respond (Service_UpdatePayeeInvoice s userID dealID invoice)
            (error_switch deal_cases server_error)
            (\<lambda>d. message_body ''payee invoice updated'' (deal_view_json (View d)))
      | _ \<Rightarrow> ret bad_body)"

definition Handler_GetPublicDeal :: "'e svc \<Rightarrow> string \<Rightarrow> ('e world, response) prog" where
  "Handler_GetPublicDeal s shareToken =
     respond (Service_GetPublicDeal s shareToken)
       (error_switch [([ErrInvalidInput], 400), ([ErrDealNotFound], 404)] server_error)
       (\<lambda>p. (200, JObj [(''deal'', public_deal_json p)]))"

definition Handler_PublicApproveDeal :: "'e svc \<Rightarrow> string \<Rightarrow> ('e world, response) prog" where
  "Handler_PublicApproveDeal s shareToken =
     respond (Service_PublicApproveDeal s shareToken) (error_switch deal_cases server_error)
       (\<lambda>d. message_body ''deal approved and escrow released'' (public_deal_json (PublicView d)))"

definition Handler_RotateShareLink :: "'e svc \<Rightarrow> string \<Rightarrow> string \<Rightarrow> ('e world, response) prog" where
  "Handler_RotateShareLink s userID dealID =
     respond (Service_RotateShareLink s userID dealID) (error_switch deal_cases server_error)
       (\<lambda>d. message_body ''share link regenerated'' (deal_view_json (View d)))"

end
