(* ===== verification/Artifact_Handlers.thy ===== *)
theory Artifact_Handlers
  imports Deal_Handlers
begin

text \<open>
  \<open>deals/artifact_handler.go\<close> and \<open>deals/verification_handler.go\<close>: the multipart upload, the
  download, and the handlers of artifacts and verification records.
\<close>

section \<open>JSON\<close>

definition artifact_json :: "Artifact \<Rightarrow> json" where
  "artifact_json a = JObj
     [(''id'', JStr (a_ID a)), (''deal_id'', JStr (a_DealID a)),
      (''kind'', JStr (artifact_kind_string (a_Kind a))), (''storage_key'', JStr (a_StorageKey a)),
      (''uploaded_at'', JInt (a_UploadedAt a))]"

fun method_string :: "VerificationMethod \<Rightarrow> string" where
  "method_string VerificationSandbox = ''sandbox''"
| "method_string VerificationPreviewPDF = ''preview_pdf''"
| "method_string VerificationPreviewImage = ''preview_image''"
| "method_string (VerificationMethodOther s) = s"

fun verification_status_string :: "VerificationStatus \<Rightarrow> string" where
  "verification_status_string VerificationPending = ''pending''"
| "verification_status_string VerificationReady = ''ready''"
| "verification_status_string VerificationExpired = ''expired''"
| "verification_status_string (VerificationStatusOther s) = s"

text \<open>\<open>sql.NullTime\<close> has no marshaller of its own: it is encoded as its two fields.\<close>

definition null_time_json :: "time option \<Rightarrow> json" where
  "null_time_json t =
     (case t of
        None \<Rightarrow> JObj [(''Time'', JStr ''0001-01-01T00:00:00Z''), (''Valid'', JBool False)]
      | Some t \<Rightarrow> JObj [(''Time'', JInt t), (''Valid'', JBool True)])"

definition verification_record_json :: "Verification \<Rightarrow> json" where
  "verification_record_json v = JObj
     [(''id'', JStr (v_ID v)), (''artifact_id'', JStr (v_ArtifactID v)),
      (''method'', JStr (method_string (v_Method v))), (''reference'', JStr (v_Reference v)),
      (''status'', JStr (verification_status_string (v_Status v))),
      (''expires_at'', null_time_json (v_ExpiresAt v)), (''created_at'', JInt (v_CreatedAt v))]"

text \<open>A slice: one that was never appended to is nil, encoded as \<open>null\<close>.\<close>

definition slice_json :: "('a \<Rightarrow> json) \<Rightarrow> 'a list \<Rightarrow> json" where
  "slice_json f xs = (if xs = [] then JNull else JArr (map f xs))"

section \<open>The multipart upload\<close>

text \<open>What \<open>mime/multipart\<close> delivers: the parts, then the end of the body, the error of
  \<open>http.MaxBytesReader\<close>, or another error.\<close>

record part =
  pt_FormName :: string
  pt_FileName :: string
  pt_content :: reader

datatype parts_end = EndOfParts | BodyTooLarge | Malformed

definition maxKindFieldBytes :: "64 word" where
  "maxKindFieldBytes = 64"

definition multipartEnvelopeSlack :: "64 word" where
  "multipartEnvelopeSlack = push_bit 20 1"

text \<open>The limit on the request body, if any: an \<open>int64\<close> sum, negative limits counting as zero.\<close>

definition body_limit :: "'e svc \<Rightarrow> int option" where
  "body_limit s =
     (let cap = MaxUploadBytes s
      in if sint cap > 0 then Some (max 0 (sint (cap + multipartEnvelopeSlack))) else None)"

definition no_file :: response where
  "no_file = json_error 400 ''artifact file is required (multipart field \"artifact\")''"

text \<open>The loop over the parts; \<open>kind\<close> is set once its field has been read.\<close>

fun upload_parts ::
  "'e svc \<Rightarrow> string \<Rightarrow> string \<Rightarrow> ArtifactKind option \<Rightarrow> part list \<Rightarrow> parts_end \<Rightarrow> ('e world, response) prog" where
  "upload_parts s userID dealID kind [] EndOfParts = ret no_file"
| "upload_parts s userID dealID kind [] BodyTooLarge =
     ret (json_error 413 ''upload exceeds the configured limit'')"
| "upload_parts s userID dealID kind [] Malformed = ret (json_error 400 ''malformed multipart request'')"
| "upload_parts s userID dealID kind (p # ps) fin =
     (if pt_FormName p = ''kind'' then
        (let b = LimitReader (pt_content p) maxKindFieldBytes; k = TrimSpace (rd_content b)
         in if rd_error b \<noteq> None \<or> k = '''' then ret (json_error 400 ''invalid artifact kind'')
            else upload_parts s userID dealID (Some (artifact_kind_of_string k)) ps fin)
      else if pt_FormName p = ''artifact'' then
        (if pt_FileName p = '''' then ret no_file
         else
           case kind of
             None \<Rightarrow> ret (json_error 400
               ''the \"kind\" form field must appear before the \"artifact\" file'')
           | Some k \<Rightarrow>
               respond (Service_UploadArtifact s userID dealID k (pt_FileName p) (Some (pt_content p)))
                 (error_switch [([ErrInvalidInput], 400), ([ErrForbidden], 403), ([ErrDealNotFound], 404)]
                    server_error)
                 (\<lambda>a. (201, JObj [(''artifact'', artifact_json a)])))
      else upload_parts s userID dealID kind ps fin)"

text \<open>\<open>multipart limit\<close> is what \<open>c.Request.MultipartReader()\<close> yields on the limited body, \<open>None\<close> when the
  request is not multipart.\<close>

definition Handler_CreateArtifact ::
  "'e svc \<Rightarrow> string \<Rightarrow> string \<Rightarrow> (int option \<Rightarrow> (part list \<times> parts_end) option) \<Rightarrow> ('e world, response) prog" where
  "Handler_CreateArtifact s userID dealID multipart =
     (case multipart (body_limit s) of
        None \<Rightarrow> ret (json_error 400 ''invalid multipart request'')
      | Some (parts, fin) \<Rightarrow> upload_parts s userID dealID None parts fin)"

section \<open>Reading and deleting artifacts\<close>

definition Handler_ListArtifactsByDeal ::
  "'e svc \<Rightarrow> string \<Rightarrow> string \<Rightarrow> string \<Rightarrow> ('e world, response) prog" where
  "Handler_ListArtifactsByDeal s userID email dealID =
     respond (Service_ListArtifactsByDeal s userID email dealID)
       (error_switch [([ErrInvalidInput], 400), ([ErrForbidden], 403), ([ErrDealNotFound], 404)]
          server_error)
       (\<lambda>as. (200, JObj [(''artifacts'', slice_json artifact_json as)]))"

definition artifact_cases :: "(sentinel list \<times> nat) list" where
  "artifact_cases = [([ErrInvalidInput], 400), ([ErrForbidden], 403), ([ErrArtifactNotFound], 404)]"

definition Handler_GetArtifactByID ::
  "'e svc \<Rightarrow> string \<Rightarrow> string \<Rightarrow> string \<Rightarrow> string \<Rightarrow> ('e world, response) prog" where
  "Handler_GetArtifactByID s userID email dealID artifactID =
     respond (Service_GetArtifactByID s userID email dealID artifactID)
       (error_switch artifact_cases server_error)
       (\<lambda>a. (200, JObj [(''artifact'', artifact_json a)]))"

text \<open>A download is not JSON: the reply has a length, a type, the content and extra headers.\<close>

datatype http_reply =
    Reply response
  | Stream nat int string string "(string \<times> string) list"
  | NoContent

text \<open>\<open>filepath.Base\<close>.\<close>

definition filepath_Base :: "string \<Rightarrow> string" where
  "filepath_Base path =
     (if path = '''' then ''.''
      else let trimmed = rev (dropWhile (\<lambda>c. c = CHR ''/'') (rev path));
               base = rev (takeWhile (\<lambda>c. c \<noteq> CHR ''/'') (rev trimmed))
           in if base = '''' then ''/'' else base)"

text \<open>\<open>by_extension\<close> is \<open>mime.TypeByExtension\<close>, which reads the tables of the system.\<close>

definition contentTypeFor :: "(string \<Rightarrow> string) \<Rightarrow> string \<Rightarrow> string" where
  "contentTypeFor by_extension key =
     (let ct = by_extension (filepath_Ext key)
      in if ct \<noteq> '''' then ct else ''application/octet-stream'')"

definition disposition :: "string \<Rightarrow> string" where
  "disposition key = ''attachment; filename=\"'' @ filepath_Base key @ ''\"''"

definition Handler_DownloadArtifact ::
  "'e svc \<Rightarrow> (string \<Rightarrow> string) \<Rightarrow> string \<Rightarrow> string \<Rightarrow> string \<Rightarrow> string \<Rightarrow> ('e world, http_reply) prog" where
  "Handler_DownloadArtifact s by_extension userID email dealID artifactID =
     bindR (Service_DownloadArtifact s userID email dealID artifactID) (\<lambda>r.
       ret (case r of
              Inl e \<Rightarrow> Reply (error_switch artifact_cases server_error e)
            | Inr (artifact, content, n) \<Rightarrow>
                Stream 200 n (contentTypeFor by_extension (a_StorageKey artifact)) content
                  [(''Content-Disposition'', disposition (a_StorageKey artifact))]))"

definition Handler_DeleteArtifact ::
  "'e svc \<Rightarrow> string \<Rightarrow> string \<Rightarrow> string \<Rightarrow> ('e world, http_reply) prog" where
  "Handler_DeleteArtifact s userID dealID artifactID =
     bindR (Service_DeleteArtifact s userID dealID artifactID) (\<lambda>r.
       ret (case r of
              Inl e \<Rightarrow> Reply (error_switch
                [([ErrInvalidInput], 400), ([ErrForbidden], 403),
                 ([ErrDealNotFound, ErrArtifactNotFound], 404)] server_error e)
            | Inr _ \<Rightarrow> NoContent))"

section \<open>Verifications\<close>

definition new_verification :: "string \<Rightarrow> string \<Rightarrow> string \<Rightarrow> Verification" where
  "new_verification artifactID meth reference = \<lparr>
     v_ID = '''', v_ArtifactID = artifactID, v_Method = method_of_string meth,
     v_Reference = reference, v_Status = VerificationStatusOther '''', v_ExpiresAt = None,
     v_CreatedAt = 0\<rparr>"

definition Handler_CreateVerification ::
  "'e svc \<Rightarrow> string \<Rightarrow> string \<Rightarrow> string \<Rightarrow> ('e world, response) prog" where
  "Handler_CreateVerification s userID artifactID body =
     (case bind_strings (sv_platform s) body [''method'', ''reference''] of
        Some [meth, reference] \<Rightarrow>
          respond (Service_CreateVerification s userID (new_verification artifactID meth reference))
            (error_switch artifact_cases server_error)
            (\<lambda>v. (201, JObj [(''verification'', verification_record_json v)]))
      | _ \<Rightarrow> ret bad_body)"

definition Handler_ListVerificationsByArtifact ::
  "'e svc \<Rightarrow> string \<Rightarrow> string \<Rightarrow> ('e world, response) prog" where
  "Handler_ListVerificationsByArtifact s userID artifactID =
     respond (Service_ListVerificationsByArtifact s userID artifactID)
       (error_switch artifact_cases server_error)
       (\<lambda>vs. (200, JObj [(''verifications'', slice_json verification_record_json vs)]))"

definition Handler_GetVerificationByID ::
  "'e svc \<Rightarrow> string \<Rightarrow> string \<Rightarrow> string \<Rightarrow> string \<Rightarrow> ('e world, response) prog" where
  "Handler_GetVerificationByID s userID dealID artifactID verificationID =
     respond (Service_GetVerificationByID s userID dealID artifactID verificationID)
       (error_switch
          [([ErrInvalidInput], 400), ([ErrForbidden], 403), ([ErrVerificationNotFound], 404)]
          server_error)
       (\<lambda>v. (200, JObj [(''verification'', verification_record_json v)]))"

end
