(* ===== verification/Config.thy ===== *)
theory Config
  imports Deal_Service
begin

text \<open>
  \<open>backend/internal/config/config.go\<close>: reading the configuration from the environment. The
  environment is a map, as it is after \<open>godotenv.Load\<close>; \<open>log.Fatalf\<close> ends the process and is the
  error value, warnings have no effect.
\<close>

section \<open>Reading variables\<close>

type_synonym env = "string \<Rightarrow> string option"

record Config =
  cf_Port :: string
  cf_DatabaseURL :: string
  cf_JWTSecret :: string
  cf_JWTRefreshSecret :: string
  cf_LNBitsURL :: string
  cf_LNBitsAPIKey :: string
  cf_LNBitsAdminKey :: string
  cf_LNBitsWebhookSecret :: string
  cf_PreimageEncryptionKey :: string
  cf_WebhookURL :: string
  cf_FrontendURLs :: "string list"
  cf_HoldInvoiceExpirySeconds :: int
  cf_HoldSweepIntervalSeconds :: int
  cf_StoragePath :: string
  cf_MaxUploadBytes :: int
  cf_OperatorEmails :: "string list"
  cf_OTSEsploraURL :: string
  cf_OTSEsploraTimeoutSeconds :: int
  cf_OTSUpgradeIntervalSeconds :: int
  cf_SMTPHost :: string
  cf_SMTPPort :: int
  cf_SMTPUser :: string
  cf_SMTPPass :: string
  cf_SMTPFrom :: string
  cf_SMTPEncryption :: string

text \<open>\<open>os.Getenv\<close>: empty when unset.\<close>

definition Getenv :: "env \<Rightarrow> string \<Rightarrow> string" where
  "Getenv env key = (case env key of None \<Rightarrow> '''' | Some v \<Rightarrow> v)"

definition getEnv :: "env \<Rightarrow> string \<Rightarrow> string \<Rightarrow> string" where
  "getEnv env key fallback = (case env key of None \<Rightarrow> fallback | Some v \<Rightarrow> v)"

definition requireEnv :: "env \<Rightarrow> string \<Rightarrow> string + string" where
  "requireEnv env key =
     (case env key of
        None \<Rightarrow> Inl (''missing required environment variable: '' @ key)
      | Some v \<Rightarrow>
          if v = '''' then Inl (''missing required environment variable: '' @ key) else Inr v)"

definition getEnvInt :: "env \<Rightarrow> string \<Rightarrow> int \<Rightarrow> int" where
  "getEnvInt env key fallback =
     (case env key of
        None \<Rightarrow> fallback
      | Some v \<Rightarrow>
          if v = '''' then fallback
          else (case ParseInt64 v of None \<Rightarrow> fallback | Some parsed \<Rightarrow> parsed))"

definition getEnvList :: "env \<Rightarrow> string \<Rightarrow> string list" where
  "getEnvList env key =
     filter (\<lambda>part. part \<noteq> '''') (map TrimSpace (split_on (CHR '','') (Getenv env key)))"

definition getEnvListFallback :: "env \<Rightarrow> string \<Rightarrow> string \<Rightarrow> string list" where
  "getEnvListFallback env key alt =
     (let vals = getEnvList env key in if length vals > 0 then vals else getEnvList env alt)"

section \<open>Loading\<close>

definition read_config :: "env \<Rightarrow> string \<Rightarrow> string \<Rightarrow> string \<Rightarrow> Config" where
  "read_config env databaseURL jwtSecret jwtRefreshSecret = \<lparr>
     cf_Port = getEnv env ''PORT'' ''8080'',
     cf_DatabaseURL = databaseURL,
     cf_JWTSecret = jwtSecret,
     cf_JWTRefreshSecret = jwtRefreshSecret,
     cf_LNBitsURL = getEnv env ''LNBITS_URL'' '''',
     cf_LNBitsAPIKey = getEnv env ''LNBITS_API_KEY'' '''',
     cf_LNBitsAdminKey = getEnv env ''LNBITS_ADMIN_KEY'' '''',
     cf_LNBitsWebhookSecret = getEnv env ''LNBITS_WEBHOOK_SECRET'' '''',
     cf_PreimageEncryptionKey = getEnv env ''PREIMAGE_ENCRYPTION_KEY'' '''',
     cf_WebhookURL = getEnv env ''WEBHOOK_URL'' '''',
     cf_FrontendURLs = getEnvListFallback env ''FRONTEND_URLS'' ''FRONTEND_URL'',
     cf_HoldInvoiceExpirySeconds = getEnvInt env ''LNBITS_HOLD_INVOICE_EXPIRY_SECONDS'' 2592000,
     cf_HoldSweepIntervalSeconds = getEnvInt env ''LNBITS_HOLD_SWEEP_INTERVAL_SECONDS'' 21600,
     cf_StoragePath = getEnv env ''STORAGE_PATH'' ''./uploads'',
     cf_MaxUploadBytes = getEnvInt env ''MAX_UPLOAD_BYTES'' (10 * 1024 * 1024),
     cf_OperatorEmails = getEnvList env ''OPERATOR_EMAILS'',
     cf_OTSEsploraURL = getEnv env ''OTS_ESPLORA_URL'' '''',
     cf_OTSEsploraTimeoutSeconds = getEnvInt env ''OTS_ESPLORA_TIMEOUT_SECONDS'' 10,
     cf_OTSUpgradeIntervalSeconds = getEnvInt env ''OTS_UPGRADE_INTERVAL_SECONDS'' 21600,
     cf_SMTPHost = getEnv env ''SMTP_HOST'' '''',
     cf_SMTPPort = getEnvInt env ''SMTP_PORT'' 587,
     cf_SMTPUser = getEnv env ''SMTP_USER'' '''',
     cf_SMTPPass = getEnv env ''SMTP_PASS'' '''',
     cf_SMTPFrom = getEnv env ''SMTP_FROM'' ''noreply@ganji.local'',
     cf_SMTPEncryption = getEnv env ''SMTP_ENCRYPTION'' ''starttls''\<rparr>"

definition forbidden_origin :: "string \<Rightarrow> bool" where
  "forbidden_origin origin \<longleftrightarrow> origin = ''*'' \<or> origin = ''null''"

definition production :: "env \<Rightarrow> bool" where
  "production env \<longleftrightarrow> Getenv env ''GIN_MODE'' = ''release'' \<or> Getenv env ''ENV'' = ''production''"

definition check_config :: "env \<Rightarrow> Config \<Rightarrow> string + Config" where
  "check_config env cfg =
     (if length (cf_JWTSecret cfg) < 32 then Inl ''JWT_SECRET must be at least 32 characters''
      else if length (cf_JWTRefreshSecret cfg) < 32
      then Inl ''JWT_REFRESH_SECRET must be at least 32 characters''
      else
        (case find forbidden_origin (cf_FrontendURLs cfg) of
           Some origin \<Rightarrow> Inl (''CORS origin \"'' @ origin @
             ''\" is not allowed (wildcard/null origins forbidden with credentials)'')
         | None \<Rightarrow>
             if cf_LNBitsWebhookSecret cfg = '''' \<and> production env
             then Inl ''LNBITS_WEBHOOK_SECRET is required in production'' else Inr cfg))"

definition Load :: "env \<Rightarrow> string + Config" where
  "Load env =
     (case requireEnv env ''DATABASE_URL'' of
        Inl m \<Rightarrow> Inl m
      | Inr databaseURL \<Rightarrow>
          (case requireEnv env ''JWT_SECRET'' of
             Inl m \<Rightarrow> Inl m
           | Inr jwtSecret \<Rightarrow>
               (case requireEnv env ''JWT_REFRESH_SECRET'' of
                  Inl m \<Rightarrow> Inl m
                | Inr jwtRefreshSecret \<Rightarrow>
                    check_config env (read_config env databaseURL jwtSecret jwtRefreshSecret))))"

section \<open>What a loaded configuration guarantees\<close>

lemma requireEnv_Inr: "requireEnv env k = Inr v \<longleftrightarrow> env k = Some v \<and> v \<noteq> ''''"
  by (auto simp: requireEnv_def split: option.split)

lemma Getenv_required: "(\<exists>v. env k = Some v \<and> v \<noteq> '''') \<longleftrightarrow> Getenv env k \<noteq> ''''"
  by (auto simp: Getenv_def split: option.split)

lemma getEnvInt_int64:
  assumes "- (2 ^ 63) \<le> d" "d < 2 ^ 63"
  shows "- (2 ^ 63) \<le> getEnvInt env k d \<and> getEnvInt env k d < 2 ^ 63"
proof -
  have "- (2 ^ 63) \<le> i \<and> i < 2 ^ 63" if "ParseInt64 v = Some i" for v i
    using that by (auto simp: ParseInt64_def Let_def split: if_splits)
  with assms show ?thesis by (auto simp: getEnvInt_def split: option.split)
qed

lemma check_config_Inr:
  "check_config env cfg = Inr cfg' \<longleftrightarrow>
     cfg' = cfg \<and> 32 \<le> length (cf_JWTSecret cfg) \<and> 32 \<le> length (cf_JWTRefreshSecret cfg) \<and>
     (\<forall>u \<in> set (cf_FrontendURLs cfg). \<not> forbidden_origin u) \<and>
     (production env \<longrightarrow> cf_LNBitsWebhookSecret cfg \<noteq> '''')"
  by (auto simp: check_config_def find_None_iff find_Some_iff split: option.split)

lemma Getenv_Some: "env k = Some v \<Longrightarrow> Getenv env k = v"
  by (simp add: Getenv_def)

lemma requireEnv_Getenv:
  "requireEnv env k = (if Getenv env k = '''' then Inl (''missing required environment variable: '' @ k)
     else Inr (Getenv env k))"
  by (auto simp: requireEnv_def Getenv_def split: option.split)

text \<open>The \<open>Load\<close> that returns: exactly what the environment must hold, and what is read.\<close>

definition bootable :: "env \<Rightarrow> bool" where
  "bootable env \<longleftrightarrow>
     Getenv env ''DATABASE_URL'' \<noteq> '''' \<and> 32 \<le> length (Getenv env ''JWT_SECRET'') \<and>
     32 \<le> length (Getenv env ''JWT_REFRESH_SECRET'') \<and>
     (\<forall>u \<in> set (getEnvListFallback env ''FRONTEND_URLS'' ''FRONTEND_URL''). \<not> forbidden_origin u) \<and>
     (production env \<longrightarrow> getEnv env ''LNBITS_WEBHOOK_SECRET'' '''' \<noteq> '''')"

lemma Load_Inr:
  "Load env = Inr cfg \<longleftrightarrow> bootable env \<and>
     cfg = read_config env (Getenv env ''DATABASE_URL'') (Getenv env ''JWT_SECRET'')
       (Getenv env ''JWT_REFRESH_SECRET'')"
  by (auto simp: Load_def requireEnv_Getenv check_config_Inr bootable_def read_config_def
      split: if_splits)

lemma trimmed_origins: "u \<in> set (getEnvList env k) \<Longrightarrow> u \<noteq> ''''"
  by (auto simp: getEnvList_def)


definition demo_env :: env where
  "demo_env = [''DATABASE_URL'' \<mapsto> ''postgres'', ''JWT_SECRET'' \<mapsto> replicate 32 (CHR ''s''),
     ''JWT_REFRESH_SECRET'' \<mapsto> replicate 32 (CHR ''t''), ''ENV'' \<mapsto> ''production'',
     ''LNBITS_WEBHOOK_SECRET'' \<mapsto> ''w'']"

lemma demo_bootable: "bootable demo_env"
  by (simp add: bootable_def demo_env_def Getenv_def getEnvListFallback_def getEnvList_def getEnv_def
      TrimSpace_ascii bytes_def of_bytes_def)


end
