(* ===== verification/Rate_Limit.thy ===== *)
theory Rate_Limit
  imports Webhook
begin

text \<open>
  The token-bucket rate limiter of \<open>backend/internal/middleware/ratelimit.go\<close>, its background
  cleanup, and the gate it puts before the handlers. Times are nanoseconds, read under the lock.
\<close>

section \<open>The limiter\<close>

record visitor =
  tokens :: int
  lastRefill :: time

record rateLimiter =
  visitors :: "string \<Rightarrow> visitor option"
  rl_rate :: int
  rl_window :: int

definition minute :: int where
  "minute = 60 * second"

definition newRateLimiter :: "int \<Rightarrow> int \<Rightarrow> rateLimiter" where
  "newRateLimiter rate window = \<lparr>visitors = Map.empty, rl_rate = rate, rl_window = window\<rparr>"

definition perToken :: "rateLimiter \<Rightarrow> int" where
  "perToken rl = (let d = rl_window rl div rl_rate rl in if d \<le> 0 then 1 else d)"

text \<open>The refill: whole tokens for the time that has passed, up to the rate.\<close>

definition refill :: "rateLimiter \<Rightarrow> time \<Rightarrow> visitor \<Rightarrow> visitor" where
  "refill rl now v =
     (let tokensToAdd = (now - lastRefill v) div perToken rl
      in if tokensToAdd > 0
         then v\<lparr>tokens := min (tokens v + tokensToAdd) (rl_rate rl), lastRefill := now\<rparr> else v)"

definition allow :: "rateLimiter \<Rightarrow> string \<Rightarrow> time \<Rightarrow> bool \<times> rateLimiter" where
  "allow rl key now =
     (case visitors rl key of
        None \<Rightarrow>
          (True, rl\<lparr>visitors := (visitors rl)(key \<mapsto> \<lparr>tokens = rl_rate rl - 1, lastRefill = now\<rparr>)\<rparr>)
      | Some v \<Rightarrow>
          let v' = refill rl now v
          in if tokens v' > 0
             then (True, rl\<lparr>visitors := (visitors rl)(key \<mapsto> v'\<lparr>tokens := tokens v' - 1\<rparr>)\<rparr>)
             else (False, rl\<lparr>visitors := (visitors rl)(key \<mapsto> v')\<rparr>))"

definition cleanup :: "rateLimiter \<Rightarrow> time \<Rightarrow> rateLimiter" where
  "cleanup rl now =
     rl\<lparr>visitors := (\<lambda>key. case visitors rl key of None \<Rightarrow> None
        | Some v \<Rightarrow> if now - lastRefill v > 10 * minute then None else Some v)\<rparr>"

text \<open>\<open>RateLimit\<close> with its defaults, and the gate: \<open>keyFunc\<close>'s key, or the client's address.\<close>

definition RateLimit :: "int \<Rightarrow> int \<Rightarrow> rateLimiter" where
  "RateLimit rate window =
     newRateLimiter (if rate \<le> 0 then 10 else rate) (if window \<le> 0 then minute else window)"

definition rate_gate ::
  "rateLimiter \<Rightarrow> string \<Rightarrow> string \<Rightarrow> time \<Rightarrow> response option \<times> rateLimiter" where
  "rate_gate rl key0 clientIP now =
     (let key = (if key0 = '''' then clientIP else key0) in
      case allow rl key now of
        (True, rl') \<Rightarrow> (None, rl')
      | (False, rl') \<Rightarrow> (Some (json_error 429 ''rate limit exceeded''), rl'))"

definition RateLimitByIP :: "int \<Rightarrow> int \<Rightarrow> rateLimiter" where
  "RateLimitByIP rate window = RateLimit rate window"

definition RateLimitAuth :: rateLimiter where
  "RateLimitAuth = RateLimitByIP 5 minute"

definition RateLimitPublic :: rateLimiter where
  "RateLimitPublic = RateLimitByIP 60 minute"

section \<open>Runs\<close>

text \<open>What takes the lock, in order: a request of a key, or the cleanup.\<close>

datatype rl_event = Request string time | Cleanup time

fun ev_time :: "rl_event \<Rightarrow> time" where
  "ev_time (Request _ t) = t"
| "ev_time (Cleanup t) = t"

text \<open>The limiter after a run, and how many requests of a key it let through.\<close>

fun rl_run :: "rl_event list \<Rightarrow> string \<Rightarrow> rateLimiter \<Rightarrow> nat \<times> rateLimiter" where
  "rl_run [] k rl = (0, rl)"
| "rl_run (Cleanup t # evs) k rl = rl_run evs k (cleanup rl t)"
| "rl_run (Request key t # evs) k rl =
     (case allow rl key t of
        (ok, rl') \<Rightarrow> (case rl_run evs k rl' of
           (n, rl'') \<Rightarrow> ((if ok \<and> key = k then Suc n else n), rl'')))"

lemma perToken_pos: "0 < perToken rl"
  by (simp add: perToken_def Let_def)

lemma same_params [simp]:
  "rl_rate (snd (allow rl key t)) = rl_rate rl" "perToken (snd (allow rl key t)) = perToken rl"
  "rl_rate (cleanup rl t) = rl_rate rl" "perToken (cleanup rl t) = perToken rl"
  by (auto simp: allow_def cleanup_def perToken_def Let_def split: option.split)

lemma allow_other: "key \<noteq> k \<Longrightarrow> visitors (snd (allow rl key t)) k = visitors rl k"
  by (auto simp: allow_def Let_def split: option.split)

section \<open>The bound\<close>

text \<open>The account of a key at time \<open>t\<close>: \<open>g\<close> requests granted since \<open>t0\<close> and the tokens left do not
  exceed the burst and one token per interval passed.\<close>

definition account :: "rateLimiter \<Rightarrow> string \<Rightarrow> time \<Rightarrow> nat \<Rightarrow> time \<Rightarrow> bool" where
  "account rl k t0 g t \<longleftrightarrow> t0 \<le> t \<and>
     (case visitors rl k of
        None \<Rightarrow> int g \<le> (t - t0) div perToken rl
      | Some v \<Rightarrow> 0 \<le> tokens v \<and> tokens v \<le> rl_rate rl \<and> t0 \<le> lastRefill v \<and> lastRefill v \<le> t \<and>
          int g + tokens v \<le> rl_rate rl + (lastRefill v - t0) div perToken rl)"

lemma div_add_le: "0 < p \<Longrightarrow> a div p + b div p \<le> (a + b) div (p :: int)"
  by (simp add: div_add1_eq [of a b] pos_imp_zdiv_nonneg_iff)

lemma refill_account:
  assumes "0 \<le> tokens v" "tokens v \<le> rl_rate rl" "t0 \<le> lastRefill v" "lastRefill v \<le> t"
    and "int g + tokens v \<le> rl_rate rl + (lastRefill v - t0) div perToken rl" and "t \<le> t'"
  shows "0 \<le> tokens (refill rl t' v) \<and> tokens (refill rl t' v) \<le> rl_rate rl \<and>
    t0 \<le> lastRefill (refill rl t' v) \<and> lastRefill (refill rl t' v) \<le> t' \<and>
    int g + tokens (refill rl t' v) \<le> rl_rate rl + (lastRefill (refill rl t' v) - t0) div perToken rl"
proof -
  have "(lastRefill v - t0) div perToken rl + (t' - lastRefill v) div perToken rl \<le> (t' - t0) div perToken rl"
    using div_add_le [OF perToken_pos, of "lastRefill v - t0" rl "t' - lastRefill v"] by simp
  with assms show ?thesis by (auto simp: refill_def Let_def min_def)
qed

lemma account_later: "account rl k t0 g t \<Longrightarrow> t \<le> t' \<Longrightarrow> account rl k t0 g t'"
  using perToken_pos [of rl]
  by (auto simp: account_def split: option.splits)
    (meson diff_right_mono order_trans zdiv_mono1)

lemma account_allow:
  assumes "account rl k t0 g t" and "t \<le> t'" and "1 \<le> rl_rate rl"
  shows "account (snd (allow rl k t')) k t0 (if fst (allow rl k t') then Suc g else g) t'"
proof (cases "visitors rl k")
  case None
  with account_later [OF assms(1,2)] assms(3) show ?thesis
    by (auto simp: account_def allow_def perToken_def)
next
  case (Some v)
  from assms(1,2) Some have "0 \<le> tokens v" "tokens v \<le> rl_rate rl" "t0 \<le> lastRefill v" "lastRefill v \<le> t"
    "int g + tokens v \<le> rl_rate rl + (lastRefill v - t0) div perToken rl" "t0 \<le> t'"
    by (auto simp: account_def)
  with refill_account [OF this(1-5) assms(2)] Some show ?thesis
    by (auto simp: account_def allow_def Let_def perToken_def)
qed

lemma account_other:
  assumes "account rl k t0 g t" and "key \<noteq> k"
  shows "account (snd (allow rl key t')) k t0 g t"
  using assms by (auto simp: account_def allow_other split: option.splits)

text \<open>Forgetting a visitor gives nothing away: after ten minutes its bucket would be full.\<close>

lemma account_cleanup:
  assumes "account rl k t0 g t" and "t \<le> t'" and "rl_rate rl * perToken rl \<le> 10 * minute"
  shows "account (cleanup rl t') k t0 g t'"
proof (cases "visitors rl k")
  case None
  with account_later [OF assms(1,2)] show ?thesis by (simp add: account_def cleanup_def perToken_def)
next
  case (Some v)
  show ?thesis
  proof (cases "t' - lastRefill v > 10 * minute")
    case False
    with Some account_later [OF assms(1,2)] show ?thesis
      by (simp add: account_def cleanup_def perToken_def)
  next
    case True
    let ?p = "perToken rl"
    from assms(1) Some have v: "0 \<le> tokens v" "t0 \<le> lastRefill v" "t0 \<le> t"
      "int g + tokens v \<le> rl_rate rl + (lastRefill v - t0) div ?p"
      by (auto simp: account_def)
    have "rl_rate rl + (lastRefill v - t0) div ?p = (lastRefill v - t0 + rl_rate rl * ?p) div ?p"
      using perToken_pos [of rl] by simp
    also have "\<dots> \<le> (t' - t0) div ?p"
      using True assms(3) perToken_pos [of rl] by (intro zdiv_mono1) auto
    finally have "int g \<le> (t' - t0) div ?p" using v by linarith
    with Some True v assms(2) show ?thesis
      by (simp add: account_def cleanup_def perToken_def)
  qed
qed

lemma account_run:
  assumes "rl_run evs k rl = (n, rl')" and "account rl k t0 g t"
    and "sorted (map ev_time evs)" and "\<forall>e \<in> set evs. t \<le> ev_time e \<and> ev_time e \<le> t'" and "t \<le> t'"
    and "1 \<le> rl_rate rl" and "rl_rate rl * perToken rl \<le> 10 * minute"
  shows "account rl' k t0 (g + n) t'"
  using assms
proof (induction evs arbitrary: rl g t n)
  case Nil
  then show ?case using account_later by simp
next
  case (Cons e evs)
  from Cons.prems(3) have s: "sorted (map ev_time evs)" "\<forall>x \<in> set evs. ev_time e \<le> ev_time x" by auto
  show ?case
  proof (cases e)
    case (Cleanup t1)
    have acc: "account (cleanup rl t1) k t0 g t1"
      using Cons.prems Cleanup by (intro account_cleanup [of _ _ _ _ t]) auto
    show ?thesis
      by (rule Cons.IH [OF _ acc]) (use Cons.prems Cleanup s in auto)
  next
    case (Request key t1)
    obtain ok rl1 where a: "allow rl key t1 = (ok, rl1)" by (cases "allow rl key t1")
    obtain m where r: "rl_run evs k rl1 = (m, rl')" "n = (if ok \<and> key = k then Suc m else m)"
      using Cons.prems(1) Request a by (cases "rl_run evs k rl1") auto
    let ?g = "if ok \<and> key = k then Suc g else g"
    have acc: "account rl1 k t0 ?g t1"
    proof (cases "key = k")
      case True
      with account_allow [of rl k t0 g t t1] Cons.prems Request a show ?thesis by auto
    next
      case False
      have "account rl k t0 g t1" using account_later [OF Cons.prems(2), of t1] Cons.prems(4) Request by simp
      from account_other [OF this False, of t1] False a show ?thesis by simp
    qed
    have "account rl' k t0 (?g + m) t'"
      using same_params(1,2) [of rl key t1] a Cons.prems Request s
      by (intro Cons.IH [OF r(1) acc]) auto
    with r(2) show ?thesis by (auto split: if_splits)
  qed
qed

lemma run_params:
  "rl_run evs k rl = (n, rl') \<Longrightarrow> rl_rate rl' = rl_rate rl \<and> perToken rl' = perToken rl"
proof (induction evs arbitrary: n rl)
  case (Cons e evs)
  show ?case
  proof (cases e)
    case (Request key t)
    obtain ok rl1 where a: "allow rl key t = (ok, rl1)" by (cases "allow rl key t")
    with Cons.prems Request obtain m where "rl_run evs k rl1 = (m, rl')" by (auto split: prod.splits)
    from Cons.IH [OF this] same_params(1,2) [of rl key t] a show ?thesis by simp
  next
    case (Cleanup t)
    with Cons.prems have "rl_run evs k (cleanup rl t) = (n, rl')" by simp
    from Cons.IH [OF this] show ?thesis by simp
  qed
qed simp

text \<open>C22: over any run of requests and cleanups from a fresh limiter, starting at \<open>t0\<close> and over by \<open>t\<close>,
  a client gets at most the burst and one request per refill interval through, whatever other
  clients do, as long as a full refill takes no more than the ten minutes after which the cleanup
  forgets a visitor.\<close>

theorem rate_limit_bound:
  assumes "rl_run evs k (newRateLimiter rate window) = (n, rl')" and "1 \<le> rate"
    and "rate * perToken (newRateLimiter rate window) \<le> 10 * minute"
    and "sorted (map ev_time evs)" and "\<forall>e \<in> set evs. t0 \<le> ev_time e \<and> ev_time e \<le> t" and "t0 \<le> t"
  shows "int n \<le> rate + (t - t0) div perToken (newRateLimiter rate window)"
proof -
  let ?rl = "newRateLimiter rate window"
  have "account ?rl k t0 0 t0" by (simp add: account_def newRateLimiter_def)
  from account_run [OF assms(1) this] assms have "account rl' k t0 n t"
    by (simp add: newRateLimiter_def)
  moreover have "rl_rate rl' = rate \<and> perToken rl' = perToken ?rl"
    using run_params [OF assms(1)] by (simp add: newRateLimiter_def)
  ultimately show ?thesis
    using zdiv_mono1 [of "lastRefill v - t0" "t - t0" "perToken ?rl" for v] perToken_pos [of ?rl] assms(2)
    by (fastforce simp: account_def split: option.splits)
qed

definition demo_requests :: "rl_event list" where
  "demo_requests = [Request ''a'' 0, Request ''a'' 1, Request ''b'' 1, Request ''a'' 1, Cleanup 2, Request ''a'' 3]"

lemmas run_limiter = allow_def refill_def cleanup_def newRateLimiter_def perToken_def minute_def second_def

theorem rate_limit_bound_witness:
  "\<exists>rl'. rl_run demo_requests ''a'' (newRateLimiter 2 4) = (3, rl') \<and>
    (3 :: int) \<le> 2 + (3 - 0) div perToken (newRateLimiter 2 4)"
proof -
  obtain rl' where run: "rl_run demo_requests ''a'' (newRateLimiter 2 4) = (3, rl')"
    by (simp add: demo_requests_def run_limiter Let_def)
  have "rl_rate (newRateLimiter 2 4) = 2" "perToken (newRateLimiter 2 4) = 2"
    by (simp_all add: run_limiter)
  with rate_limit_bound [OF run, of 0 3] run show ?thesis
    by (auto simp: demo_requests_def minute_def second_def)
qed

text \<open>A client whose requests are at least a refill interval apart, from \<open>next\<close> on.\<close>

fun paced :: "int \<Rightarrow> string \<Rightarrow> time \<Rightarrow> rl_event list \<Rightarrow> bool" where
  "paced p k nxt [] = True"
| "paced p k nxt (Cleanup t # evs) = paced p k nxt evs"
| "paced p k nxt (Request key t # evs) =
     (if key = k then nxt \<le> t \<and> paced p k (t + p) evs else paced p k nxt evs)"

definition requests_of :: "string \<Rightarrow> rl_event list \<Rightarrow> nat" where
  "requests_of k evs = length (filter (\<lambda>e. case e of Request key _ \<Rightarrow> key = k | _ \<Rightarrow> False) evs)"

definition served_up_to :: "rateLimiter \<Rightarrow> string \<Rightarrow> time \<Rightarrow> bool" where
  "served_up_to rl k nxt \<longleftrightarrow>
     (\<forall>v. visitors rl k = Some v \<longrightarrow> 0 \<le> tokens v \<and> lastRefill v + perToken rl \<le> nxt)"

lemma paced_step:
  assumes "served_up_to rl k nxt" and "nxt \<le> t" and "1 \<le> rl_rate rl"
  shows "fst (allow rl k t)" "served_up_to (snd (allow rl k t)) k (t + perToken rl)"
proof -
  have "fst (allow rl k t) \<and> served_up_to (snd (allow rl k t)) k (t + perToken rl)"
  proof (cases "visitors rl k")
    case None
    with assms(3) show ?thesis by (simp add: allow_def served_up_to_def perToken_def)
  next
    case (Some v)
    with assms have v: "0 \<le> tokens v" "perToken rl \<le> t - lastRefill v"
      by (auto simp: served_up_to_def)
    then have "1 \<le> (t - lastRefill v) div perToken rl"
      using zdiv_mono1 [of "perToken rl" "t - lastRefill v" "perToken rl"] perToken_pos [of rl] by simp
    with v assms(3) have "refill rl t v = \<lparr>tokens = min (tokens v + (t - lastRefill v) div perToken rl) (rl_rate rl),
        lastRefill = t\<rparr>" "0 < tokens (refill rl t v)"
      by (auto simp: refill_def Let_def)
    with Some show ?thesis
      by (auto simp: allow_def Let_def served_up_to_def perToken_def)
  qed
  then show "fst (allow rl k t)" "served_up_to (snd (allow rl k t)) k (t + perToken rl)" by auto
qed

lemma paced_run:
  assumes "rl_run evs k rl = (n, rl')" and "paced (perToken rl) k nxt evs" and "served_up_to rl k nxt"
    and "1 \<le> rl_rate rl"
  shows "n = requests_of k evs"
  using assms
proof (induction evs arbitrary: rl nxt n)
  case (Cons e evs)
  show ?case
  proof (cases e)
    case (Cleanup t)
    have "served_up_to (cleanup rl t) k nxt"
      using Cons.prems(3) by (auto simp: served_up_to_def cleanup_def perToken_def split: option.splits)
    from Cons.IH [OF _ _ this] Cons.prems Cleanup show ?thesis by (simp add: requests_of_def)
  next
    case (Request key t)
    obtain ok rl1 where a: "allow rl key t = (ok, rl1)" by (cases "allow rl key t")
    obtain m where r: "rl_run evs k rl1 = (m, rl')" "n = (if ok \<and> key = k then Suc m else m)"
      using Cons.prems(1) Request a by (cases "rl_run evs k rl1") auto
    note par = same_params(1,2) [of rl key t, unfolded a snd_conv]
    show ?thesis
    proof (cases "key = k")
      case True
      with paced_step [OF Cons.prems(3), of t] Cons.prems(2,4) Request a
      have "ok" "served_up_to rl1 k (t + perToken rl)" by auto
      moreover from Cons.IH [OF r(1) _ this(2)] Cons.prems Request True par have "m = requests_of k evs" by simp
      ultimately show ?thesis using r(2) True Request by (simp add: requests_of_def)
    next
      case False
      have "served_up_to rl1 k nxt"
        using Cons.prems(3) allow_other [OF False, of rl t] a par by (simp add: served_up_to_def)
      from Cons.IH [OF r(1) _ this] Cons.prems Request False par r(2) show ?thesis
        by (simp add: requests_of_def)
    qed
  qed
qed (simp add: requests_of_def)

text \<open>No request of a client that keeps at least a refill interval between its requests is ever
  turned away, whatever other clients send and whenever the cleanup runs.\<close>

theorem rate_limit_paced:
  assumes "rl_run evs k (newRateLimiter rate window) = (n, rl')" and "1 \<le> rate"
    and "paced (perToken (newRateLimiter rate window)) k t0 evs"
  shows "n = requests_of k evs"
  using assms by (intro paced_run [OF assms(1,3)]) (auto simp: served_up_to_def newRateLimiter_def)

theorem rate_limit_paced_witness:
  "\<exists>rl'. rl_run [Request ''a'' 0, Request ''b'' 1, Request ''a'' 2, Request ''a'' 4] ''a'' (newRateLimiter 2 4) = (3, rl') \<and>
    3 = requests_of ''a'' [Request ''a'' 0, Request ''b'' 1, Request ''a'' 2, Request ''a'' 4]"
proof -
  obtain n rl' where run: "rl_run [Request ''a'' 0, Request ''b'' 1, Request ''a'' 2, Request ''a'' 4] ''a''
      (newRateLimiter 2 4) = (n, rl')" by fastforce
  from rate_limit_paced [OF this, of 0] run show ?thesis
    by (auto simp: run_limiter requests_of_def)
qed

end
