(* ===== verification/Ots.thy ===== *)
theory Ots
  imports Platform Go_Text "HOL-Library.Word"
begin

text \<open>
  \<open>backend/internal/ots\<close>: the calendar client (\<open>client.go\<close>) and the proof verifier
  (\<open>verify.go\<close>). The format library \<open>opentimestamps/ots\<close> and the Bitcoin chain source are
  arguments: a sequence is a list of the library's instructions, whose attestation and
  computation the library provides.
\<close>

section \<open>What the module is built on\<close>

record attestation =
  at_BitcoinBlockHeight :: "64 word"
  at_CalendarServerURL :: string

record 'i ots_file =
  of_Digest :: string
  of_Sequences :: "'i list list"

text \<open>\<open>op_Compute\<close> returns the computed value, and whether a Bitcoin transaction was passed on
  the way (\<open>tx != nil\<close>).\<close>

record 'i otspkg =
  op_ParseOTSFile :: "string \<Rightarrow> string + 'i ots_file"
  op_ParseTimestamp :: "string \<Rightarrow> string + 'i list list"
  op_SerializeToFile :: "'i ots_file \<Rightarrow> string"
  op_GetAttestation :: "'i list \<Rightarrow> attestation"
  op_Compute :: "'i list \<Rightarrow> string \<Rightarrow> string \<times> bool"
  op_GetBitcoinAttestedSequences :: "'i ots_file \<Rightarrow> 'i list list"

record block_header =
  bh_MerkleRoot :: string
  bh_Timestamp :: time

record 'e chain =
  ch_GetBlockHash :: "int \<Rightarrow> 'e \<Rightarrow> (string + string) \<times> 'e"
  ch_GetBlockHeader :: "string \<Rightarrow> 'e \<Rightarrow> (string + block_header) \<times> 'e"

definition ext_call :: "('e \<Rightarrow> (string + 'a) \<times> 'e) \<Rightarrow> ('e world, 'a) prog" where
  "ext_call f w =
     (case f (w_ext w) of
        (Inl m, e) \<Rightarrow> (Inl (new_err m), w\<lparr>w_ext := e\<rparr>)
      | (Inr x, e) \<Rightarrow> (Inr x, w\<lparr>w_ext := e\<rparr>))"

definition sha256Size :: nat where
  "sha256Size = 32"

definition maxProofBytes :: nat where
  "maxProofBytes = 1048576"

definition parseProofFile :: "'i otspkg \<Rightarrow> string \<Rightarrow> goerr + 'i ots_file" where
  "parseProofFile L otsProof =
     (case op_ParseOTSFile L otsProof of
        Inl m \<Rightarrow> Inl (errorf Ots_ErrInvalidProof ('': '' @ m))
      | Inr file \<Rightarrow> Inr file)"

section \<open>Offline verification\<close>

text \<open>\<open>ots.Verification\<close>; no timestamp stands for the zero time.\<close>

record OtsVerification =
  vf_BlockHeight :: int
  vf_Timestamp :: "time option"
  vf_ChainChecked :: bool
  vf_ChainErr :: "goerr option"

definition digest_size_error :: "string \<Rightarrow> goerr" where
  "digest_size_error hash = new_err (''ots: digest must be 32 bytes, got '' @ show_nat (length hash))"

definition lower_height :: "int \<Rightarrow> int \<Rightarrow> int" where
  "lower_height minHeight h = (if minHeight = 0 \<or> h < minHeight then h else minHeight)"

text \<open>The loop of \<open>VerifyProof\<close>; \<open>int(att.BitcoinBlockHeight)\<close> reads the word as signed.\<close>

fun offline_height :: "'i otspkg \<Rightarrow> string \<Rightarrow> int \<Rightarrow> 'i list list \<Rightarrow> goerr + int" where
  "offline_height L hash minHeight [] = Inr minHeight"
| "offline_height L hash minHeight (seq # seqs) =
     (let att = op_GetAttestation L seq in
      if at_BitcoinBlockHeight att = 0 then offline_height L hash minHeight seqs
      else
        (case op_Compute L seq hash of
           (root, tx) \<Rightarrow>
             if \<not> tx \<or> length root \<noteq> sha256Size
             then Inl (errorf Ots_ErrInvalidProof
                    '': attested sequence does not embed a bitcoin transaction'')
             else offline_height L hash
                    (lower_height minHeight (sint (at_BitcoinBlockHeight att))) seqs))"

definition VerifyProof :: "'i otspkg \<Rightarrow> string \<Rightarrow> string \<Rightarrow> goerr + OtsVerification" where
  "VerifyProof L otsProof hash =
     (if length hash \<noteq> sha256Size then Inl (digest_size_error hash)
      else
        case parseProofFile L otsProof of
          Inl e \<Rightarrow> Inl e
        | Inr file \<Rightarrow>
            if of_Digest file \<noteq> hash then Inl (sentinel_err Ots_ErrDigestMismatch)
            else
              let confirmed = op_GetBitcoinAttestedSequences L file in
              if length confirmed = 0 then Inl (sentinel_err Ots_ErrNotBitcoinAttested)
              else
                case offline_height L hash 0 confirmed of
                  Inl e \<Rightarrow> Inl e
                | Inr minHeight \<Rightarrow>
                    if minHeight = 0 then Inl (sentinel_err Ots_ErrNotBitcoinAttested)
                    else Inr \<lparr>vf_BlockHeight = minHeight, vf_Timestamp = None,
                              vf_ChainChecked = False, vf_ChainErr = None\<rparr>)"

section \<open>Verification against the chain\<close>

definition first_err :: "goerr option \<Rightarrow> goerr \<Rightarrow> goerr option" where
  "first_err fetchErr e = (case fetchErr of None \<Rightarrow> Some e | Some _ \<Rightarrow> fetchErr)"

definition mismatch_error :: "64 word \<Rightarrow> string \<Rightarrow> string \<Rightarrow> goerr" where
  "mismatch_error height root merkle =
     new_err (''ots: chain verification failed at block '' @ show_nat (unat height) @
       '': proof commits to '' @ hex_EncodeToString root @
       '' but the block's merkle root is '' @ hex_EncodeToString merkle)"

text \<open>The loop of \<open>verifyAgainstChain\<close> over the state \<open>fetchErr, minHeight, bestTS\<close>.\<close>

fun chain_loop ::
  "'i otspkg \<Rightarrow> 'e chain \<Rightarrow> string \<Rightarrow> goerr option \<Rightarrow> int \<Rightarrow> time option \<Rightarrow> 'i list list
     \<Rightarrow> ('e world, goerr option \<times> int \<times> time option) prog" where
  "chain_loop L ch hash fetchErr minHeight bestTS [] = ret (fetchErr, minHeight, bestTS)"
| "chain_loop L ch hash fetchErr minHeight bestTS (seq # seqs) =
     (let att = op_GetAttestation L seq; height = at_BitcoinBlockHeight att in
      if height = 0 then chain_loop L ch hash fetchErr minHeight bestTS seqs
      else
        let root = fst (op_Compute L seq hash) in
        bindR (ext_call (ch_GetBlockHash ch (sint height))) (\<lambda>r.
          case r of
            Inl e \<Rightarrow>
              chain_loop L ch hash
                (first_err fetchErr (wrapf (''ots: block '' @ show_nat (unat height) @ '': '') e))
                minHeight bestTS seqs
          | Inr blockHash \<Rightarrow>
              bindR (ext_call (ch_GetBlockHeader ch blockHash)) (\<lambda>q.
                case q of
                  Inl e \<Rightarrow>
                    chain_loop L ch hash
                      (first_err fetchErr
                        (wrapf (''ots: header for block '' @ show_nat (unat height) @ '': '') e))
                      minHeight bestTS seqs
                | Inr header \<Rightarrow>
                    if root \<noteq> bh_MerkleRoot header
                    then fail (mismatch_error height root (bh_MerkleRoot header))
                    else if minHeight = 0 \<or> sint height < minHeight
                    then chain_loop L ch hash fetchErr (sint height) (Some (bh_Timestamp header)) seqs
                    else chain_loop L ch hash fetchErr minHeight bestTS seqs)))"

definition verifyAgainstChain ::
  "'i otspkg \<Rightarrow> 'e chain \<Rightarrow> string \<Rightarrow> string \<Rightarrow> ('e world, int \<times> time option) prog" where
  "verifyAgainstChain L ch otsProof hash =
     bindE (liftE (parseProofFile L otsProof)) (\<lambda>file.
     bindE (chain_loop L ch hash None 0 None (op_GetBitcoinAttestedSequences L file))
       (\<lambda>(fetchErr, minHeight, bestTS).
         if minHeight = 0 then
           (case fetchErr of
              Some e \<Rightarrow> fail (errorf Ots_errChainUnavailable ('': '' @ err_text e))
            | None \<Rightarrow> fail (sentinel_err Ots_ErrNotBitcoinAttested))
         else ret (minHeight, bestTS)))"

text \<open>\<open>(*Verifier).Verify\<close>; a verifier may have no chain source.\<close>

definition Verifier_Verify ::
  "'i otspkg \<Rightarrow> 'e chain option \<Rightarrow> string \<Rightarrow> string \<Rightarrow> ('e world, OtsVerification) prog" where
  "Verifier_Verify L chain otsProof hash =
     bindE (liftE (VerifyProof L otsProof hash)) (\<lambda>res.
       case chain of
         None \<Rightarrow> ret res
       | Some ch \<Rightarrow>
           bindR (verifyAgainstChain L ch otsProof hash) (\<lambda>r.
             case r of
               Inl e \<Rightarrow>
                 if errors_Is e Ots_errChainUnavailable then ret (res\<lparr>vf_ChainErr := Some e\<rparr>)
                 else fail e
             | Inr (height, ts) \<Rightarrow>
                 ret (res\<lparr>vf_BlockHeight := height, vf_Timestamp := ts, vf_ChainChecked := True\<rparr>)))"

end
