(* ===== verification/Ots_Client.thy ===== *)
theory Ots_Client
  imports Ots
begin

text \<open>
  \<open>ots/client.go\<close>: submitting digests to the calendars and upgrading pending proofs. The HTTP
  transport to the calendars is an argument; every exchange is an \<open>EvCalendar\<close> event.
\<close>

record ('e, 'i) ots_client =
  oc_platform :: "'e platform"
  oc_lib :: "'i otspkg"
  oc_calendars :: "string list"
  oc_do :: "http_method \<Rightarrow> string \<Rightarrow> string \<Rightarrow> 'e \<Rightarrow> http_result \<times> 'e"

text \<open>The default pools of \<open>NewClient\<close>.\<close>

definition default_calendars :: "string list" where
  "default_calendars = [''https://a.pool.opentimestamps.org'', ''https://b.pool.opentimestamps.org'']"

text \<open>Building the request and \<open>httpClient.Do\<close>.\<close>

definition calendar_do ::
  "('e, 'i) ots_client \<Rightarrow> http_method \<Rightarrow> string \<Rightarrow> string \<Rightarrow> ('e world, nat \<times> (string + string)) prog" where
  "calendar_do c meth url body w =
     (case url_error (oc_platform c) url of
        Some m \<Rightarrow> (Inl (new_err m), w)
      | None \<Rightarrow>
          (case oc_do c meth url body (w_ext w) of
             (res, e) \<Rightarrow>
               (case res of
                  TransportError m \<Rightarrow> Inl (errorf Ots_ErrSubmissionFailed ('': '' @ m))
                | Response code b \<Rightarrow> Inr (code, b),
                log_event (EvCalendar url body) (w\<lparr>w_ext := e\<rparr>))))"

text \<open>\<open>io.ReadAll(io.LimitReader(resp.Body, maxProofBytes))\<close>.\<close>

definition read_limited :: "string + string \<Rightarrow> goerr + string" where
  "read_limited body =
     (case body of
        Inl m \<Rightarrow> Inl (errorf Ots_ErrSubmissionFailed ('': '' @ m))
      | Inr t \<Rightarrow> Inr (take maxProofBytes t))"

definition status_error :: "nat \<Rightarrow> goerr" where
  "status_error code = errorf Ots_ErrSubmissionFailed ('': status '' @ show_nat code)"

definition single_sequence :: "'i otspkg \<Rightarrow> string \<Rightarrow> goerr + 'i list" where
  "single_sequence L body =
     (case op_ParseTimestamp L body of
        Inl m \<Rightarrow> Inl (errorf Ots_ErrInvalidResponse ('': '' @ m))
      | Inr seqs \<Rightarrow>
          if length seqs \<noteq> 1
          then Inl (errorf Ots_ErrInvalidResponse ('': expected 1 sequence, got '' @ show_nat (length seqs)))
          else Inr (seqs ! 0))"

definition submitToCalendar ::
  "('e, 'i) ots_client \<Rightarrow> string \<Rightarrow> string \<Rightarrow> ('e world, 'i list) prog" where
  "submitToCalendar c calendarURL hash =
     bindE (calendar_do c POST (calendarURL @ ''/digest'') hash) (\<lambda>(code, b).
     bindE (liftE (read_limited b)) (\<lambda>body.
       if code \<noteq> 200 then fail (status_error code)
       else
         bindE (liftE (single_sequence (oc_lib c) body)) (\<lambda>seq.
           if at_CalendarServerURL (op_GetAttestation (oc_lib c) seq) = ''''
           then fail (errorf Ots_ErrInvalidResponse '': response has no pending calendar attestation'')
           else ret seq)))"

fun submit_loop ::
  "('e, 'i) ots_client \<Rightarrow> string \<Rightarrow> goerr option \<Rightarrow> string list \<Rightarrow> ('e world, string) prog" where
  "submit_loop c hash firstErr [] =
     fail (case firstErr of None \<Rightarrow> sentinel_err Ots_ErrSubmissionFailed | Some e \<Rightarrow> e)"
| "submit_loop c hash firstErr (cal # cals) =
     bindR (submitToCalendar c cal hash) (\<lambda>r.
       case r of
         Inr seq \<Rightarrow> ret (op_SerializeToFile (oc_lib c) \<lparr>of_Digest = hash, of_Sequences = [seq]\<rparr>)
       | Inl e \<Rightarrow> submit_loop c hash (first_err firstErr e) cals)"

definition Client_Submit :: "('e, 'i) ots_client \<Rightarrow> string \<Rightarrow> ('e world, string) prog" where
  "Client_Submit c hash =
     (if length hash \<noteq> sha256Size then fail (digest_size_error hash)
      else submit_loop c hash None (oc_calendars c))"

definition upgradeAtCalendar ::
  "('e, 'i) ots_client \<Rightarrow> string \<Rightarrow> string \<Rightarrow> ('e world, 'i list) prog" where
  "upgradeAtCalendar c calendarURL commitment =
     bindE (calendar_do c GET (calendarURL @ ''/timestamp/'' @ hex_EncodeToString commitment) '''')
       (\<lambda>(code, b).
         if code = 404 then fail (sentinel_err Ots_ErrProofNotReady)
         else if code \<noteq> 200 then fail (status_error code)
         else
           bindE (liftE (read_limited b)) (\<lambda>body.
             liftE (single_sequence (oc_lib c) body)))"

text \<open>A sequence the loop of \<open>Upgrade\<close> asks the calendar about.\<close>

definition pending_seq :: "'i otspkg \<Rightarrow> 'i list \<Rightarrow> bool" where
  "pending_seq L seq \<longleftrightarrow>
     \<not> (at_BitcoinBlockHeight (op_GetAttestation L seq) > 0 \<or>
        at_CalendarServerURL (op_GetAttestation L seq) = '''')"

text \<open>The loop of \<open>Upgrade\<close>: the sequences it leaves behind, and \<open>upgraded\<close>.\<close>

fun upgrade_loop ::
  "('e, 'i) ots_client \<Rightarrow> string \<Rightarrow> bool \<Rightarrow> 'i list list \<Rightarrow> ('e world, 'i list list \<times> bool) prog" where
  "upgrade_loop c digest upgraded [] = ret ([], upgraded)"
| "upgrade_loop c digest upgraded (seq # seqs) =
     (let att = op_GetAttestation (oc_lib c) seq in
      if \<not> pending_seq (oc_lib c) seq
      then bindE (upgrade_loop c digest upgraded seqs) (\<lambda>(rest, u). ret (seq # rest, u))
      else
        let commitment = fst (op_Compute (oc_lib c) seq digest) in
        bindE (upgradeAtCalendar c (at_CalendarServerURL att) commitment) (\<lambda>tail.
        bindE (upgrade_loop c digest True seqs) (\<lambda>(rest, u).
          ret ((butlast seq @ tail) # rest, u))))"

definition Client_Upgrade :: "('e, 'i) ots_client \<Rightarrow> string \<Rightarrow> ('e world, string) prog" where
  "Client_Upgrade c otsProof =
     bindE (liftE (parseProofFile (oc_lib c) otsProof)) (\<lambda>file.
     bindE (upgrade_loop c (of_Digest file) False (of_Sequences file)) (\<lambda>(seqs, upgraded).
       if \<not> upgraded then fail (sentinel_err Ots_ErrProofNotReady)
       else ret (op_SerializeToFile (oc_lib c) (file\<lparr>of_Sequences := seqs\<rparr>))))"

end
