(* ===== verification/Cv.thy ===== *)
theory Cv
  imports Ots_Client Webhook Artifact_Store
begin

text \<open>
  \<open>backend/internal/cv\<close>: the public CV. Anchoring the artifacts of released deals, verifying an
  entry against the current file and its OpenTimestamps proof, the trust score, the upgrade
  worker, and the two handlers.
\<close>

section \<open>Data\<close>

text \<open>A missing \<open>verified_at\<close> is the zero time in the code and \<open>None\<close> here.\<close>

record Entry =
  en_ID :: string
  en_DealTitle :: string
  en_AmountSats :: int
  en_SourcePlatform :: string
  en_ArtifactKind :: string
  en_Hash :: string
  en_Algorithm :: string
  en_VerifiedAt :: "time option"
  en_CreatedAt :: time
  en_OTSProof :: string
  en_OTSSubmittedAt :: "time option"
  en_OTSConfirmedAt :: "time option"

record Profile =
  pf_DisplayName :: string
  pf_Slug :: string
  pf_TrustScore :: int
  pf_Entries :: "Entry list"

record VerifyResult =
  vr_Valid :: bool
  vr_EntryID :: string
  vr_Slug :: string
  vr_Hash :: string
  vr_Algorithm :: string
  vr_MatchesCurrent :: bool
  vr_DealTitle :: string
  vr_VerifiedAt :: "time option"
  vr_OTSVerified :: bool
  vr_OTSProof :: string
  vr_OTSConfirmedAt :: "time option"
  vr_OTSBlockHeight :: int

record profileRow =
  pr_ID :: string
  pr_DisplayName :: string
  pr_Slug :: string
  pr_TrustScore :: int

record AnchorCandidate =
  ac_ArtifactID :: string
  ac_StorageKey :: string
  ac_DealID :: string

record entryRecord =
  er_ID :: string
  er_Hash :: string
  er_Algorithm :: string
  er_StorageKey :: string
  er_DealTitle :: string
  er_VerifiedAt :: "time option"
  er_OTSProof :: string
  er_OTSSubmittedAt :: "time option"
  er_OTSConfirmedAt :: "time option"

record OTSPendingAnchor =
  pa_ArtifactID :: string
  pa_EntryID :: string
  pa_Hash :: string
  pa_OTSProof :: string
  pa_SubmittedAt :: time

section \<open>The repository\<close>

text \<open>The rows of \<open>cv_entries JOIN artifacts JOIN deals JOIN users\<close>.\<close>

definition cv_join :: "database \<Rightarrow> (cv_row \<times> Artifact \<times> deal_row \<times> User) list" where
  "cv_join db =
     [(e, a, d, u). e \<leftarrow> t_cv_entries db, a \<leftarrow> t_artifacts db, a_ID a = e_artifact_id e,
        d \<leftarrow> t_deals db, c_id d = a_DealID a, u \<leftarrow> t_users db, u_ID u = c_freelancer_id d]"

text \<open>A nullable \<open>BYTEA\<close> column scanned into a \<open>[]byte\<close>.\<close>

definition scan_bytes :: "string option \<Rightarrow> string" where
  "scan_bytes b = (case b of None \<Rightarrow> '''' | Some s \<Rightarrow> s)"

definition entry_of :: "cv_row \<times> Artifact \<times> deal_row \<times> User \<Rightarrow> Entry" where
  "entry_of = (\<lambda>(e, a, d, u).
     \<lparr>en_ID = e_id e, en_DealTitle = c_title d, en_AmountSats = c_amount_sats d,
      en_SourcePlatform = c_source_platform d, en_ArtifactKind = artifact_kind_string (a_Kind a),
      en_Hash = e_hash e, en_Algorithm = e_algorithm e, en_VerifiedAt = c_verified_at d,
      en_CreatedAt = e_created_at e, en_OTSProof = scan_bytes (e_ots_proof e),
      en_OTSSubmittedAt = e_ots_submitted_at e, en_OTSConfirmedAt = e_ots_confirmed_at e\<rparr>)"

text \<open>\<open>ORDER BY d.verified_at DESC, cv.created_at DESC\<close>: NULL sorts first when descending.\<close>

definition order_entries :: "Entry list \<Rightarrow> Entry list" where
  "order_entries es =
     (let es' = sort_key (\<lambda>e. - en_CreatedAt e) es in
      filter (\<lambda>e. en_VerifiedAt e = None) es' @
      sort_key (\<lambda>e. - the (en_VerifiedAt e)) (filter (\<lambda>e. en_VerifiedAt e \<noteq> None) es'))"

definition CV_GetProfile :: "'e platform \<Rightarrow> string \<Rightarrow> ('e world, profileRow) prog" where
  "CV_GetProfile P slug =
     bindE (query P ''repository: get cv profile: ''
              (\<lambda>_ _ db. (Inr (select_row (\<lambda>u. u_Slug u = slug) (t_users db)), db)))
       (\<lambda>r. case r of
          None \<Rightarrow> fail (sentinel_err CV_ErrNotFound)
        | Some u \<Rightarrow> ret \<lparr>pr_ID = u_ID u, pr_DisplayName = u_DisplayName u, pr_Slug = u_Slug u,
                         pr_TrustScore = u_TrustScore u\<rparr>)"

definition CV_ListEntries :: "'e platform \<Rightarrow> string \<Rightarrow> ('e world, Entry list) prog" where
  "CV_ListEntries P slug =
     query P ''repository: list cv entries: '' (\<lambda>_ _ db.
       (Inr (order_entries (map entry_of (filter
          (\<lambda>(e, a, d, u). u_Slug u = slug \<and> c_status d = StatusReleased) (cv_join db)))), db))"

text \<open>\<open>releasedArtifactSelector\<close>; the statement orders nothing, the model keeps the table order.\<close>

definition unanchored :: "(deal_row \<Rightarrow> bool) \<Rightarrow> database \<Rightarrow> AnchorCandidate list" where
  "unanchored p db =
     [\<lparr>ac_ArtifactID = a_ID a, ac_StorageKey = a_StorageKey a, ac_DealID = a_DealID a\<rparr>.
        a \<leftarrow> t_artifacts db, d \<leftarrow> t_deals db, c_id d = a_DealID a \<and> p d \<and> c_status d = StatusReleased \<and>
        \<not> list_ex (\<lambda>e. e_artifact_id e = a_ID a) (t_cv_entries db)]"

definition CV_ListUnanchoredReleasedArtifacts ::
  "'e platform \<Rightarrow> string \<Rightarrow> ('e world, AnchorCandidate list) prog" where
  "CV_ListUnanchoredReleasedArtifacts P freelancerID =
     query P ''repository: list unanchored artifacts: ''
       (\<lambda>_ _ db. (Inr (unanchored (\<lambda>d. c_freelancer_id d = freelancerID) db), db))"

definition CV_ListUnanchoredDealArtifacts ::
  "'e platform \<Rightarrow> string \<Rightarrow> string \<Rightarrow> ('e world, AnchorCandidate list) prog" where
  "CV_ListUnanchoredDealArtifacts P dealID freelancerID =
     query P ''repository: list unanchored artifacts: ''
       (\<lambda>_ _ db. (Inr (unanchored (\<lambda>d. c_freelancer_id d = freelancerID \<and> c_id d = dealID) db), db))"

text \<open>\<open>INSERT ... ON CONFLICT (artifact_id) DO NOTHING\<close>.\<close>

definition CV_InsertAnchor :: "'e platform \<Rightarrow> string \<Rightarrow> string \<Rightarrow> ('e world, unit) prog" where
  "CV_InsertAnchor P artifactID hash =
     query P ''repository: insert cv anchor: '' (\<lambda>now uuid db.
       let e = \<lparr>e_id = uuid, e_artifact_id = artifactID, e_hash = hash, e_algorithm = ''sha256'',
                e_ots_proof = None, e_ots_submitted_at = None, e_ots_confirmed_at = None,
                e_created_at = now\<rparr>;
           refuse = (\<lambda>c. Inl (wrapf ''repository: insert cv anchor: '' (new_err c)))
       in if list_ex (\<lambda>e. e_artifact_id e = artifactID) (t_cv_entries db) then (Inr (), db)
          else if list_ex (\<lambda>e. e_id e = uuid) (t_cv_entries db) then (refuse ''cv_entries_pkey'', db)
          else if \<not> list_ex (\<lambda>a. a_ID a = artifactID) (t_artifacts db)
          then (refuse ''cv_entries_artifact_id_fkey'', db)
          else (Inr (), db\<lparr>t_cv_entries := t_cv_entries db @ [e]\<rparr>))"

definition CV_UpdateAnchorOTS ::
  "'e platform \<Rightarrow> string \<Rightarrow> string \<Rightarrow> time option \<Rightarrow> time option \<Rightarrow> ('e world, unit) prog" where
  "CV_UpdateAnchorOTS P artifactID proof submittedAt confirmedAt =
     query P ''repository: update cv anchor ots: '' (\<lambda>_ _ db.
       (Inr (), db\<lparr>t_cv_entries := update_rows (\<lambda>e. e_artifact_id e = artifactID)
          (\<lambda>e. e\<lparr>e_ots_proof := Some proof, e_ots_submitted_at := submittedAt,
                 e_ots_confirmed_at := confirmedAt\<rparr>) (t_cv_entries db)\<rparr>))"

definition CV_CountReleasedDeals :: "'e platform \<Rightarrow> string \<Rightarrow> ('e world, nat) prog" where
  "CV_CountReleasedDeals P freelancerID =
     query P ''repository: count released deals: '' (\<lambda>_ _ db.
       (Inr (affected (\<lambda>d. c_freelancer_id d = freelancerID \<and> c_status d = StatusReleased) (t_deals db)), db))"

definition CV_UpdateTrustScore :: "'e platform \<Rightarrow> string \<Rightarrow> int \<Rightarrow> ('e world, unit) prog" where
  "CV_UpdateTrustScore P accountID score =
     query P ''repository: update trust score: '' (\<lambda>_ _ db.
       (Inr (), db\<lparr>t_users := update_rows (\<lambda>u. u_ID u = accountID)
          (\<lambda>u. u\<lparr>u_TrustScore := score\<rparr>) (t_users db)\<rparr>))"

definition record_of :: "cv_row \<times> Artifact \<times> deal_row \<times> User \<Rightarrow> entryRecord" where
  "record_of = (\<lambda>(e, a, d, u).
     \<lparr>er_ID = e_id e, er_Hash = e_hash e, er_Algorithm = e_algorithm e, er_StorageKey = a_StorageKey a,
      er_DealTitle = c_title d, er_VerifiedAt = c_verified_at d, er_OTSProof = scan_bytes (e_ots_proof e),
      er_OTSSubmittedAt = e_ots_submitted_at e, er_OTSConfirmedAt = e_ots_confirmed_at e\<rparr>)"

definition CV_GetEntryForVerify :: "'e platform \<Rightarrow> string \<Rightarrow> string \<Rightarrow> ('e world, entryRecord) prog" where
  "CV_GetEntryForVerify P entryID slug =
     bindE (query P ''repository: get cv entry for verify: '' (\<lambda>_ _ db.
              (Inr (select_row (\<lambda>(e, a, d, u). e_id e = entryID \<and> u_Slug u = slug) (cv_join db)), db)))
       (\<lambda>r. case r of
          None \<Rightarrow> fail (sentinel_err CV_ErrNotFound)
        | Some row \<Rightarrow> ret (record_of row))"

definition CV_ListPendingOTSAnchors :: "'e platform \<Rightarrow> ('e world, OTSPendingAnchor list) prog" where
  "CV_ListPendingOTSAnchors P =
     query P ''repository: list pending ots anchors: '' (\<lambda>_ _ db.
       (Inr (map (\<lambda>e. \<lparr>pa_ArtifactID = e_artifact_id e, pa_EntryID = e_id e, pa_Hash = e_hash e,
                       pa_OTSProof = scan_bytes (e_ots_proof e),
                       pa_SubmittedAt = the (e_ots_submitted_at e)\<rparr>)
              (filter (\<lambda>e. e_ots_proof e \<noteq> None \<and> e_ots_submitted_at e \<noteq> None \<and>
                           e_ots_confirmed_at e = None) (t_cv_entries db))), db))"

end
