(* ===== verification/Cv_Service.thy ===== *)
theory Cv_Service
  imports Cv Auth_Service
begin

text \<open>\<open>cv/service.go\<close> and \<open>cv/handler.go\<close>.\<close>

section \<open>The service\<close>

text \<open>The interface \<open>OTSClient\<close>, and \<open>*ots.Client\<close> as one.\<close>

record 'e OTSClient =
  oi_Submit :: "string \<Rightarrow> ('e world, string) prog"
  oi_Upgrade :: "string \<Rightarrow> ('e world, string) prog"

definition ots_interface :: "('e, 'i) ots_client \<Rightarrow> 'e OTSClient" where
  "ots_interface c = \<lparr>oi_Submit = Client_Submit c, oi_Upgrade = Client_Upgrade c\<rparr>"

text \<open>\<open>cs_verifier\<close> is the injected \<open>*ots.Verifier\<close> (which may have no chain), or none; \<open>cs_lib\<close> is
  the proof format. The hasher is SHA-256.\<close>

record ('e, 'i) cv_service =
  cs_platform :: "'e platform"
  cs_store :: "'e storage"
  cs_otsClient :: "'e OTSClient option"
  cs_verifier :: "'e chain option option"
  cs_lib :: "'i otspkg"

text \<open>The body of the goroutine that \<open>insertAnchors\<close> starts for an artifact.\<close>

definition submit_anchor ::
  "('e, 'i) cv_service \<Rightarrow> 'e OTSClient \<Rightarrow> string \<Rightarrow> string \<Rightarrow> ('e world, unit) prog" where
  "submit_anchor s client artifactID hash =
     bindR (oi_Submit client hash) (\<lambda>r.
       case r of
         Inl e \<Rightarrow> ret ()
       | Inr otsProof \<Rightarrow>
           bindE (time_now (cs_platform s)) (\<lambda>now.
           bindR (CV_UpdateAnchorOTS (cs_platform s) artifactID otsProof (Some now) None) (\<lambda>_. ret ())))"

text \<open>\<open>go func(...) {...}(c.ArtifactID, digest)\<close>: the start is an event, the body runs at any later time.\<close>

definition spawn_submit :: "('e, 'i) cv_service \<Rightarrow> string \<Rightarrow> string \<Rightarrow> ('e world, unit) prog" where
  "spawn_submit s artifactID digest =
     (case cs_otsClient s of
        None \<Rightarrow> ret ()
      | Some _ \<Rightarrow> modify (log_event (EvSpawnSubmit artifactID digest)))"

fun insertAnchors :: "('e, 'i) cv_service \<Rightarrow> AnchorCandidate list \<Rightarrow> ('e world, unit) prog" where
  "insertAnchors s [] = ret ()"
| "insertAnchors s (c # cs) =
     bindE (st_Open (cs_store s) (ac_StorageKey c)) (\<lambda>content.
       let digest = sha256 (cs_platform s) content; digestHex = hex_EncodeToString digest in
       bindE (CV_InsertAnchor (cs_platform s) (ac_ArtifactID c) digestHex) (\<lambda>_.
       bindE (spawn_submit s (ac_ArtifactID c) digest) (\<lambda>_.
         insertAnchors s cs)))"

definition anchor_all :: "('e, 'i) cv_service \<Rightarrow> AnchorCandidate list \<Rightarrow> ('e world, unit) prog" where
  "anchor_all s candidates = (if length candidates = 0 then ret () else insertAnchors s candidates)"

definition CV_AnchorReleasedDeal :: "('e, 'i) cv_service \<Rightarrow> string \<Rightarrow> string \<Rightarrow> ('e world, unit) prog" where
  "CV_AnchorReleasedDeal s freelancerID dealID =
     bindE (CV_ListUnanchoredDealArtifacts (cs_platform s) dealID freelancerID) (anchor_all s)"

definition healAnchors :: "('e, 'i) cv_service \<Rightarrow> string \<Rightarrow> ('e world, unit) prog" where
  "healAnchors s freelancerID =
     bindE (CV_ListUnanchoredReleasedArtifacts (cs_platform s) freelancerID) (anchor_all s)"

section \<open>The profile\<close>

text \<open>\<open>math.Min(trustScoreBase + float64(released)*trustScorePerDeal, trustScoreCap)\<close>.\<close>

definition trust_score :: "nat \<Rightarrow> int" where
  "trust_score released = min (100 + int released * 25) 1000"

definition refreshTrustScore :: "('e, 'i) cv_service \<Rightarrow> string \<Rightarrow> int \<Rightarrow> ('e world, int) prog" where
  "refreshTrustScore s accountID current =
     bindE (CV_CountReleasedDeals (cs_platform s) accountID) (\<lambda>released.
       let score = trust_score released in
       if score = current then ret score
       else bindE (CV_UpdateTrustScore (cs_platform s) accountID score) (\<lambda>_. ret score))"

definition CV_Service_GetProfile :: "('e, 'i) cv_service \<Rightarrow> string \<Rightarrow> ('e world, Profile) prog" where
  "CV_Service_GetProfile s slug0 =
     (let slug = TrimSpace slug0 in
      if slug = '''' then fail (sentinel_err CV_ErrInvalidInput)
      else
        bindE (CV_GetProfile (cs_platform s) slug) (\<lambda>row.
        bindR (healAnchors s (pr_ID row)) (\<lambda>_.
        bindR (refreshTrustScore s (pr_ID row) (pr_TrustScore row)) (\<lambda>refreshed.
        bindE (CV_ListEntries (cs_platform s) slug) (\<lambda>entries.
          ret \<lparr>pf_DisplayName = pr_DisplayName row, pf_Slug = pr_Slug row,
               pf_TrustScore = (case refreshed of Inl _ \<Rightarrow> pr_TrustScore row | Inr score \<Rightarrow> score),
               pf_Entries = entries\<rparr>)))))"

section \<open>Verifying an entry\<close>

definition verifyOTSProof ::
  "('e, 'i) cv_service \<Rightarrow> string \<Rightarrow> string \<Rightarrow> ('e world, OtsVerification) prog" where
  "verifyOTSProof s proof hash =
     (case cs_verifier s of
        Some chain \<Rightarrow> Verifier_Verify (cs_lib s) chain proof hash
      | None \<Rightarrow> liftE (VerifyProof (cs_lib s) proof hash))"

definition with_ots :: "goerr + OtsVerification \<Rightarrow> VerifyResult \<Rightarrow> VerifyResult" where
  "with_ots r result =
     (case r of
        Inl _ \<Rightarrow> result
      | Inr ver \<Rightarrow>
          let result' = result\<lparr>vr_OTSVerified := True, vr_OTSBlockHeight := vf_BlockHeight ver\<rparr> in
          case vf_Timestamp ver of
            None \<Rightarrow> result'
          | Some t \<Rightarrow> result'\<lparr>vr_OTSConfirmedAt := Some t\<rparr>)"

definition entry_result :: "('e, 'i) cv_service \<Rightarrow> string \<Rightarrow> entryRecord \<Rightarrow> string \<Rightarrow> VerifyResult" where
  "entry_result s slug rec content =
     (let recomputedHex = hex_EncodeToString (sha256 (cs_platform s) content) in
      \<lparr>vr_Valid = (er_Hash rec = recomputedHex), vr_EntryID = er_ID rec, vr_Slug = slug,
       vr_Hash = er_Hash rec, vr_Algorithm = er_Algorithm rec,
       vr_MatchesCurrent = (recomputedHex = er_Hash rec), vr_DealTitle = er_DealTitle rec,
       vr_VerifiedAt = er_VerifiedAt rec, vr_OTSVerified = False, vr_OTSProof = er_OTSProof rec,
       vr_OTSConfirmedAt = er_OTSConfirmedAt rec, vr_OTSBlockHeight = 0\<rparr>)"

definition check_ots ::
  "('e, 'i) cv_service \<Rightarrow> entryRecord \<Rightarrow> VerifyResult \<Rightarrow> ('e world, VerifyResult) prog" where
  "check_ots s rec result =
     (if length (er_OTSProof rec) > 0 \<and> er_OTSConfirmedAt rec \<noteq> None then
        (case hex_DecodeString (er_Hash rec) of
           None \<Rightarrow> ret result
         | Some hashBytes \<Rightarrow>
             bindR (verifyOTSProof s (er_OTSProof rec) hashBytes) (\<lambda>r. ret (with_ots r result)))
      else ret result)"

definition CV_Service_VerifyEntry ::
  "('e, 'i) cv_service \<Rightarrow> string \<Rightarrow> string \<Rightarrow> ('e world, VerifyResult) prog" where
  "CV_Service_VerifyEntry s slug0 entryID0 =
     (let slug = TrimSpace slug0; entryID = TrimSpace entryID0 in
      if slug = '''' \<or> entryID = '''' then fail (sentinel_err CV_ErrInvalidInput)
      else
        bindE (CV_GetEntryForVerify (cs_platform s) entryID slug) (\<lambda>rec.
        bindE (st_Open (cs_store s) (er_StorageKey rec)) (\<lambda>content.
          check_ots s rec (entry_result s slug rec content))))"

section \<open>The upgrade worker\<close>

fun upgrade_pending ::
  "('e, 'i) cv_service \<Rightarrow> 'e OTSClient \<Rightarrow> OTSPendingAnchor list \<Rightarrow> ('e world, unit) prog" where
  "upgrade_pending s client [] = ret ()"
| "upgrade_pending s client (a # as) =
     bindR (oi_Upgrade client (pa_OTSProof a)) (\<lambda>r.
       case r of
         Inl e \<Rightarrow> upgrade_pending s client as
       | Inr upgraded \<Rightarrow>
           bindE (time_now (cs_platform s)) (\<lambda>now.
           bindR (CV_UpdateAnchorOTS (cs_platform s) (pa_ArtifactID a) upgraded
                    (Some (pa_SubmittedAt a)) (Some now)) (\<lambda>_.
             upgrade_pending s client as)))"

definition UpgradeOTSProofs :: "('e, 'i) cv_service \<Rightarrow> ('e world, unit) prog" where
  "UpgradeOTSProofs s =
     (case cs_otsClient s of
        None \<Rightarrow> ret ()
      | Some client \<Rightarrow>
          bindE (CV_ListPendingOTSAnchors (cs_platform s)) (upgrade_pending s client))"

section \<open>Handlers\<close>

text \<open>Encoding: \<open>omitempty\<close> leaves out an empty proof, a nil time and a zero height; a zero
  \<open>verified_at\<close> is written as such.\<close>

definition time_json :: "time option \<Rightarrow> json" where
  "time_json t = (case t of None \<Rightarrow> JStr ''0001-01-01T00:00:00Z'' | Some t \<Rightarrow> JInt t)"

definition optional_time :: "string \<Rightarrow> time option \<Rightarrow> (string \<times> json) list" where
  "optional_time k t = (case t of None \<Rightarrow> [] | Some t \<Rightarrow> [(k, JInt t)])"

definition proof_json :: "string \<Rightarrow> (string \<times> json) list" where
  "proof_json p = (if p = '''' then [] else [(''ots_proof'', JStr (Std_EncodeToString p))])"

definition entry_json :: "Entry \<Rightarrow> json" where
  "entry_json e = JObj
     ([(''id'', JStr (en_ID e)), (''deal_title'', JStr (en_DealTitle e)),
       (''amount_sats'', JInt (en_AmountSats e)), (''source_platform'', JStr (en_SourcePlatform e)),
       (''artifact_kind'', JStr (en_ArtifactKind e)), (''hash'', JStr (en_Hash e)),
       (''algorithm'', JStr (en_Algorithm e)), (''verified_at'', time_json (en_VerifiedAt e)),
       (''created_at'', JInt (en_CreatedAt e))] @ proof_json (en_OTSProof e) @
      optional_time ''ots_submitted_at'' (en_OTSSubmittedAt e) @
      optional_time ''ots_confirmed_at'' (en_OTSConfirmedAt e))"

definition profile_json :: "Profile \<Rightarrow> json" where
  "profile_json p = JObj
     [(''display_name'', JStr (pf_DisplayName p)), (''slug'', JStr (pf_Slug p)),
      (''trust_score'', JInt (pf_TrustScore p)),
      (''entries'', if pf_Entries p = [] then JNull else JArr (map entry_json (pf_Entries p)))]"

definition verification_json :: "VerifyResult \<Rightarrow> json" where
  "verification_json r = JObj
     ([(''valid'', JBool (vr_Valid r)), (''entry_id'', JStr (vr_EntryID r)), (''slug'', JStr (vr_Slug r)),
       (''hash'', JStr (vr_Hash r)), (''algorithm'', JStr (vr_Algorithm r)),
       (''matches_current'', JBool (vr_MatchesCurrent r)), (''deal_title'', JStr (vr_DealTitle r)),
       (''verified_at'', time_json (vr_VerifiedAt r)), (''ots_verified'', JBool (vr_OTSVerified r))] @
      proof_json (vr_OTSProof r) @ optional_time ''ots_confirmed_at'' (vr_OTSConfirmedAt r) @
      (if vr_OTSBlockHeight r = 0 then [] else [(''ots_block_height'', JInt (vr_OTSBlockHeight r))]))"

definition cv_error :: "goerr \<Rightarrow> response" where
  "cv_error e =
     (if errors_Is e CV_ErrInvalidInput then json_error 400 (err_text e)
      else if errors_Is e CV_ErrNotFound then json_error 404 (err_text e)
      else server_error)"

definition CV_Handler_GetProfile :: "('e, 'i) cv_service \<Rightarrow> string \<Rightarrow> ('e world, response) prog" where
  "CV_Handler_GetProfile s slug =
     bindR (CV_Service_GetProfile s slug) (\<lambda>r.
       ret (case r of
              Inl e \<Rightarrow> cv_error e
            | Inr p \<Rightarrow> (200, JObj [(''profile'', profile_json p)])))"

definition CV_Handler_VerifyEntry ::
  "('e, 'i) cv_service \<Rightarrow> string \<Rightarrow> string \<Rightarrow> ('e world, response) prog" where
  "CV_Handler_VerifyEntry s slug entryID =
     bindR (CV_Service_VerifyEntry s slug entryID) (\<lambda>r.
       ret (case r of
              Inl e \<Rightarrow> cv_error e
            | Inr v \<Rightarrow> (200, JObj [(''verification'', verification_json v)])))"

end
