(* ===== verification/Server.thy ===== *)
theory Server
  imports Artifact_Handlers Config Rate_Limit Cv_Service
begin

text \<open>
  \<open>cmd/api/router.go\<close>, \<open>health/handler.go\<close>: the wiring of the services from the configuration, the
  table of routes with the gates of their groups, and how a request goes through the gates to its
  handler. Matching a path with a route of the table is gin's, so a request names its route and
  carries the path parameters.
\<close>

section \<open>Health\<close>

definition Health_Handler :: "'e platform \<Rightarrow> lnbits_client option \<Rightarrow> ('e world, response) prog" where
  "Health_Handler P lnbitsClient w =
     (case pg_step P w of (flt, w1) \<Rightarrow>
        let db = (case flt of None \<Rightarrow> ''connected'' | Some _ \<Rightarrow> ''unreachable'')
        in case lnbitsClient of
             None \<Rightarrow>
               (Inr (if flt = None then 200 else 503,
                  JObj [(''db'', JStr db),
                        (''status'', JStr (if flt = None then ''ok'' else ''error''))]), w1)
           | Some c \<Rightarrow>
               (case Client_HealthCheck P c w1 of (r, w2) \<Rightarrow>
                  let ln = (case r of Inl _ \<Rightarrow> ''unreachable'' | Inr _ \<Rightarrow> ''connected'');
                      ok = (flt = None \<and> (case r of Inl _ \<Rightarrow> False | Inr _ \<Rightarrow> True))
                  in (Inr (if ok then 200 else 503,
                        JObj [(''db'', JStr db), (''lnbits'', JStr ln),
                              (''status'', JStr (if ok then ''ok'' else ''error''))]), w2)))"

section \<open>Wiring\<close>

text \<open>What the program takes from outside the repository, next to the platform: the JWT and bcrypt
  libraries, the Unicode tables and the driver (see \<open>Auth\<close>), the proof format and the transport of
  the calendars (see \<open>Ots_Client\<close>), the Esplora client, \<open>json.Unmarshal\<close>'s parser,
  \<open>mime.TypeByExtension\<close>, and whether \<open>cors.New\<close> accepts a list of origins (it panics otherwise).\<close>

record ('e, 'i) deps =
  dp_platform :: "'e platform"
  dp_sign :: "string \<Rightarrow> Claims \<Rightarrow> string + string"
  dp_parse :: "string \<Rightarrow> time \<Rightarrow> string \<Rightarrow> Claims option"
  dp_bcrypt :: "string \<Rightarrow> 'e \<Rightarrow> (string + string) \<times> 'e"
  dp_bcrypt_ok :: "string \<Rightarrow> string \<Rightarrow> bool"
  dp_letter :: "rune \<Rightarrow> bool"
  dp_digit :: "rune \<Rightarrow> bool"
  dp_driver_arrays :: bool
  dp_otslib :: "'i otspkg"
  dp_ots_do :: "http_method \<Rightarrow> string \<Rightarrow> string \<Rightarrow> 'e \<Rightarrow> http_result \<times> 'e"
  dp_esplora :: "string \<Rightarrow> int \<Rightarrow> 'e chain"
  dp_unmarshal :: "string \<Rightarrow> json option"
  dp_by_extension :: "string \<Rightarrow> string"
  dp_cors_ok :: "string list \<Rightarrow> bool"

record ('e, 'i) app =
  ap_deals :: "'e svc"
  ap_auth :: "'e auth_service"
  ap_cv :: "('e, 'i) cv_service"
  ap_webhookSecret :: string
  ap_unmarshal :: "string \<Rightarrow> json option"
  ap_by_extension :: "string \<Rightarrow> string"

text \<open>The three limiters of the router: \<open>RateLimitAuth()\<close>, and those of the public and the webhook group.\<close>

record limiters =
  lm_auth :: rateLimiter
  lm_public :: rateLimiter
  lm_webhook :: rateLimiter

definition new_limiters :: limiters where
  "new_limiters = \<lparr>lm_auth = RateLimitAuth, lm_public = RateLimitByIP 60 minute,
     lm_webhook = RateLimitByIP 100 minute\<rparr>"

definition wire_auth :: "Config \<Rightarrow> ('e, 'i) deps \<Rightarrow> 'e auth_service" where
  "wire_auth cfg D = \<lparr>au_platform = dp_platform D, au_access = cf_JWTSecret cfg,
     au_refresh = cf_JWTRefreshSecret cfg, au_sign = dp_sign D, au_parse = dp_parse D,
     au_bcrypt = dp_bcrypt D, au_bcrypt_ok = dp_bcrypt_ok D, au_letter = dp_letter D,
     au_digit = dp_digit D, au_driver_arrays = dp_driver_arrays D\<rparr>"

text \<open>The verifier is offline unless an Esplora URL is configured; its timeout is a duration in
  nanoseconds, a product of \<open>int64\<close> values.\<close>

definition seconds :: "int \<Rightarrow> int" where
  "seconds n = sint (word_of_int n * word_of_int second :: 64 word)"

definition wire_cv :: "Config \<Rightarrow> ('e, 'i) deps \<Rightarrow> 'e storage \<Rightarrow> ('e, 'i) cv_service" where
  "wire_cv cfg D store = \<lparr>cs_platform = dp_platform D, cs_store = store,
     cs_otsClient = Some (ots_interface \<lparr>oc_platform = dp_platform D, oc_lib = dp_otslib D,
       oc_calendars = default_calendars, oc_do = dp_ots_do D\<rparr>),
     cs_verifier = Some (if cf_OTSEsploraURL cfg \<noteq> ''''
       then Some (dp_esplora D (cf_OTSEsploraURL cfg) (seconds (cf_OTSEsploraTimeoutSeconds cfg)))
       else None),
     cs_lib = dp_otslib D\<rparr>"

definition wire_lnbits :: "Config \<Rightarrow> lnbits_client" where
  "wire_lnbits cfg = \<lparr>lb_url = cf_LNBitsURL cfg, lb_apiKey = cf_LNBitsAPIKey cfg,
     lb_webhookURL = cf_WebhookURL cfg, lb_adminKey = cf_LNBitsAdminKey cfg,
     lb_holdExpiry = cf_HoldInvoiceExpirySeconds cfg\<rparr>"

definition wire_deals :: "Config \<Rightarrow> ('e, 'i) deps \<Rightarrow> 'e storage \<Rightarrow> 'e svc" where
  "wire_deals cfg D store = \<lparr>sv_platform = dp_platform D, sv_lnbits = wire_lnbits cfg,
     sv_key = cf_PreimageEncryptionKey cfg, sv_cv = Some (CV_AnchorReleasedDeal (wire_cv cfg D store)),
     sv_storage = Some store, sv_maxUploadBytes = word_of_int (cf_MaxUploadBytes cfg),
     sv_notifier = True\<rparr>"

definition wire_app :: "Config \<Rightarrow> ('e, 'i) deps \<Rightarrow> 'e storage \<Rightarrow> ('e, 'i) app" where
  "wire_app cfg D store = \<lparr>ap_deals = wire_deals cfg D store, ap_auth = wire_auth cfg D,
     ap_cv = wire_cv cfg D store, ap_webhookSecret = cf_LNBitsWebhookSecret cfg,
     ap_unmarshal = dp_unmarshal D, ap_by_extension = dp_by_extension D\<rparr>"

text \<open>\<open>setupRouter\<close>; a \<open>log.Fatalf\<close> or a panic ends the process and is the error.\<close>

definition setupRouter ::
  "Config \<Rightarrow> ('e, 'i) deps \<Rightarrow> 'e storage \<Rightarrow> ('e world, ('e, 'i) app \<times> limiters) prog" where
  "setupRouter cfg D store =
     (if \<not> dp_cors_ok D (cf_FrontendURLs cfg) then fail (new_err ''cors: invalid configuration'')
      else
        bindE (wrapE (wrapf ''promoting operators: '')
                 (Service_ApplyOperatorRole (wire_auth cfg D) (cf_OperatorEmails cfg))) (\<lambda>_.
          ret (wire_app cfg D store, new_limiters)))"

section \<open>Routes\<close>

datatype gate = LimitAuth | LimitPublic | LimitWebhook | RequireToken | RequireOperator

datatype endpoint =
    EpSignup | EpLogin | EpLogout | EpRefreshToken | EpHealth | EpMe
  | EpCreateDeal | EpListDeals | EpGetDeal | EpCheckPayment | EpUpdateStatus | EpSubmitWork
  | EpApprove | EpDispute | EpPayeeInvoice | EpRotateShareLink
  | EpPublicDeal | EpPublicApprove
  | EpCreateArtifact | EpListArtifacts | EpGetArtifact | EpDownloadArtifact | EpDeleteArtifact
  | EpCreateVerification | EpListVerifications | EpGetVerification
  | EpListDisputes | EpResolve | EpReconcile
  | EpWebhook | EpProfile | EpVerifyEntry

type_synonym route = "string \<times> string \<times> endpoint"

definition auth_routes :: "route list" where
  "auth_routes = [(''POST'', ''/signup'', EpSignup), (''POST'', ''/login'', EpLogin),
     (''POST'', ''/logout'', EpLogout), (''POST'', ''/refresh-token'', EpRefreshToken)]"

definition protected_auth_routes :: "route list" where
  "protected_auth_routes = [(''GET'', ''/me'', EpMe)]"

definition deal_routes :: "route list" where
  "deal_routes = [(''POST'', '''', EpCreateDeal), (''GET'', '''', EpListDeals),
     (''GET'', ''/:dealID'', EpGetDeal), (''GET'', ''/:dealID/payment'', EpCheckPayment),
     (''PATCH'', ''/:dealID/status'', EpUpdateStatus), (''POST'', ''/:dealID/submit'', EpSubmitWork),
     (''POST'', ''/:dealID/approve'', EpApprove), (''POST'', ''/:dealID/dispute'', EpDispute),
     (''PATCH'', ''/:dealID/payee-invoice'', EpPayeeInvoice),
     (''POST'', ''/:dealID/share-link'', EpRotateShareLink)]"

definition public_routes :: "route list" where
  "public_routes = [(''GET'', ''/deals/:shareToken'', EpPublicDeal),
     (''POST'', ''/deals/:shareToken/approve'', EpPublicApprove)]"

definition artifact_routes :: "route list" where
  "artifact_routes = [(''POST'', '''', EpCreateArtifact), (''GET'', '''', EpListArtifacts),
     (''GET'', ''/:artifactID'', EpGetArtifact), (''GET'', ''/:artifactID/download'', EpDownloadArtifact),
     (''DELETE'', ''/:artifactID'', EpDeleteArtifact)]"

definition verification_routes :: "route list" where
  "verification_routes = [(''POST'', '''', EpCreateVerification), (''GET'', '''', EpListVerifications),
     (''GET'', ''/:verificationID'', EpGetVerification)]"

definition dispute_routes :: "route list" where
  "dispute_routes = [(''GET'', '''', EpListDisputes), (''POST'', ''/:dealID/resolve'', EpResolve)]"

definition reconcile_routes :: "route list" where
  "reconcile_routes = [(''POST'', ''/:dealID/reconcile'', EpReconcile)]"

definition cv_routes :: "route list" where
  "cv_routes = [(''GET'', ''/cv/:slug'', EpProfile), (''GET'', ''/cv/:slug/verify/:entryID'', EpVerifyEntry)]"

text \<open>The groups: the gates in the order they run, the prefix, the routes.\<close>

definition groups :: "(gate list \<times> string \<times> route list) list" where
  "groups = [
     ([LimitAuth], ''/auth'', auth_routes),
     ([], '''', [(''GET'', ''/health'', EpHealth)]),
     ([RequireToken], ''/auth'', protected_auth_routes),
     ([RequireToken], ''/deals'', deal_routes),
     ([LimitPublic], ''/public'', public_routes),
     ([RequireToken], ''/deals/:dealID/artifacts'', artifact_routes),
     ([RequireToken], ''/deals/:dealID/artifacts/:artifactID/verifications'', verification_routes),
     ([RequireToken, RequireOperator], ''/disputes'', dispute_routes),
     ([RequireToken, RequireOperator], ''/deals'', reconcile_routes),
     ([LimitWebhook], ''/webhooks'', [(''POST'', ''/lnbits'', EpWebhook)]),
     ([], '''', cv_routes)]"

definition route_table :: "(string \<times> string \<times> gate list \<times> endpoint) list" where
  "route_table =
     concat (map (\<lambda>(gs, prefix, rs). map (\<lambda>(meth, path, ep). (meth, prefix @ path, gs, ep)) rs) groups)"

definition gates_of :: "endpoint \<Rightarrow> gate list" where
  "gates_of ep =
     (case find (\<lambda>(meth, path, gs, e). e = ep) route_table of
        None \<Rightarrow> [] | Some (meth, path, gs, e) \<Rightarrow> gs)"

lemmas table_defs = route_table_def groups_def auth_routes_def protected_auth_routes_def
  deal_routes_def public_routes_def artifact_routes_def verification_routes_def dispute_routes_def
  reconcile_routes_def cv_routes_def

text \<open>No two routes share a method and a path, and every endpoint has one route.\<close>

lemma routes_distinct: "distinct (map (\<lambda>(meth, path, gs, ep). (meth, path)) route_table)"
  by (simp add: table_defs)

lemma routes_total: "(\<exists>meth path gs. (meth, path, gs, ep) \<in> set route_table)"
  by (cases ep) (auto simp: table_defs)

section \<open>Serving a request\<close>

text \<open>A request that matched a route: the headers the program reads, the client's address, the path
  parameters, the body, and what \<open>mime/multipart\<close> makes of the body under a limit.\<close>

record http_call =
  hc_authorization :: string
  hc_signature :: string
  hc_clientIP :: string
  hc_param :: "string \<Rightarrow> string"
  hc_body :: reader
  hc_multipart :: "int option \<Rightarrow> (part list \<times> parts_end) option"

text \<open>The request context before \<open>AuthRequired\<close>: \<open>GetString\<close> and \<open>GetBool\<close> yield zero values.\<close>

definition no_claims :: Claims where
  "no_claims = \<lparr>cl_UserID = '''', cl_Email = '''', cl_IsOperator = False, cl_ExpiresAt = 0,
     cl_IssuedAt = 0, cl_ID = ''''\<rparr>"

definition as_reply :: "('w, response) prog \<Rightarrow> ('w, http_reply) prog" where
  "as_reply m = bindE m (\<lambda>r. ret (Reply r))"

fun handle :: "('e, 'i) app \<Rightarrow> endpoint \<Rightarrow> http_call \<Rightarrow> Claims \<Rightarrow> ('e world, http_reply) prog" where
  "handle a EpSignup c cl = as_reply (Handler_Signup (ap_auth a) (rd_content (hc_body c)))"
| "handle a EpLogin c cl = as_reply (Handler_Login (ap_auth a) (rd_content (hc_body c)))"
| "handle a EpLogout c cl = as_reply (Handler_Logout (ap_auth a) (rd_content (hc_body c)))"
| "handle a EpRefreshToken c cl = as_reply (Handler_RefreshToken (ap_auth a) (rd_content (hc_body c)))"
| "handle a EpHealth c cl =
     as_reply (Health_Handler (sv_platform (ap_deals a)) (Some (sv_lnbits (ap_deals a))))"
| "handle a EpMe c cl = as_reply (Handler_GetMe (ap_auth a) (cl_UserID cl))"
| "handle a EpCreateDeal c cl =
     as_reply (Handler_CreateDeal (ap_deals a) (cl_UserID cl) (rd_content (hc_body c)))"
| "handle a EpListDeals c cl = as_reply (Handler_ListDeals (ap_deals a) (cl_UserID cl) (cl_Email cl))"
| "handle a EpGetDeal c cl =
     as_reply (Handler_GetDealByID (ap_deals a) (cl_UserID cl) (cl_Email cl) (hc_param c ''dealID''))"
| "handle a EpCheckPayment c cl =
     as_reply (Handler_CheckPayment (ap_deals a) (cl_UserID cl) (hc_param c ''dealID''))"
| "handle a EpUpdateStatus c cl =
     as_reply (Handler_UpdateDealStatus (ap_deals a) (cl_UserID cl) (hc_param c ''dealID'')
       (rd_content (hc_body c)))"
| "handle a EpSubmitWork c cl =
     as_reply (Handler_SubmitWork (ap_deals a) (cl_UserID cl) (hc_param c ''dealID''))"
| "handle a EpApprove c cl =
     as_reply (Handler_ApproveDeal (ap_deals a) (cl_Email cl) (hc_param c ''dealID''))"
| "handle a EpDispute c cl =
     as_reply (Handler_DisputeDeal (ap_deals a) (cl_Email cl) (hc_param c ''dealID'')
       (rd_content (hc_body c)))"
| "handle a EpPayeeInvoice c cl =
     as_reply (Handler_UpdatePayeeInvoice (ap_deals a) (cl_UserID cl) (hc_param c ''dealID'')
       (rd_content (hc_body c)))"
| "handle a EpRotateShareLink c cl =
     as_reply (Handler_RotateShareLink (ap_deals a) (cl_UserID cl) (hc_param c ''dealID''))"
| "handle a EpPublicDeal c cl =
     as_reply (Handler_GetPublicDeal (ap_deals a) (hc_param c ''shareToken''))"
| "handle a EpPublicApprove c cl =
     as_reply (Handler_PublicApproveDeal (ap_deals a) (hc_param c ''shareToken''))"
| "handle a EpCreateArtifact c cl =
     as_reply (Handler_CreateArtifact (ap_deals a) (cl_UserID cl) (hc_param c ''dealID'') (hc_multipart c))"
| "handle a EpListArtifacts c cl =
     as_reply (Handler_ListArtifactsByDeal (ap_deals a) (cl_UserID cl) (cl_Email cl) (hc_param c ''dealID''))"
| "handle a EpGetArtifact c cl =
     as_reply (Handler_GetArtifactByID (ap_deals a) (cl_UserID cl) (cl_Email cl) (hc_param c ''dealID'')
       (hc_param c ''artifactID''))"
| "handle a EpDownloadArtifact c cl =
     Handler_DownloadArtifact (ap_deals a) (ap_by_extension a) (cl_UserID cl) (cl_Email cl)
       (hc_param c ''dealID'') (hc_param c ''artifactID'')"
| "handle a EpDeleteArtifact c cl =
     Handler_DeleteArtifact (ap_deals a) (cl_UserID cl) (hc_param c ''dealID'') (hc_param c ''artifactID'')"
| "handle a EpCreateVerification c cl =
     as_reply (Handler_CreateVerification (ap_deals a) (cl_UserID cl) (hc_param c ''artifactID'')
       (rd_content (hc_body c)))"
| "handle a EpListVerifications c cl =
     as_reply (Handler_ListVerificationsByArtifact (ap_deals a) (cl_UserID cl) (hc_param c ''artifactID''))"
| "handle a EpGetVerification c cl =
     as_reply (Handler_GetVerificationByID (ap_deals a) (cl_UserID cl) (hc_param c ''dealID'')
       (hc_param c ''artifactID'') (hc_param c ''verificationID''))"
| "handle a EpListDisputes c cl = as_reply (Handler_ListDisputes (ap_deals a))"
| "handle a EpResolve c cl =
     as_reply (Handler_ResolveDispute (ap_deals a) (cl_Email cl) (hc_param c ''dealID'')
       (rd_content (hc_body c)))"
| "handle a EpReconcile c cl =
     as_reply (Handler_ReconcileDeal (ap_deals a) (cl_Email cl) (hc_param c ''dealID'')
       (rd_content (hc_body c)))"
| "handle a EpWebhook c cl =
     as_reply (HandleLNbitsWebhook (ap_deals a) (ap_unmarshal a) (ap_webhookSecret a) (hc_body c)
       (hc_signature c))"
| "handle a EpProfile c cl = as_reply (CV_Handler_GetProfile (ap_cv a) (hc_param c ''slug''))"
| "handle a EpVerifyEntry c cl =
     as_reply (CV_Handler_VerifyEntry (ap_cv a) (hc_param c ''slug'') (hc_param c ''entryID''))"

text \<open>The gates, in order: each lets the request through, possibly with claims in its context, or
  answers it. All three limiters are keyed by the client's address.\<close>

type_synonym 'e server = "limiters \<times> 'e world"

fun pass_gate ::
  "('e, 'i) app \<Rightarrow> gate \<Rightarrow> http_call \<Rightarrow> Claims \<Rightarrow> 'e server \<Rightarrow> (response + Claims) \<times> 'e server" where
  "pass_gate a LimitAuth c cl (l, w) =
     (case clock (sv_platform (ap_deals a)) (w_ext w) of (now, e) \<Rightarrow>
      case rate_gate (lm_auth l) (hc_clientIP c) (hc_clientIP c) now of (r, rl) \<Rightarrow>
        (case r of None \<Rightarrow> Inr cl | Some x \<Rightarrow> Inl x, l\<lparr>lm_auth := rl\<rparr>, w\<lparr>w_ext := e\<rparr>))"
| "pass_gate a LimitPublic c cl (l, w) =
     (case clock (sv_platform (ap_deals a)) (w_ext w) of (now, e) \<Rightarrow>
      case rate_gate (lm_public l) (hc_clientIP c) (hc_clientIP c) now of (r, rl) \<Rightarrow>
        (case r of None \<Rightarrow> Inr cl | Some x \<Rightarrow> Inl x, l\<lparr>lm_public := rl\<rparr>, w\<lparr>w_ext := e\<rparr>))"
| "pass_gate a LimitWebhook c cl (l, w) =
     (case clock (sv_platform (ap_deals a)) (w_ext w) of (now, e) \<Rightarrow>
      case rate_gate (lm_webhook l) (hc_clientIP c) (hc_clientIP c) now of (r, rl) \<Rightarrow>
        (case r of None \<Rightarrow> Inr cl | Some x \<Rightarrow> Inl x, l\<lparr>lm_webhook := rl\<rparr>, w\<lparr>w_ext := e\<rparr>))"
| "pass_gate a RequireToken c cl (l, w) =
     (case AuthRequired (ap_auth a) (hc_authorization c) w of
        (Inl e, w') \<Rightarrow> (Inl server_error, l, w')
      | (Inr r, w') \<Rightarrow> (r, l, w'))"
| "pass_gate a RequireOperator c cl (l, w) =
     (case OperatorRequired cl of Some x \<Rightarrow> (Inl x, l, w) | None \<Rightarrow> (Inr cl, l, w))"

fun pass_gates ::
  "('e, 'i) app \<Rightarrow> gate list \<Rightarrow> http_call \<Rightarrow> Claims \<Rightarrow> 'e server \<Rightarrow> (response + Claims) \<times> 'e server" where
  "pass_gates a [] c cl st = (Inr cl, st)"
| "pass_gates a (g # gs) c cl st =
     (case pass_gate a g c cl st of
        (Inl r, st') \<Rightarrow> (Inl r, st')
      | (Inr cl', st') \<Rightarrow> pass_gates a gs c cl' st')"

definition serve_http :: "('e, 'i) app \<Rightarrow> endpoint \<Rightarrow> http_call \<Rightarrow> 'e server \<Rightarrow> http_reply \<times> 'e server" where
  "serve_http a ep c st =
     (case pass_gates a (gates_of ep) c no_claims st of
        (Inl r, st') \<Rightarrow> (Reply r, st')
      | (Inr cl, (l, w)) \<Rightarrow>
          (case handle a ep c cl w of
             (Inl e, w') \<Rightarrow> (Reply server_error, l, w')
           | (Inr reply, w') \<Rightarrow> (reply, l, w')))"

end
