(* ===== verification/Webhook_Properties.thy ===== *)
theory Webhook_Properties
  imports Webhook Requests Demo_Run
begin

text \<open>
  What a webhook call can do: lock a deal whose payment LNbits confirms in the same call, and
  nothing else; which signature headers are accepted; and that replays are harmless.
\<close>

section \<open>What a notification does\<close>

lemma by_checking_run:
  assumes "Repo_GetDealByCheckingID P key cid w = (r, w')"
  shows "w_db w' = w_db w" "w_log w' = w_log w"
    and "r = Inr deal \<Longrightarrow> \<exists>row. select_row (\<lambda>r. c_checking_id r = Some cid) (t_deals (w_db w)) = Some row \<and>
      ID deal = c_id row"
proof -
  show "w_db w' = w_db w" using assms by (rule same_dbD) (rule keeps_db)
  show "w_log w' = w_log w" using assms by (rule same_logD) (rule keeps_log)
  show "\<exists>row. select_row (\<lambda>r. c_checking_id r = Some cid) (t_deals (w_db w)) = Some row \<and>
      ID deal = c_id row" if "r = Inr deal"
    using assms that unfolding Repo_GetDealByCheckingID_def
    by (auto elim!: select_deal_Inr dest: scanDeal_ID)
qed

lemma HandlePayment_effect:
  assumes "HandlePayment s n w = (r, w')"
  obtains (same) evs where "w_db w' = w_db w" "w_log w' = w_log w @ evs"
      "\<forall>ev \<in> set evs. \<exists>i res. ev = EvHttp (check_request (sv_lnbits s) i) res"
  | (locked) evs ns row now where
      "select_row (\<lambda>r. c_checking_id r = Some (pn_CheckingID n)) (t_deals (w_db w)) = Some row"
      "w_log w' = w_log w @ evs @ ns"
      "\<exists>ev. evs = [ev] \<and> payment_answer s (pn_CheckingID n) cp_Paid ev"
      "w_db w' = upd_deal (c_id row) (cas_row StatusAwaitingPayment (set_status StatusLocked now)) (w_db w)"
      "ns \<noteq> [] \<Longrightarrow> (\<exists>q. find_deal (c_id row) (w_db w) = Some q \<and> c_status q = StatusAwaitingPayment) \<and>
        (\<exists>d. ns = [EvNotify PaymentLocked d])"
proof (cases "pn_CheckingID n = ''''")
  case True
  with assms same [of "[]"] show thesis by (simp add: HandlePayment_def)
next
  case False
  let ?cid = "pn_CheckingID n" and ?P = "sv_platform s"
  obtain q w1 where check: "Client_CheckPayment ?P (sv_lnbits s) ?cid w = (q, w1)"
    by (cases "Client_CheckPayment ?P (sv_lnbits s) ?cid w")
  then obtain evs where evs: "w_db w1 = w_db w" "w_log w1 = w_log w @ evs"
    "\<forall>ev \<in> set evs. \<exists>res. ev = EvHttp (check_request (sv_lnbits s) ?cid) res"
    "\<And>p. q = Inr p \<Longrightarrow> \<exists>ev. evs = [ev] \<and> payment_answer s ?cid (\<lambda>q. q = p) ev"
    by (rule CheckPayment_run) blast
  have quiet: thesis if "w_db w' = w_db w1" "w_log w' = w_log w1"
    using that evs(1,2) by (intro same [of evs]) (simp, simp, use evs(3) in blast)
  show thesis
  proof (cases "\<exists>p. q = Inr p \<and> cp_Paid p")
    case no: False
    with assms False check have "w' = w1"
      by (cases q) (auto simp: HandlePayment_def bindE_def wrapE_def)
    then show thesis by (intro quiet) auto
  next
    case True
    then obtain p where p: "q = Inr p" "cp_Paid p" by blast
    obtain d w2 where get: "Repo_GetDealByCheckingID ?P (sv_key s) ?cid w1 = (d, w2)"
      by (cases "Repo_GetDealByCheckingID ?P (sv_key s) ?cid w1")
    note g = by_checking_run [OF get]
    show thesis
    proof (cases d)
      case (Inl e)
      with assms False check p get have "w' = w2"
        by (auto simp: HandlePayment_def bindE_def wrapE_def)
      with g show thesis by (intro quiet) auto
    next
      case (Inr deal)
      with g(3) obtain row where row: "select_row (\<lambda>r. c_checking_id r = Some ?cid) (t_deals (w_db w1)) = Some row"
        "ID deal = c_id row" by blast
      obtain b w3 where cas: "Repo_UpdateStatusIfCurrent ?P (c_id row) StatusAwaitingPayment StatusLocked w2 = (b, w3)"
        by (cases "Repo_UpdateStatusIfCurrent ?P (c_id row) StatusAwaitingPayment StatusLocked w2")
      obtain u w4 where nt: "notify s PaymentLocked deal w3 = (u, w4)" by (cases "notify s PaymentLocked deal w3")
      have run: "(if b = Inr True then notify s PaymentLocked deal else (\<lambda>w. (r, w))) w3 = (r, w')"
        using assms False check p get Inr cas row(2)
        by (auto simp: HandlePayment_def bindE_def wrapE_def split: sum.splits if_splits)
      from cas show thesis
      proof (cases rule: StatusIfCurrent_run)
        case (failed e)
        with run g show thesis by (intro quiet) auto
      next
        case (ran now)
        obtain ns where ns: "w_db w' = w_db w3" "w_log w' = w_log w3 @ ns"
          "ns \<noteq> [] \<Longrightarrow> b = Inr True \<and> ns = [EvNotify PaymentLocked deal]"
        proof (cases "b = Inr True")
          case True
          with run have "notify s PaymentLocked deal w3 = (r, w')" by simp
          from notify_run [OF this] True that show thesis by (auto split: if_splits)
        next
          case False
          with run that [of "[]"] show thesis by simp
        qed
        from evs(4) [OF p(1)] obtain ev where "evs = [ev]" "payment_answer s ?cid (\<lambda>q. q = p) ev" by blast
        then have "\<exists>ev. evs = [ev] \<and> payment_answer s ?cid cp_Paid ev"
          using payment_answer_mono [of s ?cid "\<lambda>q. q = p" ev cp_Paid] p(2) by auto
        moreover have "(\<exists>q. find_deal (c_id row) (w_db w) = Some q \<and> c_status q = StatusAwaitingPayment) \<and>
            (\<exists>d. ns = [EvNotify PaymentLocked d])" if "ns \<noteq> []"
          using ns(3) [OF that] ran(3) [of True] g(1) evs(1) by auto
        ultimately show thesis using ns(1,2) ran(1,2) evs(1,2) g(1,2) row by (intro locked) simp_all
      qed
    qed
  qed
qed

text \<open>The handler always answers, and what it does to the world is what one notification does.\<close>

lemma webhook_run:
  assumes "HandleLNbitsWebhook s unm secret body hdr w = (r, w')"
  obtains (turned_down) resp where "r = Inr resp" "fst resp \<in> {400, 401, 413}" "w_db w' = w_db w" "w_log w' = w_log w"
  | (handled) raw now w1 n q resp where "read_capped body maxWebhookBodyBytes = Body raw"
      "secret \<noteq> '''' \<Longrightarrow> VerifyLNbitsSignature (sv_platform s) now raw hdr secret"
      "w_db w1 = w_db w" "w_log w1 = w_log w" "HandlePayment s n w1 = (q, w')"
      "r = Inr resp" "resp = (case q of Inl e \<Rightarrow> webhook_error e | Inr _ \<Rightarrow> (200, JObj [(''status'', JStr ''ok'')]))"
      "decode_notification (sv_platform s) (the (json_object (the (unm raw)))) = Some n"
proof (cases "read_capped body maxWebhookBodyBytes")
  case TooLarge
  with assms turned_down show thesis by (auto simp: HandleLNbitsWebhook_def json_error_def)
next
  case ReadFailed
  with assms turned_down show thesis by (auto simp: HandleLNbitsWebhook_def json_error_def)
next
  case (Body raw)
  let ?sig = "if secret = '''' then ret True else bindE (time_now (sv_platform s)) (\<lambda>now.
    ret (VerifyLNbitsSignature (sv_platform s) now raw hdr secret))"
  obtain b w1 now where sig: "?sig w = (Inr b, w1)" "w_db w1 = w_db w" "w_log w1 = w_log w"
    "secret \<noteq> '''' \<Longrightarrow> b = VerifyLNbitsSignature (sv_platform s) now raw hdr secret" "secret = '''' \<Longrightarrow> b"
  proof (cases "secret = ''''")
    case False
    obtain q w1 where t: "time_now (sv_platform s) w = (q, w1)" by (cases "time_now (sv_platform s) w")
    from time_now_run [OF t] obtain now where "q = Inr now" "w_db w1 = w_db w" "w_log w1 = w_log w" by auto
    with t False that [of "VerifyLNbitsSignature (sv_platform s) now raw hdr secret" w1 now] show thesis
      by (simp add: bindE_def)
  qed (use that in simp)
  let ?n = "Option.bind (Option.bind (unm raw) json_object) (decode_notification (sv_platform s))"
  show thesis
  proof (cases "b \<and> ?n \<noteq> None")
    case False
    with assms Body sig have "w' = w1" "\<exists>resp. r = Inr resp \<and> fst resp \<in> {400, 401, 413}"
      by (auto simp: HandleLNbitsWebhook_def bindE_def json_error_def split: option.splits if_splits)
    with sig turned_down show thesis by auto
  next
    case True
    then obtain n where n: "b" "?n = Some n" by auto
    then have dec: "decode_notification (sv_platform s) (the (json_object (the (unm raw)))) = Some n"
      by (cases "unm raw") (auto simp: bind_eq_Some_conv)
    obtain q w2 where h: "HandlePayment s n w1 = (q, w2)" by (cases "HandlePayment s n w1")
    with assms Body sig(1) n have "w' = w2"
      "r = Inr (case q of Inl e \<Rightarrow> webhook_error e | Inr _ \<Rightarrow> (200, JObj [(''status'', JStr ''ok'')]))"
      by (auto simp: HandleLNbitsWebhook_def bindE_def bindR_def split: sum.splits)
    with handled [of raw now w1 n q] h sig n Body dec show thesis by auto
  qed
qed

text \<open>C17: a webhook call, whatever it carries and whoever sends it, can only lock a deal that awaits
  payment, and only when LNbits itself, asked during this call, reports the payment of that deal's
  checking id as paid; with a secret configured the call must be signed as well. It never moves money.\<close>

theorem webhook_locks_only_paid:
  assumes "HandleLNbitsWebhook s unm secret body hdr w = (r, w')"
  shows "\<exists>evs resp. r = Inr resp \<and> w_log w' = w_log w @ evs \<and>
    (\<forall>ev \<in> set evs. \<not> money_event (sv_lnbits s) ev) \<and>
    (w_db w' = w_db w \<or>
     (\<exists>ev \<in> set evs. \<exists>row cid now now'. c_checking_id row = Some cid \<and> row \<in> set (t_deals (w_db w)) \<and>
        payment_answer s cid cp_Paid ev \<and>
        w_db w' = upd_deal (c_id row) (cas_row StatusAwaitingPayment (set_status StatusLocked now)) (w_db w) \<and>
        (secret \<noteq> '''' \<longrightarrow> VerifyLNbitsSignature (sv_platform s) now' (rd_content body) hdr secret)))"
  using assms
proof (cases rule: webhook_run)
  case (handled raw t w1 n q resp)
  have raw: "raw = rd_content body"
    using handled(1) by (auto simp: read_capped_def split: if_splits option.splits)
  from handled(5) show ?thesis
  proof (cases rule: HandlePayment_effect)
    case (same evs)
    then have "\<forall>ev \<in> set evs. \<not> money_event (sv_lnbits s) ev" by auto
    with same handled show ?thesis by auto
  next
    case (locked evs ns row now)
    then obtain ev where ev: "evs = [ev]" "payment_answer s (pn_CheckingID n) cp_Paid ev" by blast
    have "row \<in> set (t_deals (w_db w))" "c_checking_id row = Some (pn_CheckingID n)"
      using locked(1) handled(3) by (auto dest: select_row_Some)
    moreover have "\<forall>x \<in> set (evs @ ns). \<not> money_event (sv_lnbits s) x"
      using locked(5) ev by (cases "ns = []") (auto simp: payment_answer_def)
    moreover have "w_log w' = w_log w @ evs @ ns"
      "w_db w' = upd_deal (c_id row) (cas_row StatusAwaitingPayment (set_status StatusLocked now)) (w_db w)"
      using locked(2,4) handled(3,4) by simp_all
    moreover have "secret \<noteq> '''' \<longrightarrow> VerifyLNbitsSignature (sv_platform s) t (rd_content body) hdr secret"
      using handled(2) raw by simp
    ultimately show ?thesis using handled(6) ev
      by (intro exI [of _ "evs @ ns"] exI [of _ resp] conjI disjI2 bexI [of _ ev] exI [of _ row]
          exI [of _ "pn_CheckingID n"] exI [of _ now] exI [of _ t]) simp_all
  qed
qed (use assms in auto)

section \<open>Signatures that LNbits makes\<close>

lemma show_int_free: "c \<in> set (show_int i) \<Longrightarrow> digit c \<or> c = CHR ''-''"
  using decimal_show [of "nat i"] decimal_show [of "nat (- i)"]
  by (auto simp: show_int_def list_all_iff split: if_splits)

lemma hex_free: "c \<in> set (hex_EncodeToString s) \<Longrightarrow> c \<noteq> CHR '',''"
  using hex_EncodeToString_chars [of c s] by auto

lemma cut_append: "c \<notin> set k \<Longrightarrow> cut c (k @ c # v) = Some (k, v)"
  by (induction k) (auto simp: cut_def split: if_splits)

lemma trim_names [simp]: "TrimSpace ''t'' = ''t''" "TrimSpace ''v1'' = ''v1''"
  by (simp_all add: TrimSpace_ascii bytes_def of_bytes_def IsSpace_def char_of_def bit_0)

text \<open>A header in the documented form, \<open>t=<unix time>,v1=<hex of the MAC>\<close>, is accepted exactly when
  the time is within five minutes of now and the MAC is the HMAC of \<open><time>.<body>\<close> under the secret.\<close>

theorem signature_documented_form:
  assumes "secret \<noteq> ''''" and "- (2 ^ 63) \<le> t" and "t < 2 ^ 63"
  shows "VerifyLNbitsSignature P now body (''t='' @ show_int t @ '',v1='' @ hex_EncodeToString mac) secret \<longleftrightarrow>
    \<bar>now - t * second\<bar> \<le> signatureTolerance \<and> hmac_sha256 P secret (show_int t @ ''.'' @ body) = mac"
proof -
  let ?t = "''t='' @ show_int t" and ?v = "''v1='' @ hex_EncodeToString mac"
  have tf: "CHR '','' \<notin> set ?t" using show_int_free [of "CHR '',''" t] by (auto simp: digit_def)
  have vf: "CHR '','' \<notin> set ?v" using hex_free [of "CHR '',''" mac] by auto
  have "split_on (CHR '','') (?t @ CHR '','' # ?v) = split_on (CHR '','') ?t @ split_on (CHR '','') ?v"
    by (rule split_on_append)
  then have "split_on (CHR '','') (?t @ CHR '','' # ?v) = [?t, ?v]"
    using split_on_plain [OF tf] split_on_plain [OF vf] by simp
  moreover have "cut (CHR ''='') ?t = Some (''t'', show_int t)"
    using cut_append [of "CHR ''=''" "''t''" "show_int t"] by simp
  moreover have "cut (CHR ''='') ?v = Some (''v1'', hex_EncodeToString mac)"
    using cut_append [of "CHR ''=''" "''v1''" "hex_EncodeToString mac"] by simp
  ultimately have items: "signature_items (split_on (CHR '','') (''t='' @ show_int t @ '',v1='' @ hex_EncodeToString mac)) Map.empty
      = Some [''t'' \<mapsto> show_int t, ''v1'' \<mapsto> hex_EncodeToString mac]"
    by simp
  from assms ParseInt64_show [OF assms(2,3)] show ?thesis
    unfolding VerifyLNbitsSignature_def items
    by (auto simp: item_def hex_round_trip Let_def abs_le_iff)
qed

section \<open>Replays\<close>

lemma select_update:
  assumes "\<And>r. p (g r) = p r"
  shows "select_row p (map g rs) = map_option g (select_row p rs)"
  using assms by (induction rs) (auto simp: select_row_def)

lemma cas_idle:
  assumes "\<forall>r \<in> set (t_deals d). c_id r = j \<longrightarrow> c_status r \<noteq> ex"
  shows "upd_deal j (cas_row ex g) d = d"
proof -
  have "update_rows (\<lambda>r. c_id r = j) (cas_row ex g) (t_deals d) = t_deals d"
    unfolding update_rows_def by (rule map_idI) (use assms in \<open>auto simp: cas_row_def\<close>)
  then show ?thesis by (simp add: upd_deal_def)
qed

text \<open>C18: a replayed notification is harmless: once a call has announced a payment, a further call
  with the same body on the same deals changes no deal and announces nothing.\<close>

theorem webhook_replay:
  assumes first: "HandleLNbitsWebhook s unm secret body hdr w = (r, w1)"
    and announced: "EvNotify PaymentLocked d \<in> set (drop (length (w_log w)) (w_log w1))"
    and deals: "t_deals (w_db w2) = t_deals (w_db w1)"
    and again: "HandleLNbitsWebhook s unm secret body hdr' w2 = (r', w3)"
  shows "t_deals (w_db w3) = t_deals (w_db w2) \<and>
    (\<forall>n d. EvNotify n d \<notin> set (drop (length (w_log w2)) (w_log w3)))"
proof -
  from first obtain raw u1 n q where one: "read_capped body maxWebhookBodyBytes = Body raw"
    "w_db u1 = w_db w" "w_log u1 = w_log w" "HandlePayment s n u1 = (q, w1)"
    "decode_notification (sv_platform s) (the (json_object (the (unm raw)))) = Some n"
    by (cases rule: webhook_run) (use announced in auto)
  from one(4) obtain row now p where lock:
    "select_row (\<lambda>r. c_checking_id r = Some (pn_CheckingID n)) (t_deals (w_db w)) = Some row"
    "w_db w1 = upd_deal (c_id row) (cas_row StatusAwaitingPayment (set_status StatusLocked now)) (w_db w)"
    by (cases rule: HandlePayment_effect) (use announced one(2,3) in auto)
  let ?g = "\<lambda>r. if c_id r = c_id row then cas_row StatusAwaitingPayment (set_status StatusLocked now) r else r"
  have "t_deals (w_db w1) = map ?g (t_deals (w_db w))"
    by (simp add: lock(2) upd_deal_def update_rows_def)
  note rows = this
  from rows have sel: "select_row (\<lambda>r. c_checking_id r = Some (pn_CheckingID n)) (t_deals (w_db w2)) = Some (?g row)"
    using lock(1) deals by (simp add: select_update cas_row_def set_status_def)
  have past: "\<forall>r \<in> set (t_deals (w_db w2)). c_id r = c_id row \<longrightarrow> c_status r \<noteq> StatusAwaitingPayment"
    using rows deals by (auto simp: cas_row_def set_status_def)
  have idle: "upd_deal (c_id row) (cas_row StatusAwaitingPayment g) (w_db w2) = w_db w2" for g
    by (rule cas_idle [OF past])
  have closed: "c_status q \<noteq> StatusAwaitingPayment" if "find_deal (c_id row) (w_db w2) = Some q" for q
    using past that by (auto simp: find_deal_def dest: select_row_Some)
  from again show ?thesis
  proof (cases rule: webhook_run)
    case (handled raw' now' u2 n' q' resp)
    with one have "HandlePayment s n u2 = (q', w3)" by simp
    then show ?thesis
    proof (cases rule: HandlePayment_effect)
      case (locked evs ns row' now2)
      have same: "c_id row' = c_id row"
        using locked(1) sel handled(3) by (auto simp: cas_row_def set_status_def)
      then have "ns = []" using locked(5) closed handled(3) by auto
      with locked same idle handled show ?thesis by (auto simp: payment_answer_def)
    qed (use handled in auto)
  qed auto
qed

section \<open>Concrete calls\<close>

theorem signature_documented_form_witness:
  "VerifyLNbitsSignature demo_platform (7 * second) ''b''
     (''t='' @ show_int 7 @ '',v1='' @ hex_EncodeToString (hmac_sha256 demo_platform ''s'' (show_int 7 @ ''.'' @ ''b''))) ''s''"
  by (subst signature_documented_form) (simp_all add: signatureTolerance_def)

definition demo_unmarshal :: "string \<Rightarrow> json option" where
  "demo_unmarshal = map_of [(''BODY'', JObj [(''checking_id'', JStr ''q'')])]"

definition demo_body :: reader where
  "demo_body = \<lparr>rd_content = ''BODY'', rd_error = None\<rparr>"

definition unpaid_world :: "demo world" where
  "unpaid_world = demo_world [demo_row StatusAwaitingPayment] [answer ''PAID'', answer ''PAID''] []"

lemmas run_webhook = HandleLNbitsWebhook_def HandlePayment_def read_capped_def maxWebhookBodyBytes_def
  decode_notification_def demo_unmarshal_def demo_body_def unpaid_world_def
  Repo_GetDealByCheckingID_def

theorem webhook_locks_only_paid_witness:
  "\<exists>w' row. HandleLNbitsWebhook demo_svc demo_unmarshal '''' demo_body '''' unpaid_world =
      (Inr (200, JObj [(''status'', JStr ''ok'')]), w') \<and>
    t_deals (w_db w') = [row] \<and> c_status row = StatusLocked \<and>
    (\<forall>ev \<in> set (w_log w'). \<not> money_event (sv_lnbits demo_svc) ev)"
proof -
  obtain w' row where run: "HandleLNbitsWebhook demo_svc demo_unmarshal '''' demo_body '''' unpaid_world =
      (Inr (200, JObj [(''status'', JStr ''ok'')]), w')" and "t_deals (w_db w') = [row]" "c_status row = StatusLocked"
    by (simp add: run_webhook run)
  moreover have "w_log unpaid_world = []" by (simp add: unpaid_world_def demo_world_def)
  ultimately show ?thesis using webhook_locks_only_paid [OF run] by auto
qed

theorem webhook_replay_witness:
  "\<exists>w1 w3. HandleLNbitsWebhook demo_svc demo_unmarshal '''' demo_body '''' unpaid_world =
      (Inr (200, JObj [(''status'', JStr ''ok'')]), w1) \<and>
    HandleLNbitsWebhook demo_svc demo_unmarshal '''' demo_body '''' w1 =
      (Inr (200, JObj [(''status'', JStr ''ok'')]), w3) \<and> t_deals (w_db w3) = t_deals (w_db w1)"
proof -
  obtain w1 d where one: "HandleLNbitsWebhook demo_svc demo_unmarshal '''' demo_body '''' unpaid_world =
      (Inr (200, JObj [(''status'', JStr ''ok'')]), w1)"
    and note': "EvNotify PaymentLocked d \<in> set (drop (length (w_log unpaid_world)) (w_log w1))"
    and "\<exists>w3. HandleLNbitsWebhook demo_svc demo_unmarshal '''' demo_body '''' w1 =
      (Inr (200, JObj [(''status'', JStr ''ok'')]), w3)"
    by (simp add: run_webhook run)
  then obtain w3 where two: "HandleLNbitsWebhook demo_svc demo_unmarshal '''' demo_body '''' w1 =
      (Inr (200, JObj [(''status'', JStr ''ok'')]), w3)" by blast
  from webhook_replay [OF one note' refl two] one two show ?thesis by blast
qed

end
