(* ===== verification/Ots_Properties.thy ===== *)
theory Ots_Properties
  imports Ots_Client Demo_Platform
begin

text \<open>
  What the OpenTimestamps module guarantees: what an accepted proof contains, what the chain
  check adds to it, and that upgrading keeps the digest and the confirmed sequences.
\<close>

section \<open>Offline verification\<close>

definition seq_height :: "'i otspkg \<Rightarrow> 'i list \<Rightarrow> 64 word" where
  "seq_height L seq = at_BitcoinBlockHeight (op_GetAttestation L seq)"

definition attested :: "'i otspkg \<Rightarrow> 'i ots_file \<Rightarrow> 'i list set" where
  "attested L f = {seq \<in> set (op_GetBitcoinAttestedSequences L f). seq_height L seq \<noteq> 0}"

definition embeds_tx :: "'i otspkg \<Rightarrow> string \<Rightarrow> 'i list \<Rightarrow> bool" where
  "embeds_tx L hash seq \<longleftrightarrow> snd (op_Compute L seq hash) \<and> length (fst (op_Compute L seq hash)) = 32"

text \<open>The lowest of a set of non-zero heights, zero when there is none.\<close>

definition lowest :: "int set \<Rightarrow> int" where
  "lowest S = (if S = {} then 0 else Min S)"

definition seen :: "int \<Rightarrow> int set" where
  "seen m = (if m = 0 then {} else {m})"

lemma sint_eq_0 [simp]: "sint (x :: 64 word) = 0 \<longleftrightarrow> x = 0"
  by (simp add: signed_eq_0_iff)

lemma lowest_lower:
  assumes "finite S" and "h \<noteq> 0"
  shows "lowest (seen (lower_height m h) \<union> S) = lowest (seen m \<union> insert h S)"
proof (cases "m = 0")
  case True
  with assms(2) show ?thesis by (simp add: seen_def lower_height_def)
next
  case False
  then have "seen (lower_height m h) = {min m h}"
    using assms(2) by (auto simp: seen_def lower_height_def min_def)
  moreover have "Min (insert (min m h) S) = Min (insert m (insert h S))"
    using assms(1) by (cases "S = {}") (auto simp: min.assoc)
  ultimately show ?thesis using False by (simp add: lowest_def seen_def insert_commute)
qed

lemma offline_height_iff:
  "offline_height L hash m seqs = Inr n \<longleftrightarrow>
     (\<forall>seq \<in> set seqs. seq_height L seq \<noteq> 0 \<longrightarrow> embeds_tx L hash seq) \<and>
     n = lowest (seen m \<union> (\<lambda>seq. sint (seq_height L seq)) ` {seq \<in> set seqs. seq_height L seq \<noteq> 0})"
proof (induction seqs arbitrary: m)
  case Nil
  then show ?case by (auto simp: lowest_def seen_def)
next
  case (Cons seq seqs)
  show ?case
  proof (cases "seq_height L seq = 0")
    case True
    then have "{s \<in> set (seq # seqs). seq_height L s \<noteq> 0} = {s \<in> set seqs. seq_height L s \<noteq> 0}" by auto
    with True Cons.IH [of m] show ?thesis by (simp add: seq_height_def Let_def)
  next
    case False
    let ?h = "sint (seq_height L seq)"
    have split: "{s \<in> set (seq # seqs). seq_height L s \<noteq> 0} = insert seq {s \<in> set seqs. seq_height L s \<noteq> 0}"
      using False by auto
    have step: "offline_height L hash m (seq # seqs) =
        (if embeds_tx L hash seq then offline_height L hash (lower_height m ?h) seqs
         else Inl (errorf Ots_ErrInvalidProof '': attested sequence does not embed a bitcoin transaction''))"
      using False by (auto simp: seq_height_def embeds_tx_def sha256Size_def Let_def split: prod.split)
    have "?h \<noteq> 0" using False by simp
    with Cons.IH [of "lower_height m ?h"] show ?thesis
      unfolding step split
      by (simp add: lowest_lower [of "(\<lambda>s. sint (seq_height L s)) ` {s \<in> set seqs. seq_height L s \<noteq> 0}"])
  qed
qed

text \<open>C40: the offline verification accepts a proof exactly when it parses, was made for this 32-byte
  digest, has a sequence attested at a non-zero height, and every such sequence replays to a
  transaction and a 32-byte root; it reports the lowest height, read as a signed number.\<close>

theorem verify_proof_exact:
  "VerifyProof L p hash = Inr v \<longleftrightarrow>
     length hash = 32 \<and>
     (\<exists>f. op_ParseOTSFile L p = Inr f \<and> of_Digest f = hash \<and> attested L f \<noteq> {} \<and>
        (\<forall>seq \<in> attested L f. embeds_tx L hash seq) \<and>
        v = \<lparr>vf_BlockHeight = Min ((\<lambda>seq. sint (seq_height L seq)) ` attested L f),
             vf_Timestamp = None, vf_ChainChecked = False, vf_ChainErr = None\<rparr>)"
proof (cases "length hash = 32")
  case True
  show ?thesis
  proof (cases "op_ParseOTSFile L p")
    case (Inl m)
    then show ?thesis by (simp add: VerifyProof_def parseProofFile_def)
  next
    case (Inr f)
    let ?seqs = "op_GetBitcoinAttestedSequences L f"
    let ?H = "(\<lambda>seq. sint (seq_height L seq)) ` attested L f"
    have iff: "offline_height L hash 0 ?seqs = Inr n \<longleftrightarrow>
        (\<forall>seq \<in> attested L f. embeds_tx L hash seq) \<and> n = lowest ?H" for n
      unfolding offline_height_iff by (auto simp: attested_def seen_def)
    have fin: "finite ?H" by (simp add: attested_def)
    have zero: "0 \<notin> ?H" by (auto simp: attested_def)
    have "lowest ?H = 0 \<longleftrightarrow> attested L f = {}"
      using Min_in [OF fin] zero unfolding lowest_def by (metis image_is_empty)
    moreover have "?seqs = [] \<Longrightarrow> attested L f = {}" by (simp add: attested_def)
    moreover have run: "VerifyProof L p hash = Inr v \<longleftrightarrow> of_Digest f = hash \<and> ?seqs \<noteq> [] \<and>
        (\<exists>n. offline_height L hash 0 ?seqs = Inr n \<and> n \<noteq> 0 \<and>
          v = \<lparr>vf_BlockHeight = n, vf_Timestamp = None, vf_ChainChecked = False, vf_ChainErr = None\<rparr>)"
      using True Inr
      by (auto simp: VerifyProof_def parseProofFile_def sha256Size_def Let_def split: sum.splits)
    ultimately show ?thesis
      unfolding run iff using True Inr by (auto simp: lowest_def)
  qed
qed (simp add: VerifyProof_def sha256Size_def)

section \<open>Verification against the chain\<close>

text \<open>A chain source whose answers do not depend on when it is asked: \<open>H\<close> the block hashes, \<open>B\<close> the
  headers.\<close>

definition stable_chain ::
  "'e chain \<Rightarrow> (int \<Rightarrow> string + string) \<Rightarrow> (string \<Rightarrow> string + block_header) \<Rightarrow> bool" where
  "stable_chain ch H B \<longleftrightarrow>
     (\<forall>n e. fst (ch_GetBlockHash ch n e) = H n) \<and> (\<forall>b e. fst (ch_GetBlockHeader ch b e) = B b)"

definition block_at ::
  "(int \<Rightarrow> string + string) \<Rightarrow> (string \<Rightarrow> string + block_header) \<Rightarrow> int \<Rightarrow> block_header option" where
  "block_at H B n =
     (case H n of Inl _ \<Rightarrow> None
      | Inr b \<Rightarrow> (case B b of Inl _ \<Rightarrow> None | Inr header \<Rightarrow> Some header))"

definition reachable_heights ::
  "'i otspkg \<Rightarrow> (int \<Rightarrow> string + string) \<Rightarrow> (string \<Rightarrow> string + block_header) \<Rightarrow> 'i list list \<Rightarrow> int set" where
  "reachable_heights L H B seqs =
     (\<lambda>seq. sint (seq_height L seq)) `
       {seq \<in> set seqs. seq_height L seq \<noteq> 0 \<and> block_at H B (sint (seq_height L seq)) \<noteq> None}"

definition commits :: "'i otspkg \<Rightarrow> (int \<Rightarrow> string + string) \<Rightarrow> (string \<Rightarrow> string + block_header)
    \<Rightarrow> string \<Rightarrow> 'i list \<Rightarrow> bool" where
  "commits L H B hash seq \<longleftrightarrow>
     (case block_at H B (sint (seq_height L seq)) of
        None \<Rightarrow> True | Some header \<Rightarrow> fst (op_Compute L seq hash) = bh_MerkleRoot header)"

lemma ext_call_run:
  "ext_call f w = ((case fst (f (w_ext w)) of Inl m \<Rightarrow> Inl (new_err m) | Inr x \<Rightarrow> Inr x),
     w\<lparr>w_ext := snd (f (w_ext w))\<rparr>)"
  by (auto simp: ext_call_def split: prod.splits sum.splits)

text \<open>One round of the loop, on a stable chain.\<close>

lemma chain_loop_step:
  assumes "stable_chain ch H B" and "seq_height L seq \<noteq> 0"
  shows "\<exists>w1 fe. chain_loop L ch hash fetchErr m ts (seq # seqs) w =
    (case block_at H B (sint (seq_height L seq)) of
       None \<Rightarrow> chain_loop L ch hash (Some fe) m ts seqs w1
     | Some header \<Rightarrow>
         if fst (op_Compute L seq hash) \<noteq> bh_MerkleRoot header
         then (Inl (mismatch_error (seq_height L seq) (fst (op_Compute L seq hash)) (bh_MerkleRoot header)), w1)
         else if m = 0 \<or> sint (seq_height L seq) < m
         then chain_loop L ch hash fetchErr (sint (seq_height L seq)) (Some (bh_Timestamp header)) seqs w1
         else chain_loop L ch hash fetchErr m ts seqs w1)"
proof -
  let ?n = "sint (seq_height L seq)"
  obtain e1 where h: "ch_GetBlockHash ch ?n (w_ext w) = (H ?n, e1)"
    using assms(1) unfolding stable_chain_def by (metis prod.collapse)
  obtain e2 where b: "\<And>x. H ?n = Inr x \<Longrightarrow> ch_GetBlockHeader ch x e1 = (B x, e2)"
    using assms(1) by (cases "H ?n") (auto simp: stable_chain_def, metis prod.collapse)
  show ?thesis
    using assms(2) h b
    by (cases "H ?n"; cases "B (projr (H ?n))"; cases fetchErr)
      (auto simp: seq_height_def Let_def bindR_def ext_call_run block_at_def first_err_def mismatch_error_def)
qed

lemma first_err_Some [simp]: "first_err f e \<noteq> None"
  by (auto simp: first_err_def split: option.splits)

definition stamped ::
  "(int \<Rightarrow> string + string) \<Rightarrow> (string \<Rightarrow> string + block_header) \<Rightarrow> int \<Rightarrow> time option \<Rightarrow> bool" where
  "stamped H B n ts \<longleftrightarrow> (\<exists>header. block_at H B n = Some header \<and> ts = Some (bh_Timestamp header))"

lemma reachable_heights_Cons:
  "reachable_heights L H B (seq # seqs) =
     (if seq_height L seq \<noteq> 0 \<and> block_at H B (sint (seq_height L seq)) \<noteq> None
      then insert (sint (seq_height L seq)) (reachable_heights L H B seqs) else reachable_heights L H B seqs)"
  by (auto simp: reachable_heights_def)

lemma reachable_finite [simp]: "finite (reachable_heights L H B seqs)"
  by (simp add: reachable_heights_def)

lemma chain_loop_ok:
  assumes "stable_chain ch H B" and "chain_loop L ch hash fe m ts seqs w = (Inr (fe', n, ts'), w')"
    and "m \<noteq> 0 \<Longrightarrow> stamped H B m ts"
  shows "(\<forall>seq \<in> set seqs. seq_height L seq \<noteq> 0 \<longrightarrow> commits L H B hash seq) \<and>
    n = lowest (seen m \<union> reachable_heights L H B seqs) \<and> (n \<noteq> 0 \<longrightarrow> stamped H B n ts') \<and>
    (fe \<noteq> None \<or> (\<exists>seq \<in> set seqs. seq_height L seq \<noteq> 0 \<and>
        block_at H B (sint (seq_height L seq)) = None) \<longrightarrow> fe' \<noteq> None)"
  using assms(2,3)
proof (induction seqs arbitrary: fe m ts w)
  case Nil
  then show ?case by (auto simp: lowest_def seen_def reachable_heights_def)
next
  case (Cons seq seqs)
  show ?case
  proof (cases "seq_height L seq = 0")
    case True
    then have "chain_loop L ch hash fe m ts (seq # seqs) w = chain_loop L ch hash fe m ts seqs w"
      by (simp add: seq_height_def Let_def)
    with Cons True show ?thesis by (auto simp: reachable_heights_Cons)
  next
    case False
    let ?h = "sint (seq_height L seq)"
    obtain w1 e where step: "chain_loop L ch hash fe m ts (seq # seqs) w =
      (case block_at H B ?h of
         None \<Rightarrow> chain_loop L ch hash (Some e) m ts seqs w1
       | Some header \<Rightarrow>
           if fst (op_Compute L seq hash) \<noteq> bh_MerkleRoot header
           then (Inl (mismatch_error (seq_height L seq) (fst (op_Compute L seq hash)) (bh_MerkleRoot header)), w1)
           else if m = 0 \<or> ?h < m
           then chain_loop L ch hash fe ?h (Some (bh_Timestamp header)) seqs w1
           else chain_loop L ch hash fe m ts seqs w1)"
      using chain_loop_step [OF assms(1) False] by blast
    show ?thesis
    proof (cases "block_at H B ?h")
      case None
      with Cons.prems(1) step have "chain_loop L ch hash (Some e) m ts seqs w1 = (Inr (fe', n, ts'), w')" by simp
      from Cons.IH [OF this Cons.prems(2)] None show ?thesis
        by (auto simp: reachable_heights_Cons commits_def)
    next
      case (Some header)
      then have fits: "commits L H B hash seq"
        using Cons.prems(1) step by (auto simp: commits_def split: if_splits)
      obtain ts1 where run: "chain_loop L ch hash fe (lower_height m ?h) ts1 seqs w1 = (Inr (fe', n, ts'), w')"
        and st: "stamped H B (lower_height m ?h) ts1"
        using Cons.prems step Some by (auto simp: lower_height_def stamped_def split: if_splits)
      from Cons.IH [OF run st] fits Some False
        lowest_lower [of "reachable_heights L H B seqs" ?h m]
      show ?thesis by (auto simp: reachable_heights_Cons)
    qed
  qed
qed

lemma chain_loop_fails:
  assumes "stable_chain ch H B" and "chain_loop L ch hash fe m ts seqs w = (Inl e, w')"
  shows "err_chain e = [] \<and> (\<exists>seq \<in> set seqs. seq_height L seq \<noteq> 0 \<and> \<not> commits L H B hash seq)"
  using assms(2)
proof (induction seqs arbitrary: fe m ts w)
  case (Cons seq seqs)
  show ?case
  proof (cases "seq_height L seq = 0")
    case True
    then have "chain_loop L ch hash fe m ts (seq # seqs) w = chain_loop L ch hash fe m ts seqs w"
      by (simp add: seq_height_def Let_def)
    with Cons show ?thesis by auto
  next
    case False
    note Cons.prems
    moreover obtain w1 fe1 where "chain_loop L ch hash fe m ts (seq # seqs) w =
      (case block_at H B (sint (seq_height L seq)) of
         None \<Rightarrow> chain_loop L ch hash (Some fe1) m ts seqs w1
       | Some header \<Rightarrow>
           if fst (op_Compute L seq hash) \<noteq> bh_MerkleRoot header
           then (Inl (mismatch_error (seq_height L seq) (fst (op_Compute L seq hash)) (bh_MerkleRoot header)), w1)
           else if m = 0 \<or> sint (seq_height L seq) < m
           then chain_loop L ch hash fe (sint (seq_height L seq)) (Some (bh_Timestamp header)) seqs w1
           else chain_loop L ch hash fe m ts seqs w1)"
      using chain_loop_step [OF assms(1) False] by blast
    ultimately show ?thesis
      using Cons.IH False
      by (cases "block_at H B (sint (seq_height L seq))")
        (auto simp: commits_def mismatch_error_def new_err_def split: if_splits)
  qed
qed simp

text \<open>With a chain source, an accepted proof contradicts no block that the source could show: every
  attested sequence whose block was reachable computes that block's merkle root. When one was
  reachable, the result is the lowest such block with its header time and is marked as checked;
  otherwise it is the offline result with the reason. A proof that contradicts a block is refused.\<close>

theorem verify_chain_exact:
  assumes stable: "stable_chain ch H B" and run: "Verifier_Verify L (Some ch) p hash w = (r, w')"
    and off: "VerifyProof L p hash = Inr v0" and parse: "op_ParseOTSFile L p = Inr f"
  defines "R \<equiv> reachable_heights L H B (op_GetBitcoinAttestedSequences L f)"
  shows "(case r of
      Inl e \<Rightarrow> \<exists>seq \<in> attested L f. \<not> commits L H B hash seq
    | Inr v \<Rightarrow> (\<forall>seq \<in> attested L f. commits L H B hash seq) \<and>
        (if R \<noteq> {} then vf_ChainChecked v \<and> vf_BlockHeight v = Min R \<and>
             stamped H B (vf_BlockHeight v) (vf_Timestamp v) \<and> vf_ChainErr v = None
         else \<exists>e. v = v0\<lparr>vf_ChainErr := Some e\<rparr>))"
proof -
  let ?seqs = "op_GetBitcoinAttestedSequences L f"
  have fil: "parseProofFile L p = Inr f" using parse by (simp add: parseProofFile_def)
  have zero: "0 \<notin> R" and fin: "finite R" by (auto simp: R_def reachable_heights_def)
  from off parse have some: "attested L f \<noteq> {}" and plain: "vf_ChainErr v0 = None"
    unfolding verify_proof_exact by auto
  obtain q w1 where loop: "chain_loop L ch hash None 0 None ?seqs w = (q, w1)"
    by (cases "chain_loop L ch hash None 0 None ?seqs w")
  show ?thesis
  proof (cases q)
    case (Inl e)
    with chain_loop_fails [OF stable loop [unfolded Inl]] run off fil loop
    have "r = Inl e" "\<exists>seq \<in> attested L f. \<not> commits L H B hash seq"
      by (auto simp: Verifier_Verify_def verifyAgainstChain_def bindE_def bindR_def errors_Is_def attested_def)
    then show ?thesis by simp
  next
    case (Inr x)
    obtain fe n ts where x: "x = (fe, n, ts)" by (cases x)
    note ok = chain_loop_ok [OF stable loop [unfolded Inr x], simplified, folded R_def]
    then have all: "\<forall>seq \<in> attested L f. commits L H B hash seq" and n: "n = lowest R"
      by (auto simp: attested_def seen_def)
    show ?thesis
    proof (cases "R = {}")
      case True
      from some obtain seq where "seq \<in> attested L f" by blast
      with True have "seq \<in> set ?seqs" "seq_height L seq \<noteq> 0" "block_at H B (sint (seq_height L seq)) = None"
        by (auto simp: attested_def R_def reachable_heights_def)
      with ok obtain e where "fe = Some e" by blast
      with True n run off fil loop Inr x all show ?thesis
        by (auto simp: Verifier_Verify_def verifyAgainstChain_def bindE_def bindR_def lowest_def)
    next
      case False
      with n have "n = Min R" by (simp add: lowest_def)
      moreover have "Min R \<in> R" by (rule Min_in [OF fin False])
      ultimately have "n = Min R" "n \<noteq> 0" using zero by auto
      with ok False run off fil loop Inr x all plain show ?thesis
        by (auto simp: Verifier_Verify_def verifyAgainstChain_def bindE_def bindR_def)
    qed
  qed
qed

section \<open>Upgrading and submitting\<close>

definition upgraded_seq :: "'i otspkg \<Rightarrow> 'i list \<Rightarrow> 'i list \<Rightarrow> bool" where
  "upgraded_seq L old new \<longleftrightarrow>
     (if pending_seq L old then \<exists>tail body. new = butlast old @ tail \<and> single_sequence L body = Inr tail
      else new = old)"

definition upgrade_request :: "'i otspkg \<Rightarrow> string \<Rightarrow> 'i list \<Rightarrow> event" where
  "upgrade_request L digest seq =
     EvCalendar (at_CalendarServerURL (op_GetAttestation L seq) @ ''/timestamp/'' @
       hex_EncodeToString (fst (op_Compute L seq digest))) ''''"

lemma calendar_do_Inr:
  assumes "calendar_do c meth url body w = (Inr x, w')"
  shows "w_log w' = w_log w @ [EvCalendar url body]" "w_db w' = w_db w"
  using assms by (auto simp: calendar_do_def log_event_def split: option.splits prod.splits http_result.splits)

lemma calendar_db: "runs_in same_db (calendar_do c meth url body)"
  by (auto simp: runs_in_def calendar_do_def log_event_def same_db_def split: option.splits prod.splits http_result.splits)

lemma upgradeAtCalendar_Inr:
  assumes "upgradeAtCalendar c url commitment w = (Inr tail, w')"
  shows "w_log w' = w_log w @ [EvCalendar (url @ ''/timestamp/'' @ hex_EncodeToString commitment) '''']"
    and "\<exists>body. single_sequence (oc_lib c) body = Inr tail"
  using assms
  by (auto simp: upgradeAtCalendar_def run_iffs dest: calendar_do_Inr split: if_splits) 

lemma upgrade_loop_Inr:
  assumes "upgrade_loop c digest u seqs w = (Inr (seqs', u'), w')"
  shows "list_all2 (upgraded_seq (oc_lib c)) seqs seqs' \<and>
    u' = (u \<or> list_ex (pending_seq (oc_lib c)) seqs) \<and>
    w_log w' = w_log w @ map (upgrade_request (oc_lib c) digest) (filter (pending_seq (oc_lib c)) seqs)"
  using assms
proof (induction seqs arbitrary: u w seqs' u' w')
  case (Cons seq seqs)
  show ?case
  proof (cases "pending_seq (oc_lib c) seq")
    case False
    with Cons.prems obtain rest where "upgrade_loop c digest u seqs w = (Inr (rest, u'), w')" "seqs' = seq # rest"
      by (auto simp: Let_def run_iffs)
    with Cons.IH False show ?thesis by (auto simp: upgraded_seq_def)
  next
    case True
    let ?att = "op_GetAttestation (oc_lib c) seq"
    from True Cons.prems obtain tail w1 rest where
      cal: "upgradeAtCalendar c (at_CalendarServerURL ?att) (fst (op_Compute (oc_lib c) seq digest)) w = (Inr tail, w1)"
      and rest: "upgrade_loop c digest True seqs w1 = (Inr (rest, u'), w')" "seqs' = (butlast seq @ tail) # rest"
      by (auto simp: Let_def run_iffs)
    from Cons.IH [OF rest(1)] upgradeAtCalendar_Inr [OF cal] rest(2) True
    show ?thesis by (auto simp: upgraded_seq_def upgrade_request_def)
  qed
qed simp

text \<open>A successful upgrade keeps the digest and every sequence that is confirmed or has no calendar;
  each pending sequence keeps all but its attestation and continues with the single sequence a
  calendar answered. Exactly the calendars of the pending sequences were asked, in order, each for
  the value its sequence computes from the digest. There was a pending sequence.\<close>

theorem upgrade_splices:
  assumes "Client_Upgrade c p w = (Inr q, w')"
  shows "\<exists>f seqs. op_ParseOTSFile (oc_lib c) p = Inr f \<and>
    q = op_SerializeToFile (oc_lib c) (f\<lparr>of_Sequences := seqs\<rparr>) \<and>
    list_all2 (upgraded_seq (oc_lib c)) (of_Sequences f) seqs \<and>
    filter (pending_seq (oc_lib c)) (of_Sequences f) \<noteq> [] \<and>
    w_log w' = w_log w @ map (upgrade_request (oc_lib c) (of_Digest f))
      (filter (pending_seq (oc_lib c)) (of_Sequences f))"
proof -
  from assms obtain f seqs where f: "parseProofFile (oc_lib c) p = Inr f"
    and loop: "upgrade_loop c (of_Digest f) False (of_Sequences f) w = (Inr (seqs, True), w')"
    and q: "q = op_SerializeToFile (oc_lib c) (f\<lparr>of_Sequences := seqs\<rparr>)"
    by (auto simp: Client_Upgrade_def run_iffs split: if_splits)
  from f have "op_ParseOTSFile (oc_lib c) p = Inr f" by (simp add: parseProofFile_def split: sum.splits)
  with q upgrade_loop_Inr [OF loop] show ?thesis
    by (auto simp: list_ex_iff filter_empty_conv)
qed

lemma submit_loop_Inr:
  assumes "submit_loop c hash fe cals w = (Inr q, w')"
  shows "\<exists>seq. q = op_SerializeToFile (oc_lib c) \<lparr>of_Digest = hash, of_Sequences = [seq]\<rparr> \<and>
    at_CalendarServerURL (op_GetAttestation (oc_lib c) seq) \<noteq> ''''"
  using assms
proof (induction cals arbitrary: fe w)
  case (Cons cal cals)
  then obtain r w1 where sub: "submitToCalendar c cal hash w = (r, w1)"
    and rest: "(case r of Inr seq \<Rightarrow> ret (op_SerializeToFile (oc_lib c) \<lparr>of_Digest = hash, of_Sequences = [seq]\<rparr>)
       | Inl e \<Rightarrow> submit_loop c hash (first_err fe e) cals) w1 = (Inr q, w')"
    by (auto simp: run_iffs)
  show ?case
  proof (cases r)
    case (Inl e)
    with rest Cons.IH show ?thesis by simp
  next
    case (Inr seq)
    with sub have "at_CalendarServerURL (op_GetAttestation (oc_lib c) seq) \<noteq> ''''"
      by (auto simp: submitToCalendar_def run_iffs split: if_splits)
    with rest Inr show ?thesis by auto
  qed
qed simp

text \<open>A submission names the digest and one calendar.\<close>

lemma Submit_Inr:
  assumes "Client_Submit c hash w = (Inr q, w')"
  obtains seq where "length hash = 32" "q = op_SerializeToFile (oc_lib c) \<lparr>of_Digest = hash, of_Sequences = [seq]\<rparr>"
    "at_CalendarServerURL (op_GetAttestation (oc_lib c) seq) \<noteq> ''''"
  using assms submit_loop_Inr [of c hash None "oc_calendars c" w q w']
  by (auto simp: Client_Submit_def sha256Size_def split: if_splits)

text \<open>The client leaves the database alone and talks to calendars only.\<close>

definition calendar_event :: "event \<Rightarrow> bool" where
  "calendar_event ev \<longleftrightarrow> (\<exists>url body. ev = EvCalendar url body)"

lemma calendar_log: "runs_in (log_adds calendar_event) (calendar_do c meth url body)"
  by (auto simp: runs_in_def calendar_do_def log_event_def log_adds_def calendar_event_def
      split: option.splits prod.splits http_result.splits)

lemma submit_loop_frame:
  "runs_in same_db (submit_loop c hash fe cals)"
  "runs_in (log_adds calendar_event) (submit_loop c hash fe cals)"
proof (induction cals arbitrary: fe)
  case Nil
  { case 1 show ?case unfolding submit_loop.simps by (rule db_frame.frame_fail) }
  { case 2 show ?case unfolding submit_loop.simps by (rule log_frame.frame_fail) }
next
  case (Cons cal cals)
  { case 1 show ?case unfolding submit_loop.simps submitToCalendar_def
      by (intro db_frame.frame_intros Cons.IH calendar_db) }
  { case 2 show ?case unfolding submit_loop.simps submitToCalendar_def
      by (intro log_frame.frame_intros Cons.IH calendar_log) }
qed

lemma upgrade_loop_frame:
  "runs_in same_db (upgrade_loop c digest u seqs)"
  "runs_in (log_adds calendar_event) (upgrade_loop c digest u seqs)"
proof (induction seqs arbitrary: u)
  case Nil
  { case 1 show ?case unfolding upgrade_loop.simps by (rule db_frame.frame_ret) }
  { case 2 show ?case unfolding upgrade_loop.simps by (rule log_frame.frame_ret) }
next
  case (Cons seq seqs)
  { case 1 show ?case unfolding upgrade_loop.simps Let_def upgradeAtCalendar_def
      by (intro db_frame.frame_intros Cons.IH calendar_db) }
  { case 2 show ?case unfolding upgrade_loop.simps Let_def upgradeAtCalendar_def
      by (intro log_frame.frame_intros Cons.IH calendar_log) }
qed

lemma client_frame:
  "runs_in same_db (Client_Submit c hash)" "runs_in (log_adds calendar_event) (Client_Submit c hash)"
  "runs_in same_db (Client_Upgrade c p)" "runs_in (log_adds calendar_event) (Client_Upgrade c p)"
  unfolding Client_Submit_def Client_Upgrade_def
  by (intro db_frame.frame_intros log_frame.frame_intros submit_loop_frame upgrade_loop_frame)+

section \<open>Witnesses\<close>

text \<open>A small format: a sequence is attested in the block that its last number names, or pending
  at \<open>cal\<close> when that is zero; computing prepends nothing to the digest.\<close>

definition demo_hash :: string where
  "demo_hash = replicate 32 (CHR ''d'')"

definition demo_pkg :: "nat otspkg" where
  "demo_pkg = \<lparr>
     op_ParseOTSFile = (\<lambda>t. if t = ''pending'' then Inr \<lparr>of_Digest = demo_hash, of_Sequences = [[3, 0], [2, 7]]\<rparr>
       else if t = ''done'' then Inr \<lparr>of_Digest = demo_hash, of_Sequences = [[3, 9], [2, 7]]\<rparr>
       else Inl ''malformed''),
     op_ParseTimestamp = (\<lambda>t. if t = ''tail'' then Inr [[9]] else Inl ''malformed''),
     op_SerializeToFile = (\<lambda>f. if of_Sequences f = [[3, 9], [2, 7]] then ''done'' else ''pending''),
     op_GetAttestation = (\<lambda>seq. \<lparr>at_BitcoinBlockHeight = of_nat (last seq),
       at_CalendarServerURL = (if last seq = 0 then ''cal'' else '''')\<rparr>),
     op_Compute = (\<lambda>seq d. (d, True)),
     op_GetBitcoinAttestedSequences = (\<lambda>f. filter (\<lambda>s. last s \<noteq> 0) (of_Sequences f))\<rparr>"

definition demo_client :: "(demo, nat) ots_client" where
  "demo_client = \<lparr>oc_platform = demo_platform, oc_lib = demo_pkg, oc_calendars = default_calendars,
     oc_do = (\<lambda>_ _ _ e. (Response 200 (Inr ''tail''), e))\<rparr>"

definition empty_world :: "demo world" where
  "empty_world = \<lparr>w_db = \<lparr>t_deals = [], t_artifacts = [], t_verifications = [], t_users = [],
     t_refresh_tokens = [], t_cv_entries = []\<rparr>, w_ext = demo_ext [] [], w_log = []\<rparr>"

text \<open>A chain that knows block 9 only.\<close>

definition demo_chain :: "demo chain" where
  "demo_chain = \<lparr>ch_GetBlockHash = (\<lambda>n e. (if n = 9 then Inr ''b9'' else Inl ''down'', e)),
     ch_GetBlockHeader = (\<lambda>b e. (Inr \<lparr>bh_MerkleRoot = demo_hash, bh_Timestamp = 5\<rparr>, e))\<rparr>"

lemmas run_ots = demo_pkg_def demo_client_def demo_chain_def demo_hash_def empty_world_def

lemma demo_attested:
  "attested demo_pkg \<lparr>of_Digest = demo_hash, of_Sequences = [[3, 9], [2, 7]]\<rparr> = {[3, 9], [2, 7]}"
  by (auto simp: attested_def seq_height_def run_ots)

lemma demo_offline:
  "VerifyProof demo_pkg ''done'' demo_hash =
     Inr \<lparr>vf_BlockHeight = 7, vf_Timestamp = None, vf_ChainChecked = False, vf_ChainErr = None\<rparr>"
  by (simp add: VerifyProof_def parseProofFile_def sha256Size_def lower_height_def run_ots)

lemma verify_proof_exact_witness:
  "VerifyProof demo_pkg ''done'' demo_hash =
     Inr \<lparr>vf_BlockHeight = 7, vf_Timestamp = None, vf_ChainChecked = False, vf_ChainErr = None\<rparr>"
  unfolding verify_proof_exact
proof (intro conjI exI)
  let ?f = "\<lparr>of_Digest = demo_hash, of_Sequences = [[3, 9], [2, 7::nat]]\<rparr>"
  show "length demo_hash = 32" by (simp add: demo_hash_def)
  show "op_ParseOTSFile demo_pkg ''done'' = Inr ?f" by (simp add: demo_pkg_def)
  show "of_Digest ?f = demo_hash" by simp
  show "attested demo_pkg ?f \<noteq> {}" by (simp add: demo_attested)
  show "\<forall>seq \<in> attested demo_pkg ?f. embeds_tx demo_pkg demo_hash seq"
    by (simp add: demo_attested embeds_tx_def run_ots)
  show "\<lparr>vf_BlockHeight = 7, vf_Timestamp = None, vf_ChainChecked = False, vf_ChainErr = None\<rparr> =
    \<lparr>vf_BlockHeight = Min ((\<lambda>seq. sint (seq_height demo_pkg seq)) ` attested demo_pkg ?f),
      vf_Timestamp = None, vf_ChainChecked = False, vf_ChainErr = None\<rparr>"
    unfolding demo_attested by (simp add: seq_height_def demo_pkg_def)
qed

lemma verify_chain_exact_witness:
  "\<exists>v w'. Verifier_Verify demo_pkg (Some demo_chain) ''done'' demo_hash empty_world = (Inr v, w') \<and>
     vf_ChainChecked v \<and> vf_BlockHeight v = 9"
proof -
  let ?f = "\<lparr>of_Digest = demo_hash, of_Sequences = [[3, 9], [2, 7::nat]]\<rparr>"
  let ?H = "\<lambda>n. if n = 9 then Inr ''b9'' else Inl ''down''"
  let ?B = "\<lambda>b :: string. Inr \<lparr>bh_MerkleRoot = demo_hash, bh_Timestamp = 5\<rparr> :: string + block_header"
  have stable: "stable_chain demo_chain ?H ?B" by (simp add: stable_chain_def demo_chain_def)
  obtain r w' where run: "Verifier_Verify demo_pkg (Some demo_chain) ''done'' demo_hash empty_world = (r, w')"
    by (cases "Verifier_Verify demo_pkg (Some demo_chain) ''done'' demo_hash empty_world")
  have parse: "op_ParseOTSFile demo_pkg ''done'' = Inr ?f" by (simp add: demo_pkg_def)
  note main = verify_chain_exact [OF stable run demo_offline parse]
  have all: "\<forall>seq \<in> attested demo_pkg ?f. commits demo_pkg ?H ?B demo_hash seq"
    by (simp add: demo_attested commits_def block_at_def run_ots seq_height_def)
  have R: "reachable_heights demo_pkg ?H ?B (op_GetBitcoinAttestedSequences demo_pkg ?f) = {9}"
    by (auto simp: reachable_heights_def seq_height_def block_at_def run_ots)
  show ?thesis
  proof (cases r)
    case (Inl e)
    with main all show ?thesis by auto
  next
    case (Inr v)
    with main R run show ?thesis by auto
  qed
qed

lemma upgrade_splices_witness:
  "\<exists>w'. Client_Upgrade demo_client ''pending'' empty_world = (Inr ''done'', w') \<and>
     length (w_log w') = 1"
proof -
  obtain w' where run: "Client_Upgrade demo_client ''pending'' empty_world = (Inr ''done'', w')"
    by (simp add: Client_Upgrade_def upgradeAtCalendar_def calendar_do_def pending_seq_def
        parseProofFile_def single_sequence_def read_limited_def maxProofBytes_def bindE_def log_event_def run_ots)
  have parse: "op_ParseOTSFile (oc_lib demo_client) ''pending'' =
      Inr \<lparr>of_Digest = demo_hash, of_Sequences = [[3, 0], [2, 7::nat]]\<rparr>" (is "_ = Inr ?f")
    by (simp add: demo_client_def demo_pkg_def)
  have pending: "filter (pending_seq (oc_lib demo_client)) [[3, 0], [2, 7]] = [[3, 0]]"
    by (simp add: pending_seq_def demo_client_def demo_pkg_def word_gt_0)
  from upgrade_splices [OF run] have "w_log w' = w_log empty_world @
      map (upgrade_request (oc_lib demo_client) demo_hash) [[3, 0]]"
    unfolding parse by (auto simp del: filter.simps simp: pending)
  with run show ?thesis by (simp add: empty_world_def)
qed

end
