(* ===== verification/Cv_Anchors.thy ===== *)
theory Cv_Anchors
  imports Cv_Service Ots_Properties Storage_Local
begin

text \<open>
  What anchoring does to the world: it only appends entries, one per artifact at most, and
  each new entry carries the hash of the artifact's file.
\<close>

section \<open>Added entries\<close>

definition fresh_entry :: "(string \<Rightarrow> string \<Rightarrow> bool) \<Rightarrow> cv_row \<Rightarrow> bool" where
  "fresh_entry G e \<longleftrightarrow> G (e_artifact_id e) (e_hash e) \<and> e_algorithm e = ''sha256'' \<and>
     e_ots_proof e = None \<and> e_ots_submitted_at e = None \<and> e_ots_confirmed_at e = None"

abbreviation anchored_ids :: "database \<Rightarrow> string list" where
  "anchored_ids db \<equiv> map e_artifact_id (t_cv_entries db)"

text \<open>Every change is a list of fresh entries whose artifact and hash satisfy \<open>G\<close>.\<close>

definition adds_entries :: "(string \<Rightarrow> string \<Rightarrow> bool) \<Rightarrow> database \<Rightarrow> database \<Rightarrow> bool" where
  "adds_entries G d d' \<longleftrightarrow>
     (\<exists>es. d' = d\<lparr>t_cv_entries := t_cv_entries d @ es\<rparr> \<and> (\<forall>e \<in> set es. fresh_entry G e)) \<and>
     (distinct (anchored_ids d) \<longrightarrow> distinct (anchored_ids d'))"

interpretation anchoring: db_relation "adds_entries G" for G
proof
  show "adds_entries G d d" for d
    unfolding adds_entries_def by (intro conjI exI [of _ "[]"]) simp_all
  show "adds_entries G a c" if "adds_entries G a b" "adds_entries G b c" for a b c
  proof -
    from that(1) obtain es where "b = a\<lparr>t_cv_entries := t_cv_entries a @ es\<rparr>" "\<forall>e \<in> set es. fresh_entry G e"
      unfolding adds_entries_def by blast
    moreover from that(2) obtain fs where
      "c = b\<lparr>t_cv_entries := t_cv_entries b @ fs\<rparr>" "\<forall>e \<in> set fs. fresh_entry G e"
      unfolding adds_entries_def by blast
    moreover have "distinct (anchored_ids a) \<longrightarrow> distinct (anchored_ids c)"
      using that by (simp add: adds_entries_def)
    ultimately show ?thesis unfolding adds_entries_def
      by (intro conjI exI [of _ "es @ fs"]) auto
  qed
qed

lemma adds_entries_mono:
  "adds_entries G d d' \<Longrightarrow> (\<And>a h. G a h \<Longrightarrow> H a h) \<Longrightarrow> adds_entries H d d'"
  unfolding adds_entries_def fresh_entry_def by blast

lemma adds_entries_tables:
  assumes "adds_entries G d d'"
  shows "t_deals d' = t_deals d" "t_artifacts d' = t_artifacts d" "t_users d' = t_users d"
    "set (t_cv_entries d) \<subseteq> set (t_cv_entries d')"
  using assms by (auto simp: adds_entries_def)

lemma adds_entries_new:
  "adds_entries G d d' \<Longrightarrow> e \<in> set (t_cv_entries d') \<Longrightarrow> e \<notin> set (t_cv_entries d) \<Longrightarrow> fresh_entry G e"
  by (auto simp: adds_entries_def)

lemma append_entry:
  assumes "\<not> list_ex (\<lambda>e. e_artifact_id e = e_artifact_id x) (t_cv_entries d)" and "fresh_entry G x"
  shows "adds_entries G d (d\<lparr>t_cv_entries := t_cv_entries d @ [x]\<rparr>)"
  unfolding adds_entries_def using assms
  by (intro conjI exI [of _ "[x]"]) (auto simp: list_ex_iff)

text \<open>The insertion of one anchor, whatever it reports.\<close>

lemma InsertAnchor_adds:
  "runs_in (\<lambda>w w'. adds_entries (\<lambda>a h. a = i \<and> h = hash) (w_db w) (w_db w')) (CV_InsertAnchor P i hash)"
  unfolding CV_InsertAnchor_def
proof (rule query_frame)
  show "adds_entries (\<lambda>a h. a = i \<and> h = hash) d d" for d by (rule anchoring.Q_refl)
  fix now uuid d
  let ?e = "\<lparr>e_id = uuid, e_artifact_id = i, e_hash = hash, e_algorithm = ''sha256'', e_ots_proof = None,
    e_ots_submitted_at = None, e_ots_confirmed_at = None, e_created_at = now\<rparr>"
  have "fresh_entry (\<lambda>a h. a = i \<and> h = hash) ?e" by (simp add: fresh_entry_def)
  then show "adds_entries (\<lambda>a h. a = i \<and> h = hash) d (snd (let e = ?e;
      refuse = (\<lambda>c. Inl (wrapf ''repository: insert cv anchor: '' (new_err c)))
      in if list_ex (\<lambda>e. e_artifact_id e = i) (t_cv_entries d) then (Inr (), d)
         else if list_ex (\<lambda>e. e_id e = uuid) (t_cv_entries d) then (refuse ''cv_entries_pkey'', d)
         else if \<not> list_ex (\<lambda>a. a_ID a = i) (t_artifacts d) then (refuse ''cv_entries_artifact_id_fkey'', d)
         else (Inr (), d\<lparr>t_cv_entries := t_cv_entries d @ [e]\<rparr>)))"
    using append_entry [of ?e d] anchoring.Q_refl by (auto simp: Let_def)
qed

text \<open>When it reports success, the artifact has an entry.\<close>

lemma InsertAnchor_Inr:
  assumes "CV_InsertAnchor P i hash w = (Inr u, w')"
  shows "i \<in> set (anchored_ids (w_db w'))"
  using assms unfolding CV_InsertAnchor_def
  by (elim query_run) (auto simp: Let_def list_ex_iff split: if_splits)

section \<open>Anchoring a list of artifacts\<close>

text \<open>Only the start of a background submission is logged.\<close>

definition spawn_event :: "event \<Rightarrow> bool" where
  "spawn_event ev \<longleftrightarrow> (\<exists>a h. ev = EvSpawnSubmit a h)"

lemma spawn_submit_frame:
  "runs_in same_db (spawn_submit s a h)" "runs_in (log_adds spawn_event) (spawn_submit s a h)"
  by (auto simp: spawn_submit_def runs_in_def same_db_def log_adds_def log_event_def spawn_event_def
      split: option.splits)

lemma anchored_trans:
  assumes "adds_entries G (w_db u) (w_db v)" and "adds_entries G (w_db v) (w_db w)"
  shows "adds_entries G (w_db u) (w_db w)"
  using assms by (rule anchoring.Q_trans)

text \<open>\<open>h\<close> is the hash of the file behind artifact \<open>a\<close> of the list, as the store holds it.\<close>

definition hash_at ::
  "'e platform \<Rightarrow> (string \<Rightarrow> 'e world \<Rightarrow> string option) \<Rightarrow> 'e world \<Rightarrow> AnchorCandidate list
     \<Rightarrow> string \<Rightarrow> string \<Rightarrow> bool" where
  "hash_at P blob w cs a h \<longleftrightarrow> (\<exists>c \<in> set cs. \<exists>content. ac_ArtifactID c = a \<and>
     blob (ac_StorageKey c) w = Some content \<and> h = hex_EncodeToString (sha256 P content))"

context blob_service begin

lemma insertAnchors_adds:
  assumes "insertAnchors s cs w = (r, w')" and "cs_store s = st" "cs_platform s = P"
  shows "adds_entries (hash_at P blob w cs) (w_db w) (w_db w') \<and> log_adds spawn_event w w' \<and>
    (\<forall>k. blob k w' = blob k w)"
  using assms(1)
proof (induction cs arbitrary: w)
  case Nil
  then show ?case by (auto simp: anchoring.Q_refl log_frame.frame_refl)
next
  case (Cons c cs)
  obtain q w1 where o: "st_Open st (ac_StorageKey c) w = (q, w1)"
    by (cases "st_Open st (ac_StorageKey c) w")
  have db1: "w_db w1 = w_db w" and log1: "w_log w1 = w_log w" and b1: "\<And>k. blob k w1 = blob k w"
    using o by (auto intro: same_dbD [OF _ open_frame(1)] same_logD [OF _ open_frame(2)] open_keeps)
  show ?case
  proof (cases q)
    case (Inl e)
    with Cons.prems o assms(2) have "w' = w1" by (auto simp: bindE_def)
    with db1 log1 b1 show ?thesis by (simp add: anchoring.Q_refl log_adds_def)
  next
    case (Inr content)
    let ?h = "hex_EncodeToString (sha256 P content)"
    have content: "blob (ac_StorageKey c) w = Some content" by (rule open_ok [OF o [unfolded Inr]])
    obtain p w2 where ins: "CV_InsertAnchor P (ac_ArtifactID c) ?h w1 = (p, w2)"
      by (cases "CV_InsertAnchor P (ac_ArtifactID c) ?h w1")
    have "adds_entries (\<lambda>a h. a = ac_ArtifactID c \<and> h = ?h) (w_db w) (w_db w2)"
      using runs_inD [OF InsertAnchor_adds ins] by (simp only: db1)
    then have a2: "adds_entries (hash_at P blob w (c # cs)) (w_db w) (w_db w2)"
      by (rule adds_entries_mono) (use content in \<open>auto simp: hash_at_def\<close>)
    have log2: "w_log w2 = w_log w1" using ins unfolding CV_InsertAnchor_def
      by (rule same_logD) (rule query_log)
    have b2: "blob k w2 = blob k w1" for k using ins unfolding CV_InsertAnchor_def by (rule query_blob)
    show ?thesis
    proof (cases p)
      case (Inl e)
      with Cons.prems o \<open>q = Inr content\<close> ins assms(2,3) have "w' = w2" by (auto simp: bindE_def Let_def)
      with a2 log1 log2 b1 b2 show ?thesis by (simp add: log_adds_def)
    next
      case (Inr u)
      obtain x w3 where sp: "spawn_submit s (ac_ArtifactID c) (sha256 P content) w2 = (Inr x, w3)"
        by (cases "spawn_submit s (ac_ArtifactID c) (sha256 P content) w2") (auto simp: spawn_submit_def split: option.splits)
      have db3: "w_db w3 = w_db w2" using sp by (rule same_dbD) (rule spawn_submit_frame)
      have log3: "log_adds spawn_event w2 w3" using runs_inD [OF spawn_submit_frame(2) sp] .
      have b3: "blob k w3 = blob k w2" for k
        using sp by (intro blob_ext) (auto simp: spawn_submit_def log_event_def split: option.splits)
      from Cons.prems o \<open>q = Inr content\<close> ins Inr sp assms(2,3)
      have rest: "insertAnchors s cs w3 = (r, w')" by (auto simp: bindE_def Let_def)
      note ih = Cons.IH [OF rest]
      have "hash_at P blob w3 cs a h \<Longrightarrow> hash_at P blob w (c # cs) a h" for a h
        unfolding hash_at_def b3 b2 b1 by (meson list.set_intros(2))
      with ih have "adds_entries (hash_at P blob w (c # cs)) (w_db w3) (w_db w')"
        using adds_entries_mono by blast
      with a2 have "adds_entries (hash_at P blob w (c # cs)) (w_db w) (w_db w')"
        unfolding db3 by (rule anchoring.Q_trans)
      moreover have "log_adds spawn_event w w'"
        using log3 ih log1 log2 by (auto simp: log_adds_def)
      ultimately show ?thesis using ih b1 b2 b3 by simp
    qed
  qed
qed

lemma insertAnchors_covers:
  assumes "insertAnchors s cs w = (Inr u, w')" and "cs_store s = st" "cs_platform s = P"
    and "c \<in> set cs"
  shows "ac_ArtifactID c \<in> set (anchored_ids (w_db w'))"
  using assms(1,4)
proof (induction cs arbitrary: w)
  case (Cons x cs)
  from Cons.prems(1) assms(2,3) obtain content w1 w2 w3 where
    o: "st_Open st (ac_StorageKey x) w = (Inr content, w1)" and
    ins: "CV_InsertAnchor P (ac_ArtifactID x) (hex_EncodeToString (sha256 P content)) w1 = (Inr (), w2)" and
    sp: "spawn_submit s (ac_ArtifactID x) (sha256 P content) w2 = (Inr (), w3)" and
    rest: "insertAnchors s cs w3 = (Inr u, w')"
    by (auto simp: run_iffs Let_def)
  have "w_db w3 = w_db w2" using sp by (rule same_dbD) (rule spawn_submit_frame)
  then have "ac_ArtifactID x \<in> set (anchored_ids (w_db w3))" using InsertAnchor_Inr [OF ins] by simp
  then have "ac_ArtifactID x \<in> set (anchored_ids (w_db w'))"
    using adds_entries_tables(4) insertAnchors_adds [OF rest assms(2,3)] by fastforce
  with Cons.IH [OF rest] Cons.prems(2) show ?case by auto
qed simp

end

end
