(* ===== verification/Cv_Properties.thy ===== *)
theory Cv_Properties
  imports Cv_Anchors Release_Liveness Artifact_Properties
begin

text \<open>
  What the public CV guarantees: anchoring covers the artifacts of a released deal and stays off
  the money path, an entry verifies exactly as long as its file hashes to the anchor, the profile
  is served whatever the file store does, and the upgrade worker touches pending entries only.
\<close>

section \<open>Anchoring a released deal\<close>

lemma comprehension_set:
  "c \<in> set (concat (map (\<lambda>a. concat (map (\<lambda>d. if q a d then [g a] else []) ds)) as)) \<longleftrightarrow>
     (\<exists>a \<in> set as. \<exists>d \<in> set ds. q a d \<and> c = g a)"
  by (auto split: if_splits)

lemma anchored_ex: "list_ex (\<lambda>e. e_artifact_id e = i) (t_cv_entries db) \<longleftrightarrow> i \<in> set (anchored_ids db)"
  by (auto simp: list_ex_iff)

lemma unanchored_set:
  "c \<in> set (unanchored p db) \<longleftrightarrow>
     (\<exists>a \<in> set (t_artifacts db). \<exists>d \<in> set (t_deals db). c_id d = a_DealID a \<and> p d \<and>
        c_status d = StatusReleased \<and> a_ID a \<notin> set (anchored_ids db) \<and>
        c = \<lparr>ac_ArtifactID = a_ID a, ac_StorageKey = a_StorageKey a, ac_DealID = a_DealID a\<rparr>)"
  unfolding unanchored_def anchored_ex comprehension_set by meson

context blob_service begin

lemma anchor_all_adds:
  assumes "anchor_all s cs w = (r, w')" and "cs_store s = st" "cs_platform s = P"
  shows "adds_entries (hash_at P blob w cs) (w_db w) (w_db w') \<and> log_adds spawn_event w w' \<and>
    (\<forall>k. blob k w' = blob k w)"
  using assms insertAnchors_adds [of s cs w r w']
  by (auto simp: anchor_all_def anchoring.Q_refl log_frame.frame_refl split: if_splits)

text \<open>A statement that lists artifacts, then anchors them.\<close>

lemma list_and_anchor:
  assumes "bindE (query P pre (\<lambda>_ _ db. (Inr (unanchored p db), db))) (anchor_all s) w = (r, w')"
    and "cs_store s = st" "cs_platform s = P"
  shows "adds_entries (hash_at P blob w (unanchored p (w_db w))) (w_db w) (w_db w') \<and>
    log_adds spawn_event w w' \<and> (\<forall>k. blob k w' = blob k w) \<and>
    (\<forall>u. r = Inr u \<longrightarrow> (\<forall>c \<in> set (unanchored p (w_db w)). ac_ArtifactID c \<in> set (anchored_ids (w_db w'))))"
proof -
  let ?q = "query P pre (\<lambda>_ _ db. (Inr (unanchored p db), db))"
  obtain q w1 where run: "?q w = (q, w1)" by (cases "?q w")
  have db: "w_db w1 = w_db w" using run by (rule same_dbD) (rule query_read_db, simp)
  have log: "w_log w1 = w_log w" using run by (rule same_logD) (rule query_log)
  have b: "blob k w1 = blob k w" for k using run by (rule query_blob)
  show ?thesis
  proof (cases q)
    case (Inl e)
    with assms(1) run have "w' = w1" "r = Inl e" by (auto simp: bindE_def)
    with db log b show ?thesis by (simp add: anchoring.Q_refl log_adds_def)
  next
    case (Inr cs)
    with run have cs: "cs = unanchored p (w_db w)" by (auto elim!: query_run)
    from assms(1) run Inr have rest: "anchor_all s cs w1 = (r, w')" by (simp add: bindE_def)
    have "hash_at P blob w1 cs a h \<longleftrightarrow> hash_at P blob w cs a h" for a h by (simp add: hash_at_def b)
    then have eq: "hash_at P blob w1 cs = hash_at P blob w cs" by (intro ext)
    have "ac_ArtifactID c \<in> set (anchored_ids (w_db w'))" if "r = Inr u" "c \<in> set cs" for u c
      using rest that insertAnchors_covers [of s cs w1 u w' c] assms(2,3)
      by (auto simp: anchor_all_def split: if_splits)
    with anchor_all_adds [OF rest assms(2,3)] db log b show ?thesis
      by (auto simp: cs [symmetric] eq log_adds_def)
  qed
qed

lemma AnchorReleasedDeal_run:
  assumes "CV_AnchorReleasedDeal s f i w = (r, w')" and "cs_store s = st" "cs_platform s = P"
  shows "adds_entries (hash_at P blob w (unanchored (\<lambda>d. c_freelancer_id d = f \<and> c_id d = i) (w_db w)))
      (w_db w) (w_db w')" "log_adds spawn_event w w'"
    "r = Inr u \<Longrightarrow> c \<in> set (unanchored (\<lambda>d. c_freelancer_id d = f \<and> c_id d = i) (w_db w)) \<Longrightarrow>
      ac_ArtifactID c \<in> set (anchored_ids (w_db w'))"
  using list_and_anchor [OF assms(1) [unfolded CV_AnchorReleasedDeal_def CV_ListUnanchoredDealArtifacts_def assms(3)] assms(2,3)]
  by auto

end

lemma spawn_not_money [simp]: "\<not> money_event c (EvSpawnSubmit a h)"
  by (simp add: money_event_def request_defs)

lemma cv_anchor_ok:
  assumes "sv_cv s = Some (CV_AnchorReleasedDeal cv)"
    and "cs_store cv = local_storage root" "cs_platform cv = with_disk P"
  shows "anchor_ok s"
  unfolding anchor_ok_def
proof (intro allI impI)
  fix hook f i w r w' assume "sv_cv s = Some hook" "hook f i w = (r, w')"
  with assms(1) have run: "CV_AnchorReleasedDeal cv f i w = (r, w')" by simp
  note eff = disk_service.AnchorReleasedDeal_run [OF run assms(2,3)]
  have "log_adds (\<lambda>ev. \<not> money_event (sv_lnbits s) ev) w w'"
    using eff(2) spawn_not_money by (force simp: log_adds_def spawn_event_def)
  with adds_entries_tables(1) [OF eff(1)] show "t_deals (w_db w') = t_deals (w_db w) \<and>
    log_adds (\<lambda>ev. \<not> money_event (sv_lnbits s) ev) w w'" by simp
qed

text \<open>C32: the CV service satisfies the contract that the release of an escrow assumes of its anchorer:
  it leaves the deals alone and sends nothing but background submissions, whatever fails. With it the
  theorems on the release hold without that assumption.\<close>

theorem cv_anchorer_contract:
  assumes "sv_cv s = Some (CV_AnchorReleasedDeal cv)"
    and "cs_store cv = local_storage root" "cs_platform cv = with_disk P"
  shows "anchor_ok s"
  using assms by (rule cv_anchor_ok)

text \<open>A successful anchoring leaves every artifact of the released deal with an entry, the table
  with at most one entry per artifact if it was so before, all earlier entries as they were, and
  each new entry belongs to an artifact of that deal and holds the SHA-256 of its file.\<close>

theorem anchor_covers_deal:
  assumes "CV_AnchorReleasedDeal s f i w = (Inr u, w')"
    and "cs_store s = local_storage root" "cs_platform s = with_disk P"
    and "d \<in> set (t_deals (w_db w))" "c_id d = i" "c_freelancer_id d = f" "c_status d = StatusReleased"
  shows "(\<forall>a \<in> set (t_artifacts (w_db w)). a_DealID a = i \<longrightarrow>
      (\<exists>e \<in> set (t_cv_entries (w_db w')). e_artifact_id e = a_ID a)) \<and>
    (distinct (anchored_ids (w_db w)) \<longrightarrow> distinct (anchored_ids (w_db w'))) \<and>
    set (t_cv_entries (w_db w)) \<subseteq> set (t_cv_entries (w_db w')) \<and>
    (\<forall>e \<in> set (t_cv_entries (w_db w')) - set (t_cv_entries (w_db w)).
       \<exists>a \<in> set (t_artifacts (w_db w)). \<exists>content. a_ID a = e_artifact_id e \<and> a_DealID a = i \<and>
         local_blob root (a_StorageKey a) w = Some content \<and>
         e_hash e = hex_EncodeToString (sha256 P content))"
proof -
  let ?p = "\<lambda>d. c_freelancer_id d = f \<and> c_id d = i"
  note eff = disk_service.AnchorReleasedDeal_run [OF assms(1-3)]
  have "\<exists>e \<in> set (t_cv_entries (w_db w')). e_artifact_id e = a_ID a"
    if a: "a \<in> set (t_artifacts (w_db w))" "a_DealID a = i" for a
  proof (cases "a_ID a \<in> set (anchored_ids (w_db w))")
    case True
    with adds_entries_tables(4) [OF eff(1)] show ?thesis by fastforce
  next
    case False
    let ?c = "\<lparr>ac_ArtifactID = a_ID a, ac_StorageKey = a_StorageKey a, ac_DealID = a_DealID a\<rparr>"
    from False a assms(4-7) have "?c \<in> set (unanchored ?p (w_db w))" unfolding unanchored_set by blast
    from eff(3) [OF refl this] show ?thesis by auto
  qed
  moreover have "\<exists>a \<in> set (t_artifacts (w_db w)). \<exists>content. a_ID a = e_artifact_id e \<and> a_DealID a = i \<and>
      local_blob root (a_StorageKey a) w = Some content \<and> e_hash e = hex_EncodeToString (sha256 P content)"
    if "e \<in> set (t_cv_entries (w_db w')) - set (t_cv_entries (w_db w))" for e
    using adds_entries_new [OF eff(1), of e] that
    by (fastforce simp: fresh_entry_def hash_at_def unanchored_set)
  ultimately show ?thesis
    using adds_entries_tables(4) [OF eff(1)] eff(1) by (auto simp: adds_entries_def)
qed

section \<open>Verifying an entry\<close>

lemma ext_call_frame: "runs_in same_db (ext_call f)" "runs_in same_log (ext_call f)"
  by (simp_all add: runs_in_def ext_call_run same_db_def same_log_iff)

lemma chain_loop_frame:
  "runs_in same_db (chain_loop L ch hash fe m ts seqs)"
  "runs_in same_log (chain_loop L ch hash fe m ts seqs)"
proof (induction seqs arbitrary: fe m ts)
  case Nil
  { case 1 show ?case unfolding chain_loop.simps by (rule db_frame.frame_ret) }
  { case 2 show ?case unfolding chain_loop.simps by (rule log_frame.frame_ret) }
next
  case (Cons seq seqs)
  { case 1 show ?case unfolding chain_loop.simps Let_def
      by (intro db_frame.frame_intros Cons.IH ext_call_frame) }
  { case 2 show ?case unfolding chain_loop.simps Let_def
      by (intro log_frame.frame_intros Cons.IH ext_call_frame) }
qed

lemma verifyOTSProof_frame:
  "runs_in same_db (verifyOTSProof s p hash)" "runs_in same_log (verifyOTSProof s p hash)"
  unfolding verifyOTSProof_def Verifier_Verify_def verifyAgainstChain_def
  by (intro db_frame.frame_intros log_frame.frame_intros chain_loop_frame)+

text \<open>A proof that the service accepts was accepted offline, for the digest that is asked about.\<close>

lemma verifyOTSProof_Inr:
  "verifyOTSProof s p hash w = (Inr ver, w') \<Longrightarrow> \<exists>v0. VerifyProof (cs_lib s) p hash = Inr v0"
  by (auto simp: verifyOTSProof_def Verifier_Verify_def run_iffs split: option.splits)

text \<open>The fields of a result that the proof check does not touch.\<close>

lemma with_ots_fields [simp]:
  "vr_Valid (with_ots r v) = vr_Valid v" "vr_MatchesCurrent (with_ots r v) = vr_MatchesCurrent v"
  "vr_Hash (with_ots r v) = vr_Hash v" "vr_EntryID (with_ots r v) = vr_EntryID v"
  "vr_OTSVerified (with_ots r v) \<longleftrightarrow> vr_OTSVerified v \<or> (\<exists>ver. r = Inr ver)"
  by (auto simp: with_ots_def Let_def split: sum.splits option.splits)

lemma GetEntry_Inr:
  assumes "CV_GetEntryForVerify P i slug w = (Inr er, w')"
  obtains e a d u where "(e, a, d, u) \<in> set (cv_join (w_db w))" "e_id e = i" "u_Slug u = slug"
    "er = record_of (e, a, d, u)" "w_db w' = w_db w" "w_log w' = w_log w"
proof -
  let ?q = "query P ''repository: get cv entry for verify: '' (\<lambda>_ _ db.
    (Inr (select_row (\<lambda>(e, a, d, u). e_id e = i \<and> u_Slug u = slug) (cv_join db)), db))"
  from assms obtain row where run: "?q w = (Inr (Some row), w')" and er: "er = record_of row"
    unfolding CV_GetEntryForVerify_def by (auto simp: run_iffs split: option.splits)
  from run have row: "select_row (\<lambda>(e, a, d, u). e_id e = i \<and> u_Slug u = slug) (cv_join (w_db w)) = Some row"
    and db: "w_db w' = w_db w" by (auto elim!: query_run)
  have "w_log w' = w_log w" using run by (rule same_logD) (rule query_log)
  obtain e a d u where "row = (e, a, d, u)" by (cases row)
  with select_row_Some [OF row] er db \<open>w_log w' = w_log w\<close> that show thesis by auto
qed

lemma cv_join_set:
  "(e, a, d, u) \<in> set (cv_join db) \<longleftrightarrow> e \<in> set (t_cv_entries db) \<and> a \<in> set (t_artifacts db) \<and>
     a_ID a = e_artifact_id e \<and> d \<in> set (t_deals db) \<and> c_id d = a_DealID a \<and>
     u \<in> set (t_users db) \<and> u_ID u = c_freelancer_id d"
  unfolding cv_join_def by (auto split: if_splits)

lemma check_ots_run:
  assumes "check_ots s er v0 w = (Inr v, w')" and "\<not> vr_OTSVerified v0"
  shows "vr_Valid v = vr_Valid v0" "vr_MatchesCurrent v = vr_MatchesCurrent v0" "vr_Hash v = vr_Hash v0"
    "vr_OTSVerified v \<Longrightarrow> er_OTSConfirmedAt er \<noteq> None \<and> er_OTSProof er \<noteq> [] \<and>
      (\<exists>hash u. hex_DecodeString (er_Hash er) = Some hash \<and> VerifyProof (cs_lib s) (er_OTSProof er) hash = Inr u)"
    "w_db w' = w_db w" "w_log w' = w_log w"
proof -
  consider (plain) "v = v0" "w' = w"
    | (asked) hash q where "hex_DecodeString (er_Hash er) = Some hash" "er_OTSProof er \<noteq> []"
      "er_OTSConfirmedAt er \<noteq> None" "verifyOTSProof s (er_OTSProof er) hash w = (q, w')" "v = with_ots q v0"
    using assms(1) by (auto simp: check_ots_def run_iffs split: if_splits option.splits)
  then have "vr_Valid v = vr_Valid v0 \<and> vr_MatchesCurrent v = vr_MatchesCurrent v0 \<and> vr_Hash v = vr_Hash v0 \<and>
    (vr_OTSVerified v \<longrightarrow> er_OTSConfirmedAt er \<noteq> None \<and> er_OTSProof er \<noteq> [] \<and>
      (\<exists>hash u. hex_DecodeString (er_Hash er) = Some hash \<and> VerifyProof (cs_lib s) (er_OTSProof er) hash = Inr u)) \<and>
    w_db w' = w_db w \<and> w_log w' = w_log w"
  proof cases
    case asked
    from asked(4) have "w_db w' = w_db w" "w_log w' = w_log w"
      using same_dbD [OF _ verifyOTSProof_frame(1)] same_logD [OF _ verifyOTSProof_frame(2)] by blast+
    with asked assms(2) show ?thesis by (auto dest: verifyOTSProof_Inr)
  qed (use assms(2) in auto)
  then show "vr_Valid v = vr_Valid v0" "vr_MatchesCurrent v = vr_MatchesCurrent v0" "vr_Hash v = vr_Hash v0"
    "vr_OTSVerified v \<Longrightarrow> er_OTSConfirmedAt er \<noteq> None \<and> er_OTSProof er \<noteq> [] \<and>
      (\<exists>hash u. hex_DecodeString (er_Hash er) = Some hash \<and> VerifyProof (cs_lib s) (er_OTSProof er) hash = Inr u)"
    "w_db w' = w_db w" "w_log w' = w_log w" by blast+
qed

lemma VerifyEntry_run:
  assumes "CV_Service_VerifyEntry s slug i w = (Inr v, w')"
    and "cs_store s = local_storage root" "cs_platform s = with_disk P"
  obtains e a d u content where "(e, a, d, u) \<in> set (cv_join (w_db w))" "e_id e = TrimSpace i"
    "u_Slug u = TrimSpace slug" "local_blob root (a_StorageKey a) w = Some content"
    "vr_Valid v \<longleftrightarrow> e_hash e = hex_EncodeToString (sha256 P content)"
    "vr_MatchesCurrent v = vr_Valid v" "vr_Hash v = e_hash e"
    "vr_OTSVerified v \<longrightarrow> (\<exists>proof hash v0. e_ots_proof e = Some proof \<and> e_ots_confirmed_at e \<noteq> None \<and>
      hex_DecodeString (e_hash e) = Some hash \<and> VerifyProof (cs_lib s) proof hash = Inr v0)"
    "w_db w' = w_db w" "w_log w' = w_log w"
proof -
  from assms(1) obtain er w1 content w2 where
    get: "CV_GetEntryForVerify (with_disk P) (TrimSpace i) (TrimSpace slug) w = (Inr er, w1)" and
    opn: "st_Open (local_storage root) (er_StorageKey er) w1 = (Inr content, w2)" and
    ots: "check_ots s er (entry_result s (TrimSpace slug) er content) w2 = (Inr v, w')"
    unfolding CV_Service_VerifyEntry_def Let_def assms(2,3)
    by (auto simp: bindE_Inr_iff split: if_splits)
  have "\<not> vr_OTSVerified (entry_result s (TrimSpace slug) er content)"
    by (simp add: entry_result_def Let_def)
  note chk = check_ots_run [OF ots this]
  from get obtain e a d u where row: "(e, a, d, u) \<in> set (cv_join (w_db w))" "e_id e = TrimSpace i"
    "u_Slug u = TrimSpace slug" and er: "er = record_of (e, a, d, u)" and same: "w_db w1 = w_db w" "w_log w1 = w_log w"
    by (rule GetEntry_Inr)
  from get have b: "local_blob root k w1 = local_blob root k w" for k
    unfolding CV_GetEntryForVerify_def by (auto simp: run_iffs dest!: disk_service.query_blob split: option.splits)
  from disk.open_ok [OF opn] b er have content: "local_blob root (a_StorageKey a) w = Some content"
    by (simp add: record_of_def)
  have w2: "w_db w2 = w_db w1" "w_log w2 = w_log w1"
    using opn by (blast intro: same_dbD [OF _ disk.open_frame(1)] same_logD [OF _ disk.open_frame(2)])+
  show thesis
  proof (rule that [OF row content])
    show "vr_Valid v \<longleftrightarrow> e_hash e = hex_EncodeToString (sha256 P content)"
      "vr_MatchesCurrent v = vr_Valid v" "vr_Hash v = e_hash e"
      using chk(1-3) assms(3) by (auto simp: entry_result_def Let_def er record_of_def)
    show "vr_OTSVerified v \<longrightarrow> (\<exists>proof hash v0. e_ots_proof e = Some proof \<and> e_ots_confirmed_at e \<noteq> None \<and>
      hex_DecodeString (e_hash e) = Some hash \<and> VerifyProof (cs_lib s) proof hash = Inr v0)"
      using chk(4) by (auto simp: er record_of_def scan_bytes_def split: option.splits)
    show "w_db w' = w_db w" "w_log w' = w_log w" using chk(5,6) w2 same by simp_all
  qed
qed

text \<open>C34: an entry is called valid exactly when its file, found through the artifact and the deal of the
  CV that was named, hashes to the stored anchor at that moment. It is called attested only when a
  confirmed proof is stored that verifies for the anchored hash. Verifying changes nothing.\<close>

theorem verify_entry_sound:
  assumes "CV_Service_VerifyEntry s slug i w = (Inr v, w')"
    and "cs_store s = local_storage root" "cs_platform s = with_disk P"
  shows "\<exists>e \<in> set (t_cv_entries (w_db w)). \<exists>a \<in> set (t_artifacts (w_db w)). \<exists>d \<in> set (t_deals (w_db w)).
      \<exists>u \<in> set (t_users (w_db w)). \<exists>content.
    e_id e = TrimSpace i \<and> a_ID a = e_artifact_id e \<and> c_id d = a_DealID a \<and> u_ID u = c_freelancer_id d \<and>
    u_Slug u = TrimSpace slug \<and> local_blob root (a_StorageKey a) w = Some content \<and>
    vr_Valid v = (e_hash e = hex_EncodeToString (sha256 P content)) \<and> vr_Hash v = e_hash e \<and>
    (vr_OTSVerified v \<longrightarrow> (\<exists>proof hash v0. e_ots_proof e = Some proof \<and> e_ots_confirmed_at e \<noteq> None \<and>
      hex_DecodeString (e_hash e) = Some hash \<and> VerifyProof (cs_lib s) proof hash = Inr v0)) \<and>
    w_db w' = w_db w \<and> w_log w' = w_log w"
proof -
  from assms obtain e a d u content where r: "(e, a, d, u) \<in> set (cv_join (w_db w))"
    and p: "e_id e = TrimSpace i" "u_Slug u = TrimSpace slug"
      "local_blob root (a_StorageKey a) w = Some content"
      "vr_Valid v \<longleftrightarrow> e_hash e = hex_EncodeToString (sha256 P content)" "vr_Hash v = e_hash e"
      "vr_OTSVerified v \<longrightarrow> (\<exists>proof hash v0. e_ots_proof e = Some proof \<and> e_ots_confirmed_at e \<noteq> None \<and>
        hex_DecodeString (e_hash e) = Some hash \<and> VerifyProof (cs_lib s) proof hash = Inr v0)"
      "w_db w' = w_db w" "w_log w' = w_log w"
    by (rule VerifyEntry_run) (rule that)
  from r [unfolded cv_join_set] p show ?thesis by blast
qed

lemma same_row: "distinct (map g xs) \<Longrightarrow> y \<in> set xs \<Longrightarrow> z \<in> set xs \<Longrightarrow> g y = g z \<Longrightarrow> y = z"
  by (auto simp: distinct_map inj_on_def)

text \<open>C33: an entry that a release anchored is later called valid exactly when the file has the hash
  that it had at the anchoring; the proof columns of the entry may have changed in between.\<close>

theorem anchored_entry_verifies:
  assumes anchor: "CV_AnchorReleasedDeal s f i w = (Inr x, w1)"
    and st: "cs_store s = local_storage root" "cs_platform s = with_disk P"
    and e: "e \<in> set (t_cv_entries (w_db w1))" "e \<notin> set (t_cv_entries (w_db w))"
    and verify: "CV_Service_VerifyEntry s slug (e_id e) w2 = (Inr v, w3)" and trim: "TrimSpace (e_id e) = e_id e"
    and row: "e' \<in> set (t_cv_entries (w_db w2))" "e_id e' = e_id e" "e_hash e' = e_hash e"
      "e_artifact_id e' = e_artifact_id e"
    and keys: "distinct (map e_id (t_cv_entries (w_db w2)))" "distinct (map a_ID (t_artifacts (w_db w2)))"
      "set (t_artifacts (w_db w)) \<subseteq> set (t_artifacts (w_db w2))"
  shows "\<exists>a \<in> set (t_artifacts (w_db w)). \<exists>c c'. a_ID a = e_artifact_id e \<and>
    local_blob root (a_StorageKey a) w = Some c \<and> local_blob root (a_StorageKey a) w2 = Some c' \<and>
    vr_Valid v = (sha256 P c' = sha256 P c)"
proof -
  note eff = disk_service.AnchorReleasedDeal_run [OF anchor st]
  from adds_entries_new [OF eff(1) e] obtain k c where
    k: "k \<in> set (unanchored (\<lambda>d. c_freelancer_id d = f \<and> c_id d = i) (w_db w))" "ac_ArtifactID k = e_artifact_id e"
    and c: "local_blob root (ac_StorageKey k) w = Some c" "e_hash e = hex_EncodeToString (sha256 P c)"
    unfolding fresh_entry_def hash_at_def with_disk_fields by blast
  from k(1) obtain a where "a \<in> set (t_artifacts (w_db w))" "ac_ArtifactID k = a_ID a" "ac_StorageKey k = a_StorageKey a"
    unfolding unanchored_set by auto
  with k(2) c have a: "a \<in> set (t_artifacts (w_db w))" "a_ID a = e_artifact_id e"
    "local_blob root (a_StorageKey a) w = Some c" "e_hash e = hex_EncodeToString (sha256 P c)" by simp_all
  obtain e2 a2 d2 u2 c' where r: "(e2, a2, d2, u2) \<in> set (cv_join (w_db w2))" "e_id e2 = TrimSpace (e_id e)"
    "local_blob root (a_StorageKey a2) w2 = Some c'" "vr_Valid v \<longleftrightarrow> e_hash e2 = hex_EncodeToString (sha256 P c')"
    by (rule VerifyEntry_run [OF verify st]) (rule that)
  from r(1) have r1: "e2 \<in> set (t_cv_entries (w_db w2))" "a2 \<in> set (t_artifacts (w_db w2))" "a_ID a2 = e_artifact_id e2"
    by (simp_all only: cv_join_set)
  have "e2 = e'" using r(2) row(2) trim by (intro same_row [OF keys(1) r1(1) row(1)]) simp
  moreover have "a \<in> set (t_artifacts (w_db w2))" using a(1) keys(3) by blast
  ultimately have "a2 = a" using a(2) row(4) r1 by (intro same_row [OF keys(2)]) simp_all
  have "hex_EncodeToString (sha256 P c) = hex_EncodeToString (sha256 P c') \<longleftrightarrow> sha256 P c' = sha256 P c"
    by (metis hex_round_trip option.inject)
  with a r(4) \<open>e2 = e'\<close> row(3) have "vr_Valid v = (sha256 P c' = sha256 P c)" by simp
  moreover have "local_blob root (a_StorageKey a) w2 = Some c'" using r(3) \<open>a2 = a\<close> by simp
  ultimately show ?thesis using a(1-3) by blast
qed

section \<open>The profile\<close>

lemma query_calm:
  assumes "db_up P"
  obtains now uuid e where
    "query P pre f w = (fst (f now uuid (w_db w)), w\<lparr>w_ext := e, w_db := snd (f now uuid (w_db w))\<rparr>)"
proof -
  obtain e where e: "pg_fault P (w_ext w) = (None, e)" using assms by (metis db_up_def prod.collapse)
  obtain now e1 where n: "clock P e = (now, e1)" by (cases "clock P e")
  obtain uuid e2 where u: "pg_uuid P e1 = (uuid, e2)" by (cases "pg_uuid P e1")
  from e n u that [of now uuid e2] show thesis
    by (cases "f now uuid (w_db w)") (simp add: query_def pg_step_def)
qed

lemma read_calm:
  assumes "db_up P"
  obtains e where "query P pre (\<lambda>_ _ db. (Inr (g db), db)) w = (Inr (g (w_db w)), w\<lparr>w_ext := e\<rparr>)"
  by (rule query_calm [OF assms, of pre "\<lambda>_ _ db. (Inr (g db), db)" w]) (use that in simp)

lemma order_entries_set: "set (order_entries es) = set es"
  by (auto simp: order_entries_def Let_def)

lemma trust_score_range: "100 \<le> trust_score n \<and> trust_score n \<le> 1000"
  by (simp add: trust_score_def)

lemma select_updated:
  assumes "select_row p rs = Some r" and "\<And>x. p (f x) = p x" and "q r"
  shows "select_row p (update_rows q f rs) = Some (f r)"
  using assms by (induction rs) (auto simp: select_row_def update_rows_def split: if_splits)

lemma refresh_calm:
  assumes "db_up (cs_platform s)" and "select_row (\<lambda>u. u_Slug u = slug) (t_users (w_db w)) = Some u"
  defines "score \<equiv> trust_score (affected (\<lambda>d. c_freelancer_id d = u_ID u \<and> c_status d = StatusReleased)
      (t_deals (w_db w)))"
  shows "\<exists>w' u'. refreshTrustScore s (u_ID u) (u_TrustScore u) w = (Inr score, w') \<and>
    select_row (\<lambda>u. u_Slug u = slug) (t_users (w_db w')) = Some u' \<and> u_TrustScore u' = score \<and> u_ID u' = u_ID u"
proof -
  obtain e where c: "CV_CountReleasedDeals (cs_platform s) (u_ID u) w =
      (Inr (affected (\<lambda>d. c_freelancer_id d = u_ID u \<and> c_status d = StatusReleased) (t_deals (w_db w))), w\<lparr>w_ext := e\<rparr>)"
    unfolding CV_CountReleasedDeals_def by (rule read_calm [OF assms(1)])
  show ?thesis
  proof (cases "score = u_TrustScore u")
    case True
    with c assms(2) show ?thesis by (simp add: refreshTrustScore_def bindE_def Let_def score_def)
  next
    case False
    let ?upd = "update_rows (\<lambda>x. u_ID x = u_ID u) (\<lambda>x. x\<lparr>u_TrustScore := score\<rparr>)"
    obtain e' where u: "CV_UpdateTrustScore (cs_platform s) (u_ID u) score (w\<lparr>w_ext := e\<rparr>) =
        (Inr (), w\<lparr>w_ext := e', w_db := (w_db w)\<lparr>t_users := ?upd (t_users (w_db w))\<rparr>\<rparr>)"
      unfolding CV_UpdateTrustScore_def
      by (rule query_calm [OF assms(1), of "''repository: update trust score: ''"
            "\<lambda>_ _ db. (Inr (), db\<lparr>t_users := ?upd (t_users db)\<rparr>)" "w\<lparr>w_ext := e\<rparr>"]) simp
    have "select_row (\<lambda>x. u_Slug x = slug) (?upd (t_users (w_db w))) = Some (u\<lparr>u_TrustScore := score\<rparr>)"
      using assms(2) by (intro select_updated) simp_all
    with c u False show ?thesis by (simp add: refreshTrustScore_def bindE_def Let_def score_def)
  qed
qed

text \<open>C35: when the database answers, the CV of an existing slug is served whatever the file store does to
  the anchors that are made up for on the way. Its trust score is 100 plus 25 for each released deal,
  at most 1000, and is the stored one afterwards; its entries are exactly those of released deals of
  the slug's owner.\<close>

theorem profile_served:
  assumes "db_up (cs_platform s)" and "cs_store s = local_storage root" "cs_platform s = with_disk P"
    and "TrimSpace slug0 = slug" "slug \<noteq> ''''"
    and "select_row (\<lambda>u. u_Slug u = slug) (t_users (w_db w)) = Some u"
  shows "\<exists>p w' u'. CV_Service_GetProfile s slug0 w = (Inr p, w') \<and> pf_Slug p = slug \<and>
    pf_TrustScore p = min (100 + 25 * int (affected (\<lambda>d. c_freelancer_id d = u_ID u \<and>
      c_status d = StatusReleased) (t_deals (w_db w)))) 1000 \<and>
    select_row (\<lambda>u. u_Slug u = slug) (t_users (w_db w')) = Some u' \<and> u_TrustScore u' = pf_TrustScore p \<and>
    set (pf_Entries p) = entry_of ` {(e, a, d, v) \<in> set (cv_join (w_db w')). u_Slug v = slug \<and> c_status d = StatusReleased}"
proof -
  let ?sel = "\<lambda>db. select_row (\<lambda>u. u_Slug u = slug) (t_users db)"
  from select_row_Some [OF assms(6)] have us: "u_Slug u = slug" by simp
  obtain e1 where g: "CV_GetProfile (cs_platform s) slug w =
      (Inr \<lparr>pr_ID = u_ID u, pr_DisplayName = u_DisplayName u, pr_Slug = slug, pr_TrustScore = u_TrustScore u\<rparr>,
       w\<lparr>w_ext := e1\<rparr>)"
    unfolding CV_GetProfile_def
    by (rule read_calm [OF assms(1), of "''repository: get cv profile: ''" ?sel w])
      (simp add: bindE_def assms(6) us)
  obtain q w2 where h: "healAnchors s (u_ID u) (w\<lparr>w_ext := e1\<rparr>) = (q, w2)"
    by (cases "healAnchors s (u_ID u) (w\<lparr>w_ext := e1\<rparr>)")
  note heal = disk_service.list_and_anchor [OF h [unfolded healAnchors_def
      CV_ListUnanchoredReleasedArtifacts_def assms(3)] assms(2,3), THEN conjunct1]
  have t2: "t_users (w_db w2) = t_users (w_db w)" "t_deals (w_db w2) = t_deals (w_db w)"
    using adds_entries_tables(1,3) [OF heal] by simp_all
  obtain w3 u' where r: "refreshTrustScore s (u_ID u) (u_TrustScore u) w2 =
      (Inr (trust_score (affected (\<lambda>d. c_freelancer_id d = u_ID u \<and> c_status d = StatusReleased)
        (t_deals (w_db w)))), w3)"
    and u': "?sel (w_db w3) = Some u'" "u_TrustScore u' = trust_score (affected (\<lambda>d. c_freelancer_id d = u_ID u \<and>
        c_status d = StatusReleased) (t_deals (w_db w)))"
    using refresh_calm [OF assms(1), of slug w2 u] assms(6) t2 by auto
  let ?rows = "\<lambda>db. filter (\<lambda>(e, a, d, u). u_Slug u = slug \<and> c_status d = StatusReleased) (cv_join db)"
  obtain e4 where l: "CV_ListEntries (cs_platform s) slug w3 =
      (Inr (order_entries (map entry_of (?rows (w_db w3)))), w3\<lparr>w_ext := e4\<rparr>)"
    unfolding CV_ListEntries_def by (rule read_calm [OF assms(1)])
  have "set (order_entries (map entry_of (?rows (w_db w3)))) =
      entry_of ` {(e, a, d, v) \<in> set (cv_join (w_db w3)). u_Slug v = slug \<and> c_status d = StatusReleased}"
    unfolding order_entries_set set_map set_filter by (rule arg_cong [where f = "image entry_of"]) auto
  with g h r l u' assms(4,5) show ?thesis
    by (simp add: CV_Service_GetProfile_def bindE_def bindR_def trust_score_def)
qed

section \<open>The upgrade worker\<close>

definition pending_entry :: "cv_row \<Rightarrow> bool" where
  "pending_entry e \<longleftrightarrow> e_ots_proof e \<noteq> None \<and> e_ots_submitted_at e \<noteq> None \<and> e_ots_confirmed_at e = None"

definition confirmed_from :: "cv_row \<Rightarrow> cv_row \<Rightarrow> bool" where
  "confirmed_from e e' \<longleftrightarrow> e' = e \<or>
     (pending_entry e \<and> (\<exists>p t. e' = e\<lparr>e_ots_proof := Some p, e_ots_confirmed_at := Some t\<rparr>))"

definition upgrades :: "cv_row list \<Rightarrow> cv_row list \<Rightarrow> bool" where
  "upgrades es es' \<longleftrightarrow> list_all2 confirmed_from es es'"

lemma upgrades_refl: "upgrades es es"
  by (simp add: upgrades_def list_all2_refl confirmed_from_def)

lemma same_submitted:
  "e_ots_submitted_at e = Some sub \<Longrightarrow>
     e\<lparr>e_ots_proof := p, e_ots_submitted_at := Some sub, e_ots_confirmed_at := t\<rparr> =
     e\<lparr>e_ots_proof := p, e_ots_confirmed_at := t\<rparr>"
  by (cases e) simp

lemma upgrades_update:
  assumes "upgrades es cur" and "distinct (map e_artifact_id es)" and "e \<in> set es" "pending_entry e"
  shows "upgrades es (update_rows (\<lambda>x. e_artifact_id x = e_artifact_id e)
    (\<lambda>x. x\<lparr>e_ots_proof := Some p, e_ots_submitted_at := Some (the (e_ots_submitted_at e)),
           e_ots_confirmed_at := Some t\<rparr>) cur)"
  unfolding upgrades_def list_all2_conv_all_nth
proof (intro conjI allI impI)
  from assms(1) have len: "length es = length cur" and each: "\<And>j. j < length es \<Longrightarrow> confirmed_from (es ! j) (cur ! j)"
    by (auto simp: upgrades_def list_all2_conv_all_nth)
  let ?f = "\<lambda>x. x\<lparr>e_ots_proof := Some p, e_ots_submitted_at := Some (the (e_ots_submitted_at e)),
    e_ots_confirmed_at := Some t\<rparr>"
  show "length es = length (update_rows (\<lambda>x. e_artifact_id x = e_artifact_id e) ?f cur)"
    using len by (simp add: update_rows_def)
  fix j assume j: "j < length es"
  show "confirmed_from (es ! j) (update_rows (\<lambda>x. e_artifact_id x = e_artifact_id e) ?f cur ! j)"
  proof (cases "e_artifact_id (cur ! j) = e_artifact_id e")
    case True
    with each [OF j] have "e_artifact_id (es ! j) = e_artifact_id e" by (auto simp: confirmed_from_def)
    then have "es ! j = e" using same_row [OF assms(2)] assms(3) j by simp
    with each [OF j] assms(4) have "?f (cur ! j) = e\<lparr>e_ots_proof := Some p, e_ots_confirmed_at := Some t\<rparr>"
      by (auto simp: confirmed_from_def pending_entry_def same_submitted)
    moreover have "update_rows (\<lambda>x. e_artifact_id x = e_artifact_id e) ?f cur ! j = ?f (cur ! j)"
      using True j len by (simp add: update_rows_def)
    ultimately show ?thesis using assms(4) \<open>es ! j = e\<close> unfolding confirmed_from_def by metis
  next
    case False
    with each [OF j] j len show ?thesis by (simp add: update_rows_def)
  qed
qed

lemma upgrade_pending_effect:
  assumes "upgrade_pending s (ots_interface c) as w = (r, w')"
    and "upgrades es (t_cv_entries (w_db w))" and "distinct (map e_artifact_id es)"
    and "\<forall>a \<in> set as. \<exists>e \<in> set es. pending_entry e \<and> pa_ArtifactID a = e_artifact_id e \<and>
      pa_SubmittedAt a = the (e_ots_submitted_at e)"
  shows "\<exists>es'. upgrades es es' \<and> w_db w' = (w_db w)\<lparr>t_cv_entries := es'\<rparr>"
  using assms(1,2,4)
proof (induction as arbitrary: w)
  case Nil
  then show ?case by (intro exI [of _ "t_cv_entries (w_db w)"]) simp
next
  case (Cons a as)
  obtain q w1 where up: "Client_Upgrade c (pa_OTSProof a) w = (q, w1)" by (cases "Client_Upgrade c (pa_OTSProof a) w")
  have db1: "w_db w1 = w_db w" using up by (rule same_dbD) (rule client_frame)
  show ?case
  proof (cases q)
    case (Inl e)
    with Cons.prems(1) up have "upgrade_pending s (ots_interface c) as w1 = (r, w')"
      by (simp add: bindR_def ots_interface_def)
    from Cons.IH [OF this] Cons.prems(2,3) db1 show ?thesis by simp
  next
    case (Inr p)
    obtain t w2 where n: "time_now (cs_platform s) w1 = (Inr t, w2)"
      by (cases "time_now (cs_platform s) w1") (auto simp: time_now_def split: prod.splits)
    have db2: "w_db w2 = w_db w1" using n by (rule same_dbD) (rule time_now_db)
    let ?u = "CV_UpdateAnchorOTS (cs_platform s) (pa_ArtifactID a) p (Some (pa_SubmittedAt a)) (Some t)"
    obtain x w3 where u: "?u w2 = (x, w3)" by (cases "?u w2")
    from Cons.prems(1) up Inr n u have rest: "upgrade_pending s (ots_interface c) as w3 = (r, w')"
      by (simp add: bindR_def bindE_def ots_interface_def)
    from Cons.prems(3) obtain e where e: "e \<in> set es" "pending_entry e" "pa_ArtifactID a = e_artifact_id e"
      "pa_SubmittedAt a = the (e_ots_submitted_at e)" by auto
    obtain es3 where es3: "upgrades es es3" "w_db w3 = (w_db w)\<lparr>t_cv_entries := es3\<rparr>"
      using query_effect [OF u [unfolded CV_UpdateAnchorOTS_def]]
    proof (elim disjE exE)
      assume "w_db w3 = w_db w2"
      with that [of "t_cv_entries (w_db w)"] Cons.prems(2) db1 db2 show thesis by simp
    next
      fix now :: time and uuid :: string
      assume "w_db w3 = snd (Inr (), (w_db w2)\<lparr>t_cv_entries := update_rows (\<lambda>x. e_artifact_id x = pa_ArtifactID a)
        (\<lambda>x. x\<lparr>e_ots_proof := Some p, e_ots_submitted_at := Some (pa_SubmittedAt a), e_ots_confirmed_at := Some t\<rparr>)
        (t_cv_entries (w_db w2))\<rparr>)"
      with that upgrades_update [OF Cons.prems(2) assms(3) e(1,2), where p = p and t = t] e(3,4) db1 db2 show thesis by simp
    qed
    from Cons.IH [OF rest] Cons.prems(3) es3 show ?thesis by simp
  qed
qed

text \<open>C36: a round of the upgrade worker, with the real calendar client and whatever fails, changes pending
  entries only, and those only in their proof and in being confirmed: hashes, artifacts, submission
  times and already confirmed entries stay, and so do all other tables.\<close>

theorem upgrade_touches_pending:
  assumes "UpgradeOTSProofs s w = (r, w')" and "cs_otsClient s = Some (ots_interface c)"
    and "distinct (anchored_ids (w_db w))"
  shows "\<exists>es'. list_all2 confirmed_from (t_cv_entries (w_db w)) es' \<and> w_db w' = (w_db w)\<lparr>t_cv_entries := es'\<rparr>"
proof -
  let ?list = "CV_ListPendingOTSAnchors (cs_platform s)"
  obtain q w1 where l: "?list w = (q, w1)" by (cases "?list w")
  have db: "w_db w1 = w_db w" using l unfolding CV_ListPendingOTSAnchors_def
    by (rule same_dbD) (rule query_read_db, simp)
  show ?thesis
  proof (cases q)
    case (Inl e)
    with assms(1,2) l db have "w_db w' = w_db w" by (auto simp: UpgradeOTSProofs_def bindE_def)
    then show ?thesis
      using upgrades_refl [of "t_cv_entries (w_db w)"] by (intro exI [of _ "t_cv_entries (w_db w)"]) (simp add: upgrades_def)
  next
    case (Inr as)
    have as: "\<forall>a \<in> set as. \<exists>e \<in> set (t_cv_entries (w_db w)). pending_entry e \<and>
        pa_ArtifactID a = e_artifact_id e \<and> pa_SubmittedAt a = the (e_ots_submitted_at e)"
      using l [unfolded Inr CV_ListPendingOTSAnchors_def]
      by (elim query_run) (force simp: pending_entry_def)
    from assms(1,2) l Inr have "upgrade_pending s (ots_interface c) as w1 = (r, w')"
      by (simp add: UpgradeOTSProofs_def bindE_def)
    from upgrade_pending_effect [OF this, of "t_cv_entries (w_db w)"] assms(3) as db upgrades_refl
    show ?thesis by (simp add: upgrades_def)
  qed
qed

section \<open>A concrete CV\<close>

definition disk_client :: "(fs \<times> demo, nat) ots_client" where
  "disk_client = \<lparr>oc_platform = with_disk demo_platform, oc_lib = demo_pkg, oc_calendars = [''cal''],
     oc_do = (\<lambda>_ _ _ e. (Response 200 (Inr ''tail''), e))\<rparr>"

definition cal_pkg :: "nat otspkg" where
  "cal_pkg = demo_pkg\<lparr>op_ParseTimestamp := (\<lambda>t. Inr [[0]])\<rparr>"

definition demo_cv :: "(fs \<times> demo, nat) cv_service" where
  "demo_cv = \<lparr>cs_platform = with_disk demo_platform, cs_store = local_storage ''/up'',
     cs_otsClient = Some (ots_interface (disk_client\<lparr>oc_lib := cal_pkg\<rparr>)), cs_verifier = None,
     cs_lib = demo_pkg\<rparr>"

definition demo_artifact :: Artifact where
  "demo_artifact = \<lparr>a_ID = ''a1'', a_DealID = ''d'', a_Kind = ArtifactSourceFile, a_StorageKey = ''a'',
     a_UploadedAt = 0\<rparr>"

definition demo_entry :: "string option \<Rightarrow> time option \<Rightarrow> cv_row" where
  "demo_entry proof confirmed = \<lparr>e_id = ''e'', e_artifact_id = ''a1'',
     e_hash = hex_EncodeToString (sha256 demo_platform ''pdf''), e_algorithm = ''sha256'', e_ots_proof = proof,
     e_ots_submitted_at = map_option (\<lambda>_. 1) proof, e_ots_confirmed_at = confirmed, e_created_at = 0\<rparr>"

definition demo_owner :: User where
  "demo_owner = \<lparr>u_ID = ''f'', u_Email = ''f@x'', u_PasswordHash = ''p'', u_DisplayName = ''F'',
     u_Slug = ''n'', u_BitcoinAddress = '''', u_TrustScore = 100, u_IsOperator = False, u_CreatedAt = 0\<rparr>"

definition demo_files :: fs where
  "demo_files = \<lparr>fs_files = (\<lambda>p. if resolve ''/up'' ''a'' = Inr p then Some ''pdf'' else None), fs_faults = [],
     fs_entropy = []\<rparr>"

definition cv_world :: "cv_row list \<Rightarrow> (fs \<times> demo) world" where
  "cv_world es =
     \<lparr>w_db = \<lparr>t_deals = [demo_row StatusReleased], t_artifacts = [demo_artifact], t_verifications = [],
        t_users = [demo_owner], t_refresh_tokens = [], t_cv_entries = es\<rparr>,
      w_ext = (demo_files, demo_ext [] []), w_log = []\<rparr>"

lemma demo_key_path: obtains path where "resolve ''/up'' ''a'' = Inr path"
  by (rule resolve_plain [of "''a''" "''/up''"]) (simp_all add: plain_def TrimSpace_start IsSpace_def)

lemma demo_open:
  assumes "fst (w_ext w) = demo_files"
  shows "on_disk (Local_Open ''/up'' ''a'') w = (Inr ''pdf'', w)"
proof -
  obtain path where "resolve ''/up'' ''a'' = Inr path" by (rule demo_key_path)
  with assms show ?thesis
    by (cases w; cases "w_ext w")
      (simp add: on_disk_def Local_Open_def os_read_def os_Open_def syscall_def sys_fault_def demo_files_def bindE_def)
qed

lemmas run_cv = demo_cv_def cv_world_def demo_artifact_def demo_owner_def demo_row_def CV_AnchorReleasedDeal_def
  CV_ListUnanchoredDealArtifacts_def unanchored_def anchor_all_def CV_InsertAnchor_def spawn_submit_def
  run_prims beside_def

definition new_entry :: cv_row where
  "new_entry = (demo_entry None None)\<lparr>e_id := ''nxx'', e_created_at := 101\<rparr>"

lemma demo_anchor_run:
  "\<exists>E L. CV_AnchorReleasedDeal demo_cv ''f'' ''d'' (cv_world []) =
     (Inr (), (cv_world [new_entry])\<lparr>w_ext := (demo_files, E), w_log := L\<rparr>) \<and> dm_faults E = []"
  by (simp add: run_cv demo_open demo_entry_def new_entry_def numeral_2_eq_2)

lemma demo_trim [simp]: "TrimSpace ''n'' = ''n''" "TrimSpace ''nxx'' = ''nxx''"
  by (simp_all add: TrimSpace_ascii bytes_def of_bytes_def IsSpace_def char_of_def bit_0)

lemma demo_verify_run:
  assumes "dm_faults E = []"
  shows "\<exists>v w'. CV_Service_VerifyEntry demo_cv ''n'' ''nxx''
      ((cv_world [new_entry])\<lparr>w_ext := (demo_files, E), w_log := L\<rparr>) = (Inr v, w') \<and> vr_Valid v"
  using assms
  by (simp add: CV_Service_VerifyEntry_def CV_GetEntryForVerify_def cv_join_def select_row_def record_of_def
      run_cv demo_open demo_entry_def new_entry_def check_ots_def entry_result_def scan_bytes_def)

lemma demo_cv_fields:
  "cs_store demo_cv = local_storage ''/up''" "cs_platform demo_cv = with_disk demo_platform"
  by (simp_all add: demo_cv_def)

theorem cv_anchorer_contract_witness:
  "anchor_ok (disk_svc\<lparr>sv_cv := Some (CV_AnchorReleasedDeal demo_cv)\<rparr>)"
  by (rule cv_anchorer_contract [OF _ demo_cv_fields]) simp

theorem anchor_covers_deal_witness:
  "\<exists>w'. CV_AnchorReleasedDeal demo_cv ''f'' ''d'' (cv_world []) = (Inr (), w') \<and>
     (\<exists>e \<in> set (t_cv_entries (w_db w')). e_artifact_id e = ''a1'')"
proof -
  obtain w' where run: "CV_AnchorReleasedDeal demo_cv ''f'' ''d'' (cv_world []) = (Inr (), w')"
    using demo_anchor_run by blast
  have "demo_row StatusReleased \<in> set (t_deals (w_db (cv_world [])))" "c_id (demo_row StatusReleased) = ''d''"
    "c_freelancer_id (demo_row StatusReleased) = ''f''" "c_status (demo_row StatusReleased) = StatusReleased"
    by (simp_all add: cv_world_def demo_row_def)
  from anchor_covers_deal [OF run demo_cv_fields this] run show ?thesis
    by (auto simp: cv_world_def demo_artifact_def)
qed

theorem verify_entry_sound_witness:
  "\<exists>v w'. CV_Service_VerifyEntry demo_cv ''n'' ''nxx''
      ((cv_world [new_entry])\<lparr>w_ext := (demo_files, demo_ext [] []), w_log := []\<rparr>) = (Inr v, w') \<and>
     vr_Hash v = e_hash new_entry \<and> w_log w' = []"
proof -
  have "dm_faults (demo_ext [] []) = []" by simp
  from demo_verify_run [OF this, of "[]"] obtain v w' where run: "CV_Service_VerifyEntry demo_cv ''n'' ''nxx''
      ((cv_world [new_entry])\<lparr>w_ext := (demo_files, demo_ext [] []), w_log := []\<rparr>) = (Inr v, w')" by blast
  from verify_entry_sound [OF run demo_cv_fields] run show ?thesis by (auto simp: cv_world_def)
qed

theorem anchored_entry_verifies_witness:
  "\<exists>w1 v w3. CV_AnchorReleasedDeal demo_cv ''f'' ''d'' (cv_world []) = (Inr (), w1) \<and>
     CV_Service_VerifyEntry demo_cv ''n'' ''nxx'' w1 = (Inr v, w3) \<and> vr_Valid v"
proof -
  obtain E L where run: "CV_AnchorReleasedDeal demo_cv ''f'' ''d'' (cv_world []) =
     (Inr (), (cv_world [new_entry])\<lparr>w_ext := (demo_files, E), w_log := L\<rparr>)" (is "_ = (_, ?w1)")
    and calm: "dm_faults E = []"
    using demo_anchor_run by blast
  obtain v w3 where ver: "CV_Service_VerifyEntry demo_cv ''n'' ''nxx'' ?w1 = (Inr v, w3)"
    using demo_verify_run [OF calm] by blast
  have e: "new_entry \<in> set (t_cv_entries (w_db ?w1))" "new_entry \<notin> set (t_cv_entries (w_db (cv_world [])))"
    "e_id new_entry = ''nxx''" "TrimSpace (e_id new_entry) = e_id new_entry"
    by (simp_all add: cv_world_def new_entry_def)
  have keys: "distinct (map e_id (t_cv_entries (w_db ?w1)))" "distinct (map a_ID (t_artifacts (w_db ?w1)))"
    "set (t_artifacts (w_db (cv_world []))) \<subseteq> set (t_artifacts (w_db ?w1))"
    by (simp_all add: cv_world_def)
  from anchored_entry_verifies [OF run demo_cv_fields e(1,2) ver [folded e(3)] e(4) e(1) refl refl refl keys]
  have "vr_Valid v"
    by (auto simp: cv_world_def demo_artifact_def local_blob_def demo_files_def split: sum.splits if_splits)
  with run ver show ?thesis by blast
qed

theorem profile_served_witness:
  "\<exists>p w'. CV_Service_GetProfile (demo_cv\<lparr>cs_platform := with_disk (demo_platform\<lparr>pg_fault := \<lambda>e. (None, e)\<rparr>)\<rparr>)
     ''n'' (cv_world []) = (Inr p, w') \<and> pf_TrustScore p = 125"
proof -
  let ?P = "demo_platform\<lparr>pg_fault := \<lambda>e. (None, e)\<rparr>"
  let ?s = "demo_cv\<lparr>cs_platform := with_disk ?P\<rparr>"
  have up: "db_up (cs_platform ?s)" by (simp add: db_up_def beside_def)
  have st: "cs_store ?s = local_storage ''/up''" "cs_platform ?s = with_disk ?P" by (simp_all add: demo_cv_def)
  have sel: "select_row (\<lambda>u. u_Slug u = ''n'') (t_users (w_db (cv_world []))) = Some demo_owner"
    by (simp add: select_row_def cv_world_def demo_owner_def)
  have n: "affected (\<lambda>d. c_freelancer_id d = u_ID demo_owner \<and> c_status d = StatusReleased)
      (t_deals (w_db (cv_world []))) = 1"
    by (simp add: affected_def cv_world_def demo_owner_def demo_row_def)
  from profile_served [OF up st demo_trim(1) _ sel] show ?thesis unfolding n by fastforce
qed

theorem upgrade_touches_pending_witness:
  "\<exists>r w' es'. UpgradeOTSProofs demo_cv (cv_world [demo_entry (Some ''pending'') None]) = (r, w') \<and>
     list_all2 confirmed_from [demo_entry (Some ''pending'') None] es' \<and> t_cv_entries (w_db w') = es'"
proof -
  let ?w = "cv_world [demo_entry (Some ''pending'') None]"
  obtain r w' where run: "UpgradeOTSProofs demo_cv ?w = (r, w')" by (cases "UpgradeOTSProofs demo_cv ?w")
  have "cs_otsClient demo_cv = Some (ots_interface (disk_client\<lparr>oc_lib := cal_pkg\<rparr>))" "distinct (anchored_ids (w_db ?w))"
    by (simp_all add: demo_cv_def cv_world_def)
  from upgrade_touches_pending [OF run this] run show ?thesis by (auto simp: cv_world_def)
qed

section \<open>A late submission\<close>

text \<open>Inserting an anchor that is already there is a no-op, but the submission is started all the
  same; when it ends it replaces the proof of an entry that was confirmed in the meantime by a fresh
  pending one and the entry counts as unconfirmed again.\<close>

theorem late_submit_unconfirms:
  "\<exists>w1 w2 u. insertAnchors demo_cv [\<lparr>ac_ArtifactID = ''a1'', ac_StorageKey = ''a'', ac_DealID = ''d''\<rparr>]
       (cv_world [demo_entry (Some ''done'') (Some 9)]) = (Inr (), w1) \<and>
     t_cv_entries (w_db w1) = [demo_entry (Some ''done'') (Some 9)] \<and>
     (\<exists>h. EvSpawnSubmit ''a1'' h \<in> set (w_log w1) \<and>
       submit_anchor demo_cv (the (cs_otsClient demo_cv)) ''a1'' h w1 = (u, w2)) \<and>
     map e_ots_confirmed_at (t_cv_entries (w_db w2)) = [None]"
  by (simp add: run_cv demo_open demo_entry_def submit_anchor_def ots_interface_def Client_Submit_def
      submitToCalendar_def calendar_do_def read_limited_def maxProofBytes_def single_sequence_def cal_pkg_def
      demo_pkg_def disk_client_def sha256Size_def CV_UpdateAnchorOTS_def update_rows_def)

end
