(* ===== verification/Server_Frames.thy ===== *)
theory Server_Frames
  imports Server Webhook_Properties Cv_Properties
begin

text \<open>
  What the handlers add to the log of effects, and that every request is answered: the calculus
  behind the theorems on the HTTP server. Only three endpoints can settle a hold or pay an invoice.
\<close>

section \<open>Requests that spend\<close>

text \<open>Settling a hold or paying an invoice.\<close>

definition spends :: "lnbits_client \<Rightarrow> event \<Rightarrow> bool" where
  "spends c ev \<longleftrightarrow> is_settle c ev \<or> is_payout ev"

lemma spends_simps [simp]:
  "\<not> spends c (EvHttp (check_request c i) res)" "\<not> spends c (EvHttp (wallet_request c) res)"
  "\<not> spends c (EvHttp (cancel_request c h) res)" "\<not> spends c (EvNotify n d)"
  "\<not> spends c (EvAnchor f i)" "\<not> spends c (EvSpawnSubmit f i)" "\<not> spends c (EvCalendar f i)"
  by (simp_all add: spends_def request_defs)

lemma not_money_spends: "\<not> money_event c ev \<Longrightarrow> \<not> spends c ev"
  by (simp add: spends_def money_event_def)

lemma hold_not_spends [simp]: "\<not> spends c (EvHttp (hold_request c (hold_defaults c (hold_for d))) res)"
  by (simp add: spends_def request_defs hold_body_def hold_defaults_def hold_for_def Let_def)

abbreviation quiet :: "lnbits_client \<Rightarrow> 'e world \<Rightarrow> 'e world \<Rightarrow> bool" where
  "quiet c \<equiv> log_adds (\<lambda>ev. \<not> spends c ev)"

text \<open>What the server needs of its collaborators: the anchorer's contract, and storage backends whose
  operations are no network requests.\<close>

definition storage_quiet :: "'e storage \<Rightarrow> bool" where
  "storage_quiet st \<longleftrightarrow>
     (\<forall>k r. runs_in same_log (st_Save st k r) \<and> runs_in same_log (st_Open st k) \<and>
        runs_in same_log (st_Size st k) \<and> runs_in same_log (st_Delete st k))"

definition wired :: "('e, 'i) app \<Rightarrow> bool" where
  "wired a \<longleftrightarrow> anchor_ok (ap_deals a) \<and> storage_quiet (cs_store (ap_cv a)) \<and>
     (\<forall>st. sv_storage (ap_deals a) = Some st \<longrightarrow> storage_quiet st)"

lemma storage_log:
  assumes "storage_quiet st"
  shows "runs_in (log_adds S) (st_Save st k r)" "runs_in (log_adds S) (st_Open st k)"
    "runs_in (log_adds S) (st_Size st k)" "runs_in (log_adds S) (st_Delete st k)"
  using assms by (auto simp: storage_quiet_def intro: same_log_adds)

section \<open>The log of the handlers\<close>

lemma respond_log [keeps_log]: "runs_in (log_adds S) m \<Longrightarrow> runs_in (log_adds S) (respond m f g)"
  unfolding respond_def by (intro log_frame.frame_intros)

lemma rand_time_log [keeps_log]:
  "runs_in (log_adds S) (read_rand P n)" "runs_in (log_adds S) (time_now P)"
  by (rule same_log_adds, rule read_rand_log time_now_log)+

lemma notify_quiet: "runs_in (quiet c) (notify s n d)"
  by (rule keeps_log) simp

lemma calls_quiet:
  "runs_in (quiet (sv_lnbits s)) (Client_CheckPayment (sv_platform s) (sv_lnbits s) i)"
  "runs_in (quiet (sv_lnbits s)) (Client_CancelHold (sv_platform s) (sv_lnbits s) h)"
  "runs_in (quiet (sv_lnbits s)) (Client_CreateHoldInvoice (sv_platform s) (sv_lnbits s) (hold_for d))"
  by (intro check_call.call_adds cancel_call.call_adds hold_call.call_adds; simp)+

lemma refresh_quiet: "runs_in (quiet (sv_lnbits s)) (refreshPaymentStatus s d)"
  unfolding refreshPaymentStatus_def Let_def
  by (intro log_frame.frame_intros calls_quiet repo_log notify_quiet)

lemma deal_reads_quiet:
  "runs_in (quiet c) (Service_GetDealByID s i u em)"
  "runs_in (quiet c) (Service_ListByUser s u em)"
  "runs_in (quiet c) (Service_ListDisputes s)"
  unfolding Service_GetDealByID_def Service_ListByUser_def Service_ListDisputes_def
  by (intro log_frame.frame_intros keeps_log)+

lemma CreateDeal_quiet: "runs_in (quiet (sv_lnbits s)) (Service_CreateDeal s d)"
  unfolding Service_CreateDeal_def generateShareToken_def cancelOrphanHold_def Let_def
  by (intro log_frame.frame_intros rand_time_log calls_quiet withTx_log repo_log)

lemma writes_quiet:
  "runs_in (quiet c) (Service_UpdateStatus s u i st)"
  "runs_in (quiet c) (Service_SubmitWork s u i)"
  "runs_in (quiet c) (Service_UpdatePayeeInvoice s u i b)"
  "runs_in (quiet c) (Service_RotateShareLink s u i)"
  unfolding Service_UpdateStatus_def UpdateStatus_check_def Service_SubmitWork_def SubmitWork_check_def
    SubmitWork_write_def Service_UpdatePayeeInvoice_def Service_RotateShareLink_def
    generateShareToken_def Let_def
  by (intro log_frame.frame_intros rand_time_log repo_log)+

lemma DisputeDeal_quiet: "runs_in (quiet c) (Service_DisputeDeal s em i x)"
  unfolding Service_DisputeDeal_def Let_def
  by (intro log_frame.frame_intros rand_time_log repo_log notify_quiet)

lemma payment_reads_quiet:
  "runs_in (quiet (sv_lnbits s)) (Service_CheckPayment s u i)"
  "runs_in (quiet (sv_lnbits s)) (Service_GetPublicDeal s tok)"
  unfolding Service_CheckPayment_def Service_GetPublicDeal_def Let_def
  by (intro log_frame.frame_intros refresh_quiet repo_log)+

lemma anchor_quiet: "anchor_ok s \<Longrightarrow> runs_in (quiet (sv_lnbits s)) (anchorReleasedDeal s d)"
  by (rule log_adds_mono [OF anchor_log]) (simp_all add: not_money_spends)

lemma checkOutgoing_quiet: "runs_in (quiet (sv_lnbits s)) (checkOutgoingPayout s i)"
  by (rule checkOutgoing_log) simp

lemma reconcile_quiet:
  assumes "anchor_ok s"
  shows "runs_in (quiet (sv_lnbits s)) (Service_ReconcilePayout s op i act x)"
  unfolding Service_ReconcilePayout_def reconcile_confirm_def reconcile_reset_def confirm_body_def Let_def
  by (cases act; simp only: ReconcileAction.case; intro log_frame.frame_intros repo_log notify_quiet
      withTx_log checkOutgoing_quiet anchor_quiet [OF assms])

lemma artifact_ops_quiet:
  assumes "\<And>st. sv_storage s = Some st \<Longrightarrow> storage_quiet st"
  shows "runs_in (log_adds S) (Service_UploadArtifact s u i k fn r)"
    "runs_in (log_adds S) (Service_DownloadArtifact s u em i j)"
    "runs_in (log_adds S) (Service_DeleteArtifact s u i j)"
proof (atomize (full), cases "sv_storage s")
  case None
  show "runs_in (log_adds S) (Service_UploadArtifact s u i k fn r) \<and>
    runs_in (log_adds S) (Service_DownloadArtifact s u em i j) \<and>
    runs_in (log_adds S) (Service_DeleteArtifact s u i j)"
    unfolding Service_UploadArtifact_def Service_DownloadArtifact_def Service_DeleteArtifact_def None option.case
    by (intro conjI log_frame.frame_intros repo_log)
next
  case (Some st)
  note st = storage_log [OF assms [OF Some], of S]
  show "runs_in (log_adds S) (Service_UploadArtifact s u i k fn r) \<and>
    runs_in (log_adds S) (Service_DownloadArtifact s u em i j) \<and>
    runs_in (log_adds S) (Service_DeleteArtifact s u i j)"
    unfolding Service_UploadArtifact_def Service_DownloadArtifact_def Service_DeleteArtifact_def
      artifactStorageKey_def upload_store_def artifact_for_def Let_def Some option.case
    by (intro conjI log_frame.frame_intros repo_log rand_time_log st)
qed

lemma artifact_reads_quiet:
  "runs_in (log_adds S) (Service_ListArtifactsByDeal s u em i)"
  "runs_in (log_adds S) (Service_GetArtifactByID s u em i j)"
  "runs_in (log_adds S) (Service_CreateVerification s u v)"
  "runs_in (log_adds S) (Service_ListVerificationsByArtifact s u j)"
  "runs_in (log_adds S) (Service_GetVerificationByID s u i j k)"
  unfolding Service_ListArtifactsByDeal_def Service_GetArtifactByID_def artifact_for_def
    Service_CreateVerification_def Service_ListVerificationsByArtifact_def Service_GetVerificationByID_def
  by (intro log_frame.frame_intros repo_log)+

lemma verify_log [keeps_log]: "runs_in (log_adds S) (verify_token s x t)"
  unfolding verify_token_def by (intro log_frame.frame_intros rand_time_log)

lemma users_log [keeps_log]:
  "runs_in (log_adds S) (Users_FindByEmail P em)" "runs_in (log_adds S) (Users_FindByID P i)"
  "runs_in (log_adds S) (Users_EmailExists P em)" "runs_in (log_adds S) (Users_SlugExists P x)"
  "runs_in (log_adds S) (Users_Create P em h n x)"
  "runs_in (log_adds S) (Tokens_Store P i h t)" "runs_in (log_adds S) (Tokens_Find P h)"
  "runs_in (log_adds S) (Tokens_Revoke P h)"
  unfolding Users_FindByEmail_def Users_FindByID_def Users_EmailExists_def Users_SlugExists_def
    Users_Create_def Tokens_Store_def Tokens_Find_def Tokens_Revoke_def find_user_def
  by (intro log_frame.frame_intros query_log')+

lemma issueTokens_log [keeps_log]: "runs_in (log_adds S) (issueTokens s u)"
  unfolding issueTokens_def GenerateAccessToken_def GenerateRefreshToken_def sign_token_def randomTokenID_def
  by (intro log_frame.frame_intros rand_time_log users_log)

lemma hash_password_log [keeps_log]: "runs_in (log_adds S) (hash_password s x)"
  by (auto simp: runs_in_def hash_password_def log_adds_def split: prod.splits sum.splits)

lemma slug_log [keeps_log]: "runs_in (log_adds S) (generateUniqueSlug s n)"
proof -
  have "runs_in (log_adds S) (slug_attempts s b k)" for b k
    by (induction k) (unfold slug_attempts.simps Let_def,
      (intro log_frame.frame_intros rand_time_log users_log; assumption?)+)
  then show ?thesis
    unfolding generateUniqueSlug_def Let_def by (intro log_frame.frame_intros users_log)
qed

lemma auth_ops_quiet:
  "runs_in (log_adds S) (Service_Register s em x n)"
  "runs_in (log_adds S) (Service_Authenticate s em x)"
  "runs_in (log_adds S) (Service_Logout s t)"
  "runs_in (log_adds S) (Service_RefreshToken s t)"
  "runs_in (log_adds S) (Service_GetMe s u)"
  unfolding Service_Register_def Service_Authenticate_def Service_Logout_def Service_RefreshToken_def
    Service_GetMe_def refresh_check_def refresh_revoke_def find_stored_def VerifyRefreshToken_def Let_def
  by (intro log_frame.frame_intros users_log issueTokens_log hash_password_log slug_log verify_log
      rand_time_log)+

lemma handlers_quiet:
  "runs_in (log_adds S) (Handler_Signup s b)" "runs_in (log_adds S) (Handler_Login s b)"
  "runs_in (log_adds S) (Handler_Logout s b)" "runs_in (log_adds S) (Handler_RefreshToken s b)"
  "runs_in (log_adds S) (Handler_GetMe s u)"
  unfolding Handler_Signup_def Handler_Login_def Handler_Logout_def Handler_RefreshToken_def Handler_GetMe_def
  by (auto split: option.split list.split intro!: log_frame.frame_intros auth_ops_quiet)

lemma AuthRequired_log [keeps_log]: "runs_in (log_adds S) (AuthRequired s h)"
  unfolding AuthRequired_def VerifyAccessToken_def by (intro log_frame.frame_intros verify_log)

lemma AuthRequired_db [keeps_db]: "runs_in same_db (AuthRequired s h)"
  unfolding AuthRequired_def VerifyAccessToken_def verify_token_def
  by (intro db_frame.frame_intros time_now_db)

lemma CV_repo_log [keeps_log]:
  "runs_in (log_adds S) (CV_GetProfile P x)" "runs_in (log_adds S) (CV_ListEntries P x)"
  "runs_in (log_adds S) (CV_ListUnanchoredReleasedArtifacts P x)"
  "runs_in (log_adds S) (CV_InsertAnchor P x y)"
  "runs_in (log_adds S) (CV_CountReleasedDeals P x)" "runs_in (log_adds S) (CV_UpdateTrustScore P x n)"
  "runs_in (log_adds S) (CV_GetEntryForVerify P x y)"
  unfolding CV_GetProfile_def CV_ListEntries_def CV_ListUnanchoredReleasedArtifacts_def
    CV_InsertAnchor_def CV_CountReleasedDeals_def CV_UpdateTrustScore_def CV_GetEntryForVerify_def
  by (intro log_frame.frame_intros query_log')+

lemma insertAnchors_quiet:
  "storage_quiet (cs_store s) \<Longrightarrow> runs_in (quiet c) (insertAnchors s cs)"
  by (induction cs) (unfold insertAnchors.simps spawn_submit_def Let_def,
    (intro log_frame.frame_intros CV_repo_log storage_log(2) modify_log_event; simp?)+)

lemma cv_ops_quiet:
  assumes "storage_quiet (cs_store s)"
  shows "runs_in (quiet c) (CV_Service_GetProfile s x)" "runs_in (quiet c) (CV_Service_VerifyEntry s x y)"
proof -
  have "runs_in (quiet c) (healAnchors s f)" for f
    unfolding healAnchors_def anchor_all_def
    by (intro log_frame.frame_intros CV_repo_log insertAnchors_quiet assms)
  then show "runs_in (quiet c) (CV_Service_GetProfile s x)"
    unfolding CV_Service_GetProfile_def refreshTrustScore_def Let_def
    by (intro log_frame.frame_intros CV_repo_log) auto
  have "runs_in (quiet c) (check_ots s rec res)" for rec res
    unfolding check_ots_def
    by (intro log_frame.frame_intros same_log_adds [OF verifyOTSProof_frame(2)])
  then show "runs_in (quiet c) (CV_Service_VerifyEntry s x y)"
    unfolding CV_Service_VerifyEntry_def Let_def
    by (intro log_frame.frame_intros CV_repo_log storage_log(2) assms) auto
qed

lemma webhook_quiet: "runs_in (quiet (sv_lnbits s)) (HandleLNbitsWebhook s um secret b h)"
  unfolding HandleLNbitsWebhook_def HandlePayment_def
  by (auto split: body_read.split option.split
      intro!: log_frame.frame_intros repo_log notify_quiet calls_quiet rand_time_log)

lemma health_quiet: "runs_in (quiet c) (Health_Handler P (Some c))"
proof (rule runs_inI)
  fix w r w' assume run: "Health_Handler P (Some c) w = (r, w')"
  obtain flt w1 where p: "pg_step P w = (flt, w1)" by (cases "pg_step P w")
  obtain q w2 where h: "Client_HealthCheck P c w1 = (q, w2)" by (cases "Client_HealthCheck P c w1")
  have "runs_in (quiet c) (Client_HealthCheck P c)"
    unfolding Client_HealthCheck_def
    by (intro bind_request_log log_frame.frame_intros) simp
  from runs_inD [OF this h] run p h pg_step_db [OF p] show "quiet c w w'"
    by (simp add: Health_Handler_def log_adds_def Let_def)
qed

lemma log_strings:
  assumes "\<And>x. runs_in R (f x)" and "runs_in R g"
  shows "runs_in R (case r of Some [x] \<Rightarrow> f x | _ \<Rightarrow> g)"
  using assms by (auto split: option.split list.split)

lemma as_reply_log [keeps_log]: "runs_in (log_adds S) m \<Longrightarrow> runs_in (log_adds S) (as_reply m)"
  unfolding as_reply_def by (intro log_frame.frame_intros)

lemma deal_handlers_quiet:
  "runs_in (quiet (sv_lnbits s)) (Handler_CreateDeal s u b)"
  "runs_in (quiet (sv_lnbits s)) (Handler_GetDealByID s u em i)"
  "runs_in (quiet (sv_lnbits s)) (Handler_ListDeals s u em)"
  "runs_in (quiet (sv_lnbits s)) (Handler_UpdateDealStatus s u i b)"
  "runs_in (quiet (sv_lnbits s)) (Handler_CheckPayment s u i)"
  "runs_in (quiet (sv_lnbits s)) (Handler_SubmitWork s u i)"
  "runs_in (quiet (sv_lnbits s)) (Handler_DisputeDeal s em i b)"
  "runs_in (quiet (sv_lnbits s)) (Handler_ListDisputes s)"
  "runs_in (quiet (sv_lnbits s)) (Handler_UpdatePayeeInvoice s u i b)"
  "runs_in (quiet (sv_lnbits s)) (Handler_GetPublicDeal s tok)"
  "runs_in (quiet (sv_lnbits s)) (Handler_RotateShareLink s u i)"
  unfolding Handler_CreateDeal_def Handler_GetDealByID_def Handler_ListDeals_def
    Handler_UpdateDealStatus_def Handler_CheckPayment_def Handler_SubmitWork_def
    Handler_DisputeDeal_def Handler_ListDisputes_def Handler_UpdatePayeeInvoice_def
    Handler_GetPublicDeal_def Handler_RotateShareLink_def
  by (intro log_strings log_frame.frame_intros respond_log CreateDeal_quiet deal_reads_quiet writes_quiet
      DisputeDeal_quiet payment_reads_quiet)+

lemma upload_parts_quiet:
  assumes "\<And>st. sv_storage s = Some st \<Longrightarrow> storage_quiet st"
  shows "runs_in (log_adds S) (upload_parts s u i k ps fin)"
proof (induction ps arbitrary: k)
  case Nil
  show ?case by (cases fin; simp only: upload_parts.simps) (rule log_frame.frame_ret)+
next
  case (Cons p ps)
  show ?case
    unfolding upload_parts.simps Let_def
    by (intro log_frame.frame_intros respond_log artifact_ops_quiet assms Cons.IH)
qed

lemma artifact_handlers_quiet:
  assumes "\<And>st. sv_storage s = Some st \<Longrightarrow> storage_quiet st"
  shows "runs_in (log_adds S) (Handler_CreateArtifact s u i m)"
    "runs_in (log_adds S) (Handler_ListArtifactsByDeal s u em i)"
    "runs_in (log_adds S) (Handler_GetArtifactByID s u em i j)"
    "runs_in (log_adds S) (Handler_DownloadArtifact s by u em i j)"
    "runs_in (log_adds S) (Handler_DeleteArtifact s u i j)"
    "runs_in (log_adds S) (Handler_CreateVerification s u j b)"
    "runs_in (log_adds S) (Handler_ListVerificationsByArtifact s u j)"
    "runs_in (log_adds S) (Handler_GetVerificationByID s u i j k)"
  unfolding Handler_CreateArtifact_def Handler_ListArtifactsByDeal_def Handler_GetArtifactByID_def
    Handler_DownloadArtifact_def Handler_DeleteArtifact_def Handler_CreateVerification_def
    Handler_ListVerificationsByArtifact_def Handler_GetVerificationByID_def
  by (auto split: option.split list.split intro!: log_frame.frame_intros respond_log artifact_reads_quiet
      artifact_ops_quiet upload_parts_quiet assms)

lemma handle_quiet:
  assumes "wired a" and "ep \<notin> {EpApprove, EpResolve, EpPublicApprove}"
  shows "runs_in (quiet (sv_lnbits (ap_deals a))) (handle a ep c cl)"
proof -
  have st: "sv_storage (ap_deals a) = Some st \<Longrightarrow> storage_quiet st" for st
    using assms(1) by (simp add: wired_def)
  have cv: "storage_quiet (cs_store (ap_cv a))" and an: "anchor_ok (ap_deals a)"
    using assms(1) by (simp_all add: wired_def)
  show ?thesis
    using assms(2)
    by (cases ep) (simp_all add: as_reply_log handlers_quiet deal_handlers_quiet artifact_handlers_quiet [OF st]
        webhook_quiet health_quiet CV_Handler_GetProfile_def CV_Handler_VerifyEntry_def
        Handler_ReconcileDeal_def reconcile_quiet [OF an] cv_ops_quiet [OF cv] log_frame.frame_bindR
        log_frame.frame_ret respond_log split: option.split)
qed

section \<open>Every request is answered\<close>

definition answers :: "('w, 'a) prog \<Rightarrow> bool" where
  "answers m \<longleftrightarrow> (\<forall>w. \<exists>x w'. m w = (Inr x, w'))"

lemma answersI: "(\<And>w. \<exists>x w'. m w = (Inr x, w')) \<Longrightarrow> answers m"
  by (simp add: answers_def)

lemma answersD:
  assumes "answers m"
  obtains x w' where "m w = (Inr x, w')"
  using assms that unfolding answers_def by blast

lemma answers_ret: "answers (ret x)"
  by (simp add: answers_def)

lemma answers_bindR: "(\<And>r. answers (f r)) \<Longrightarrow> answers (bindR m f)"
  unfolding answers_def bindR_def by (simp split: prod.split)

lemma answers_bindE: "answers m \<Longrightarrow> (\<And>x. answers (f x)) \<Longrightarrow> answers (bindE m f)"
  unfolding answers_def bindE_def by (simp split: prod.split sum.split) (metis Inr_not_Inl prod.inject sum.inject(2))

lemma answers_time: "answers (time_now P)"
  by (simp add: answers_def time_now_def split: prod.split)

lemma answers_if: "answers m \<Longrightarrow> answers n \<Longrightarrow> answers (if b then m else n)"
  by simp

lemma answers_sum: "(\<And>e. answers (f e)) \<Longrightarrow> (\<And>x. answers (g x)) \<Longrightarrow> answers (case_sum f g r)"
  by (cases r) simp_all

lemma answers_option: "answers m \<Longrightarrow> (\<And>x. answers (g x)) \<Longrightarrow> answers (case_option m g r)"
  by (cases r) simp_all

lemma answers_prod: "(\<And>x y. answers (f x y)) \<Longrightarrow> answers (case_prod f p)"
  by (cases p) simp

lemma answers_strings: "(\<And>x. answers (f x)) \<Longrightarrow> answers g \<Longrightarrow> answers (case r of Some [x] \<Rightarrow> f x | _ \<Rightarrow> g)"
  by (auto split: option.split list.split)

lemma answers_strings2:
  "(\<And>x y. answers (f x y)) \<Longrightarrow> answers g \<Longrightarrow> answers (case r of Some [x, y] \<Rightarrow> f x y | _ \<Rightarrow> g)"
  by (auto split: option.split list.split)

lemma answers_strings3:
  "(\<And>x y z. answers (f x y z)) \<Longrightarrow> answers g \<Longrightarrow> answers (case r of Some [x, y, z] \<Rightarrow> f x y z | _ \<Rightarrow> g)"
  by (auto split: option.split list.split)

lemma answers_respond: "answers (respond m f g)"
  unfolding respond_def by (intro answers_bindR answers_ret)

lemma answers_reply: "answers m \<Longrightarrow> answers (as_reply m)"
  unfolding as_reply_def by (intro answers_bindE answers_ret)

lemmas answers_intros = answers_ret answers_bindR answers_time answers_if answers_sum answers_option
  answers_prod answers_strings answers_strings2 answers_strings3 answers_respond answers_reply

lemma answers_webhook: "answers (HandleLNbitsWebhook s um secret b h)"
  unfolding HandleLNbitsWebhook_def
  by (auto split: body_read.split option.split
      intro!: answers_bindE answers_bindR answers_ret answers_time answers_sum)

lemma answers_health: "answers (Health_Handler P c)"
  by (rule answersI) (auto simp: Health_Handler_def Let_def split: prod.split option.split)

lemma answers_upload: "answers (upload_parts s u i k ps fin)"
proof (induction ps arbitrary: k)
  case Nil
  show ?case by (cases fin; simp only: upload_parts.simps) (rule answers_ret)+
next
  case (Cons p ps)
  show ?case
    unfolding upload_parts.simps Let_def by (intro answers_intros Cons.IH)
qed

lemma handle_answers: "answers (handle a ep c cl)"
proof -
  note d = Handler_Signup_def Handler_Login_def Handler_Logout_def Handler_RefreshToken_def
    Handler_GetMe_def Handler_CreateDeal_def Handler_ListDeals_def Handler_GetDealByID_def
    Handler_CheckPayment_def Handler_UpdateDealStatus_def Handler_SubmitWork_def Handler_ApproveDeal_def
    Handler_DisputeDeal_def Handler_UpdatePayeeInvoice_def Handler_RotateShareLink_def
    Handler_GetPublicDeal_def Handler_PublicApproveDeal_def Handler_CreateArtifact_def
    Handler_ListArtifactsByDeal_def Handler_GetArtifactByID_def Handler_DownloadArtifact_def
    Handler_DeleteArtifact_def Handler_CreateVerification_def Handler_ListVerificationsByArtifact_def
    Handler_GetVerificationByID_def Handler_ListDisputes_def Handler_ResolveDispute_def
    Handler_ReconcileDeal_def CV_Handler_GetProfile_def CV_Handler_VerifyEntry_def
  show ?thesis
    by (cases ep; simp only: handle.simps d)
      (intro answers_intros answers_webhook answers_health answers_upload)+
qed

end
