(* ===== verification/Server_Properties.thy ===== *)
theory Server_Properties
  imports Server_Frames
begin

text \<open>
  Who gets through the gates of a route, and who can make the server move money.
\<close>

section \<open>The gates\<close>

lemma gates_simps:
  "gates_of EpSignup = [LimitAuth]" "gates_of EpLogin = [LimitAuth]" "gates_of EpLogout = [LimitAuth]"
  "gates_of EpRefreshToken = [LimitAuth]" "gates_of EpHealth = []" "gates_of EpMe = [RequireToken]"
  "gates_of EpCreateDeal = [RequireToken]" "gates_of EpListDeals = [RequireToken]"
  "gates_of EpGetDeal = [RequireToken]" "gates_of EpCheckPayment = [RequireToken]"
  "gates_of EpUpdateStatus = [RequireToken]" "gates_of EpSubmitWork = [RequireToken]"
  "gates_of EpApprove = [RequireToken]" "gates_of EpDispute = [RequireToken]"
  "gates_of EpPayeeInvoice = [RequireToken]" "gates_of EpRotateShareLink = [RequireToken]"
  "gates_of EpPublicDeal = [LimitPublic]" "gates_of EpPublicApprove = [LimitPublic]"
  "gates_of EpCreateArtifact = [RequireToken]" "gates_of EpListArtifacts = [RequireToken]"
  "gates_of EpGetArtifact = [RequireToken]" "gates_of EpDownloadArtifact = [RequireToken]"
  "gates_of EpDeleteArtifact = [RequireToken]" "gates_of EpCreateVerification = [RequireToken]"
  "gates_of EpListVerifications = [RequireToken]" "gates_of EpGetVerification = [RequireToken]"
  "gates_of EpListDisputes = [RequireToken, RequireOperator]"
  "gates_of EpResolve = [RequireToken, RequireOperator]"
  "gates_of EpReconcile = [RequireToken, RequireOperator]" "gates_of EpWebhook = [LimitWebhook]"
  "gates_of EpProfile = []" "gates_of EpVerifyEntry = []"
  by (simp_all add: gates_of_def table_defs)

text \<open>A request that carries an access token the server verifies, and its claims.\<close>

definition bearer :: "('e, 'i) app \<Rightarrow> http_call \<Rightarrow> 'e world \<Rightarrow> Claims \<Rightarrow> bool" where
  "bearer a c w cl \<longleftrightarrow>
     (\<exists>t w1. hc_authorization c = ''Bearer '' @ t \<and> VerifyAccessToken (ap_auth a) t w = (Inr cl, w1))"

lemma AuthRequired_Inr:
  assumes "AuthRequired (ap_auth a) (hc_authorization c) w = (Inr (Inr cl), w')"
  shows "bearer a c w cl"
proof -
  let ?h = "hc_authorization c"
  obtain v w1 where v: "VerifyAccessToken (ap_auth a) (TrimPrefix ?h ''Bearer '') w = (v, w1)"
    by (cases "VerifyAccessToken (ap_auth a) (TrimPrefix ?h ''Bearer '') w")
  from assms have pre: "HasPrefix ?h ''Bearer ''"
    by (simp add: AuthRequired_def split: if_splits)
  with assms v have "v = Inr cl"
    by (cases v) (simp_all add: AuthRequired_def bindR_def split: if_splits)
  with v have run: "\<exists>w1. VerifyAccessToken (ap_auth a) (TrimPrefix ?h ''Bearer '') w = (Inr cl, w1)"
    by blast
  from pre have "?h = ''Bearer '' @ TrimPrefix ?h ''Bearer ''"
    using append_take_drop_id [of "length ''Bearer ''" ?h] by (simp add: HasPrefix_def TrimPrefix_def)
  with run show ?thesis by (auto simp: bearer_def)
qed

lemma AuthRequired_refusal:
  "AuthRequired s h w = (Inr (Inl x), w') \<Longrightarrow> \<exists>m. x = json_error 401 m"
  by (cases "VerifyAccessToken s (TrimPrefix h ''Bearer '') w")
    (auto simp: AuthRequired_def bindR_def split: if_splits sum.splits)

lemma AuthRequired_answers: "answers (AuthRequired s h)"
  unfolding AuthRequired_def by (intro answers_intros)

lemma pass_gate_keeps:
  "pass_gate a g c cl (l, w) = (r, l', w') \<Longrightarrow> w_db w' = w_db w \<and> w_log w' = w_log w"
  by (cases g) (auto split: prod.splits sum.splits option.splits
      dest: same_dbD [OF _ AuthRequired_db] same_logD [OF _ AuthRequired_log])

lemma pass_gates_keeps:
  "pass_gates a gs c cl (l, w) = (r, l', w') \<Longrightarrow> w_db w' = w_db w \<and> w_log w' = w_log w"
proof (induction gs arbitrary: cl l w)
  case (Cons g gs)
  obtain q l1 w1 where g: "pass_gate a g c cl (l, w) = (q, l1, w1)"
    by (cases "pass_gate a g c cl (l, w)") auto
  with Cons pass_gate_keeps [OF g] show ?case by (cases q) auto
qed simp

lemma token_gates:
  assumes "pass_gates a (gates_of ep) c no_claims (l, w) = (r, l', w')" and "RequireToken \<in> set (gates_of ep)"
  shows "l' = l \<and>
    (case r of
       Inl x \<Rightarrow> \<exists>m. x = json_error 401 m \<or> x = json_error 403 m
     | Inr cl \<Rightarrow> bearer a c w cl \<and> (RequireOperator \<in> set (gates_of ep) \<longrightarrow> cl_IsOperator cl))"
proof -
  obtain x w1 where run: "AuthRequired (ap_auth a) (hc_authorization c) w = (Inr x, w1)"
    by (rule answersD [OF AuthRequired_answers])
  have shape: "gates_of ep = [RequireToken] \<or> gates_of ep = [RequireToken, RequireOperator]"
    using assms(2) by (cases ep) (simp_all add: gates_simps)
  show ?thesis
  proof (cases x)
    case (Inl y)
    with AuthRequired_refusal run obtain m where "y = json_error 401 m" by blast
    with Inl run shape assms(1) have "l' = l" "r = Inl (json_error 401 m)" by auto
    then show ?thesis by auto
  next
    case (Inr cl)
    with run have b: "bearer a c w cl" by (simp add: AuthRequired_Inr)
    show ?thesis
    proof (cases "RequireOperator \<in> set (gates_of ep) \<and> \<not> cl_IsOperator cl")
      case True
      with Inr run shape assms(1) have "l' = l"
        "r = Inl (json_error 403 ''operator privileges required'')"
        by (auto simp: OperatorRequired_def)
      then show ?thesis by simp blast
    next
      case False
      with Inr run shape assms(1) b show ?thesis by (auto simp: OperatorRequired_def)
    qed
  qed
qed

text \<open>All member names of a JSON value.\<close>

fun json_keys :: "json \<Rightarrow> string list" where
  "json_keys (JArr js) = concat (map json_keys js)"
| "json_keys (JObj kvs) = concat (map (\<lambda>(k, v). k # json_keys v) kvs)"
| "json_keys _ = []"

lemma gate_refusal:
  "pass_gate a g c cl st = (Inl x, st') \<Longrightarrow> fst x \<noteq> 200 \<and> json_keys (snd x) = [''error'']"
  by (cases st; cases g)
    (auto simp: rate_gate_def OperatorRequired_def server_error_def Let_def json_error_def
      dest!: AuthRequired_refusal
      split: prod.splits option.splits bool.splits sum.splits if_splits)

lemma gates_refusal:
  "pass_gates a gs c cl st = (Inl x, st') \<Longrightarrow> fst x \<noteq> 200 \<and> json_keys (snd x) = [''error'']"
proof (induction gs arbitrary: cl st)
  case (Cons g gs)
  obtain q st1 where g: "pass_gate a g c cl st = (q, st1)" by (cases "pass_gate a g c cl st")
  with Cons gate_refusal [of a g c cl st] show ?case by (cases q) auto
qed simp

lemma serve_http_runs:
  assumes "serve_http a ep c (l, w) = (reply, l', w')"
  obtains (refused) x where "pass_gates a (gates_of ep) c no_claims (l, w) = (Inl x, l', w')"
      "reply = Reply x" "w_db w' = w_db w" "w_log w' = w_log w"
  | (served) cl w1 where "pass_gates a (gates_of ep) c no_claims (l, w) = (Inr cl, l', w1)"
      "w_db w1 = w_db w" "w_log w1 = w_log w" "handle a ep c cl w1 = (Inr reply, w')"
proof -
  obtain r l1 w1 where p: "pass_gates a (gates_of ep) c no_claims (l, w) = (r, l1, w1)"
    by (cases "pass_gates a (gates_of ep) c no_claims (l, w)") auto
  show thesis
  proof (cases r)
    case (Inl x)
    with p assms pass_gates_keeps [OF p] refused show thesis by (auto simp: serve_http_def)
  next
    case (Inr cl)
    obtain y w2 where h: "handle a ep c cl w1 = (Inr y, w2)" by (rule answersD [OF handle_answers])
    with p Inr assms pass_gates_keeps [OF p] served show thesis by (auto simp: serve_http_def)
  qed
qed


section \<open>Who can spend\<close>

lemma release_spends:
  assumes "release_caller s opts" and "releaseEscrow s i opts w = (r, w')" and "anchor_ok s"
    and "w_log w' = w_log w @ evs" and "ev \<in> set evs" and "spends (sv_lnbits s) ev"
  obtains row deal where "find_deal i (w_db w) = Some row" "scanDeal (sv_platform s) (sv_key s) row = Inr deal"
    "ro_authorize opts deal = None"
proof -
  obtain pre fin where flow: "release_flow s opts pre fin" using assms(1) by (rule release_caller_flow)
  have "money_event (sv_lnbits s) ev" using assms(6) by (auto simp: spends_def money_event_def)
  from release_flow.release_marker_first [OF flow assms(2-5) this] obtain deal w1 where
    "release_phase1 s i opts w = (Inr (deal, False, ''''), w1)" by blast
  then show thesis by (cases rule: phase1_Inr) (use that in blast)+
qed

lemma quiet_no_spend:
  "runs_in (quiet c) m \<Longrightarrow> m w = (r, w') \<Longrightarrow> w_log w' = w_log w @ evs \<Longrightarrow> ev \<in> set evs \<Longrightarrow> \<not> spends c ev"
  using runs_inD [of "quiet c" m w r w'] by (auto simp: log_adds_def)

text \<open>The three requests that release an escrow, and what each was authorised by.\<close>

definition authorised :: "('e, 'i) app \<Rightarrow> endpoint \<Rightarrow> http_call \<Rightarrow> 'e world \<Rightarrow> bool" where
  "authorised a ep c w \<longleftrightarrow>
     (ep = EpApprove \<and> (\<exists>cl row. bearer a c w cl \<and> find_deal (hc_param c ''dealID'') (w_db w) = Some row \<and>
        EqualFold (uni_fold (sv_platform (ap_deals a))) (c_client_email row) (cl_Email cl))) \<or>
     (ep = EpResolve \<and> (\<exists>cl row. bearer a c w cl \<and> cl_IsOperator cl \<and>
        find_deal (hc_param c ''dealID'') (w_db w) = Some row \<and> c_status row = StatusDisputed)) \<or>
     (ep = EpPublicApprove \<and> (\<exists>row \<in> set (t_deals (w_db w)). c_share_token row = hc_param c ''shareToken''))"

lemma respond_run: "respond m f g w = (r, w') \<Longrightarrow> \<exists>q. m w = (q, w')"
  by (auto simp: respond_def run_iffs)

lemma as_reply_run: "as_reply m w = (r, w') \<Longrightarrow> \<exists>q. m w = (q, w')"
  by (auto simp: as_reply_def bindE_def split: prod.splits sum.splits)

lemma approve_spends:
  assumes "Service_ApproveDeal s em i w = (r, w')" and "anchor_ok s"
    and "w_log w' = w_log w @ evs" and "ev \<in> set evs" and "spends (sv_lnbits s) ev"
  shows "\<exists>row. find_deal i (w_db w) = Some row \<and> EqualFold (uni_fold (sv_platform s)) (c_client_email row) em"
proof -
  from assms(1,3,4) have "releaseEscrow s i (approve_options s em) w = (r, w')"
    by (auto simp: Service_ApproveDeal_def split: if_splits)
  from release_spends [OF approve_caller this assms(2-5)] obtain row deal where
    row: "find_deal i (w_db w) = Some row" "scanDeal (sv_platform s) (sv_key s) row = Inr deal"
    and ok: "ro_authorize (approve_options s em) deal = None" .
  from ok have "EqualFold (uni_fold (sv_platform s)) (ClientEmail deal) em"
    by (simp add: approve_options_def split: if_splits)
  with row show ?thesis by (auto simp: scanDeal_fields)
qed

lemma resolve_spends:
  assumes "Service_ResolveDispute s op i v w = (r, w')" and "anchor_ok s"
    and "w_log w' = w_log w @ evs" and "ev \<in> set evs" and "spends (sv_lnbits s) ev"
  shows "\<exists>row. find_deal i (w_db w) = Some row \<and> c_status row = StatusDisputed"
proof (cases v)
  case DisputeResolutionRelease
  let ?op = "ToLower (uni_lower (sv_platform s)) (TrimSpace op)"
  obtain q w1 where run: "releaseEscrow s i (resolve_options s ?op) w = (q, w1)"
    by (cases "releaseEscrow s i (resolve_options s ?op) w")
  have "w_log w1 = w_log w'"
  proof (cases q)
    case (Inr d)
    obtain t w2 where t: "time_now (sv_platform s) w1 = (Inr t, w2)"
      using time_now_run(1) by (metis prod.collapse)
    with assms(1,3,4) run Inr DisputeResolutionRelease have "w' = w2"
      by (auto simp: Service_ResolveDispute_def bindE_def Let_def split: if_splits)
    with time_now_run(3) [OF t] show ?thesis by simp
  qed (use assms(1,3,4) run DisputeResolutionRelease in
      \<open>auto simp: Service_ResolveDispute_def bindE_def Let_def split: if_splits\<close>)
  with assms(3) have log: "w_log w1 = w_log w @ evs" by simp
  have caller: "release_caller s (resolve_options s ?op)" by (auto simp: release_caller_def)
  from release_spends [OF caller run assms(2) log assms(4,5)] obtain row deal where
    row: "find_deal i (w_db w) = Some row" "scanDeal (sv_platform s) (sv_key s) row = Inr deal"
    and ok: "ro_authorize (resolve_options s ?op) deal = None" .
  from ok have "DealStatus deal = StatusDisputed" by (simp add: resolve_options_def split: if_splits)
  with row show ?thesis by (auto simp: scanDeal_fields)
next
  case DisputeResolutionRefund
  with assms(1,3,4) have "refundDispute s (ToLower (uni_lower (sv_platform s)) (TrimSpace op)) i w = (r, w')"
    by (auto simp: Service_ResolveDispute_def Let_def split: if_splits)
  then show ?thesis
    by (cases rule: refundDispute_effect) (use assms(3-5) in \<open>auto simp: spends_def\<close>)
next
  case (DisputeResolutionOther x)
  with assms(1,3,4) show ?thesis by (auto simp: Service_ResolveDispute_def Let_def split: if_splits)
qed

lemma public_spends:
  assumes "Service_PublicApproveDeal s tok w = (r, w')" and "anchor_ok s"
    and "w_log w' = w_log w @ evs" and "ev \<in> set evs" and "spends (sv_lnbits s) ev"
  shows "\<exists>row \<in> set (t_deals (w_db w)). c_share_token row = tok"
proof (cases "tok = ''''")
  case True
  with assms(1,3,4) show ?thesis by (auto simp: Service_PublicApproveDeal_def)
next
  case False
  with assms(1) have "bindE (Repo_GetDealByShareToken (sv_platform s) (sv_key s) tok) (\<lambda>deal0.
        bindR (if CheckingID deal0 \<noteq> '''' \<and> DealStatus deal0 = StatusAwaitingPayment
               then refreshPaymentStatus s deal0 else ret deal0) (\<lambda>r.
          let deal = (case r of Inl _ \<Rightarrow> deal0 | Inr d \<Rightarrow> d)
          in if DealStatus deal \<noteq> StatusLocked \<and> DealStatus deal \<noteq> StatusWorkSubmitted
             then fail (errorf ErrInvalidTransition ('': deal cannot be approved from status '' @
               status_string (DealStatus deal)))
             else releaseEscrow s (ID deal) (public_options s))) w = (r, w')"
    by (simp add: Service_PublicApproveDeal_def)
  then show ?thesis
  proof (cases rule: token_bind_cases)
    case (failed e)
    with assms(3,4) show ?thesis by simp
  next
    case (got deal row w1)
    then show ?thesis by (auto dest: select_row_Some)
  qed
qed

lemma handle_spends:
  assumes "wired a" and "handle a ep c cl w = (r, w')"
    and "w_log w' = w_log w @ evs" and "ev \<in> set evs" and "spends (sv_lnbits (ap_deals a)) ev"
  shows "ep = EpApprove \<and> (\<exists>row. find_deal (hc_param c ''dealID'') (w_db w) = Some row \<and>
        EqualFold (uni_fold (sv_platform (ap_deals a))) (c_client_email row) (cl_Email cl)) \<or>
      ep = EpResolve \<and> (\<exists>row. find_deal (hc_param c ''dealID'') (w_db w) = Some row \<and>
        c_status row = StatusDisputed) \<or>
      ep = EpPublicApprove \<and> (\<exists>row \<in> set (t_deals (w_db w)). c_share_token row = hc_param c ''shareToken'')"
proof -
  have an: "anchor_ok (ap_deals a)" using assms(1) by (simp add: wired_def)
  have "ep \<in> {EpApprove, EpResolve, EpPublicApprove}"
    using quiet_no_spend [OF handle_quiet [OF assms(1)] assms(2-4)] assms(5) by blast
  then consider "ep = EpApprove" | "ep = EpResolve" | "ep = EpPublicApprove" by blast
  then show ?thesis
  proof cases
    case 1
    with assms(2) obtain q where "Service_ApproveDeal (ap_deals a) (cl_Email cl) (hc_param c ''dealID'') w = (q, w')"
      by (auto simp: Handler_ApproveDeal_def dest!: as_reply_run respond_run)
    from approve_spends [OF this an assms(3-5)] 1 show ?thesis by blast
  next
    case 2
    have "\<exists>q v. Service_ResolveDispute (ap_deals a) (cl_Email cl) (hc_param c ''dealID'') v w = (q, w')"
    proof (cases "\<exists>x. bind_strings (sv_platform (ap_deals a)) (rd_content (hc_body c)) [''resolution''] = Some [x]")
      case True
      with 2 assms(2) show ?thesis
        by (fastforce simp: Handler_ResolveDispute_def dest!: as_reply_run respond_run)
    next
      case False
      then have "Handler_ResolveDispute (ap_deals a) (cl_Email cl) (hc_param c ''dealID'')
          (rd_content (hc_body c)) = ret (json_error 400 ''resolution is required'')"
        by (auto simp: Handler_ResolveDispute_def split: option.split list.split)
      with 2 assms(2-4) show ?thesis by (simp add: as_reply_def bindE_def)
    qed
    then obtain q v where "Service_ResolveDispute (ap_deals a) (cl_Email cl) (hc_param c ''dealID'') v w = (q, w')"
      by blast
    from resolve_spends [OF this an assms(3-5)] 2 show ?thesis by blast
  next
    case 3
    with assms(2) obtain q where "Service_PublicApproveDeal (ap_deals a) (hc_param c ''shareToken'') w = (q, w')"
      by (auto simp: Handler_PublicApproveDeal_def dest!: as_reply_run respond_run)
    from public_spends [OF this an assms(3-5)] 3 show ?thesis by blast
  qed
qed

lemma serve_spends:
  assumes "wired a" and "serve_http a ep c (l, w) = (reply, l', w')"
    and "w_log w' = w_log w @ evs" and "ev \<in> set evs" and "spends (sv_lnbits (ap_deals a)) ev"
  shows "authorised a ep c w"
  using assms(2)
proof (cases rule: serve_http_runs)
  case (refused x)
  with assms(3,4) show ?thesis by simp
next
  case (served cl w1)
  from assms(3) served(3) have log: "w_log w' = w_log w1 @ evs" by simp
  note h = handle_spends [OF assms(1) served(4) log assms(4,5)]
  show ?thesis
  proof (cases "RequireToken \<in> set (gates_of ep)")
    case True
    from token_gates [OF served(1) True] h served(2) show ?thesis
      by (auto simp: authorised_def gates_simps)
  next
    case False
    with h served(2) show ?thesis by (auto simp: authorised_def gates_simps)
  qed
qed

text \<open>The wiring of the program is the one the theorem needs.\<close>

lemma disk_quiet: "storage_quiet (local_storage root)"
  unfolding storage_quiet_def
  by (intro allI conjI disk.save_frame(2) disk.open_frame(2) disk.size_frame(2) disk.delete_frame(2))

lemma wire_app_wired:
  assumes "dp_platform D = with_disk P"
  shows "wired (wire_app cfg D (local_storage root))"
proof -
  have "anchor_ok (wire_deals cfg D (local_storage root))"
    by (rule cv_anchor_ok [where cv = "wire_cv cfg D (local_storage root)" and root = root and P = P])
      (simp_all add: wire_deals_def wire_cv_def assms)
  then show ?thesis
    by (auto simp: wired_def wire_app_def wire_deals_def wire_cv_def disk_quiet)
qed

text \<open>Whoever makes the server, as it is wired, settle a hold or pay an invoice, holds the right to:
  the verified token of the client of the deal, the verified token of an operator and a disputed
  deal, or the share token of a deal. No other endpoint does it.\<close>

theorem money_authorised:
  assumes "a = wire_app cfg D (local_storage root)" and "dp_platform D = with_disk P"
    and "serve_http a ep c (l, w) = (reply, l', w')"
    and "w_log w' = w_log w @ evs" and "ev \<in> set evs"
    and "is_settle (sv_lnbits (ap_deals a)) ev \<or> is_payout ev"
  shows "(ep = EpApprove \<and> (\<exists>cl row. bearer a c w cl \<and> find_deal (hc_param c ''dealID'') (w_db w) = Some row \<and>
            EqualFold (uni_fold P) (c_client_email row) (cl_Email cl))) \<or>
     (ep = EpResolve \<and> (\<exists>cl row. bearer a c w cl \<and> cl_IsOperator cl \<and>
        find_deal (hc_param c ''dealID'') (w_db w) = Some row \<and> c_status row = StatusDisputed)) \<or>
     (ep = EpPublicApprove \<and> (\<exists>row \<in> set (t_deals (w_db w)). c_share_token row = hc_param c ''shareToken''))"
proof -
  have "authorised a ep c w"
    using serve_spends [OF _ assms(3-5)] wire_app_wired [OF assms(2)] assms(1,6) by (simp add: spends_def)
  moreover have "sv_platform (ap_deals a) = with_disk P"
    using assms(1,2) by (simp add: wire_app_def wire_deals_def)
  ultimately show ?thesis by (simp add: authorised_def)
qed

definition demo_claims_of :: "string \<Rightarrow> Claims option" where
  "demo_claims_of t =
     (if t = ''T'' then Some (no_claims\<lparr>cl_UserID := ''u'', cl_Email := ''c@x''\<rparr>) else None)"

definition demo_deps :: "(fs \<times> demo, nat) deps" where
  "demo_deps = \<lparr>dp_platform = with_disk demo_platform, dp_sign = (\<lambda>secret c. Inr secret),
     dp_parse = (\<lambda>_ _ t. demo_claims_of t), dp_bcrypt = (\<lambda>pw e. (Inr pw, e)),
     dp_bcrypt_ok = (\<lambda>h pw. h = pw), dp_letter = (\<lambda>_. False), dp_digit = (\<lambda>_. False),
     dp_driver_arrays = True, dp_otslib = demo_pkg, dp_ots_do = (\<lambda>_ _ _ e. (TransportError ''down'', e)),
     dp_esplora = (\<lambda>_ _. \<lparr>ch_GetBlockHash = (\<lambda>_ e. (Inl ''down'', e)), ch_GetBlockHeader = (\<lambda>_ e. (Inl ''down'', e))\<rparr>),
     dp_unmarshal = (\<lambda>_. None), dp_by_extension = (\<lambda>_. ''''), dp_cors_ok = (\<lambda>_. True)\<rparr>"

definition demo_cfg :: Config where
  "demo_cfg = read_config demo_env ''postgres'' ''s'' ''t''"

definition demo_app :: "(fs \<times> demo, nat) app" where
  "demo_app = wire_app demo_cfg demo_deps (local_storage ''/up'')"

definition demo_call :: http_call where
  "demo_call = \<lparr>hc_authorization = ''Bearer T'', hc_signature = '''', hc_clientIP = ''i'',
     hc_param = (\<lambda>k. if k = ''dealID'' then ''d'' else ''k''),
     hc_body = \<lparr>rd_content = '''', rd_error = None\<rparr>, hc_multipart = (\<lambda>_. None)\<rparr>"

definition server_world :: "Status \<Rightarrow> (fs \<times> demo) world" where
  "server_world st =
     \<lparr>w_db = \<lparr>t_deals = [demo_row st], t_artifacts = [], t_verifications = [], t_users = [],
        t_refresh_tokens = [], t_cv_entries = []\<rparr>,
      w_ext = (demo_files, demo_ext [answer ''OK'', answer ''PAYOUT''] []), w_log = []\<rparr>"

lemmas run_server = demo_app_def wire_app_def wire_deals_def wire_auth_def demo_deps_def wire_lnbits_def
  demo_cfg_def read_config_def demo_env_def demo_call_def getEnv_def server_world_def

lemma demo_served:
  "\<exists>e evs. w_log (snd (snd (serve_http demo_app EpApprove demo_call (new_limiters, server_world StatusWorkSubmitted)))) =
     EvHttp (settle_request (sv_lnbits (ap_deals demo_app)) ''s'') e # evs"
  by (simp add: serve_http_def gates_simps AuthRequired_def HasPrefix_def TrimPrefix_def VerifyAccessToken_def
      verify_token_def demo_claims_of_def Handler_ApproveDeal_def as_reply_def respond_def
      run_server run beside_def CV_AnchorReleasedDeal_def CV_ListUnanchoredDealArtifacts_def unanchored_def
      anchor_all_def wire_cv_def no_claims_def)

theorem money_authorised_witness:
  "\<exists>cl row. bearer demo_app demo_call (server_world StatusWorkSubmitted) cl \<and>
     find_deal ''d'' (w_db (server_world StatusWorkSubmitted)) = Some row \<and>
     EqualFold (uni_fold demo_platform) (c_client_email row) (cl_Email cl)"
proof -
  let ?st = "(new_limiters, server_world StatusWorkSubmitted)"
  obtain reply l' w' where run: "serve_http demo_app EpApprove demo_call ?st = (reply, l', w')"
    by (cases "serve_http demo_app EpApprove demo_call ?st") auto
  from demo_served run obtain e evs where
    log: "w_log w' = EvHttp (settle_request (sv_lnbits (ap_deals demo_app)) ''s'') e # evs" by auto
  have log': "w_log w' = w_log (server_world StatusWorkSubmitted) @ w_log w'"
    by (simp add: server_world_def)
  have "dp_platform demo_deps = with_disk demo_platform" by (simp add: demo_deps_def)
  moreover have "EvHttp (settle_request (sv_lnbits (ap_deals demo_app)) ''s'') e \<in> set (w_log w')"
    by (simp add: log)
  moreover have "hc_param demo_call ''dealID'' = ''d''" by (simp add: demo_call_def)
  ultimately show ?thesis
    using money_authorised [OF demo_app_def _ run log', of demo_platform
      "EvHttp (settle_request (sv_lnbits (ap_deals demo_app)) ''s'') e"] by (simp add: request_defs)
qed


end
