(* ===== verification/Server_Views.thy ===== *)
theory Server_Views
  imports Server_Properties
begin

text \<open>
  What the answers of the server show: no member for a secret column anywhere, and nothing but seven
  columns of the deal behind a share link.
\<close>

section \<open>What the server shows\<close>

fun reply_keys :: "http_reply \<Rightarrow> string list" where
  "reply_keys (Reply (code, body)) = json_keys body"
| "reply_keys _ = []"

text \<open>The columns that never leave the server, and those that a stranger with a link must not see.\<close>

definition secret_keys :: "string list" where
  "secret_keys = [''preimage'', ''payee_invoice'', ''payout_checking_id'', ''payout_attempted_at'',
     ''password_hash'', ''token_hash'']"

definition private_keys :: "string list" where
  "private_keys = [''id'', ''client_email'', ''freelancer_id'', ''share_token'', ''preimage_hash'',
     ''checking_id'', ''resolved_by'']"

definition avoids :: "string list \<Rightarrow> json \<Rightarrow> bool" where
  "avoids ks j \<longleftrightarrow> set (json_keys j) \<inter> set ks = {}"

lemma avoids_simps [simp]:
  "avoids ks (JStr t)" "avoids ks (JInt i)" "avoids ks JNull" "avoids ks (JBool b)" "avoids ks (JFrac t)"
  "avoids ks (JArr js) \<longleftrightarrow> (\<forall>j \<in> set js. avoids ks j)"
  "avoids ks (JObj kvs) \<longleftrightarrow> (\<forall>(k, v) \<in> set kvs. k \<notin> set ks \<and> avoids ks v)"
  by (auto simp: avoids_def)

text \<open>Whatever a program answers satisfies a predicate.\<close>

definition replies :: "('a \<Rightarrow> bool) \<Rightarrow> ('w, 'a) prog \<Rightarrow> bool" where
  "replies Q m \<longleftrightarrow> (\<forall>w x w'. m w = (Inr x, w') \<longrightarrow> Q x)"

lemma replies_ret: "Q x \<Longrightarrow> replies Q (ret x)"
  by (simp add: replies_def)

lemma replies_bindR: "(\<And>r. replies Q (f r)) \<Longrightarrow> replies Q (bindR m f)"
  by (fastforce simp: replies_def bindR_iff)

lemma replies_bindE: "(\<And>x. replies Q (f x)) \<Longrightarrow> replies Q (bindE m f)"
  by (fastforce simp: replies_def bindE_Inr_iff)

lemma replies_if: "replies Q m \<Longrightarrow> replies Q n \<Longrightarrow> replies Q (if b then m else n)"
  by simp

lemma replies_sum: "(\<And>e. replies Q (f e)) \<Longrightarrow> (\<And>x. replies Q (g x)) \<Longrightarrow> replies Q (case_sum f g r)"
  by (cases r) simp_all

lemma replies_option: "replies Q m \<Longrightarrow> (\<And>x. replies Q (g x)) \<Longrightarrow> replies Q (case_option m g r)"
  by (cases r) simp_all

lemma replies_prod: "(\<And>x y. replies Q (f x y)) \<Longrightarrow> replies Q (case_prod f p)"
  by (cases p) simp

lemma replies_list: "replies Q m \<Longrightarrow> (\<And>x xs. replies Q (g x xs)) \<Longrightarrow> replies Q (case_list m g r)"
  by (cases r) simp_all

abbreviation body_avoids :: "string list \<Rightarrow> response \<Rightarrow> bool" where
  "body_avoids ks r \<equiv> avoids ks (snd r)"

lemma error_avoids [simp]: "''error'' \<notin> set ks \<Longrightarrow> avoids ks (snd (json_error code m))"
  by (simp add: json_error_def)

lemma switch_avoids: "''error'' \<notin> set ks \<Longrightarrow> avoids ks (snd d) \<Longrightarrow> avoids ks (snd (error_switch cs d e))"
  by (induction cs d e rule: error_switch.induct) auto

lemma respond_replies:
  "(\<And>e. Q (f e)) \<Longrightarrow> (\<And>x. Q (g x)) \<Longrightarrow> replies Q (respond m f g)"
  unfolding respond_def by (intro replies_bindR replies_ret) (auto split: sum.split)

lemma as_reply_replies:
  "replies (body_avoids ks) m \<Longrightarrow> replies (\<lambda>r. set (reply_keys r) \<inter> set ks = {}) (as_reply m)"
  by (fastforce simp: replies_def as_reply_def bindE_Inr_iff avoids_def)

lemma deal_view_avoids [simp]: "avoids secret_keys (deal_view_json v)"
  by (simp add: deal_view_json_def time_or_null_def secret_keys_def split: option.split)

lemma public_avoids [simp]: "avoids (secret_keys @ private_keys) (public_deal_json p)"
  by (simp add: public_deal_json_def secret_keys_def private_keys_def)

lemma fixed_avoid [simp]:
  "''error'' \<notin> set ks \<Longrightarrow> avoids ks (snd server_error)" "''error'' \<notin> set ks \<Longrightarrow> avoids ks (snd bad_body)"
  "''error'' \<notin> set ks \<Longrightarrow> avoids ks (snd provider_error)" "''error'' \<notin> set ks \<Longrightarrow> avoids ks (snd no_file)"
  by (simp_all add: server_error_def bad_body_def provider_error_def no_file_def)

lemma no_error_key [simp]: "''error'' \<notin> set secret_keys" "''error'' \<notin> set private_keys"
  by (simp_all add: secret_keys_def private_keys_def)

lemma body_keys [simp]:
  "avoids secret_keys (deals_json ds)"
  "avoids secret_keys (artifact_json a)"
  "avoids secret_keys (verification_record_json v)"
  "avoids secret_keys (user_json u)" "avoids secret_keys (auth_json r)"
  "(\<And>x. avoids secret_keys (f x)) \<Longrightarrow> avoids secret_keys (slice_json f xs)"
  by (auto simp: deals_json_def artifact_json_def verification_record_json_def null_time_json_def
      user_json_def auth_json_def slice_json_def secret_keys_def split: option.split)
    (auto simp: secret_keys_def [symmetric])

lemma entry_keys [simp]: "avoids secret_keys (profile_json p)" "avoids secret_keys (verification_json v)"
  by (auto simp: profile_json_def entry_json_def verification_json_def time_json_def proof_json_def
      optional_time_def secret_keys_def split: option.split)

lemma view_bodies [simp]:
  "avoids secret_keys (snd (deal_body d))" "avoids secret_keys (snd (message_body m (deal_view_json v)))"
  "avoids secret_keys (snd (cv_error e))" "avoids secret_keys (snd (webhook_error e))"
  "avoids secret_keys (snd (signup_error e))" "avoids secret_keys (snd (login_error e))"
  "avoids secret_keys (snd (token_error e))"
  by (auto simp: deal_body_def message_body_def cv_error_def webhook_error_def signup_error_def login_error_def
      token_error_def) (auto simp: secret_keys_def)

lemma public_bodies [simp]:
  "avoids (secret_keys @ private_keys) (snd (message_body m (public_deal_json p)))"
  using public_avoids [of p] by (simp add: message_body_def) (simp add: secret_keys_def private_keys_def)

lemma single_key [simp]: "avoids secret_keys (JObj [(k, v)]) \<longleftrightarrow> k \<notin> set secret_keys \<and> avoids secret_keys v"
  by simp

lemma own_keys [simp]:
  "''deal'' \<notin> set secret_keys" "''deals'' \<notin> set secret_keys" "''disputes'' \<notin> set secret_keys"
  "''message'' \<notin> set secret_keys" "''user'' \<notin> set secret_keys" "''artifact'' \<notin> set secret_keys"
  "''artifacts'' \<notin> set secret_keys" "''verification'' \<notin> set secret_keys"
  "''verifications'' \<notin> set secret_keys" "''profile'' \<notin> set secret_keys" "''status'' \<notin> set secret_keys"
  "''reason'' \<notin> set secret_keys" "''db'' \<notin> set secret_keys" "''lnbits'' \<notin> set secret_keys"
  by (simp_all add: secret_keys_def)

lemma upload_replies: "replies (body_avoids secret_keys) (upload_parts s u i k ps fin)"
proof (induction ps arbitrary: k)
  case Nil
  show ?case by (cases fin; simp only: upload_parts.simps) (rule replies_ret, simp)+
next
  case (Cons p ps)
  show ?case
    unfolding upload_parts.simps Let_def
    by (intro replies_if replies_option replies_ret respond_replies Cons.IH) (simp_all add: switch_avoids)
qed

lemma health_replies: "replies (body_avoids secret_keys) (Health_Handler P c)"
  by (auto simp: replies_def Health_Handler_def Let_def split: prod.splits option.splits)

lemma public_replies:
  "replies (body_avoids (secret_keys @ private_keys)) (Handler_GetPublicDeal s tok)"
  "replies (body_avoids (secret_keys @ private_keys)) (Handler_PublicApproveDeal s tok)"
proof -
  have err: "avoids (secret_keys @ private_keys) (snd (error_switch cs server_error e))" for cs e
    by (rule switch_avoids) simp_all
  have key: "''deal'' \<notin> set (secret_keys @ private_keys)" by (simp add: secret_keys_def private_keys_def)
  show "replies (body_avoids (secret_keys @ private_keys)) (Handler_GetPublicDeal s tok)"
    unfolding Handler_GetPublicDeal_def by (rule respond_replies) (use err key in simp_all)
  show "replies (body_avoids (secret_keys @ private_keys)) (Handler_PublicApproveDeal s tok)"
    unfolding Handler_PublicApproveDeal_def by (rule respond_replies) (use err in simp_all)
qed

lemma handler_replies:
  "replies (body_avoids secret_keys) (Handler_Signup au b)" "replies (body_avoids secret_keys) (Handler_Login au b)"
  "replies (body_avoids secret_keys) (Handler_Logout au b)"
  "replies (body_avoids secret_keys) (Handler_RefreshToken au b)"
  "replies (body_avoids secret_keys) (Handler_GetMe au u)"
  "replies (body_avoids secret_keys) (CV_Handler_GetProfile cv x)"
  "replies (body_avoids secret_keys) (CV_Handler_VerifyEntry cv x y)"
  "replies (body_avoids secret_keys) (HandleLNbitsWebhook s um secret r h)"
  unfolding Handler_Signup_def Handler_Login_def Handler_Logout_def Handler_RefreshToken_def
    Handler_GetMe_def CV_Handler_GetProfile_def CV_Handler_VerifyEntry_def HandleLNbitsWebhook_def
  by (auto intro!: replies_ret replies_bindR replies_bindE replies_option replies_if replies_sum
      split: option.split list.split sum.split body_read.split)

lemma deal_replies:
  "replies (body_avoids secret_keys) (Handler_CreateDeal s u b)"
  "replies (body_avoids secret_keys) (Handler_GetDealByID s u em i)"
  "replies (body_avoids secret_keys) (Handler_ListDeals s u em)"
  "replies (body_avoids secret_keys) (Handler_UpdateDealStatus s u i b)"
  "replies (body_avoids secret_keys) (Handler_CheckPayment s u i)"
  "replies (body_avoids secret_keys) (Handler_SubmitWork s u i)"
  "replies (body_avoids secret_keys) (Handler_ApproveDeal s em i)"
  "replies (body_avoids secret_keys) (Handler_DisputeDeal s em i b)"
  "replies (body_avoids secret_keys) (Handler_ListDisputes s)"
  "replies (body_avoids secret_keys) (Handler_ResolveDispute s em i b)"
  "replies (body_avoids secret_keys) (Handler_ReconcileDeal s em i b)"
  "replies (body_avoids secret_keys) (Handler_UpdatePayeeInvoice s u i b)"
  "replies (body_avoids secret_keys) (Handler_RotateShareLink s u i)"
  unfolding Handler_CreateDeal_def Handler_GetDealByID_def Handler_ListDeals_def
    Handler_UpdateDealStatus_def Handler_CheckPayment_def Handler_SubmitWork_def Handler_ApproveDeal_def
    Handler_DisputeDeal_def Handler_ListDisputes_def Handler_ResolveDispute_def Handler_ReconcileDeal_def
    Handler_UpdatePayeeInvoice_def Handler_RotateShareLink_def
  by (intro replies_ret replies_option replies_list replies_prod respond_replies; simp add: switch_avoids)+

lemma artifact_replies:
  "replies (body_avoids secret_keys) (Handler_CreateArtifact s u i m)"
  "replies (body_avoids secret_keys) (Handler_ListArtifactsByDeal s u em i)"
  "replies (body_avoids secret_keys) (Handler_GetArtifactByID s u em i j)"
  "replies (body_avoids secret_keys) (Handler_CreateVerification s u j b)"
  "replies (body_avoids secret_keys) (Handler_ListVerificationsByArtifact s u j)"
  "replies (body_avoids secret_keys) (Handler_GetVerificationByID s u i j k)"
  unfolding Handler_CreateArtifact_def Handler_ListArtifactsByDeal_def Handler_GetArtifactByID_def
    Handler_CreateVerification_def Handler_ListVerificationsByArtifact_def Handler_GetVerificationByID_def
  by (intro replies_ret replies_option replies_list replies_prod upload_replies respond_replies;
      simp add: switch_avoids)+

lemma repliesD: "replies Q m \<Longrightarrow> m w = (Inr x, w') \<Longrightarrow> Q x"
  by (auto simp: replies_def)

lemma switch_reply: "set (reply_keys (Reply (error_switch cs server_error e))) \<inter> set secret_keys = {}"
proof -
  have "avoids secret_keys (snd (error_switch cs server_error e))" by (rule switch_avoids) simp_all
  then show ?thesis by (cases "error_switch cs server_error e") (simp add: avoids_def)
qed

lemma public_keys:
  assumes "ep \<in> {EpPublicDeal, EpPublicApprove}"
  shows "replies (\<lambda>r. set (reply_keys r) \<inter> set (secret_keys @ private_keys) = {}) (handle a ep c cl)"
proof (cases "ep = EpPublicDeal")
  case True
  show ?thesis unfolding True handle.simps by (rule as_reply_replies, rule public_replies)
next
  case False
  with assms have ep: "ep = EpPublicApprove" by simp
  show ?thesis unfolding ep handle.simps by (rule as_reply_replies, rule public_replies)
qed

lemma handle_keys: "replies (\<lambda>r. set (reply_keys r) \<inter> set secret_keys = {}) (handle a ep c cl)"
proof (cases "ep \<in> {EpPublicDeal, EpPublicApprove}")
  case True
  from public_keys [OF this, of a c cl] show ?thesis by (fastforce simp: replies_def)
next
  case False
  have down: "replies (\<lambda>r. set (reply_keys r) \<inter> set secret_keys = {}) (Handler_DownloadArtifact s by u em i j)"
    "replies (\<lambda>r. set (reply_keys r) \<inter> set secret_keys = {}) (Handler_DeleteArtifact s u i j)"
    for s :: "'a svc" and "by" u em i j
    unfolding Handler_DownloadArtifact_def Handler_DeleteArtifact_def
    by (intro replies_bindR replies_ret; split sum.split; intro conjI allI impI;
        (simp only: switch_reply | simp split: prod.split))+
  from False show ?thesis
    by (cases ep) (simp_all add: as_reply_replies handler_replies deal_replies artifact_replies health_replies down)
qed

lemma public_row:
  assumes "Service_GetPublicDeal s tok w = (Inr v, w')"
  shows "\<exists>row \<in> set (t_deals (w_db w)). c_share_token row = tok \<and>
    v = \<lparr>pd_Title = c_title row, pd_AmountSats = c_amount_sats row, pd_SourcePlatform = c_source_platform row,
      pd_Invoice = c_invoice row, pd_Status = pd_Status v, pd_DisputeReason = c_dispute_reason row,
      pd_CreatedAt = c_created_at row\<rparr> \<and> pd_Status v \<in> {c_status row, StatusLocked}"
proof -
  have "\<exists>row deal. select_row (\<lambda>r. c_share_token r = tok) (t_deals (w_db w)) = Some row \<and>
         scanDeal (sv_platform s) (sv_key s) row = Inr deal \<and>
         (v = PublicView deal \<or> v = PublicView (deal\<lparr>DealStatus := StatusLocked\<rparr>))"
    using assms by (cases rule: GetPublicDeal_effect) blast+
  then obtain row deal where "select_row (\<lambda>r. c_share_token r = tok) (t_deals (w_db w)) = Some row"
    and scan: "scanDeal (sv_platform s) (sv_key s) row = Inr deal"
    and v: "v = PublicView deal \<or> v = PublicView (deal\<lparr>DealStatus := StatusLocked\<rparr>)" by blast
  moreover from scan have "Title deal = c_title row \<and> AmountSats deal = c_amount_sats row \<and>
      SourcePlatform deal = c_source_platform row \<and> Invoice deal = c_invoice row \<and>
      DisputeReason deal = c_dispute_reason row \<and> CreatedAt deal = c_created_at row \<and>
      DealStatus deal = c_status row"
    by (auto simp: scanDeal_def split: sum.splits)
  ultimately show ?thesis
    by (intro bexI [of _ row]) (auto simp: PublicView_def dest: select_row_Some)
qed


lemma demo_public:
  "\<exists>body. fst (serve_http demo_app EpPublicDeal demo_call (new_limiters, server_world StatusWorkSubmitted)) =
     Reply (200, body)"
  by (simp add: serve_http_def gates_simps rate_gate_def allow_def new_limiters_def RateLimitByIP_def
      RateLimit_def newRateLimiter_def Handler_GetPublicDeal_def Service_GetPublicDeal_def as_reply_def respond_def
      run_server run beside_def)


end
