(* ===== verification/Startup.thy ===== *)
theory Startup
  imports Server Storage_Local
begin

text \<open>
  \<open>cmd/api/main.go\<close>, \<open>cmd/api/workers.go\<close>, \<open>db/connection.go\<close>, \<open>db/migrate.go\<close> and the loops of
  \<open>deals/sweep.go\<close> and \<open>auth/cleanup.go\<close>: how the process starts and what its background workers
  repeat. \<open>log.Fatalf\<close> and a panic end the process and are errors of \<open>boot\<close> and \<open>runWorkers\<close>.
\<close>

section \<open>The database\<close>

text \<open>\<open>pingWithRetry\<close>; \<open>err\<close> is the error of the last attempt. Sleeping between the attempts has no
  effect on the model's state but the passing of time, which the platform's clock decides.\<close>

fun ping_loop :: "'e platform \<Rightarrow> goerr option \<Rightarrow> nat \<Rightarrow> ('e world, unit) prog" where
  "ping_loop P err 0 w = (case err of None \<Rightarrow> (Inr (), w) | Some e \<Rightarrow> (Inl e, w))"
| "ping_loop P err (Suc left) w =
     (case pg_step P w of
        (None, w1) \<Rightarrow> (Inr (), w1)
      | (Some flt, w1) \<Rightarrow> ping_loop P (Some (new_err (fault_text flt))) left w1)"

definition pingWithRetry :: "'e platform \<Rightarrow> nat \<Rightarrow> ('e world, unit) prog" where
  "pingWithRetry P attempts = ping_loop P None attempts"

text \<open>What starting takes from outside: the environment, the working directory, \<open>sql.Open\<close>, and the
  migrations library (its errors, and what \<open>Up\<close> does to the world).\<close>

datatype migration = Migrated | ErrNoChange | MigrationFailed string

record 'e launcher =
  la_env :: env
  la_cwd :: string
  la_sql_open :: "string \<Rightarrow> string option"
  la_migrate_new :: "string \<Rightarrow> string option"
  la_migrate_up :: "'e world \<Rightarrow> migration \<times> 'e world"

definition RunMigrations :: "'e launcher \<Rightarrow> string \<Rightarrow> ('e world, unit) prog" where
  "RunMigrations L databaseURL w =
     (case la_migrate_new L databaseURL of
        Some m \<Rightarrow> (Inl (wrapf ''failed to initialize migrator: '' (new_err m)), w)
      | None \<Rightarrow>
          (case la_migrate_up L w of
             (Migrated, w1) \<Rightarrow> (Inr (), w1)
           | (ErrNoChange, w1) \<Rightarrow> (Inr (), w1)
           | (MigrationFailed m, w1) \<Rightarrow> (Inl (wrapf ''migration failed: '' (new_err m)), w1)))"

definition db_Open :: "'e launcher \<Rightarrow> 'e platform \<Rightarrow> string \<Rightarrow> ('e world, unit) prog" where
  "db_Open L P databaseURL =
     (case la_sql_open L databaseURL of
        Some m \<Rightarrow> fail (wrapf ''failed to open database connection: '' (new_err m))
      | None \<Rightarrow>
          bindE (wrapE (wrapf ''database unreachable after retries: '') (pingWithRetry P 5)) (\<lambda>_.
          bindE (wrapE (wrapf ''failed to run migrations: '') (RunMigrations L databaseURL)) (\<lambda>_.
            ret ())))"

section \<open>Starting the process\<close>

text \<open>\<open>main\<close> up to the server listening and the workers started.\<close>

definition boot ::
  "(fs \<times> 'x) launcher \<Rightarrow> (fs \<times> 'x, 'i) deps \<Rightarrow>
     ((fs \<times> 'x) world, Config \<times> (fs \<times> 'x, 'i) app \<times> limiters) prog" where
  "boot L D =
     (case Load (la_env L) of
        Inl m \<Rightarrow> fail (new_err m)
      | Inr cfg \<Rightarrow>
          bindE (wrapE (wrapf ''failed to set up database: '')
                   (db_Open L (dp_platform D) (cf_DatabaseURL cfg))) (\<lambda>_.
          bindE (wrapE (wrapf ''failed to set up artifact storage: '')
                   (on_disk (NewLocal (la_cwd L) (cf_StoragePath cfg)))) (\<lambda>root.
          bindE (setupRouter cfg D (local_storage root)) (\<lambda>(a, l).
            ret (cfg, a, l)))))"

section \<open>Background workers\<close>

datatype worker = HoldSweep | OTSUpgrade | TokenCleanup

text \<open>\<open>time.Duration(n) * time.Second\<close> wraps; \<open>time.NewTicker\<close> panics on a period that is not positive.\<close>

definition hour :: int where
  "hour = 60 * minute"

definition worker_interval :: "Config \<Rightarrow> worker \<Rightarrow> int" where
  "worker_interval cfg k =
     (case k of
        HoldSweep \<Rightarrow> seconds (cf_HoldSweepIntervalSeconds cfg)
      | OTSUpgrade \<Rightarrow> seconds (cf_OTSUpgradeIntervalSeconds cfg)
      | TokenCleanup \<Rightarrow> hour)"

definition NewTicker :: "int \<Rightarrow> goerr + int" where
  "NewTicker d = (if d \<le> 0 then Inl (new_err ''non-positive interval for NewTicker'') else Inr d)"

text \<open>A loop of a worker: a round at once, then one for every tick until the context is cancelled. Errors
  of a round are only logged.\<close>

fun rounds :: "nat \<Rightarrow> ('w, unit) prog \<Rightarrow> ('w, unit) prog" where
  "rounds 0 m = m"
| "rounds (Suc ticks) m = bindE m (\<lambda>_. rounds ticks m)"

definition RunHoldSweep :: "'e svc \<Rightarrow> int \<Rightarrow> int \<Rightarrow> nat \<Rightarrow> ('e world, unit) prog" where
  "RunHoldSweep service interval holdLifetime ticks =
     bindE (liftE (NewTicker interval)) (\<lambda>_. rounds ticks (sweep service holdLifetime))"

definition upgrade_round :: "('e, 'i) cv_service \<Rightarrow> ('e world, unit) prog" where
  "upgrade_round cvService = bindR (UpgradeOTSProofs cvService) (\<lambda>_. ret ())"

definition runOTSUpgradeLoop :: "('e, 'i) cv_service \<Rightarrow> int \<Rightarrow> nat \<Rightarrow> ('e world, unit) prog" where
  "runOTSUpgradeLoop cvService interval ticks =
     bindE (liftE (NewTicker interval)) (\<lambda>_. rounds ticks (upgrade_round cvService))"

definition cleanup_round :: "'e auth_service \<Rightarrow> ('e world, unit) prog" where
  "cleanup_round service = bindR (CleanupExpiredRefreshTokens (au_platform service)) (\<lambda>_. ret ())"

definition RunRefreshTokenCleanup :: "'e auth_service \<Rightarrow> int \<Rightarrow> nat \<Rightarrow> ('e world, unit) prog" where
  "RunRefreshTokenCleanup service interval ticks =
     bindE (liftE (NewTicker interval)) (\<lambda>_. rounds ticks (cleanup_round service))"

text \<open>\<open>runWorkers\<close>: the three goroutines it starts, each for a number of ticks.\<close>

definition runWorkers :: "Config \<Rightarrow> ('e, 'i) app \<Rightarrow> worker \<Rightarrow> nat \<Rightarrow> ('e world, unit) prog" where
  "runWorkers cfg a k ticks =
     (case k of
        HoldSweep \<Rightarrow> RunHoldSweep (ap_deals a) (seconds (cf_HoldSweepIntervalSeconds cfg))
          (seconds (cf_HoldInvoiceExpirySeconds cfg)) ticks
      | OTSUpgrade \<Rightarrow> runOTSUpgradeLoop (ap_cv a) (seconds (cf_OTSUpgradeIntervalSeconds cfg)) ticks
      | TokenCleanup \<Rightarrow> RunRefreshTokenCleanup (ap_auth a) hour ticks)"

text \<open>One round of a worker, as the loops repeat it.\<close>

definition worker_round :: "Config \<Rightarrow> ('e, 'i) app \<Rightarrow> worker \<Rightarrow> ('e world, unit) prog" where
  "worker_round cfg a k =
     (case k of
        HoldSweep \<Rightarrow> sweep (ap_deals a) (seconds (cf_HoldInvoiceExpirySeconds cfg))
      | OTSUpgrade \<Rightarrow> upgrade_round (ap_cv a)
      | TokenCleanup \<Rightarrow> cleanup_round (ap_auth a))"

lemma runWorkers_rounds:
  "runWorkers cfg a k ticks =
     bindE (liftE (NewTicker (worker_interval cfg k))) (\<lambda>_. rounds ticks (worker_round cfg a k))"
  by (cases k) (simp_all add: runWorkers_def worker_round_def worker_interval_def RunHoldSweep_def
      runOTSUpgradeLoop_def RunRefreshTokenCleanup_def)

end
