(* ===== verification/Server_History.thy ===== *)
theory Server_History
  imports Requests Server_Views Startup
begin

text \<open>
  The running server: requests through the routes of the router, the rounds of the background
  workers, submissions to the calendars that finish late, and an outside world that changes in
  between. What holds in any such history.
\<close>

section \<open>Requests that leave the deals alone\<close>

abbreviation keeps_deals :: "('e world, 'a) prog \<Rightarrow> bool" where
  "keeps_deals \<equiv> runs_in (\<lambda>w w'. t_deals (w_db w') = t_deals (w_db w))"

lemma same_db_deals: "runs_in same_db m \<Longrightarrow> keeps_deals m"
  by (erule runs_in_mono) (simp add: same_db_def)

lemma query_deals: "(\<And>now uuid d. t_deals (snd (f now uuid d)) = t_deals d) \<Longrightarrow> keeps_deals (query P pre f)"
  by (rule query_frame [where Q = "\<lambda>d d'. t_deals d' = t_deals d"]) simp_all

lemma primitive_deals:
  "keeps_deals (time_now P)" "keeps_deals (read_rand P n)"
  by (rule same_db_deals, rule time_now_db read_rand_db)+

lemma respond_deals: "keeps_deals m \<Longrightarrow> keeps_deals (respond m f g)"
  unfolding respond_def by (intro deals_frame.frame_intros)

lemma as_reply_deals: "keeps_deals m \<Longrightarrow> keeps_deals (as_reply m)"
  unfolding as_reply_def by (intro deals_frame.frame_intros)

lemma users_deals:
  "keeps_deals (Users_FindByEmail P em)" "keeps_deals (Users_FindByID P i)"
  "keeps_deals (Users_EmailExists P em)" "keeps_deals (Users_SlugExists P x)"
  "keeps_deals (Users_Create P em h n x)" "keeps_deals (Users_PromoteOperators a es)"
  "keeps_deals (Tokens_Store P i h t)" "keeps_deals (Tokens_Find P h)"
  "keeps_deals (Tokens_Revoke P h)" "keeps_deals (CleanupExpiredRefreshTokens P)"
  unfolding Users_FindByEmail_def Users_FindByID_def Users_EmailExists_def Users_SlugExists_def
    Users_Create_def Tokens_Store_def Tokens_Find_def Tokens_Revoke_def find_user_def
    CleanupExpiredRefreshTokens_def Users_PromoteOperators_def Let_def
  by (intro deals_frame.frame_intros query_deals primitive_deals; simp split: option.split)+

lemma issueTokens_deals: "keeps_deals (issueTokens s u)"
  unfolding issueTokens_def GenerateAccessToken_def GenerateRefreshToken_def sign_token_def randomTokenID_def
  by (intro deals_frame.frame_intros primitive_deals users_deals)

lemma hash_password_deals: "keeps_deals (hash_password s x)"
  by (auto simp: runs_in_def hash_password_def split: prod.splits sum.splits)

lemma slug_deals: "keeps_deals (generateUniqueSlug s n)"
proof -
  have "keeps_deals (slug_attempts s b k)" for b k
    by (induction k) (unfold slug_attempts.simps Let_def,
      (intro deals_frame.frame_intros primitive_deals users_deals; assumption?)+)
  then show ?thesis
    unfolding generateUniqueSlug_def Let_def by (intro deals_frame.frame_intros users_deals)
qed

lemma verify_deals: "keeps_deals (verify_token s x t)"
  unfolding verify_token_def by (intro deals_frame.frame_intros primitive_deals)

lemma auth_deals:
  "keeps_deals (Service_Register s em x n)" "keeps_deals (Service_Authenticate s em x)"
  "keeps_deals (Service_Logout s t)" "keeps_deals (Service_RefreshToken s t)"
  "keeps_deals (Service_GetMe s u)"
  unfolding Service_Register_def Service_Authenticate_def Service_Logout_def Service_RefreshToken_def
    Service_GetMe_def refresh_check_def refresh_revoke_def find_stored_def VerifyRefreshToken_def Let_def
  by (intro deals_frame.frame_intros users_deals issueTokens_deals hash_password_deals slug_deals
      verify_deals primitive_deals)+

lemma auth_handlers_deals:
  "keeps_deals (Handler_Signup s b)" "keeps_deals (Handler_Login s b)"
  "keeps_deals (Handler_Logout s b)" "keeps_deals (Handler_RefreshToken s b)"
  "keeps_deals (Handler_GetMe s u)"
  unfolding Handler_Signup_def Handler_Login_def Handler_Logout_def Handler_RefreshToken_def Handler_GetMe_def
  by (auto split: option.split list.split intro!: deals_frame.frame_intros auth_deals)

text \<open>A storage backend is no database.\<close>

definition storage_apart :: "'e storage \<Rightarrow> bool" where
  "storage_apart st \<longleftrightarrow>
     (\<forall>k r. runs_in same_db (st_Save st k r) \<and> runs_in same_db (st_Open st k) \<and>
        runs_in same_db (st_Size st k) \<and> runs_in same_db (st_Delete st k))"

lemma storage_deals:
  assumes "storage_apart st"
  shows "keeps_deals (st_Save st k r)" "keeps_deals (st_Open st k)"
    "keeps_deals (st_Size st k)" "keeps_deals (st_Delete st k)"
  using assms by (auto simp: storage_apart_def intro: same_db_deals)

lemma disk_apart: "storage_apart (local_storage root)"
  unfolding storage_apart_def
  by (intro allI conjI disk.save_frame(1) disk.open_frame(1) disk.size_frame(1) disk.delete_frame(1))

lemma repo_deals:
  "keeps_deals (Repo_GetDealByID P key i)" "keeps_deals (Repo_GetArtifactByID P j)"
  "keeps_deals (Repo_ListArtifactsByDeal P i)" "keeps_deals (Repo_GetVerificationByID P k)"
  "keeps_deals (Repo_ListVerificationsByArtifact P j)"
  by (rule same_db_deals, rule keeps_db)+

lemma artifact_deals:
  assumes "\<And>st. sv_storage s = Some st \<Longrightarrow> storage_apart st"
  shows "keeps_deals (Service_UploadArtifact s u i k fn r)"
    "keeps_deals (Service_DownloadArtifact s u em i j)" "keeps_deals (Service_DeleteArtifact s u i j)"
proof (atomize (full), cases "sv_storage s")
  case None
  show "keeps_deals (Service_UploadArtifact s u i k fn r) \<and>
    keeps_deals (Service_DownloadArtifact s u em i j) \<and> keeps_deals (Service_DeleteArtifact s u i j)"
    unfolding Service_UploadArtifact_def Service_DownloadArtifact_def Service_DeleteArtifact_def None option.case
    by (intro conjI deals_frame.frame_intros repo_deals DeleteArtifact_deals)
next
  case (Some st)
  note st = storage_deals [OF assms [OF Some]]
  show "keeps_deals (Service_UploadArtifact s u i k fn r) \<and>
    keeps_deals (Service_DownloadArtifact s u em i j) \<and> keeps_deals (Service_DeleteArtifact s u i j)"
    unfolding Service_UploadArtifact_def Service_DownloadArtifact_def Service_DeleteArtifact_def
      artifactStorageKey_def upload_store_def artifact_for_def Let_def Some option.case
    by (intro conjI deals_frame.frame_intros repo_deals primitive_deals other_tables_deals
        DeleteArtifact_deals st)
qed

lemma verification_deals:
  "keeps_deals (Service_ListArtifactsByDeal s u em i)" "keeps_deals (Service_GetArtifactByID s u em i j)"
  "keeps_deals (Service_CreateVerification s u v)" "keeps_deals (Service_ListVerificationsByArtifact s u j)"
  "keeps_deals (Service_GetVerificationByID s u i j k)"
  unfolding Service_ListArtifactsByDeal_def Service_GetArtifactByID_def artifact_for_def
    Service_CreateVerification_def Service_ListVerificationsByArtifact_def Service_GetVerificationByID_def
  by (intro deals_frame.frame_intros repo_deals other_tables_deals)+

lemma upload_parts_deals:
  assumes "\<And>st. sv_storage s = Some st \<Longrightarrow> storage_apart st"
  shows "keeps_deals (upload_parts s u i k ps fin)"
proof (induction ps arbitrary: k)
  case Nil
  show ?case by (cases fin; simp only: upload_parts.simps) (rule deals_frame.frame_ret)+
next
  case (Cons p ps)
  show ?case
    unfolding upload_parts.simps Let_def
    by (intro deals_frame.frame_intros respond_deals artifact_deals assms Cons.IH)
qed

lemma artifact_handlers_deals:
  assumes "\<And>st. sv_storage s = Some st \<Longrightarrow> storage_apart st"
  shows "keeps_deals (Handler_CreateArtifact s u i m)" "keeps_deals (Handler_ListArtifactsByDeal s u em i)"
    "keeps_deals (Handler_GetArtifactByID s u em i j)" "keeps_deals (Handler_DownloadArtifact s by u em i j)"
    "keeps_deals (Handler_DeleteArtifact s u i j)" "keeps_deals (Handler_CreateVerification s u j b)"
    "keeps_deals (Handler_ListVerificationsByArtifact s u j)"
    "keeps_deals (Handler_GetVerificationByID s u i j k)"
  unfolding Handler_CreateArtifact_def Handler_ListArtifactsByDeal_def Handler_GetArtifactByID_def
    Handler_DownloadArtifact_def Handler_DeleteArtifact_def Handler_CreateVerification_def
    Handler_ListVerificationsByArtifact_def Handler_GetVerificationByID_def
  by (auto split: option.split list.split intro!: deals_frame.frame_intros respond_deals verification_deals
      artifact_deals upload_parts_deals assms)

lemma cv_repo_deals:
  "keeps_deals (CV_GetProfile P x)" "keeps_deals (CV_ListEntries P x)"
  "keeps_deals (CV_ListUnanchoredReleasedArtifacts P x)" "keeps_deals (CV_InsertAnchor P x y)"
  "keeps_deals (CV_CountReleasedDeals P x)" "keeps_deals (CV_UpdateTrustScore P x n)"
  "keeps_deals (CV_GetEntryForVerify P x y)" "keeps_deals (CV_ListPendingOTSAnchors P)"
  "keeps_deals (CV_UpdateAnchorOTS P x p sub conf)"
  unfolding CV_GetProfile_def CV_ListEntries_def CV_ListUnanchoredReleasedArtifacts_def
    CV_InsertAnchor_def CV_CountReleasedDeals_def CV_UpdateTrustScore_def CV_GetEntryForVerify_def
    CV_ListPendingOTSAnchors_def CV_UpdateAnchorOTS_def
  by (intro deals_frame.frame_intros query_deals; simp add: Let_def)+

lemma insertAnchors_deals:
  "storage_apart (cs_store s) \<Longrightarrow> keeps_deals (insertAnchors s cs)"
  by (induction cs) (unfold insertAnchors.simps Let_def,
    (intro deals_frame.frame_intros cv_repo_deals storage_deals(2) same_db_deals [OF spawn_submit_frame(1)]; assumption?)+)

lemma cv_deals:
  assumes "storage_apart (cs_store s)"
  shows "keeps_deals (CV_Service_GetProfile s x)" "keeps_deals (CV_Service_VerifyEntry s x y)"
proof -
  have "keeps_deals (healAnchors s f)" for f
    unfolding healAnchors_def anchor_all_def
    by (intro deals_frame.frame_intros cv_repo_deals insertAnchors_deals assms)
  then show "keeps_deals (CV_Service_GetProfile s x)"
    unfolding CV_Service_GetProfile_def refreshTrustScore_def Let_def
    by (intro deals_frame.frame_intros cv_repo_deals) auto
  show "keeps_deals (CV_Service_VerifyEntry s x y)"
    unfolding CV_Service_VerifyEntry_def check_ots_def Let_def
    by (intro deals_frame.frame_intros cv_repo_deals storage_deals(2) assms
        same_db_deals [OF verifyOTSProof_frame(1)])
qed

lemma upgrade_deals:
  assumes "cs_otsClient s = Some (ots_interface c)"
  shows "keeps_deals (UpgradeOTSProofs s)"
proof -
  have up: "keeps_deals (oi_Upgrade (ots_interface c) p)" for p
    by (simp add: ots_interface_def) (rule same_db_deals, rule client_frame)
  have "keeps_deals (upgrade_pending s (ots_interface c) as)" for as
    by (induction as) (unfold upgrade_pending.simps,
      (intro deals_frame.frame_intros cv_repo_deals primitive_deals up; assumption?)+)
  with assms show ?thesis
    unfolding UpgradeOTSProofs_def by (auto intro!: deals_frame.frame_intros cv_repo_deals)
qed

lemma submit_deals: "keeps_deals (submit_anchor s (ots_interface c) i h)"
proof -
  have "keeps_deals (oi_Submit (ots_interface c) h)"
    by (simp add: ots_interface_def) (rule same_db_deals, rule client_frame)
  then show ?thesis
    unfolding submit_anchor_def by (intro deals_frame.frame_intros cv_repo_deals primitive_deals)
qed

lemma health_deals: "keeps_deals (Health_Handler P (Some c))"
proof (rule runs_inI)
  fix w r w' assume run: "Health_Handler P (Some c) w = (r, w')"
  obtain flt w1 where p: "pg_step P w = (flt, w1)" by (cases "pg_step P w")
  obtain q w2 where h: "Client_HealthCheck P c w1 = (q, w2)" by (cases "Client_HealthCheck P c w1")
  have "runs_in same_db (Client_HealthCheck P c)"
    unfolding Client_HealthCheck_def by (intro bind_request_db db_frame.frame_intros)
  from same_dbD [OF h this] run p h pg_step_db [OF p] show "t_deals (w_db w') = t_deals (w_db w)"
    by (simp add: Health_Handler_def Let_def)
qed

section \<open>Every request is a request of the deal service, a webhook, or none of its business\<close>

lemma respond_state: "snd (respond m f g w) = snd (m w)"
  by (auto simp: respond_def bindR_def split: prod.splits)

lemma as_reply_state: "snd (as_reply m w) = snd (m w)"
  by (auto simp: as_reply_def bindE_def split: prod.splits sum.splits)

lemma answered_snd: "snd (answered m w) = snd (m w)"
  by (auto simp: answered_def bindE_def split: prod.splits sum.splits)

text \<open>The state a program ends in is the one a request of the deal service ends in, or the program
  leaves the deals alone.\<close>

definition served_as :: "'e svc \<Rightarrow> ('e world, 'a) prog \<Rightarrow> bool" where
  "served_as s m \<longleftrightarrow>
     (\<forall>w. t_deals (w_db (snd (m w))) = t_deals (w_db w) \<or> (\<exists>rq. snd (m w) = snd (serve s rq w)))"

lemma served_asI: "(\<And>w. snd (m w) = snd (serve s rq w)) \<Longrightarrow> served_as s m"
  by (auto simp: served_as_def)

lemma served_services:
  "served_as s (Service_CreateDeal s d)" "served_as s (Service_GetDealByID s i u em)"
  "served_as s (Service_ListByUser s u em)" "served_as s (Service_UpdateStatus s u i st)"
  "served_as s (Service_SubmitWork s u i)" "served_as s (Service_ApproveDeal s em i)"
  "served_as s (Service_DisputeDeal s em i x)" "served_as s (Service_ListDisputes s)"
  "served_as s (Service_ResolveDispute s em i v)" "served_as s (Service_ReconcilePayout s em i act x)"
  "served_as s (Service_CheckPayment s u i)" "served_as s (Service_SweepExpiredHolds s t)"
  "served_as s (Service_UpdatePayeeInvoice s u i b)" "served_as s (Service_GetPublicDeal s tok)"
  "served_as s (Service_PublicApproveDeal s tok)" "served_as s (Service_RotateShareLink s u i)"
proof -
  show "served_as s (Service_CreateDeal s d)" by (rule served_asI [where rq = "ReqCreate d"]) (simp only: serve.simps answered_snd)
  show "served_as s (Service_GetDealByID s i u em)" by (rule served_asI [where rq = "ReqGet i u em"]) (simp only: serve.simps answered_snd)
  show "served_as s (Service_ListByUser s u em)" by (rule served_asI [where rq = "ReqList u em"]) (simp only: serve.simps answered_snd)
  show "served_as s (Service_UpdateStatus s u i st)" by (rule served_asI [where rq = "ReqUpdateStatus u i st"]) (simp only: serve.simps answered_snd)
  show "served_as s (Service_SubmitWork s u i)" by (rule served_asI [where rq = "ReqSubmit u i"]) (simp only: serve.simps answered_snd)
  show "served_as s (Service_ApproveDeal s em i)" by (rule served_asI [where rq = "ReqApprove em i"]) (simp only: serve.simps answered_snd)
  show "served_as s (Service_DisputeDeal s em i x)" by (rule served_asI [where rq = "ReqDispute em i x"]) (simp only: serve.simps answered_snd)
  show "served_as s (Service_ListDisputes s)" by (rule served_asI [where rq = "ReqListDisputes"]) (simp only: serve.simps answered_snd)
  show "served_as s (Service_ResolveDispute s em i v)" by (rule served_asI [where rq = "ReqResolve em i v"]) (simp only: serve.simps answered_snd)
  show "served_as s (Service_ReconcilePayout s em i act x)" by (rule served_asI [where rq = "ReqReconcile em i act x"]) (simp only: serve.simps answered_snd)
  show "served_as s (Service_CheckPayment s u i)" by (rule served_asI [where rq = "ReqCheckPayment u i"]) (simp only: serve.simps answered_snd)
  show "served_as s (Service_SweepExpiredHolds s t)" by (rule served_asI [where rq = "ReqSweep t"]) (simp only: serve.simps answered_snd)
  show "served_as s (Service_UpdatePayeeInvoice s u i b)" by (rule served_asI [where rq = "ReqPayeeInvoice u i b"]) (simp only: serve.simps answered_snd)
  show "served_as s (Service_GetPublicDeal s tok)" by (rule served_asI [where rq = "ReqPublicGet tok"]) (simp only: serve.simps answered_snd)
  show "served_as s (Service_PublicApproveDeal s tok)" by (rule served_asI [where rq = "ReqPublicApprove tok"]) (simp only: serve.simps answered_snd)
  show "served_as s (Service_RotateShareLink s u i)" by (rule served_asI [where rq = "ReqRotate u i"]) (simp only: serve.simps answered_snd)
qed

lemma served_respond: "served_as s m \<Longrightarrow> served_as s (respond m f g)"
  by (simp add: served_as_def respond_state)

lemma served_reply: "served_as s m \<Longrightarrow> served_as s (as_reply m)"
  by (simp add: served_as_def as_reply_state)

lemma served_deals: "keeps_deals m \<Longrightarrow> served_as s m"
  by (simp add: served_as_def runs_in_def split_def)

lemma served_ret: "served_as s (ret x)"
  by (rule served_deals) (rule deals_frame.frame_ret)

lemma served_option: "served_as s m \<Longrightarrow> (\<And>x. served_as s (g x)) \<Longrightarrow> served_as s (case_option m g r)"
  by (cases r) simp_all

lemma served_strings: "(\<And>x. served_as s (f x)) \<Longrightarrow> served_as s g \<Longrightarrow> served_as s (case r of Some [x] \<Rightarrow> f x | _ \<Rightarrow> g)"
  by (auto split: option.split list.split)

lemma served_prod: "(\<And>x y. served_as s (f x y)) \<Longrightarrow> served_as s (case_prod f p)"
  by (cases p) simp

lemma served_handlers:
  "served_as s (Handler_CreateDeal s u b)" "served_as s (Handler_GetDealByID s u em i)"
  "served_as s (Handler_ListDeals s u em)" "served_as s (Handler_UpdateDealStatus s u i b)"
  "served_as s (Handler_CheckPayment s u i)" "served_as s (Handler_SubmitWork s u i)"
  "served_as s (Handler_ApproveDeal s em i)" "served_as s (Handler_DisputeDeal s em i b)"
  "served_as s (Handler_ListDisputes s)" "served_as s (Handler_ResolveDispute s em i b)"
  "served_as s (Handler_ReconcileDeal s em i b)" "served_as s (Handler_UpdatePayeeInvoice s u i b)"
  "served_as s (Handler_GetPublicDeal s tok)" "served_as s (Handler_PublicApproveDeal s tok)"
  "served_as s (Handler_RotateShareLink s u i)"
  unfolding Handler_CreateDeal_def Handler_GetDealByID_def Handler_ListDeals_def
    Handler_UpdateDealStatus_def Handler_CheckPayment_def Handler_SubmitWork_def Handler_ApproveDeal_def
    Handler_DisputeDeal_def Handler_ListDisputes_def Handler_ResolveDispute_def Handler_ReconcileDeal_def
    Handler_UpdatePayeeInvoice_def Handler_GetPublicDeal_def Handler_PublicApproveDeal_def
    Handler_RotateShareLink_def
  by (intro served_respond served_option served_prod served_strings served_ret served_services)+

text \<open>The collaborators the theorems need, as the router wires them.\<close>

definition well_wired :: "('e, 'i) app \<Rightarrow> bool" where
  "well_wired a \<longleftrightarrow> wired a \<and> storage_apart (cs_store (ap_cv a)) \<and>
     (\<forall>st. sv_storage (ap_deals a) = Some st \<longrightarrow> storage_apart st) \<and>
     (\<exists>c :: ('e, 'i) ots_client. cs_otsClient (ap_cv a) = Some (ots_interface c))"

lemma handle_served:
  assumes "well_wired a" and "ep \<noteq> EpWebhook"
  shows "served_as (ap_deals a) (handle a ep c cl)"
proof -
  have st: "sv_storage (ap_deals a) = Some st \<Longrightarrow> storage_apart st" for st
    using assms(1) by (simp add: well_wired_def)
  have cv: "storage_apart (cs_store (ap_cv a))" using assms(1) by (simp add: well_wired_def)
  show ?thesis
    using assms(2)
    by (cases ep) (simp_all add: served_reply served_handlers served_deals as_reply_deals auth_handlers_deals
        artifact_handlers_deals [OF st] health_deals CV_Handler_GetProfile_def CV_Handler_VerifyEntry_def
        cv_deals [OF cv] deals_frame.frame_bindR deals_frame.frame_ret respond_deals split: sum.split)
qed

section \<open>The running server\<close>

text \<open>What happens to the server, one thing after the other: a request is served; a worker that runs
  does a round; a submission to the calendars that was started finishes; the limiters drop idle
  visitors; the outside world (LNbits, the clients' wallets, the disk, the clock) changes in any way.\<close>

datatype act = Serve endpoint http_call | Work worker | LateSubmission string string | Tidy time | Outside

inductive server_step ::
  "Config \<Rightarrow> ('e, 'i) app \<Rightarrow> 'e server \<Rightarrow> act \<Rightarrow> 'e server \<Rightarrow> bool" for cfg a where
  step_serve: "serve_http a ep c (l, w) = (reply, st') \<Longrightarrow> server_step cfg a (l, w) (Serve ep c) st'"
| step_work: "NewTicker (worker_interval cfg k) = Inr d \<Longrightarrow> worker_round cfg a k w = (r, w') \<Longrightarrow>
    server_step cfg a (l, w) (Work k) (l, w')"
| step_submission: "EvSpawnSubmit i h \<in> set (w_log w) \<Longrightarrow> cs_otsClient (ap_cv a) = Some client \<Longrightarrow>
    submit_anchor (ap_cv a) client i h w = (r, w') \<Longrightarrow>
    server_step cfg a (l, w) (LateSubmission i h) (l, w')"
| step_tidy: "server_step cfg a (l, w) (Tidy now)
    (\<lparr>lm_auth = cleanup (lm_auth l) now, lm_public = cleanup (lm_public l) now,
      lm_webhook = cleanup (lm_webhook l) now\<rparr>, w)"
| step_outside: "server_step cfg a (l, w) Outside (l, w\<lparr>w_ext := e\<rparr>)"

inductive_cases stepE: "server_step cfg a st x st'"

text \<open>A run, with the state after each step.\<close>

inductive server_run ::
  "Config \<Rightarrow> ('e, 'i) app \<Rightarrow> 'e server \<Rightarrow> (act \<times> 'e server) list \<Rightarrow> 'e server \<Rightarrow> bool" for cfg a st where
  run_start: "server_run cfg a st [] st"
| run_step: "server_run cfg a st tr st1 \<Longrightarrow> server_step cfg a st1 x st2 \<Longrightarrow>
    server_run cfg a st (tr @ [(x, st2)]) st2"

text \<open>A relation between rows that the requests of the deal service keep, and that admits locking a
  deal that awaits payment, is kept by every step.\<close>

lemma webhook_rows:
  assumes "row_relation R" and "\<And>now r. c_status r = StatusAwaitingPayment \<Longrightarrow> R r (set_status StatusLocked now r)"
    and "HandleLNbitsWebhook s unm secret body hdr w = (r, w')"
  shows "row_wise R (w_db w) (w_db w')"
  using assms(3)
proof (cases rule: webhook_run)
  case (turned_down resp)
  then show ?thesis by (simp add: row_relation.row_wise_same [OF assms(1)])
next
  case (handled raw now w1 n q resp)
  have "row_wise R (w_db w1) (w_db w')"
    using handled(5)
  proof (cases rule: HandlePayment_effect)
    case (same evs)
    then show ?thesis by (simp add: row_relation.row_wise_same [OF assms(1)])
  next
    case (locked evs ns row now)
    show ?thesis
      unfolding locked(4)
    proof (rule row_relation.row_wise_upd [OF assms(1)])
      show "c_id (cas_row StatusAwaitingPayment (set_status StatusLocked now) r) = c_id r" for r
        by (simp add: cas_row_def set_status_def)
      show "R r (cas_row StatusAwaitingPayment (set_status StatusLocked now) r)" for r
        using assms(2) by (simp add: cas_row_def row_relation.R_refl [OF assms(1)])
    qed
  qed
  with handled(3) show ?thesis by simp
qed

lemma round_rows:
  assumes "row_relation R" and "well_wired a"
    and serve: "\<And>rq. runs_in (\<lambda>w w'. row_wise R (w_db w) (w_db w')) (serve (ap_deals a) rq)"
    and "worker_round cfg a k w = (r, w')"
  shows "row_wise R (w_db w) (w_db w')"
proof (cases k)
  case HoldSweep
  obtain now w1 where t: "time_now (sv_platform (ap_deals a)) w = (Inr now, w1)"
    by (cases "time_now (sv_platform (ap_deals a)) w") (auto simp: time_now_def split: prod.splits)
  have "w_db w1 = w_db w" using t by (rule same_dbD) (rule time_now_db)
  moreover from assms(4) HoldSweep t have "\<exists>cutoff. w' = snd (serve (ap_deals a) (ReqSweep cutoff) w1)"
    by (simp add: worker_round_def sweep_def bindE_def bindR_def answered_snd split: prod.splits) (metis snd_conv)
  ultimately show ?thesis using serve unfolding runs_in_def by (metis prod.collapse)
next
  case OTSUpgrade
  from assms(2) obtain c :: "('a, 'b) ots_client" where "cs_otsClient (ap_cv a) = Some (ots_interface c)"
    by (auto simp: well_wired_def)
  note up = upgrade_deals [OF this]
  from assms(4) OTSUpgrade obtain q where "UpgradeOTSProofs (ap_cv a) w = (q, w')"
    by (auto simp: worker_round_def upgrade_round_def cleanup_round_def bindR_def split: prod.splits)
  from runs_inD [OF up this] show ?thesis by (rule row_relation.row_wise_same [OF assms(1)])
next
  case TokenCleanup
  with assms(4) obtain q where "CleanupExpiredRefreshTokens (au_platform (ap_auth a)) w = (q, w')"
    by (auto simp: worker_round_def upgrade_round_def cleanup_round_def bindR_def split: prod.splits)
  from runs_inD [OF users_deals(10) this] show ?thesis by (rule row_relation.row_wise_same [OF assms(1)])
qed

lemma step_rows:
  assumes "server_step cfg a st x st'" and "row_relation R" and "well_wired a"
    and serve: "\<And>rq. runs_in (\<lambda>w w'. row_wise R (w_db w) (w_db w')) (serve (ap_deals a) rq)"
    and lock: "\<And>now r. c_status r = StatusAwaitingPayment \<Longrightarrow> R r (set_status StatusLocked now r)"
  shows "row_wise R (w_db (snd st)) (w_db (snd st'))"
  using assms(1)
proof (cases rule: server_step.cases)
  case (step_serve ep c l w reply)
  obtain l' w' where st': "st' = (l', w')" by (cases st')
  note same = row_relation.row_wise_same [OF assms(2)]
  from step_serve(3) [unfolded st'] show ?thesis
  proof (cases rule: serve_http_runs)
    case (refused y)
    with step_serve(1) st' show ?thesis by (simp add: same)
  next
    case (served cl w1)
    have "row_wise R (w_db w1) (w_db w')"
    proof (cases "ep = EpWebhook")
      case True
      with served(4) obtain r where "HandleLNbitsWebhook (ap_deals a) (ap_unmarshal a) (ap_webhookSecret a)
          (hc_body c) (hc_signature c) w1 = (r, w')"
        using as_reply_run by fastforce
      with webhook_rows [OF assms(2) lock] show ?thesis by blast
    next
      case False
      from handle_served [OF assms(3) this, of c cl] served(4) serve show ?thesis
        unfolding served_as_def runs_in_def by (metis same prod.collapse snd_conv)
    qed
    with served(2) step_serve(1) st' show ?thesis by simp
  qed
next
  case (step_work k d w r w' l)
  with round_rows [OF assms(2,3) serve] show ?thesis by simp
next
  case (step_submission i h w client r w' l)
  from assms(3) obtain c :: "('a, 'b) ots_client" where "cs_otsClient (ap_cv a) = Some (ots_interface c)"
    by (auto simp: well_wired_def)
  with step_submission(5) have "submit_anchor (ap_cv a) (ots_interface c) i h w = (r, w')"
    using step_submission(6) by simp
  from runs_inD [OF submit_deals this] step_submission(1,3) show ?thesis
    by (simp add: row_relation.row_wise_same [OF assms(2)])
qed (simp_all add: row_relation.row_wise_same [OF assms(2)])

section \<open>The lifecycle over a history\<close>

lemma boot_run:
  assumes "boot L D w0 = (Inr (cfg, a, l), w)"
  obtains root where "Load (la_env L) = Inr cfg" "a = wire_app cfg D (local_storage root)" "l = new_limiters"
  using assms unfolding boot_def setupRouter_def
  by (auto simp: run_iffs bindE_Inr_iff split: sum.splits if_splits)

lemma wire_well_wired:
  assumes "dp_platform D = with_disk P"
  shows "well_wired (wire_app cfg D (local_storage root))"
  using wire_app_wired [OF assms]
  by (auto simp: well_wired_def wire_app_def wire_deals_def wire_cv_def disk_apart)

lemma boot_well_wired:
  "boot L D w0 = (Inr (cfg, a, l), w) \<Longrightarrow> dp_platform D = with_disk P \<Longrightarrow> well_wired a"
  by (elim boot_run) (simp add: wire_well_wired)

lemma anchor_well_wired: "well_wired a \<Longrightarrow> anchor_ok (ap_deals a)"
  by (simp add: well_wired_def wired_def)

lemma step_alive:
  assumes "server_step cfg a st x st'" and "well_wired a"
  shows "alive (w_db (snd st)) (w_db (snd st'))"
proof (rule step_rows [OF assms(1) life.row_relation_axioms assms(2)])
  show "runs_in (\<lambda>w w'. alive (w_db w) (w_db w')) (serve (ap_deals a) rq)" for rq
    using serve_alive [OF anchor_well_wired [OF assms(2)], of rq] by (simp add: life.in_rows)
  show "moved r (set_status StatusLocked now r)" if "c_status r = StatusAwaitingPayment" for now r
    using that by (auto simp: moved_def set_status_def moves_def intro!: r_into_rtranclp)
qed

lemma step_terms:
  assumes "server_step cfg a st x st'" and "well_wired a"
  shows "row_wise terms_kept (w_db (snd st)) (w_db (snd st'))"
proof (rule step_rows [OF assms(1) terms.row_relation_axioms assms(2)])
  show "runs_in (\<lambda>w w'. row_wise terms_kept (w_db w) (w_db w')) (serve (ap_deals a) rq)" for rq
    using terms.serve_frame [OF anchor_well_wired [OF assms(2)], of rq] by (simp add: terms.in_rows)
  show "terms_kept r (set_status StatusLocked now r)" for now r
    by (simp add: terms_kept_def set_status_def)
qed

lemma run_alive:
  assumes "server_run cfg a st tr st'" and "well_wired a"
  shows "alive (w_db (snd st)) (w_db (snd st')) \<and> row_wise terms_kept (w_db (snd st)) (w_db (snd st'))"
  using assms(1)
proof induction
  case (run_step tr st1 x st2)
  with step_alive [OF run_step(2) assms(2)] step_terms [OF run_step(2) assms(2)] show ?case
    using life.row_wise_trans terms.row_wise_trans by blast
qed (simp add: terms.row_wise_same)


section \<open>The lifecycle ends\<close>

text \<open>How often a list of observations changes.\<close>

fun changes :: "'a list \<Rightarrow> nat" where
  "changes (x # y # zs) = (if x = y then 0 else 1) + changes (y # zs)"
| "changes _ = 0"

lemma changes_snoc: "xs \<noteq> [] \<Longrightarrow> changes (xs @ [y]) = changes xs + (if last xs = y then 0 else 1)"
  by (induction xs rule: changes.induct) auto

text \<open>The status of a deal after each step of a run.\<close>

definition statuses :: "string \<Rightarrow> 'e server list \<Rightarrow> Status option list" where
  "statuses i sts = map (\<lambda>st. map_option c_status (find_deal i (w_db (snd st)))) sts"

lemma run_changes:
  assumes "server_run cfg a st tr st'" and "well_wired a" and "find_deal i (w_db (snd st)) = Some row"
  shows "\<exists>row'. find_deal i (w_db (snd st')) = Some row' \<and>
    last (statuses i (st # map snd tr)) = Some (c_status row') \<and>
    changes (statuses i (st # map snd tr)) + status_rank (c_status row) \<le> status_rank (c_status row')"
  using assms(1)
proof induction
  case run_start
  then show ?case by (simp add: assms(3) statuses_def)
next
  case (run_step tr st1 x st2)
  then obtain row1 where row1: "find_deal i (w_db (snd st1)) = Some row1"
    "last (statuses i (st # map snd tr)) = Some (c_status row1)"
    "changes (statuses i (st # map snd tr)) + status_rank (c_status row) \<le> status_rank (c_status row1)" by blast
  from row_wiseD [OF step_alive [OF run_step(2) assms(2)] row1(1)] obtain row2 where
    row2: "find_deal i (w_db (snd st2)) = Some row2" "moves\<^sup>*\<^sup>* (c_status row1) (c_status row2)"
    by (auto simp: moved_def)
  have split: "statuses i (st # map snd (tr @ [(x, st2)])) =
      statuses i (st # map snd tr) @ [Some (c_status row2)]"
    by (simp add: statuses_def row2(1))
  have "statuses i (st # map snd tr) \<noteq> []" by (simp add: statuses_def)
  from changes_snoc [OF this] row1(2,3) moves_path_rank [OF row2(2)] row2(1)
  show ?case unfolding split by (auto split: if_splits)
qed


section \<open>Money over a history\<close>

abbreviation grows :: "'e world \<Rightarrow> 'e world \<Rightarrow> bool" where
  "grows \<equiv> log_adds (\<lambda>_. True)"

lemma quiet_grows: "runs_in (log_adds S) m \<Longrightarrow> runs_in grows m"
  by (erule log_adds_mono) simp

lemma release_grows:
  assumes "release_flow s opts pre fin" and "anchor_ok s"
  shows "runs_in grows (releaseEscrow s i opts)"
  unfolding releaseEscrow_def release_phase2_def Let_def
  by (intro log_frame.frame_intros quiet_grows [OF phase1_log] settle_log pay_call.call_adds
      clearPayoutAttempt_log same_log_adds [OF release_flow.phase3_log [OF assms(1)]]
      quiet_grows [OF anchor_quiet [OF assms(2)]] notify_quiet [THEN quiet_grows] TrueI)

lemma spending_grows:
  assumes "anchor_ok s"
  shows "runs_in grows (Service_ApproveDeal s em i)" "runs_in grows (Service_PublicApproveDeal s tok)"
  unfolding Service_ApproveDeal_def Service_PublicApproveDeal_def Let_def
  by (intro log_frame.frame_intros release_grows [OF approve.release_flow_axioms assms] repo_log
      release_grows [OF public.release_flow_axioms assms] refresh_quiet [THEN quiet_grows])+

lemma resolve_grows:
  assumes "anchor_ok s"
  shows "runs_in grows (Service_ResolveDispute s op i v)"
  unfolding Service_ResolveDispute_def refundDispute_def refund_body_def cancelEscrowHold_def Let_def
  by (cases v; simp only: DisputeResolution.case; intro log_frame.frame_intros repo_log rand_time_log
      release_grows [OF resolve.release_flow_axioms assms] withTx_log cancel_call.call_adds
      check_call.call_adds notify_quiet [THEN quiet_grows] TrueI)

lemma handle_grows:
  assumes "wired a"
  shows "runs_in grows (handle a ep c cl)"
proof (cases "ep \<in> {EpApprove, EpResolve, EpPublicApprove}")
  case True
  have "anchor_ok (ap_deals a)" using assms by (simp add: wired_def)
  note g = spending_grows [OF this] resolve_grows [OF this]
  from True show ?thesis
    by (auto simp: Handler_ApproveDeal_def Handler_ResolveDispute_def Handler_PublicApproveDeal_def
        intro!: as_reply_log respond_log g log_strings log_frame.frame_ret)
next
  case False
  then show ?thesis by (rule quiet_grows [OF handle_quiet [OF assms]])
qed

lemma serve_grows:
  assumes "wired a" and "serve_http a ep c (l, w) = (reply, l', w')"
  shows "grows w w'"
  using assms(2)
proof (cases rule: serve_http_runs)
  case (refused x)
  then show ?thesis by (simp add: log_adds_def)
next
  case (served cl w1)
  from runs_inD [OF handle_grows [OF assms(1)] served(4)] served(3) show ?thesis by (simp add: log_adds_def)
qed

lemma sweep_quiet: "runs_in (quiet (sv_lnbits s)) (sweep_deals s ds n)"
  by (induction ds arbitrary: n) (unfold sweep_deals.simps, (intro log_frame.frame_intros calls_quiet
      repo_log notify_quiet; assumption?)+)

lemma calendar_quiet:
  "runs_in (quiet n) (oi_Submit (ots_interface c) h)" "runs_in (quiet n) (oi_Upgrade (ots_interface c) p)"
  unfolding ots_interface_def OTSClient.simps
  by (rule log_adds_mono, rule client_frame, auto simp: calendar_event_def)+

lemma anchor_rows_log:
  "runs_in (log_adds S) (CV_ListPendingOTSAnchors P)" "runs_in (log_adds S) (CV_UpdateAnchorOTS P i p x y)"
  unfolding CV_ListPendingOTSAnchors_def CV_UpdateAnchorOTS_def
  by (intro log_frame.frame_intros query_log')+

lemma submit_quiet: "runs_in (quiet n) (submit_anchor s (ots_interface c) i h)"
  unfolding submit_anchor_def
  by (intro log_frame.frame_intros calendar_quiet rand_time_log anchor_rows_log)

lemma upgrade_quiet: "runs_in (quiet n) (upgrade_pending s (ots_interface c) as)"
  by (induction as) (unfold upgrade_pending.simps, (intro log_frame.frame_intros calendar_quiet rand_time_log
      anchor_rows_log; assumption?)+)

lemma cleanup_log: "runs_in (log_adds S) (CleanupExpiredRefreshTokens P)"
  unfolding CleanupExpiredRefreshTokens_def by (intro log_frame.frame_intros rand_time_log query_log')

lemma round_quiet:
  assumes "well_wired a"
  shows "runs_in (quiet (sv_lnbits (ap_deals a))) (worker_round cfg a k)"
proof -
  from assms obtain c :: "('a, 'b) ots_client" where c: "cs_otsClient (ap_cv a) = Some (ots_interface c)"
    by (auto simp: well_wired_def)
  show ?thesis
    unfolding worker_round_def upgrade_round_def cleanup_round_def sweep_def Service_SweepExpiredHolds_def UpgradeOTSProofs_def c option.case
    by (cases k; simp only: worker.case; intro log_frame.frame_intros rand_time_log repo_log sweep_quiet
        upgrade_quiet anchor_rows_log cleanup_log)
qed

text \<open>A step adds to the log; what it spends was authorised by the request it serves.\<close>

lemma step_spends:
  assumes "server_step cfg a st x st'" and "well_wired a"
  shows "\<exists>evs. w_log (snd st') = w_log (snd st) @ evs \<and>
    (\<forall>ev \<in> set evs. spends (sv_lnbits (ap_deals a)) ev \<longrightarrow>
       (\<exists>ep c. x = Serve ep c \<and> authorised a ep c (snd st)))"
  using assms(1)
proof (cases rule: server_step.cases)
  case (step_serve ep c l w reply)
  have wired: "wired a" using assms(2) by (simp add: well_wired_def)
  obtain l' w' where st': "st' = (l', w')" by (cases st')
  note run = step_serve(3) [unfolded st']
  from serve_grows [OF wired run] obtain evs where evs: "w_log w' = w_log w @ evs"
    by (auto simp: log_adds_def)
  from serve_spends [OF wired run evs] step_serve(1,2) evs st' show ?thesis by auto
next
  case (step_work k d w r w' l)
  from runs_inD [OF round_quiet [OF assms(2)] step_work(5)] step_work(1,3) show ?thesis
    by (auto simp: log_adds_def)
next
  case (step_submission i h w client r w' l)
  from assms(2) obtain c :: "('a, 'b) ots_client" where "cs_otsClient (ap_cv a) = Some (ots_interface c)"
    by (auto simp: well_wired_def)
  with step_submission(5,6) have "submit_anchor (ap_cv a) (ots_interface c) i h w = (r, w')" by simp
  from runs_inD [OF submit_quiet this, of "sv_lnbits (ap_deals a)"] step_submission(1,3) show ?thesis
    by (auto simp: log_adds_def)
qed simp_all

lemma run_spends:
  assumes "server_run cfg a st tr st'" and "well_wired a"
  shows "\<exists>evs. w_log (snd st') = w_log (snd st) @ evs \<and>
    (\<forall>ev \<in> set evs. spends (sv_lnbits (ap_deals a)) ev \<longrightarrow>
       (\<exists>before st1 ep c st2 after. tr = before @ (Serve ep c, st2) # after \<and>
          server_run cfg a st before st1 \<and> authorised a ep c (snd st1)))"
  using assms(1)
proof induction
  case (run_step tr st1 x st2)
  then obtain e1 where e1: "w_log (snd st1) = w_log (snd st) @ e1"
    "\<forall>ev \<in> set e1. spends (sv_lnbits (ap_deals a)) ev \<longrightarrow>
       (\<exists>before st1 ep c st2 after. tr = before @ (Serve ep c, st2) # after \<and>
          server_run cfg a st before st1 \<and> authorised a ep c (snd st1))" by blast
  from step_spends [OF run_step(2) assms(2)] obtain e2 where e2: "w_log (snd st2) = w_log (snd st1) @ e2"
    "\<forall>ev \<in> set e2. spends (sv_lnbits (ap_deals a)) ev \<longrightarrow>
       (\<exists>ep c. x = Serve ep c \<and> authorised a ep c (snd st1))" by blast
  show ?case
  proof (intro exI [of _ "e1 @ e2"] conjI ballI impI)
    show "w_log (snd st2) = w_log (snd st) @ e1 @ e2" using e1(1) e2(1) by simp
    fix ev assume ev: "ev \<in> set (e1 @ e2)" and sp: "spends (sv_lnbits (ap_deals a)) ev"
    show "\<exists>before st1' ep c st2' after. tr @ [(x, st2)] = before @ (Serve ep c, st2') # after \<and>
        server_run cfg a st before st1' \<and> authorised a ep c (snd st1')"
    proof (cases "ev \<in> set e1")
      case True
      with e1(2) sp obtain before st1' ep c st2' after where "tr = before @ (Serve ep c, st2') # after"
        "server_run cfg a st before st1'" "authorised a ep c (snd st1')" by blast
      then show ?thesis
        by (intro exI [of _ before] exI [of _ st1'] exI [of _ ep] exI [of _ c] exI [of _ st2']
            exI [of _ "after @ [(x, st2)]"]) simp
    next
      case False
      with ev sp e2(2) obtain ep c where "x = Serve ep c" "authorised a ep c (snd st1)" by auto
      with run_step(1) show ?thesis
        by (intro exI [of _ tr] exI [of _ st1] exI [of _ ep] exI [of _ c] exI [of _ st2] exI [of _ "[]"]) simp
    qed
  qed
qed simp


section \<open>A history\<close>

definition demo_launcher :: "(fs \<times> demo) launcher" where
  "demo_launcher = \<lparr>la_env = demo_env(''STORAGE_PATH'' \<mapsto> ''/up''), la_cwd = ''/'',
     la_sql_open = (\<lambda>_. None), la_migrate_new = (\<lambda>_. None), la_migrate_up = (\<lambda>w. (ErrNoChange, w))\<rparr>"

definition boot_cfg :: Config where
  "boot_cfg = read_config (la_env demo_launcher) ''postgres'' (replicate 32 (CHR ''s'')) (replicate 32 (CHR ''t''))"

definition boot_app :: "(fs \<times> demo, nat) app" where
  "boot_app = wire_app boot_cfg demo_deps (local_storage ''/up'')"

lemma demo_load: "Load (la_env demo_launcher) = Inr boot_cfg"
  by (simp add: Load_def requireEnv_Getenv demo_launcher_def demo_env_def Getenv_def check_config_def
      boot_cfg_def read_config_def getEnvListFallback_def getEnvList_def getEnv_def TrimSpace_ascii
      bytes_def of_bytes_def)

lemma demo_boot:
  "boot demo_launcher demo_deps (server_world st) = (Inr (boot_cfg, boot_app, new_limiters), server_world st)"
proof -
  have disk: "on_disk (NewLocal ''/'' ''/up'') (server_world st) = (Inr ''/up'', server_world st)"
    by (simp add: on_disk_def NewLocal_def TrimSpace_ascii IsSpace_def bytes_def of_bytes_def filepath_Abs_def
        filepath_Clean_def path_elems_def clean_step_def os_try_def os_ok_def syscall_def sys_fault_def
        server_world_def demo_files_def)
  have ping: "pg_step (with_disk demo_platform) (server_world st) = (None, server_world st)"
    by (simp add: pg_step_def with_disk_def beside_def server_world_def)
  have conf: "cf_StoragePath boot_cfg = ''/up''" "cf_OperatorEmails boot_cfg = []"
    by (simp_all add: boot_cfg_def demo_launcher_def demo_env_def read_config_def getEnv_def getEnvList_def
        Getenv_def TrimSpace_ascii bytes_def of_bytes_def)
  have deps: "dp_platform demo_deps = with_disk demo_platform" "dp_cors_ok demo_deps = (\<lambda>_. True)"
    "la_cwd demo_launcher = ''/''" "la_sql_open demo_launcher = (\<lambda>_. None)"
    "la_migrate_new demo_launcher = (\<lambda>_. None)" "la_migrate_up demo_launcher = (\<lambda>w. (ErrNoChange, w))"
    by (simp_all add: demo_deps_def demo_launcher_def)
  show ?thesis
    by (simp add: boot_def demo_load db_Open_def deps pingWithRetry_def eval_nat_numeral ping RunMigrations_def
        conf disk setupRouter_def Service_ApplyOperatorRole_def Users_PromoteOperators_def clean_emails_def
        bindE_def wrapE_def boot_app_def)
qed

text \<open>The client's approval, then an hour of silence.\<close>

definition demo_served_state :: "(fs \<times> demo) server" where
  "demo_served_state = snd (serve_http boot_app EpApprove demo_call (new_limiters, server_world StatusWorkSubmitted))"

definition demo_trace :: "(act \<times> (fs \<times> demo) server) list" where
  "demo_trace = [(Serve EpApprove demo_call, demo_served_state), (Outside, demo_served_state)]"

lemma demo_run:
  "server_run boot_cfg boot_app (new_limiters, server_world StatusWorkSubmitted) demo_trace demo_served_state"
proof -
  let ?st = "(new_limiters, server_world StatusWorkSubmitted)"
  have "server_step boot_cfg boot_app ?st (Serve EpApprove demo_call) demo_served_state"
    by (rule step_serve [where reply = "fst (serve_http boot_app EpApprove demo_call ?st)"])
      (simp add: demo_served_state_def)
  from run_step [OF run_start this]
  have one: "server_run boot_cfg boot_app ?st [(Serve EpApprove demo_call, demo_served_state)] demo_served_state"
    by simp
  have "server_step boot_cfg boot_app demo_served_state Outside demo_served_state"
    using step_outside [of boot_cfg boot_app "fst demo_served_state" "snd demo_served_state" "w_ext (snd demo_served_state)"]
    by simp
  from run_step [OF one this] show ?thesis by (simp add: demo_trace_def)
qed

lemma server_row: "find_deal ''d'' (w_db (server_world st)) = Some (demo_row st)"
  by (simp add: find_deal_def select_row_def server_world_def demo_row_def)

lemma demo_platform_dep: "dp_platform demo_deps = with_disk demo_platform"
  by (simp add: demo_deps_def)



lemma demo_spent:
  "\<exists>e evs. w_log (snd demo_served_state) = EvHttp (settle_request (sv_lnbits (ap_deals boot_app)) ''s'') e # evs"
  unfolding demo_served_state_def
  by (simp add: serve_http_def gates_simps AuthRequired_def HasPrefix_def TrimPrefix_def VerifyAccessToken_def
      verify_token_def demo_claims_of_def Handler_ApproveDeal_def as_reply_def respond_def boot_app_def boot_cfg_def
      demo_launcher_def run_server run beside_def CV_AnchorReleasedDeal_def CV_ListUnanchoredDealArtifacts_def
      unanchored_def anchor_all_def wire_cv_def no_claims_def)


end
