(* ===== verification/Startup_Properties.thy ===== *)
theory Startup_Properties
  imports Server_History
begin

text \<open>
  Start-up and the background workers: waiting for the database ends, the workers' periods are the
  configured ones within the 64-bit range of a duration, and the sweep respects the hold's lifetime.
\<close>

section \<open>Waiting for the database\<close>

text \<open>The world after some pings.\<close>

definition pinged :: "'e platform \<Rightarrow> nat \<Rightarrow> 'e world \<Rightarrow> 'e world" where
  "pinged P k w = ((\<lambda>w. snd (pg_step P w)) ^^ k) w"

definition answered_ping :: "'e platform \<Rightarrow> 'e world \<Rightarrow> nat \<Rightarrow> bool" where
  "answered_ping P w k \<longleftrightarrow> fst (pg_step P (pinged P k w)) = None"

lemma pinged_Suc: "pinged P (Suc k) w = pinged P k (snd (pg_step P w))"
  by (simp add: pinged_def funpow_Suc_right del: funpow.simps)

lemma answered_Suc: "answered_ping P w (Suc k) \<longleftrightarrow> answered_ping P (snd (pg_step P w)) k"
  by (simp add: answered_ping_def pinged_Suc)

lemma ping_loop_run:
  "(\<exists>k<n. answered_ping P w k \<and> (\<forall>j<k. \<not> answered_ping P w j) \<and>
      ping_loop P err n w = (Inr (), pinged P (Suc k) w)) \<or>
   ((\<forall>k<n. \<not> answered_ping P w k) \<and> snd (ping_loop P err n w) = pinged P n w \<and>
      (fst (ping_loop P err n w) = Inr () \<longleftrightarrow> n = 0 \<and> err = None))"
proof (induction n arbitrary: w err)
  case 0
  then show ?case by (simp add: pinged_def split: option.split)
next
  case (Suc n)
  obtain flt w1 where p: "pg_step P w = (flt, w1)" by (cases "pg_step P w")
  show ?case
  proof (cases flt)
    case None
    with p show ?thesis by (intro disjI1 exI [of _ 0]) (simp add: answered_ping_def pinged_def)
  next
    case (Some f)
    with p have no: "\<not> answered_ping P w 0" by (simp add: answered_ping_def pinged_def)
    have all: "(\<forall>k<Suc n. \<not> answered_ping P w k) \<longleftrightarrow> (\<forall>k<n. \<not> answered_ping P w1 k)"
      using no p by (auto simp: less_Suc_eq_0_disj answered_Suc)
    from Suc.IH [of w1 "Some (new_err (fault_text f))"] show ?thesis
    proof (elim disjE exE conjE)
      fix k assume k: "k < n" "answered_ping P w1 k" "\<forall>j<k. \<not> answered_ping P w1 j"
        "ping_loop P (Some (new_err (fault_text f))) n w1 = (Inr (), pinged P (Suc k) w1)"
      have "\<forall>j<Suc k. \<not> answered_ping P w j"
        using k(3) no p by (auto simp: less_Suc_eq_0_disj answered_Suc)
      with k p Some show ?thesis by (intro disjI1 exI [of _ "Suc k"]) (simp add: answered_Suc pinged_Suc)
    next
      assume "\<forall>k<n. \<not> answered_ping P w1 k" "snd (ping_loop P (Some (new_err (fault_text f))) n w1) = pinged P n w1"
        "(fst (ping_loop P (Some (new_err (fault_text f))) n w1) = Inr ()) =
          (n = 0 \<and> Some (new_err (fault_text f)) = None)"
      with all p Some show ?thesis by (intro disjI2) (simp add: pinged_Suc)
    qed
  qed
qed

text \<open>\<open>pingWithRetry\<close> ends: it stops at the first ping that is answered, or gives up after the last attempt.\<close>

lemma pingWithRetry_ends:
  assumes "0 < n"
  shows "(\<exists>k<n. answered_ping P w k \<and> (\<forall>j<k. \<not> answered_ping P w j) \<and>
      pingWithRetry P n w = (Inr (), pinged P (Suc k) w)) \<or>
    ((\<forall>k<n. \<not> answered_ping P w k) \<and> (\<exists>e. pingWithRetry P n w = (Inl e, pinged P n w)))"
  using ping_loop_run [of n P w None] assms
  unfolding pingWithRetry_def by (cases "ping_loop P None n w"; cases "fst (ping_loop P None n w)") auto

section \<open>Durations\<close>

lemma int64_range: "- (2 ^ 63) \<le> x \<Longrightarrow> x < 2 ^ 63 \<Longrightarrow> sint (word_of_int x :: 64 word) = x"
  by (simp add: signed_take_bit_int_eq_self_iff sint_uint unsigned_of_int signed_take_bit_take_bit)

lemma seconds_sint: "seconds n = sint (word_of_int (n * second) :: 64 word)"
  by (simp add: seconds_def)

text \<open>The largest whole number of seconds of a duration.\<close>

lemma seconds_exact: "\<bar>n\<bar> \<le> 9223372036 \<Longrightarrow> seconds n = n * second"
  unfolding seconds_sint by (rule int64_range) (simp_all add: second_def)

lemma seconds_bounded: "seconds n < 2 ^ 63"
  unfolding seconds_def using sint_lt [of "word_of_int n * word_of_int second :: 64 word"] by simp

lemma seconds_too_long: "9223372036 < n \<Longrightarrow> seconds n \<noteq> n * second"
  using seconds_bounded [of n] by (simp add: second_def)

text \<open>The number of seconds a worker is configured with.\<close>

definition configured :: "Config \<Rightarrow> worker \<Rightarrow> int" where
  "configured cfg k =
     (case k of HoldSweep \<Rightarrow> cf_HoldSweepIntervalSeconds cfg
      | OTSUpgrade \<Rightarrow> cf_OTSUpgradeIntervalSeconds cfg
      | TokenCleanup \<Rightarrow> 3600)"

lemma interval_configured: "worker_interval cfg k = seconds (configured cfg k)"
  by (cases k) (simp_all add: worker_interval_def configured_def hour_def minute_def seconds_exact)



section \<open>The sweep and the lifetime of a hold\<close>

text \<open>C15: with a hold lifetime of at most 292 years, a round of the sweep changes nothing but the status of
  deals: it refunds a deal only if it was open, older than the lifetime by the worker's clock, and
  LNbits reported during this round that its hold is unpaid, expired or cancelled; and it moves no money.\<close>

theorem sweep_respects_lifetime:
  assumes "0 \<le> cf_HoldInvoiceExpirySeconds cfg" and "cf_HoldInvoiceExpirySeconds cfg \<le> 9223372036"
    and "worker_round cfg a HoldSweep w = (r, w')" and "distinct (map c_id (t_deals (w_db w)))"
    and "find_deal i (w_db w) = Some row"
  shows "\<exists>row' evs. find_deal i (w_db w') = Some row' \<and> w_log w' = w_log w @ evs \<and>
    (\<forall>ev \<in> set evs. \<not> money_event (sv_lnbits (ap_deals a)) ev) \<and>
    (row' = row \<or>
     (row' = row\<lparr>c_status := StatusRefunded\<rparr> \<and> c_status row \<in> set open_statuses \<and>
      c_created_at row + cf_HoldInvoiceExpirySeconds cfg * second < fst (clock (sv_platform (ap_deals a)) (w_ext w)) \<and>
      (\<exists>ev \<in> set evs. payment_answer (ap_deals a) (null_str (c_checking_id row))
         (\<lambda>p. isHoldReleased (cd_Status (cp_Details p))) ev)))"
proof -
  let ?life = "seconds (cf_HoldInvoiceExpirySeconds cfg)"
  obtain now e where c: "clock (sv_platform (ap_deals a)) (w_ext w) = (now, e)"
    by (cases "clock (sv_platform (ap_deals a)) (w_ext w)")
  have life: "?life = cf_HoldInvoiceExpirySeconds cfg * second"
    using assms(1,2) by (simp add: seconds_exact)
  have "sint (- word_of_int ?life :: 64 word) = - ?life"
    using int64_range [of "- ?life"] assms(1,2) by (simp add: life second_def)
  with assms(3) c obtain q where "Service_SweepExpiredHolds (ap_deals a) (now - ?life) (w\<lparr>w_ext := e\<rparr>) = (q, w')"
    by (auto simp: worker_round_def sweep_def time_now_def bindE_def bindR_def split: prod.splits)
  then show ?thesis
  proof (rule SweepExpiredHolds_effect)
    show "distinct (map c_id (t_deals (w_db (w\<lparr>w_ext := e\<rparr>))))" using assms(4) by simp
    fix evs assume evs: "w_log w' = w_log (w\<lparr>w_ext := e\<rparr>) @ evs" "\<forall>ev \<in> set evs. check_or_notice (ap_deals a) ev"
      and eff: "\<And>i row. find_deal i (w_db (w\<lparr>w_ext := e\<rparr>)) = Some row \<Longrightarrow> \<exists>row'. find_deal i (w_db w') = Some row' \<and>
       (row' = row \<or> (row' = row\<lparr>c_status := StatusRefunded\<rparr> \<and> c_status row \<in> set open_statuses \<and>
         c_created_at row < now - ?life \<and>
         (\<exists>ev \<in> set evs. payment_answer (ap_deals a) (null_str (c_checking_id row))
            (\<lambda>p. isHoldReleased (cd_Status (cp_Details p))) ev)))"
    from eff [of i row] assms(5) obtain row' where row': "find_deal i (w_db w') = Some row'"
      "row' = row \<or> (row' = row\<lparr>c_status := StatusRefunded\<rparr> \<and> c_status row \<in> set open_statuses \<and>
         c_created_at row < now - ?life \<and>
         (\<exists>ev \<in> set evs. payment_answer (ap_deals a) (null_str (c_checking_id row))
            (\<lambda>p. isHoldReleased (cd_Status (cp_Details p))) ev))" by auto
    have "c_created_at row < now - ?life \<longleftrightarrow>
        c_created_at row + cf_HoldInvoiceExpirySeconds cfg * second < now" by (auto simp: life)
    with row' evs c check_or_notice_money show ?thesis
      by (intro exI [of _ row'] exI [of _ evs]) auto
  qed
qed

text \<open>One second more and the lifetime wraps to a negative duration: the cutoff lies in the future, and the
  first round refunds a deal that was created a moment ago.\<close>

definition wrapped_cfg :: Config where
  "wrapped_cfg = demo_cfg\<lparr>cf_HoldInvoiceExpirySeconds := 9223372037\<rparr>"

definition aged_world :: "(fs \<times> demo) world" where
  "aged_world = (server_world StatusAwaitingPayment)\<lparr>w_ext := (demo_files, demo_ext [answer ''GONE''] [])\<rparr>"

lemma sweep_wrapped:
  "\<exists>w'. worker_round wrapped_cfg demo_app HoldSweep aged_world = (Inr (), w') \<and>
     find_deal ''d'' (w_db w') = Some (demo_row StatusRefunded) \<and>
     fst (clock (sv_platform (ap_deals demo_app)) (w_ext aged_world)) < 9223372037 * second"
proof -
  have "seconds 9223372037 = - 9223372036709551616"
    by (simp add: seconds_def second_def)
  then show ?thesis
    by (simp add: worker_round_def wrapped_cfg_def sweep_def Service_SweepExpiredHolds_def aged_world_def
        run_server run beside_def Repo_ListOpenBefore_def select_deals_def open_statuses_def isHoldReleased_def
        find_deal_def select_row_def second_def)
qed

theorem sweep_respects_lifetime_witness:
  "\<exists>row'. find_deal ''d'' (w_db (snd (worker_round demo_cfg demo_app HoldSweep aged_world))) = Some row' \<and>
     c_created_at row' = 1"
proof -
  obtain r w' where run: "worker_round demo_cfg demo_app HoldSweep aged_world = (r, w')"
    by (cases "worker_round demo_cfg demo_app HoldSweep aged_world")
  have row: "find_deal ''d'' (w_db aged_world) = Some (demo_row StatusAwaitingPayment)"
    by (simp add: aged_world_def server_row)
  have "distinct (map c_id (t_deals (w_db aged_world)))" by (simp add: aged_world_def server_world_def)
  moreover have "cf_HoldInvoiceExpirySeconds demo_cfg = 2592000"
    by (simp add: demo_cfg_def read_config_def getEnvInt_def demo_env_def)
  ultimately have "\<exists>row'. find_deal ''d'' (w_db w') = Some row' \<and> c_created_at row' = c_created_at (demo_row StatusAwaitingPayment)"
    using sweep_respects_lifetime [OF _ _ run _ row] by fastforce
  then show ?thesis by (simp add: run demo_row_def)
qed

end
