(* ===== verification/Mail_Text.thy ===== *)
theory Mail_Text
  imports Config "HOL-Library.Log_Nat"
begin

text \<open>
  What \<open>email/service.go\<close> takes from the standard library to write a mail, and its own helpers:
  escaping in \<open>html/template\<close>, encoded words of a header, \<open>strings.Fields\<close> and the printing of an
  amount through \<open>float64\<close>.
\<close>

section \<open>HTML\<close>

text \<open>\<open>html/template\<close> escapes a value in text, and in a quoted attribute, byte by byte: the characters
  of markup become entities.\<close>

definition html_byte :: "char \<Rightarrow> string" where
  "html_byte c =
     (if c = CHR 0x22 then ''&#34;'' else if c = CHR ''&'' then ''&amp;''
      else if c = CHR 0x27 then ''&#39;'' else if c = CHR ''+'' then ''&#43;''
      else if c = CHR ''<'' then ''&lt;'' else if c = CHR ''>'' then ''&gt;''
      else if c = CHR 0x00 then [CHR 0xEF, CHR 0xBF, CHR 0xBD] else [c])"

definition html_escape :: "string \<Rightarrow> string" where
  "html_escape s = concat (map html_byte s)"

text \<open>A value that starts a URL is dropped when it names a scheme other than \<open>http\<close>, \<open>https\<close>, \<open>mailto\<close>;
  everywhere in a URL, other than its reserved characters and valid escapes is percent-encoded.\<close>

definition url_filter :: "(rune \<Rightarrow> rune \<Rightarrow> bool) \<Rightarrow> string \<Rightarrow> string" where
  "url_filter ef s =
     (case cut (CHR '':'') s of
        None \<Rightarrow> s
      | Some (protocol, _) \<Rightarrow>
          if CHR ''/'' \<in> set protocol \<or>
             list_ex (EqualFold ef protocol) [''http'', ''https'', ''mailto'']
          then s else ''#ZgotmplZ'')"

definition url_plain :: "char \<Rightarrow> bool" where
  "url_plain c \<longleftrightarrow>
     (48 \<le> (of_char c :: nat) \<and> (of_char c :: nat) \<le> 57) \<or> (65 \<le> (of_char c :: nat) \<and> (of_char c :: nat) \<le> 90) \<or>
     (97 \<le> (of_char c :: nat) \<and> (of_char c :: nat) \<le> 122) \<or> c \<in> set ''!#$&*+,/:;=?@[]-._~''"

definition is_hex :: "char \<Rightarrow> bool" where
  "is_hex c \<longleftrightarrow> unhex_digit (of_char c) \<noteq> None"

fun url_normalize :: "string \<Rightarrow> string" where
  "url_normalize [] = []"
| "url_normalize (c # s) =
     (if url_plain c \<or> (c = CHR ''%'' \<and> (case s of a # b # _ \<Rightarrow> is_hex a \<and> is_hex b | _ \<Rightarrow> False))
      then c # url_normalize s
      else CHR ''%'' # hex_EncodeToString [c] @ url_normalize s)"

text \<open>A parsed template: literal text, and actions in the contexts that the templates use.\<close>

datatype piece = Lit string | InText string | StartsURL string | InURL string

fun render_piece :: "(rune \<Rightarrow> rune \<Rightarrow> bool) \<Rightarrow> (string \<Rightarrow> string) \<Rightarrow> piece \<Rightarrow> string" where
  "render_piece ef data (Lit s) = s"
| "render_piece ef data (InText k) = html_escape (data k)"
| "render_piece ef data (StartsURL k) = html_escape (url_normalize (url_filter ef (data k)))"
| "render_piece ef data (InURL k) = html_escape (url_normalize (data k))"

definition renderTemplate ::
  "(rune \<Rightarrow> rune \<Rightarrow> bool) \<Rightarrow> piece list \<Rightarrow> (string \<Rightarrow> string) \<Rightarrow> string" where
  "renderTemplate ef tmpl data = concat (map (render_piece ef data) tmpl)"

text \<open>The characters that delimit tags and attribute values.\<close>

definition markup :: "char \<Rightarrow> bool" where
  "markup c \<longleftrightarrow> c = CHR ''<'' \<or> c = CHR ''>'' \<or> c = CHR 0x22 \<or> c = CHR 0x27"

definition literal :: "piece \<Rightarrow> string" where
  "literal p = (case p of Lit s \<Rightarrow> s | _ \<Rightarrow> '''')"

lemma html_byte_markup: "filter markup (html_byte c) = []"
  by (simp add: html_byte_def markup_def)

lemma html_escape_markup: "filter markup (html_escape s) = []"
  by (induction s) (auto simp: html_escape_def html_byte_markup)

lemma render_piece_markup: "filter markup (render_piece ef data p) = filter markup (literal p)"
  by (cases p) (simp_all add: literal_def html_escape_markup)

text \<open>Whatever the data, a rendered template has the markup of its literal text and no other.\<close>

lemma renderTemplate_markup:
  "filter markup (renderTemplate ef tmpl data) = filter markup (concat (map literal tmpl))"
  by (induction tmpl) (simp_all add: renderTemplate_def render_piece_markup)

section \<open>Header lines\<close>

definition safeHeader :: "string \<Rightarrow> goerr + unit" where
  "safeHeader value =
     (if CHR 0x0D \<in> set value \<or> CHR 0x0A \<in> set value
      then Inl (new_err ''header contains a newline'') else Inr ())"

definition parseMailbox :: "'e platform \<Rightarrow> string \<Rightarrow> goerr + string" where
  "parseMailbox P value =
     (case safeHeader value of
        Inl e \<Rightarrow> Inl e
      | Inr _ \<Rightarrow>
          (case mail_address P value of
             None \<Rightarrow> Inl (new_err ''not an email address'')
           | Some address \<Rightarrow>
               if address = '''' then Inl (new_err ''not an email address'') else Inr address))"

text \<open>\<open>mime.QEncoding.Encode\<close>: encoded words of at most 63 encoded characters, which no rune crosses.\<close>

definition needs_encoding :: "string \<Rightarrow> bool" where
  "needs_encoding s \<longleftrightarrow> list_ex (\<lambda>b. (b < 32 \<or> 126 < b) \<and> b \<noteq> 9) (bytes s)"

definition upper_hex :: "nat \<Rightarrow> nat" where
  "upper_hex n = (if n < 10 then 48 + n else 55 + n)"

definition q_special :: "nat \<Rightarrow> bool" where
  "q_special b \<longleftrightarrow> b = 61 \<or> b = 63 \<or> b = 95"

definition q_byte :: "nat \<Rightarrow> nat list" where
  "q_byte b =
     (if b = 32 then [95] else if 33 \<le> b \<and> b \<le> 126 \<and> \<not> q_special b then [b]
      else [61, upper_hex (b div 16), upper_hex (b mod 16)])"

definition q_width :: "nat list \<Rightarrow> nat" where
  "q_width bs =
     (case bs of [] \<Rightarrow> 0
      | b # _ \<Rightarrow> if 32 \<le> b \<and> b \<le> 126 \<and> \<not> q_special b then 1 else snd (DecodeRune bs))"

lemma q_width_pos: "0 < q_width (b # bs)"
  using DecodeRune_width [of b bs] by (simp add: q_width_def)

lemma q_rest: "length (drop (q_width (b # bs)) (b # bs)) < length (b # bs)"
  using q_width_pos [of b bs] by simp

function q_words :: "nat list \<Rightarrow> nat list \<Rightarrow> nat list list" where
  "q_words w [] = [w]"
| "q_words w (b # bs) =
     (let n = q_width (b # bs); enc = concat (map q_byte (take n (b # bs)))
      in if length w + length enc > 63 then w # q_words enc (drop n (b # bs))
         else q_words (w @ enc) (drop n (b # bs)))"
  by pat_completeness auto
termination
  by (relation "measure (\<lambda>(w, bs). length bs)")
    (use q_rest in \<open>simp_all del: length_drop\<close>)

definition encoded_word :: "nat list \<Rightarrow> string" where
  "encoded_word w = ''=?UTF-8?q?'' @ of_bytes w @ ''?=''"

definition QEncode :: "string \<Rightarrow> string" where
  "QEncode s = (if needs_encoding s then join (CHR '' '') (map encoded_word (q_words [] (bytes s))) else s)"

text \<open>An encoded word is printable ASCII without spaces and at most 75 characters long.\<close>

definition token_byte :: "nat \<Rightarrow> bool" where
  "token_byte b \<longleftrightarrow> 33 \<le> b \<and> b \<le> 126"

lemma q_byte_token: "b < 256 \<Longrightarrow> \<forall>x \<in> set (q_byte b). token_byte x"
  by (auto simp: q_byte_def token_byte_def upper_hex_def q_special_def)

lemma q_byte_length: "length (q_byte b) \<le> 3"
  by (simp add: q_byte_def)

lemma DecodeRune_most: "snd (DecodeRune bs) \<le> 4"
  by (cases bs) (auto split: list.split)

lemma q_chunk_length: "length (concat (map q_byte (take (q_width bs) bs))) \<le> 63"
proof -
  have "length (concat (map q_byte xs)) \<le> 3 * length xs" for xs
    using q_byte_length by (induction xs) (auto simp: add_mono order_trans)
  from this [of "take (q_width bs) bs"] have "length (concat (map q_byte (take (q_width bs) bs))) \<le> 3 * q_width bs"
    by (rule order_trans) simp
  moreover have "q_width bs \<le> 4"
    using DecodeRune_most [of bs] by (simp add: q_width_def split: list.split)
  ultimately show ?thesis by linarith
qed

lemma q_words_fit:
  assumes "length w \<le> 63" and "\<forall>b \<in> set w. token_byte b" and "\<forall>b \<in> set bs. b < 256"
  shows "\<forall>v \<in> set (q_words w bs). length v \<le> 63 \<and> (\<forall>b \<in> set v. token_byte b)"
  using assms
proof (induction w bs rule: q_words.induct)
  case (2 w b bs)
  let ?n = "q_width (b # bs)" and ?enc = "concat (map q_byte (take (q_width (b # bs)) (b # bs)))"
  have enc: "length ?enc \<le> 63" "\<forall>x \<in> set ?enc. token_byte x"
    using q_chunk_length [of "b # bs"] q_byte_token 2(5) by (blast, fastforce dest: in_set_takeD)
  have rest: "\<forall>x \<in> set (drop ?n (b # bs)). x < 256" using 2(5) by (meson in_set_dropD)
  show ?case
  proof (cases "length w + length ?enc > 63")
    case True
    with 2(1) [OF refl refl True enc rest] 2(3,4) show ?thesis by (simp add: Let_def)
  next
    case False
    with 2(2) [OF refl refl False _ _ rest] 2(4) enc(2) show ?thesis by (auto simp: Let_def)
  qed
qed simp

lemma encoded_word_fits:
  "length w \<le> 63 \<Longrightarrow> length (encoded_word w) \<le> 75"
  by (simp add: encoded_word_def of_bytes_def)

lemma encoded_word_clean: "CHR 0x0D \<notin> set (encoded_word w) \<and> CHR 0x0A \<notin> set (encoded_word w)"
  if "\<forall>b \<in> set w. token_byte b"
proof -
  have "char_of b \<noteq> CHR 0x0D \<and> char_of b \<noteq> CHR 0x0A" if "token_byte b" for b :: nat
    using that by (auto simp: char_of_eq_iff take_bit_eq_mod token_byte_def)
  with that have "CHR 0x0D \<notin> set (of_bytes w) \<and> CHR 0x0A \<notin> set (of_bytes w)"
    by (auto simp: of_bytes_def) (metis+)
  then show ?thesis by (simp add: encoded_word_def)
qed

lemma join_set: "c \<notin> set (join d xs) \<longleftrightarrow> (\<forall>x \<in> set xs. c \<notin> set x) \<and> (2 \<le> length xs \<longrightarrow> c \<noteq> d)"
  by (induction d xs rule: join.induct) auto

text \<open>An encoded header value has no line break.\<close>

lemma QEncode_clean:
  assumes "safeHeader s = Inr ()"
  shows "CHR 0x0D \<notin> set (QEncode s) \<and> CHR 0x0A \<notin> set (QEncode s)"
proof (cases "needs_encoding s")
  case True
  have "\<forall>w \<in> set (q_words [] (bytes s)). \<forall>b \<in> set w. token_byte b"
    using q_words_fit [of "[]" "bytes s"] bytes_less by auto
  with encoded_word_clean True show ?thesis by (auto simp: QEncode_def join_set)
next
  case False
  with assms show ?thesis by (auto simp: QEncode_def safeHeader_def split: if_splits)
qed

section \<open>Names and amounts\<close>

text \<open>\<open>FirstName\<close>: the first of \<open>strings.Fields\<close>, the runs of runes that are no spaces.\<close>

definition first_field :: "string \<Rightarrow> string" where
  "first_field s =
     of_bytes (concat (map snd (takeWhile (\<lambda>c. \<not> IsSpace (fst c))
       (dropWhile (\<lambda>c. IsSpace (fst c)) (rune_chunks (bytes s))))))"

definition FirstName :: "string \<Rightarrow> string" where
  "FirstName displayName =
     (if list_ex (\<lambda>c. \<not> IsSpace (fst c)) (rune_chunks (bytes displayName))
      then first_field displayName else displayName)"

text \<open>\<open>float64(sats)/1e8\<close> and its printing with eight decimals. Each step rounds to the nearest value,
  ties to even: the conversion and the quotient to 53 bits, the printing to a multiple of ten to the
  minus eight. \<open>float_quotient\<close> returns mantissa and exponent.\<close>

definition round_even :: "int \<Rightarrow> int \<Rightarrow> int" where
  "round_even a b =
     (let q = a div b; r = a mod b
      in if 2 * r < b then q else if 2 * r > b then q + 1 else if even q then q else q + 1)"

definition float64 :: "int \<Rightarrow> int" where
  "float64 n =
     (if \<bar>n\<bar> < 2 ^ 53 then n
      else let e = floorlog 2 (nat \<bar>n\<bar>) - 53 in sgn n * (round_even \<bar>n\<bar> (2 ^ e) * 2 ^ e))"

definition scaled :: "int \<Rightarrow> int \<Rightarrow> int \<Rightarrow> int \<times> int" where
  "scaled n d e = (n * 2 ^ nat (- e), d * 2 ^ nat e)"

definition float_quotient :: "int \<Rightarrow> int \<Rightarrow> int \<times> int" where
  "float_quotient n d =
     (let e0 = int (floorlog 2 (nat n)) - int (floorlog 2 (nat d)) - 53;
          e = (case scaled n d e0 of (a, b) \<Rightarrow> if a < b * 2 ^ 53 then e0 else e0 + 1)
      in case scaled n d e of (a, b) \<Rightarrow> (round_even a b, e))"

definition pad8 :: "int \<Rightarrow> string" where
  "pad8 n = (let s = show_int n in replicate (8 - length s) (CHR ''0'') @ s)"

definition fixed8 :: "int \<Rightarrow> string" where
  "fixed8 n = show_int (n div 10 ^ 8) @ ''.'' @ pad8 (n mod 10 ^ 8)"

definition formatSats :: "int \<Rightarrow> string" where
  "formatSats sats =
     (let f = float64 sats in
      if f = 0 then fixed8 0
      else case float_quotient \<bar>f\<bar> (10 ^ 8) of (m, e) \<Rightarrow>
        (if f < 0 then ''-'' else '''') @
        fixed8 (round_even (m * 2 ^ nat e * 10 ^ 8) (2 ^ nat (- e))))"

lemma round_even_close:
  assumes "0 < b" and "2 * \<bar>a - b * q\<bar> < b"
  shows "round_even a b = q"
proof -
  obtain k r where k: "a div b = q + k" and r: "a mod b = r" "0 \<le> r" "r < b"
    using assms(1) by (metis add_diff_cancel_left' add_diff_eq pos_mod_bound pos_mod_sign)
  have "a = b * (a div b) + a mod b" by simp
  then have "a - b * q = b * k + r" by (simp add: k r(1) algebra_simps)
  with assms(2) have close: "2 * \<bar>b * k + r\<bar> < b" by simp
  then have range: "2 * (b * k + r) < b" "- b < 2 * (b * k + r)" by (simp_all add: abs_if split: if_splits)
  have "\<not> 1 \<le> k"
  proof
    assume "1 \<le> k"
    then have "b * 1 \<le> b * k" using assms(1) by (intro mult_left_mono) auto
    with range r(2) assms(1) show False by simp
  qed
  moreover have "\<not> k \<le> - 2"
  proof
    assume "k \<le> - 2"
    then have "b * k \<le> b * (- 2)" using assms(1) by (intro mult_left_mono) auto
    with range r(3) assms(1) show False by simp
  qed
  ultimately consider "k = 0" | "k = - 1" by linarith
  then show ?thesis using close by cases (auto simp: round_even_def k r Let_def abs_if split: if_splits)
qed

lemma round_even_error:
  assumes "0 < b"
  shows "2 * \<bar>a - b * round_even a b\<bar> \<le> b"
proof -
  obtain q r where q: "a div b = q" "a mod b = r" "0 \<le> r" "r < b" using assms by simp
  have "a = b * (a div b) + a mod b" by simp
  then have a: "a = b * q + r" by (simp add: q)
  have "round_even a b = q \<and> 2 * r \<le> b \<or> round_even a b = q + 1 \<and> b \<le> 2 * r"
    by (auto simp: round_even_def Let_def q)
  then show ?thesis using q(3,4) by (auto simp: a algebra_simps)
qed

lemma float_quotient_mantissa:
  "float_quotient n d = (m, e) \<Longrightarrow> m = round_even (n * 2 ^ nat (- e)) (d * 2 ^ nat e)"
  unfolding float_quotient_def Let_def scaled_def by (simp only: prod.case prod.inject) (elim conjE, hypsubst, rule refl)

text \<open>Below 2 to the 26 whole coins the amount printed is the exact one.\<close>

lemma formatSats_fixed8:
  assumes "0 \<le> sats" and "sats < 2 ^ 26 * 10 ^ 8"
  shows "formatSats sats = fixed8 sats"
proof (cases "sats = 0")
  case True
  then show ?thesis by (simp add: formatSats_def float64_def)
next
  case False
  have f: "float64 sats = sats" using assms by (simp add: float64_def)
  obtain m e where me: "float_quotient sats (10 ^ 8) = (m, e)" by (cases "float_quotient sats (10 ^ 8)")
  define s where "s = nat (- e)"
  have e: "e \<le> - 27" and m: "m = round_even (sats * 2 ^ s) (10 ^ 8)"
  proof -
    let ?L = "int (floorlog 2 (nat sats))"
    have d: "floorlog 2 (100000000 :: nat) = 27"
      using floorlog_le_iff [of 2 100000000 27] floorlog_geI [of 2 27 100000000] by simp
    have L: "?L \<le> 53" using floorlog_leI [of "nat sats" 2 53] assms by simp
    have "e = (if sats * 2 ^ nat (- (?L - 80)) < 10 ^ 8 * 2 ^ nat (?L - 80) * 2 ^ 53 then ?L - 80 else ?L - 79)"
      using me by (auto simp: float_quotient_def scaled_def Let_def d split: if_splits)
    then have "e = ?L - 80 \<or> e = ?L - 79" and "?L = 53 \<Longrightarrow> e = ?L - 80"
      using assms(2) by (simp_all split: if_splits)
    with L show "e \<le> - 27" by (cases "?L = 53") auto
    then show "m = round_even (sats * 2 ^ s) (10 ^ 8)"
      using float_quotient_mantissa [OF me] by (simp add: s_def)
  qed
  have err: "2 * \<bar>sats * 2 ^ s - 10 ^ 8 * m\<bar> \<le> 10 ^ 8"
    unfolding m by (rule round_even_error) simp
  have "(2 :: int) ^ 27 \<le> 2 ^ s" using e by (intro power_increasing) (auto simp: s_def)
  with err have "2 * \<bar>sats * 2 ^ s - 10 ^ 8 * m\<bar> < 2 ^ s" by simp
  then have "2 * \<bar>m * 10 ^ 8 - 2 ^ s * sats\<bar> < 2 ^ s" by (simp add: abs_minus_commute mult.commute)
  then have "round_even (m * 10 ^ 8) (2 ^ s) = sats" by (intro round_even_close) simp_all
  then have "round_even (m * 2 ^ nat e * 10 ^ 8) (2 ^ nat (- e)) = sats" using e by (simp add: s_def)
  with False f me assms(1) show ?thesis by (simp add: formatSats_def)
qed

end
