(* ===== verification/Email.thy ===== *)
theory Email
  imports Auth Mail_Text
begin

text \<open>
  \<open>email/service.go\<close>: the notices to the parties of a deal. The templates and texts, the message, and
  the dialogue with the mail server. \<open>html/template\<close> is modelled as far as the templates use it
  (\<open>Mail_Text\<close>), each template as the parts it parses to. The server and TLS are a parameter that
  answers each operation; what was tried, and whether it worked, is the transcript. The layout of
  \<open>time.Format\<close> depends on the process's time zone and is a parameter.
\<close>

abbreviation nl :: string where
  "nl \<equiv> [CHR 0x0A]"

abbreviation crlf :: string where
  "crlf \<equiv> [CHR 0x0D, CHR 0x0A]"

section \<open>The service\<close>

datatype smtp_op =
    Dial string
  | Handshake string
  | NewClient string
  | HasStartTLS
  | StartTLS string
  | Hello
  | AuthPlain string string
  | MailFrom string
  | RcptTo string
  | Data
  | WriteData string
  | CloseData
  | Quit

text \<open>\<open>em_smtp\<close> answers an operation with an error, or none; \<open>em_users\<close> is the \<open>UserFinder\<close>, when there is one.\<close>

record 'e mailer =
  em_cfg :: Config
  em_platform :: "'e platform"
  em_users :: "(string \<Rightarrow> ('e world, User option) prog) option"
  em_smtp :: "smtp_op \<Rightarrow> 'e \<Rightarrow> string option \<times> 'e"
  em_format :: "time \<Rightarrow> string"

text \<open>The world, the transcript of the connections, and the slots taken in the semaphore.\<close>

record 'e post =
  po_world :: "'e world"
  po_wire :: "(smtp_op \<times> bool) list"
  po_slots :: nat

definition in_world :: "('e world, 'a) prog \<Rightarrow> ('e post, 'a) prog" where
  "in_world m p = (case m (po_world p) of (r, w) \<Rightarrow> (r, p\<lparr>po_world := w\<rparr>))"

definition smtp :: "'e mailer \<Rightarrow> smtp_op \<Rightarrow> ('e post, unit) prog" where
  "smtp s op p =
     (case em_smtp s op (w_ext (po_world p)) of
        (err, e) \<Rightarrow>
          (case err of None \<Rightarrow> Inr () | Some m \<Rightarrow> Inl (new_err m),
           p\<lparr>po_world := (po_world p)\<lparr>w_ext := e\<rparr>, po_wire := po_wire p @ [(op, err = None)]\<rparr>))"

text \<open>\<open>NewService\<close>, with the outside it talks to.\<close>

definition Email_NewService ::
  "Config \<Rightarrow> 'e platform \<Rightarrow> (smtp_op \<Rightarrow> 'e \<Rightarrow> string option \<times> 'e) \<Rightarrow> (time \<Rightarrow> string) \<Rightarrow> 'e mailer" where
  "Email_NewService cfg P dialogue fmt = \<lparr>em_cfg = cfg, em_platform = P,
     em_users = Some (Users_FindByID P), em_smtp = dialogue, em_format = fmt\<rparr>"

definition Enabled :: "'e mailer \<Rightarrow> bool" where
  "Enabled s \<longleftrightarrow>
     cf_SMTPHost (em_cfg s) \<noteq> '''' \<and> cf_SMTPPort (em_cfg s) > 0 \<and> cf_SMTPFrom (em_cfg s) \<noteq> '''' \<and>
     ((cf_SMTPUser (em_cfg s) = '''') = (cf_SMTPPass (em_cfg s) = ''''))"

definition email_frontendURL :: "'e mailer \<Rightarrow> string" where
  "email_frontendURL s = (case cf_FrontendURLs (em_cfg s) of u # _ \<Rightarrow> u | [] \<Rightarrow> '''')"

section \<open>The message\<close>

definition mimeBoundary :: "'e platform \<Rightarrow> ('e world, string) prog" where
  "mimeBoundary P =
     bindE (wrapE (wrapf ''generate MIME boundary: '') (read_rand P 16)) (\<lambda>b.
       ret (''ganji-'' @ hex_EncodeToString b))"

definition message :: "string \<Rightarrow> string \<Rightarrow> string \<Rightarrow> string \<Rightarrow> string \<Rightarrow> string \<Rightarrow> string" where
  "message from to subject textBody htmlBody boundary = concat [
     ''From: '', from, crlf,
     ''To: '', to, crlf,
     ''Subject: '', QEncode subject, crlf,
     ''MIME-Version: 1.0'', crlf,
     ''Content-Type: multipart/alternative; boundary=\"'', boundary, ''\"'', crlf,
     crlf,
     ''--'', boundary, crlf,
     ''Content-Type: text/plain; charset=UTF-8'', crlf, crlf,
     textBody, crlf, crlf,
     ''--'', boundary, crlf,
     ''Content-Type: text/html; charset=UTF-8'', crlf, crlf,
     htmlBody, crlf, crlf,
     ''--'', boundary, ''--'', crlf]"

definition buildMessage ::
  "'e platform \<Rightarrow> string \<Rightarrow> string \<Rightarrow> string \<Rightarrow> string \<Rightarrow> string \<Rightarrow> ('e world, string) prog" where
  "buildMessage P from to subject textBody htmlBody =
     bindE (mimeBoundary P) (\<lambda>boundary. ret (message from to subject textBody htmlBody boundary))"

section \<open>The dialogue with the server\<close>

text \<open>\<open>smtp.PlainAuth\<close> refuses to send credentials in clear to any host but the local one.\<close>

definition isLocalhost :: "string \<Rightarrow> bool" where
  "isLocalhost name \<longleftrightarrow> name = ''localhost'' \<or> name = ''127.0.0.1'' \<or> name = ''::1''"

definition plain_auth :: "'e mailer \<Rightarrow> bool \<Rightarrow> ('e post, unit) prog" where
  "plain_auth s tls =
     bindE (smtp s Hello) (\<lambda>_.
       if \<not> tls \<and> \<not> isLocalhost (cf_SMTPHost (em_cfg s))
       then bindR (smtp s Quit) (\<lambda>_. fail (new_err ''unencrypted connection''))
       else smtp s (AuthPlain (cf_SMTPUser (em_cfg s)) (cf_SMTPPass (em_cfg s))))"

text \<open>From the greeting to the end of the data; \<open>tls\<close> tells whether the connection is a TLS one.\<close>

definition encrypt :: "'e mailer \<Rightarrow> ('e post, bool) prog" where
  "encrypt s =
     (let mode = cf_SMTPEncryption (em_cfg s) in
      if mode = ''starttls'' then
        bindR (smtp s HasStartTLS) (\<lambda>ok.
          case ok of
            Inl _ \<Rightarrow> fail (new_err ''smtp server does not advertise STARTTLS'')
          | Inr _ \<Rightarrow>
              bindE (wrapE (wrapf ''smtp starttls: '') (smtp s (StartTLS (cf_SMTPHost (em_cfg s))))) (\<lambda>_.
                ret True))
      else if mode \<noteq> ''none'' \<and> mode \<noteq> ''implicit_tls''
      then fail (new_err (''unsupported SMTP_ENCRYPTION \"'' @ mode @ ''\"''))
      else ret (mode = ''implicit_tls''))"

definition transmit :: "'e mailer \<Rightarrow> string \<Rightarrow> string \<Rightarrow> string \<Rightarrow> ('e post, unit) prog" where
  "transmit s fromAddress toAddress msg =
     bindE (encrypt s) (\<lambda>tls.
     bindE (if cf_SMTPUser (em_cfg s) \<noteq> '''' then wrapE (wrapf ''smtp auth: '') (plain_auth s tls)
            else ret ()) (\<lambda>_.
     bindE (wrapE (wrapf ''smtp mail from: '') (smtp s (MailFrom fromAddress))) (\<lambda>_.
     bindE (wrapE (wrapf ''smtp rcpt to: '') (smtp s (RcptTo toAddress))) (\<lambda>_.
     bindE (wrapE (wrapf ''smtp data: '') (smtp s Data)) (\<lambda>_.
     bindE (wrapE (wrapf ''smtp write: '') (smtp s (WriteData msg))) (\<lambda>_.
     bindE (wrapE (wrapf ''smtp close: '') (smtp s CloseData)) (\<lambda>_.
       ret ())))))))"

definition Email_send ::
  "'e mailer \<Rightarrow> string \<Rightarrow> string \<Rightarrow> string \<Rightarrow> string \<Rightarrow> ('e post, unit) prog" where
  "Email_send s to subject textBody htmlBody =
     (let cfg = em_cfg s; P = em_platform s in
     bindE (wrapE (wrapf ''invalid smtp from address: '') (liftE (parseMailbox P (cf_SMTPFrom cfg)))) (\<lambda>fromAddress.
     bindE (wrapE (wrapf ''invalid recipient address: '') (liftE (parseMailbox P to))) (\<lambda>toAddress.
     bindE (wrapE (wrapf ''invalid email subject: '') (liftE (safeHeader subject))) (\<lambda>_.
     bindE (in_world (buildMessage P (cf_SMTPFrom cfg) to subject textBody htmlBody)) (\<lambda>msg.
     bindE (wrapE (wrapf ''dial smtp: '')
              (smtp s (Dial (cf_SMTPHost cfg @ '':'' @ show_int (cf_SMTPPort cfg))))) (\<lambda>_.
     bindE (if cf_SMTPEncryption cfg = ''implicit_tls''
            then wrapE (wrapf ''smtp tls handshake: '') (smtp s (Handshake (cf_SMTPHost cfg))) else ret ()) (\<lambda>_.
     bindE (wrapE (wrapf ''new smtp client: '') (smtp s (NewClient (cf_SMTPHost cfg)))) (\<lambda>_.
     bindR (transmit s fromAddress toAddress msg) (\<lambda>r.
     bindR (smtp s Quit) (\<lambda>_. liftE r))))))))))"

section \<open>Texts and templates\<close>

definition template_data :: "(string \<times> string) list \<Rightarrow> string \<Rightarrow> string" where
  "template_data kvs k = (case map_of kvs k of Some v \<Rightarrow> v | None \<Rightarrow> '''')"

definition render :: "'e mailer \<Rightarrow> piece list \<Rightarrow> (string \<times> string) list \<Rightarrow> ('e world, string) prog" where
  "render s tmpl kvs =
     bindE (time_now (em_platform s)) (\<lambda>now.
       ret (renderTemplate (uni_fold (em_platform s)) tmpl
         (template_data (kvs @ [(''Time'', em_format s now)]))))"

definition paymentReceivedHTML_tmpl :: "piece list" where
  "paymentReceivedHTML_tmpl = [
     Lit (concat [
         nl, ''<!DOCTYPE html>'', nl, ''<html>'', nl,
         ''<body style=\"font-family: -apple-system, BlinkMacSystemFont, 'Segoe UI', '',
         ''Roboto, sans-serif; line-height: 1.6; color: #333; max-width: 600px; margin: '',
         ''0 auto; padding: 20px;\">'', nl,
         ''  <div style=\"background: linear-gradient(135deg, #10b981 0%, #059669 100%); '',
         ''padding: 30px; border-radius: 12px 12px 0 0; text-align: center;\">'', nl,
         ''    <h1 style=\"color: white; margin: 0; font-size: 24px;\">'', of_bytes [240, 159, 146, 176],
         '' Payment Received</h1>'', nl, ''  </div>'', nl,
         ''  <div style=\"background: #f9fafb; padding: 30px; border-radius: 0 0 12px '',
         ''12px; border: 1px solid #e5e7eb; border-top: none;\">'', nl, ''    <p>Hi '']),
     InText ''Name'',
     Lit (concat [
         '',</p>'', nl, ''    <p>Your client has paid the hold invoice for deal <strong>'']),
     InText ''Title'',
     Lit (concat [
         ''</strong>.</p>'', nl,
         ''    <div style=\"background: white; padding: 20px; border-radius: 8px; '',
         ''border-left: 4px solid #10b981; margin: 20px 0;\">'', nl,
         ''      <p style=\"margin: 0 0 10px;\"><strong>Amount:</strong> '']),
     InText ''Amount'',
     Lit (concat [
         '' BTC ('']),
     InText ''Sats'',
     Lit (concat [
         '' sats)</p>'', nl,
         ''      <p style=\"margin: 0;\"><strong>Status:</strong> <span style=\"color: '',
         ''#10b981; font-weight: 600;\">LOCKED</span> '', of_bytes [226, 128, 148],
         '' funds are now held in escrow</p>'', nl, ''    </div>'', nl,
         ''    <p>Next step: Submit your work via the dashboard.</p>'', nl,
         ''    <p style=\"text-align: center; margin: 30px 0;\">'', nl, ''      <a href=\"'']),
     StartsURL ''FrontendURL'',
     Lit (concat [
         ''/deals/'']),
     InURL ''DealID'',
     Lit (concat [
         ''\" style=\"background: #10b981; color: white; padding: 12px 24px; '',
         ''border-radius: 6px; text-decoration: none; font-weight: 600;\">View Deal</a>'', nl,
         ''    </p>'', nl,
         ''    <hr style=\"border: none; border-top: 1px solid #e5e7eb; margin: 20px 0;\">'', nl,
         ''    <p style=\"font-size: 12px; color: #9ca3af;\">Deal ID: '']),
     InText ''DealID'',
     Lit (concat [
         '' '', of_bytes [226, 128, 162], '' '']),
     InText ''Time'',
     Lit (concat [
         ''</p>'', nl, ''  </div>'', nl, ''</body>'', nl, ''</html>'', nl])]"

definition paymentReceivedHTML ::
  "'e mailer \<Rightarrow> string \<Rightarrow> string \<Rightarrow> int \<Rightarrow> string \<Rightarrow> string \<Rightarrow> ('e world, string) prog" where
  "paymentReceivedHTML s name title amountSats dealID frontendURL =
     render s paymentReceivedHTML_tmpl
       [(''Name'', name),
        (''Title'', title),
        (''Amount'', formatSats amountSats),
        (''Sats'', show_int amountSats),
        (''DealID'', dealID),
        (''FrontendURL'', frontendURL)]"

definition paymentReceivedText ::
  "'e mailer \<Rightarrow> string \<Rightarrow> string \<Rightarrow> int \<Rightarrow> string \<Rightarrow> string \<Rightarrow> ('e world, string) prog" where
  "paymentReceivedText s name title amountSats dealID frontendURL =
     bindE (time_now (em_platform s)) (\<lambda>now. ret (concat [
       ''Hi '', name, '','', nl, nl, ''Your client has paid the hold invoice for deal \"'', title, ''\".'',
       nl, nl, ''Amount: '', formatSats amountSats, '' BTC ('', show_int amountSats, '' sats)'', nl,
       ''Status: LOCKED '', of_bytes [226, 128, 148], '' funds are now held in escrow'', nl, nl,
       ''Next step: Submit your work via the dashboard.'', nl, nl, ''View deal: '', frontendURL,
       ''/deals/'', dealID, nl, nl, ''Deal ID: '', dealID, nl, ''Time: '', em_format s now, nl]))"

definition dealDisputedHTML_tmpl :: "piece list" where
  "dealDisputedHTML_tmpl = [
     Lit (concat [
         nl, ''<!DOCTYPE html>'', nl, ''<html>'', nl,
         ''<body style=\"font-family: -apple-system, BlinkMacSystemFont, 'Segoe UI', '',
         ''Roboto, sans-serif; line-height: 1.6; color: #333; max-width: 600px; margin: '',
         ''0 auto; padding: 20px;\">'', nl,
         ''  <div style=\"background: linear-gradient(135deg, #f59e0b 0%, #d97706 100%); '',
         ''padding: 30px; border-radius: 12px 12px 0 0; text-align: center;\">'', nl,
         ''    <h1 style=\"color: white; margin: 0; font-size: 24px;\">'',
         of_bytes [226, 154, 160, 239, 184, 143], '' Dispute Raised</h1>'', nl, ''  </div>'', nl,
         ''  <div style=\"background: #f9fafb; padding: 30px; border-radius: 0 0 12px '',
         ''12px; border: 1px solid #e5e7eb; border-top: none;\">'', nl, ''    <p>Hi '']),
     InText ''Name'',
     Lit (concat [
         '',</p>'', nl, ''    <p>The client has raised a dispute on deal <strong>'']),
     InText ''Title'',
     Lit (concat [
         ''</strong>.</p>'', nl,
         ''    <div style=\"background: white; padding: 20px; border-radius: 8px; '',
         ''border-left: 4px solid #f59e0b; margin: 20px 0;\">'', nl,
         ''      <p style=\"margin: 0 0 10px;\"><strong>Client's Reason:</strong></p>'', nl,
         ''      <p style=\"margin: 0; font-style: italic; color: #6b7280;\">'']),
     InText ''Reason'',
     Lit (concat [
         ''</p>'', nl, ''    </div>'', nl,
         ''    <p>The deal is now frozen in the <strong>DISPUTED</strong> state. An '',
         ''operator will review and decide to either release the funds to you or refund '',
         ''the client.</p>'', nl, ''    <p style=\"text-align: center; margin: 30px 0;\">'', nl,
         ''      <a href=\"'']),
     StartsURL ''FrontendURL'',
     Lit (concat [
         ''/deals/'']),
     InURL ''DealID'',
     Lit (concat [
         ''\" style=\"background: #f59e0b; color: white; padding: 12px 24px; '',
         ''border-radius: 6px; text-decoration: none; font-weight: 600;\">View Deal</a>'', nl,
         ''    </p>'', nl,
         ''    <hr style=\"border: none; border-top: 1px solid #e5e7eb; margin: 20px 0;\">'', nl,
         ''    <p style=\"font-size: 12px; color: #9ca3af;\">Deal ID: '']),
     InText ''DealID'',
     Lit (concat [
         '' '', of_bytes [226, 128, 162], '' '']),
     InText ''Time'',
     Lit (concat [
         ''</p>'', nl, ''  </div>'', nl, ''</body>'', nl, ''</html>'', nl])]"

definition dealDisputedHTML ::
  "'e mailer \<Rightarrow> string \<Rightarrow> string \<Rightarrow> string \<Rightarrow> string \<Rightarrow> string \<Rightarrow> ('e world, string) prog" where
  "dealDisputedHTML s name title reason dealID frontendURL =
     render s dealDisputedHTML_tmpl
       [(''Name'', name),
        (''Title'', title),
        (''Reason'', reason),
        (''DealID'', dealID),
        (''FrontendURL'', frontendURL)]"

definition dealDisputedText ::
  "'e mailer \<Rightarrow> string \<Rightarrow> string \<Rightarrow> string \<Rightarrow> string \<Rightarrow> string \<Rightarrow> ('e world, string) prog" where
  "dealDisputedText s name title reason dealID frontendURL =
     bindE (time_now (em_platform s)) (\<lambda>now. ret (concat [
       ''Hi '', name, '','', nl, nl, ''The client has raised a dispute on deal \"'', title, ''\".'', nl,
       nl, ''Client's Reason: '', reason, nl, nl,
       ''The deal is now frozen in the DISPUTED state. An operator will review and '',
       ''decide to either release the funds to you or refund the client.'', nl, nl, ''View deal: '',
       frontendURL, ''/deals/'', dealID, nl, nl, ''Deal ID: '', dealID, nl, ''Time: '', em_format s now, nl]))"

definition dealReleasedHTML_tmpl :: "piece list" where
  "dealReleasedHTML_tmpl = [
     Lit (concat [
         nl, ''<!DOCTYPE html>'', nl, ''<html>'', nl,
         ''<body style=\"font-family: -apple-system, BlinkMacSystemFont, 'Segoe UI', '',
         ''Roboto, sans-serif; line-height: 1.6; color: #333; max-width: 600px; margin: '',
         ''0 auto; padding: 20px;\">'', nl,
         ''  <div style=\"background: linear-gradient(135deg, #10b981 0%, #059669 100%); '',
         ''padding: 30px; border-radius: 12px 12px 0 0; text-align: center;\">'', nl,
         ''    <h1 style=\"color: white; margin: 0; font-size: 24px;\">'', of_bytes [226, 156, 133],
         '' Deal Released</h1>'', nl, ''  </div>'', nl,
         ''  <div style=\"background: #f9fafb; padding: 30px; border-radius: 0 0 12px '',
         ''12px; border: 1px solid #e5e7eb; border-top: none;\">'', nl, ''    <p>Hi '']),
     InText ''Name'',
     Lit (concat [
         '',</p>'', nl, ''    <p>Deal <strong>'']),
     InText ''Title'',
     Lit (concat [
         ''</strong> has been released. The escrow has been settled and funds have been '',
         ''forwarded to your Lightning invoice.</p>'', nl,
         ''    <div style=\"background: white; padding: 20px; border-radius: 8px; '',
         ''border-left: 4px solid #10b981; margin: 20px 0;\">'', nl,
         ''      <p style=\"margin: 0;\"><strong>Status:</strong> <span style=\"color: '',
         ''#10b981; font-weight: 600;\">RELEASED</span></p>'', nl, ''    </div>'', nl,
         ''    <p>This work has been anchored to your Live CV as a verified entry.</p>'', nl,
         ''    <p style=\"text-align: center; margin: 30px 0;\">'', nl, ''      <a href=\"'']),
     StartsURL ''FrontendURL'',
     Lit (concat [
         ''/deals/'']),
     InURL ''DealID'',
     Lit (concat [
         ''\" style=\"background: #10b981; color: white; padding: 12px 24px; '',
         ''border-radius: 6px; text-decoration: none; font-weight: 600;\">View Deal</a>'', nl,
         ''    </p>'', nl,
         ''    <hr style=\"border: none; border-top: 1px solid #e5e7eb; margin: 20px 0;\">'', nl,
         ''    <p style=\"font-size: 12px; color: #9ca3af;\">Deal ID: '']),
     InText ''DealID'',
     Lit (concat [
         '' '', of_bytes [226, 128, 162], '' '']),
     InText ''Time'',
     Lit (concat [
         ''</p>'', nl, ''  </div>'', nl, ''</body>'', nl, ''</html>'', nl])]"

definition dealReleasedHTML ::
  "'e mailer \<Rightarrow> string \<Rightarrow> string \<Rightarrow> string \<Rightarrow> string \<Rightarrow> ('e world, string) prog" where
  "dealReleasedHTML s name title dealID frontendURL =
     render s dealReleasedHTML_tmpl
       [(''Name'', name),
        (''Title'', title),
        (''DealID'', dealID),
        (''FrontendURL'', frontendURL)]"

definition dealReleasedText ::
  "'e mailer \<Rightarrow> string \<Rightarrow> string \<Rightarrow> string \<Rightarrow> string \<Rightarrow> ('e world, string) prog" where
  "dealReleasedText s name title dealID frontendURL =
     bindE (time_now (em_platform s)) (\<lambda>now. ret (concat [
       ''Hi '', name, '','', nl, nl, ''Deal \"'', title,
       ''\" has been released. The escrow has been settled and funds have been '',
       ''forwarded to your Lightning invoice.'', nl, nl, ''Status: RELEASED'', nl, nl,
       ''This work has been anchored to your Live CV as a verified entry.'', nl, nl, ''View deal: '',
       frontendURL, ''/deals/'', dealID, nl, nl, ''Deal ID: '', dealID, nl, ''Time: '', em_format s now, nl]))"

definition dealRefundedHTML_tmpl :: "piece list" where
  "dealRefundedHTML_tmpl = [
     Lit (concat [
         nl, ''<!DOCTYPE html>'', nl, ''<html>'', nl,
         ''<body style=\"font-family: -apple-system, BlinkMacSystemFont, 'Segoe UI', '',
         ''Roboto, sans-serif; line-height: 1.6; color: #333; max-width: 600px; margin: '',
         ''0 auto; padding: 20px;\">'', nl,
         ''  <div style=\"background: linear-gradient(135deg, #ef4444 0%, #dc2626 100%); '',
         ''padding: 30px; border-radius: 12px 12px 0 0; text-align: center;\">'', nl,
         ''    <h1 style=\"color: white; margin: 0; font-size: 24px;\">'', of_bytes [226, 157, 140],
         '' Deal Refunded</h1>'', nl, ''  </div>'', nl,
         ''  <div style=\"background: #f9fafb; padding: 30px; border-radius: 0 0 12px '',
         ''12px; border: 1px solid #e5e7eb; border-top: none;\">'', nl, ''    <p>Hi '']),
     InText ''Name'',
     Lit (concat [
         '',</p>'', nl, ''    <p>Deal <strong>'']),
     InText ''Title'',
     Lit (concat [
         ''</strong> has been refunded. The hold invoice was cancelled and funds have '',
         ''been returned to the client.</p>'', nl,
         ''    <div style=\"background: white; padding: 20px; border-radius: 8px; '',
         ''border-left: 4px solid #ef4444; margin: 20px 0;\">'', nl,
         ''      <p style=\"margin: 0;\"><strong>Status:</strong> <span style=\"color: '',
         ''#ef4444; font-weight: 600;\">REFUNDED</span></p>'', nl, ''    </div>'', nl,
         ''    <p style=\"text-align: center; margin: 30px 0;\">'', nl, ''      <a href=\"'']),
     StartsURL ''FrontendURL'',
     Lit (concat [
         ''/deals/'']),
     InURL ''DealID'',
     Lit (concat [
         ''\" style=\"background: #ef4444; color: white; padding: 12px 24px; '',
         ''border-radius: 6px; text-decoration: none; font-weight: 600;\">View Deal</a>'', nl,
         ''    </p>'', nl,
         ''    <hr style=\"border: none; border-top: 1px solid #e5e7eb; margin: 20px 0;\">'', nl,
         ''    <p style=\"font-size: 12px; color: #9ca3af;\">Deal ID: '']),
     InText ''DealID'',
     Lit (concat [
         '' '', of_bytes [226, 128, 162], '' '']),
     InText ''Time'',
     Lit (concat [
         ''</p>'', nl, ''  </div>'', nl, ''</body>'', nl, ''</html>'', nl])]"

definition dealRefundedHTML ::
  "'e mailer \<Rightarrow> string \<Rightarrow> string \<Rightarrow> string \<Rightarrow> string \<Rightarrow> ('e world, string) prog" where
  "dealRefundedHTML s name title dealID frontendURL =
     render s dealRefundedHTML_tmpl
       [(''Name'', name),
        (''Title'', title),
        (''DealID'', dealID),
        (''FrontendURL'', frontendURL)]"

definition dealRefundedText ::
  "'e mailer \<Rightarrow> string \<Rightarrow> string \<Rightarrow> string \<Rightarrow> string \<Rightarrow> ('e world, string) prog" where
  "dealRefundedText s name title dealID frontendURL =
     bindE (time_now (em_platform s)) (\<lambda>now. ret (concat [
       ''Hi '', name, '','', nl, nl, ''Deal \"'', title,
       ''\" has been refunded. The hold invoice was cancelled and funds have been '',
       ''returned to the client.'', nl, nl, ''Status: REFUNDED'', nl, nl, ''View deal: '', frontendURL,
       ''/deals/'', dealID, nl, nl, ''Deal ID: '', dealID, nl, ''Time: '', em_format s now, nl]))"

section \<open>Notices\<close>

definition SendPaymentReceived ::
  "'e mailer \<Rightarrow> string \<Rightarrow> string \<Rightarrow> string \<Rightarrow> int \<Rightarrow> string \<Rightarrow> ('e post, unit) prog" where
  "SendPaymentReceived s freelancerEmail freelancerName dealTitle amountSats dealID =
     (if \<not> Enabled s then ret ()
      else
        let subject = concat [of_bytes [240, 159, 146, 176], '' Payment Received '', of_bytes [226, 128, 148], '' \"'', dealTitle, ''\" Deal Locked'']
        in bindE (in_world (paymentReceivedHTML s freelancerName dealTitle amountSats dealID (email_frontendURL s))) (\<lambda>htmlBody.
           bindE (in_world (paymentReceivedText s freelancerName dealTitle amountSats dealID (email_frontendURL s))) (\<lambda>textBody.
             Email_send s freelancerEmail subject textBody htmlBody)))"

definition SendDealDisputed ::
  "'e mailer \<Rightarrow> string \<Rightarrow> string \<Rightarrow> string \<Rightarrow> string \<Rightarrow> string \<Rightarrow> ('e post, unit) prog" where
  "SendDealDisputed s freelancerEmail freelancerName dealTitle reason dealID =
     (if \<not> Enabled s then ret ()
      else
        let subject = concat [of_bytes [226, 154, 160, 239, 184, 143], '' Dispute Raised '', of_bytes [226, 128, 148], '' \"'', dealTitle, ''\"'']
        in bindE (in_world (dealDisputedHTML s freelancerName dealTitle reason dealID (email_frontendURL s))) (\<lambda>htmlBody.
           bindE (in_world (dealDisputedText s freelancerName dealTitle reason dealID (email_frontendURL s))) (\<lambda>textBody.
             Email_send s freelancerEmail subject textBody htmlBody)))"

definition SendDealReleased ::
  "'e mailer \<Rightarrow> string \<Rightarrow> string \<Rightarrow> string \<Rightarrow> string \<Rightarrow> ('e post, unit) prog" where
  "SendDealReleased s freelancerEmail freelancerName dealTitle dealID =
     (if \<not> Enabled s then ret ()
      else
        let subject = concat [of_bytes [226, 156, 133], '' Deal Released '', of_bytes [226, 128, 148], '' \"'', dealTitle, ''\"'']
        in bindE (in_world (dealReleasedHTML s freelancerName dealTitle dealID (email_frontendURL s))) (\<lambda>htmlBody.
           bindE (in_world (dealReleasedText s freelancerName dealTitle dealID (email_frontendURL s))) (\<lambda>textBody.
             Email_send s freelancerEmail subject textBody htmlBody)))"

definition SendDealRefunded ::
  "'e mailer \<Rightarrow> string \<Rightarrow> string \<Rightarrow> string \<Rightarrow> string \<Rightarrow> ('e post, unit) prog" where
  "SendDealRefunded s freelancerEmail freelancerName dealTitle dealID =
     (if \<not> Enabled s then ret ()
      else
        let subject = concat [of_bytes [226, 157, 140], '' Deal Refunded '', of_bytes [226, 128, 148], '' \"'', dealTitle, ''\"'']
        in bindE (in_world (dealRefundedHTML s freelancerName dealTitle dealID (email_frontendURL s))) (\<lambda>htmlBody.
           bindE (in_world (dealRefundedText s freelancerName dealTitle dealID (email_frontendURL s))) (\<lambda>textBody.
             Email_send s freelancerEmail subject textBody htmlBody)))"

definition send_notice :: "'e mailer \<Rightarrow> notice \<Rightarrow> Deal \<Rightarrow> string \<Rightarrow> string \<Rightarrow> ('e post, unit) prog" where
  "send_notice s n deal to name =
     (case n of
        PaymentLocked \<Rightarrow> SendPaymentReceived s to name (Title deal) (AmountSats deal) (ID deal)
      | DealDisputed \<Rightarrow> SendDealDisputed s to name (Title deal) (DisputeReason deal) (ID deal)
      | DealReleased \<Rightarrow> SendDealReleased s to name (Title deal) (ID deal)
      | DealRefunded \<Rightarrow> SendDealRefunded s to name (Title deal) (ID deal))"

text \<open>\<open>notifyBoth\<close>: a notice takes one of ten slots, or is dropped when none is free; the goroutine that
  holds the slot writes to the freelancer, then to the client, and gives it back. Errors are logged.\<close>

definition maxInFlight :: nat where
  "maxInFlight = 10"

definition takes_slot :: "'e mailer \<Rightarrow> 'e post \<Rightarrow> bool" where
  "takes_slot s p \<longleftrightarrow> Enabled s \<and> em_users s \<noteq> None \<and> po_slots p < maxInFlight"

definition enqueue :: "'e mailer \<Rightarrow> 'e post \<Rightarrow> bool \<times> 'e post" where
  "enqueue s p = (if takes_slot s p then (True, p\<lparr>po_slots := po_slots p + 1\<rparr>) else (False, p))"

definition notify_parties :: "'e mailer \<Rightarrow> notice \<Rightarrow> Deal \<Rightarrow> ('e post, unit) prog" where
  "notify_parties s n deal =
     (case em_users s of
        None \<Rightarrow> ret ()
      | Some FindByID \<Rightarrow>
          bindR (in_world (FindByID (FreelancerID deal))) (\<lambda>user.
          bindR (case user of
                   Inr (Some u) \<Rightarrow> send_notice s n deal (u_Email u) (FirstName (u_DisplayName u))
                 | _ \<Rightarrow> ret ()) (\<lambda>_.
          bindR (if ClientEmail deal \<noteq> '''' then send_notice s n deal (ClientEmail deal) ''Client''
                 else ret ()) (\<lambda>_.
            modify (\<lambda>p. p\<lparr>po_slots := po_slots p - 1\<rparr>)))))"

end
