(* ===== verification/Email_Properties.thy ===== *)
theory Email_Properties
  imports Email Cv_Properties
begin

text \<open>
  What leaves in a mail: nothing of the parties' data becomes a header, or markup of the HTML body,
  and with encryption configured nothing goes out before the connection is a TLS one.
\<close>

section \<open>Transcripts\<close>

type_synonym transcript = "(smtp_op \<times> bool) list"

definition wire_adds :: "(smtp_op \<times> bool \<Rightarrow> bool) \<Rightarrow> 'e post \<Rightarrow> 'e post \<Rightarrow> bool" where
  "wire_adds S p p' \<longleftrightarrow> (\<exists>evs. po_wire p' = po_wire p @ evs \<and> (\<forall>ev \<in> set evs. S ev))"

lemma wire_adds_trans: "wire_adds S p q \<Longrightarrow> wire_adds S q r \<Longrightarrow> wire_adds S p r"
  unfolding wire_adds_def by (metis Un_iff append.assoc set_append)

interpretation wire_frame: frame "wire_adds S" for S
  by unfold_locales (simp add: wire_adds_def, rule wire_adds_trans)

lemma wire_addsD: "wire_adds S p p' \<Longrightarrow> po_wire p' = po_wire p @ evs \<Longrightarrow> ev \<in> set evs \<Longrightarrow> S ev"
  by (auto simp: wire_adds_def)

lemma in_world_wire: "runs_in (wire_adds S) (in_world m)"
  by (auto simp: runs_in_def in_world_def wire_adds_def split: prod.splits)

lemma smtp_wire: "(\<And>ok. S (op, ok)) \<Longrightarrow> runs_in (wire_adds S) (smtp s op)"
  by (auto simp: runs_in_def smtp_def wire_adds_def split: prod.splits)

text \<open>What a result tells its continuation.\<close>

context frame
begin

lemma frame_bind_post:
  assumes "runs_in R m" and "\<And>x w w'. m w = (Inr x, w') \<Longrightarrow> runs_in R (f x)"
  shows "runs_in R (bindE m f)"
proof (rule runs_inI)
  fix w r w' assume run: "bindE m f w = (r, w')"
  obtain q u where m: "m w = (q, u)" by (cases "m w")
  then have "R w u" by (rule runs_inD [OF assms(1)])
  moreover have "R u w'"
  proof (cases q)
    case (Inr x)
    with m have "runs_in R (f x)" by (intro assms(2)) simp
    with run m Inr show ?thesis by (auto simp: bindE_def dest: runs_inD)
  qed (use run m frame_refl in \<open>auto simp: bindE_def\<close>)
  ultimately show "R w w'" by (rule frame_trans)
qed

end

definition writes :: "(string \<Rightarrow> bool) \<Rightarrow> smtp_op \<times> bool \<Rightarrow> bool" where
  "writes M ev \<longleftrightarrow> (\<forall>m. fst ev = WriteData m \<longrightarrow> M m)"

lemma writes_data: "M m \<Longrightarrow> writes M (WriteData m, ok)"
  by (simp add: writes_def)

lemma writes_rest:
  "writes M (Dial a, ok)" "writes M (Handshake h, ok)"
  "writes M (NewClient h, ok)" "writes M (HasStartTLS, ok)" "writes M (StartTLS h, ok)"
  "writes M (Hello, ok)" "writes M (AuthPlain u x, ok)" "writes M (MailFrom a, ok)"
  "writes M (RcptTo a, ok)" "writes M (Data, ok)" "writes M (CloseData, ok)" "writes M (Quit, ok)"
  by (simp_all add: writes_def)

lemma transmit_wire: "M msg \<Longrightarrow> runs_in (wire_adds (writes M)) (transmit s f t msg)"
  unfolding transmit_def encrypt_def plain_auth_def Let_def
  by (intro wire_frame.frame_intros smtp_wire writes_rest writes_data)

section \<open>The message\<close>

definition clean :: "string \<Rightarrow> bool" where
  "clean s \<longleftrightarrow> CHR 0x0D \<notin> set s \<and> CHR 0x0A \<notin> set s"

lemma safeHeader_clean: "safeHeader s = Inr u \<longleftrightarrow> clean s"
  by (simp add: safeHeader_def clean_def)

lemma parseMailbox_clean: "parseMailbox P s = Inr a \<Longrightarrow> clean s"
  by (cases "safeHeader s") (simp_all add: parseMailbox_def safeHeader_clean)

text \<open>The lines of a message up to the empty one that ends its header. What is written to the server gets
  a carriage return before each line feed that has none, so every line feed ends a line.\<close>

fun first_line :: "string \<Rightarrow> string \<times> string" where
  "first_line (CHR 0x0D # CHR 0x0A # s) = ('''', s)"
| "first_line (CHR 0x0A # s) = ('''', s)"
| "first_line (c # s) = (case first_line s of (l, rest) \<Rightarrow> (c # l, rest))"
| "first_line [] = ('''', '''')"

lemma first_line_le: "first_line s = (l, rest) \<Longrightarrow> length rest + length l \<le> length s"
  by (induction s arbitrary: l rest rule: first_line.induct) (auto split: prod.splits)

function header_lines :: "string \<Rightarrow> string list" where
  "header_lines s =
     (case first_line s of (l, rest) \<Rightarrow> if l = '''' then [] else l # header_lines rest)"
  by pat_completeness auto
termination
proof (relation "measure length")
  fix s l rest :: string
  assume "(l, rest) = first_line s" and "l \<noteq> ''''"
  then have "length rest + length l \<le> length s" and "0 < length l"
    using first_line_le [of s l rest] by simp_all
  then show "(rest, s) \<in> measure length" unfolding in_measure by linarith
qed simp

declare header_lines.simps [simp del]

lemma first_line_clean: "clean l \<Longrightarrow> first_line (l @ crlf @ s) = (l, s)"
proof (induction l)
  case (Cons c l)
  then show ?case by (cases "(c # l @ crlf @ s)" rule: first_line.cases) (auto simp: clean_def)
qed simp

lemma header_lines_line:
  "clean l \<Longrightarrow> l \<noteq> '''' \<Longrightarrow> header_lines (l @ crlf @ s) = l # header_lines s"
  by (subst header_lines.simps) (simp add: first_line_clean del: append_Cons)

lemma header_lines_end: "header_lines (crlf @ s) = []"
  by (subst header_lines.simps) simp

lemma clean_append [simp]: "clean (s @ t) \<longleftrightarrow> clean s \<and> clean t"
  by (auto simp: clean_def)

lemma hex_clean: "clean (hex_EncodeToString b)"
  using hex_EncodeToString_chars [of "CHR 0x0D" b] hex_EncodeToString_chars [of "CHR 0x0A" b]
  by (auto simp: clean_def of_char_def)

lemma message_headers:
  assumes "clean from" and "clean to" and "clean subject" and "clean boundary"
  shows "header_lines (message from to subject text html boundary) =
    [''From: '' @ from, ''To: '' @ to, ''Subject: '' @ QEncode subject, ''MIME-Version: 1.0'',
     ''Content-Type: multipart/alternative; boundary=\"'' @ boundary @ ''\"'']"
proof -
  have lines: "message from to subject text html boundary =
      (''From: '' @ from) @ crlf @ (''To: '' @ to) @ crlf @ (''Subject: '' @ QEncode subject) @ crlf @
      ''MIME-Version: 1.0'' @ crlf @
      (''Content-Type: multipart/alternative; boundary=\"'' @ boundary @ ''\"'') @ crlf @ crlf @ concat [
        ''--'', boundary, crlf, ''Content-Type: text/plain; charset=UTF-8'', crlf, crlf, text, crlf, crlf,
        ''--'', boundary, crlf, ''Content-Type: text/html; charset=UTF-8'', crlf, crlf, html, crlf, crlf,
        ''--'', boundary, ''--'', crlf]"
    by (simp only: message_def concat.simps append_assoc append_Nil2)
  have "clean (QEncode subject)" using QEncode_clean assms(3) by (simp add: safeHeader_clean clean_def)
  then have "clean (''From: '' @ from)" "clean (''To: '' @ to)" "clean (''Subject: '' @ QEncode subject)"
    "clean ''MIME-Version: 1.0''"
    "clean (''Content-Type: multipart/alternative; boundary=\"'' @ boundary @ ''\"'')"
    using assms by (simp_all add: clean_append) (simp_all add: clean_def)
  then show ?thesis unfolding lines
    by (simp only: header_lines_line header_lines_end append_is_Nil_conv list.distinct simp_thms)
qed

text \<open>The subject of a notice, and the template of its HTML.\<close>

definition notice_subject :: "notice \<Rightarrow> string \<Rightarrow> string" where
  "notice_subject n title =
     (case n of
        PaymentLocked \<Rightarrow> concat [of_bytes [240, 159, 146, 176], '' Payment Received '', of_bytes [226, 128, 148], '' \"'', title, ''\" Deal Locked'']
      | DealDisputed \<Rightarrow> concat [of_bytes [226, 154, 160, 239, 184, 143], '' Dispute Raised '', of_bytes [226, 128, 148], '' \"'', title, ''\"'']
      | DealReleased \<Rightarrow> concat [of_bytes [226, 156, 133], '' Deal Released '', of_bytes [226, 128, 148], '' \"'', title, ''\"'']
      | DealRefunded \<Rightarrow> concat [of_bytes [226, 157, 140], '' Deal Refunded '', of_bytes [226, 128, 148], '' \"'', title, ''\"''])"

definition notice_tmpl :: "notice \<Rightarrow> piece list" where
  "notice_tmpl n =
     (case n of
        PaymentLocked \<Rightarrow> paymentReceivedHTML_tmpl | DealDisputed \<Rightarrow> dealDisputedHTML_tmpl
      | DealReleased \<Rightarrow> dealReleasedHTML_tmpl | DealRefunded \<Rightarrow> dealRefundedHTML_tmpl)"

definition mail_of :: "string \<Rightarrow> string \<Rightarrow> string \<Rightarrow> (string \<Rightarrow> bool) \<Rightarrow> string \<Rightarrow> bool" where
  "mail_of from to subject H msg \<longleftrightarrow>
     clean from \<and> clean to \<and> clean subject \<and>
     (\<exists>text html b. H html \<and> msg = message from to subject text html (''ganji-'' @ hex_EncodeToString b))"

lemma in_world_Inr: "in_world m p = (Inr x, p') \<longleftrightarrow> (\<exists>w'. m (po_world p) = (Inr x, w') \<and> p' = p\<lparr>po_world := w'\<rparr>)"
  by (auto simp: in_world_def split: prod.splits)

lemma buildMessage_result:
  "buildMessage P from to subject text html w = (Inr msg, w') \<Longrightarrow>
   \<exists>b. msg = message from to subject text html (''ganji-'' @ hex_EncodeToString b)"
  by (auto simp: buildMessage_def mimeBoundary_def bindE_Inr_iff)

lemma Email_send_wire:
  assumes "H html"
  shows "runs_in (wire_adds (writes (mail_of (cf_SMTPFrom (em_cfg s)) to subject H)))
    (Email_send s to subject text html)"
  unfolding Email_send_def Let_def
proof (intro wire_frame.frame_bind_post [OF wire_frame.frame_wrapE [OF wire_frame.frame_liftE]]
    wire_frame.frame_bind_post [OF in_world_wire])
  let ?from = "cf_SMTPFrom (em_cfg s)" and ?P = "em_platform s"
  fix f t u msg and p p' q q' v v' z z' :: "'a post"
  assume "wrapE (wrapf ''invalid smtp from address: '') (liftE (parseMailbox ?P ?from)) p = (Inr f, p')"
    and "wrapE (wrapf ''invalid recipient address: '') (liftE (parseMailbox ?P to)) q = (Inr t, q')"
    and "wrapE (wrapf ''invalid email subject: '') (liftE (safeHeader subject)) v = (Inr u, v')"
    and "in_world (buildMessage ?P ?from to subject text html) z = (Inr msg, z')"
  then have "mail_of ?from to subject H msg"
    using assms
    by (auto simp: mail_of_def wrapE_Inr_iff in_world_Inr simp del: append_Cons
        dest!: parseMailbox_clean safeHeader_clean [THEN iffD1] buildMessage_result)
  then show "runs_in (wire_adds (writes (mail_of ?from to subject H)))
      (bindE (wrapE (wrapf ''dial smtp: '')
              (smtp s (Dial (cf_SMTPHost (em_cfg s) @ '':'' @ show_int (cf_SMTPPort (em_cfg s)))))) (\<lambda>_.
     bindE (if cf_SMTPEncryption (em_cfg s) = ''implicit_tls''
            then wrapE (wrapf ''smtp tls handshake: '') (smtp s (Handshake (cf_SMTPHost (em_cfg s)))) else ret ()) (\<lambda>_.
     bindE (wrapE (wrapf ''new smtp client: '') (smtp s (NewClient (cf_SMTPHost (em_cfg s))))) (\<lambda>_.
     bindR (transmit s f t msg) (\<lambda>r.
     bindR (smtp s Quit) (\<lambda>_. liftE r))))))"
    by (intro wire_frame.frame_intros smtp_wire writes_rest transmit_wire)
qed

text \<open>The tags of a rendered notice are those of its template.\<close>

definition tags_of :: "piece list \<Rightarrow> string \<Rightarrow> bool" where
  "tags_of tmpl html \<longleftrightarrow> filter markup html = filter markup (concat (map literal tmpl))"

lemma render_tags: "render s tmpl kvs w = (Inr html, w') \<Longrightarrow> tags_of tmpl html"
  by (auto simp: render_def tags_of_def bindE_Inr_iff renderTemplate_markup)

lemma notice_wire:
  assumes "\<And>w html w'. h w = (Inr html, w') \<Longrightarrow> tags_of tmpl html"
  shows "runs_in (wire_adds (writes (mail_of (cf_SMTPFrom (em_cfg s)) to subject (tags_of tmpl))))
    (bindE (in_world h) (\<lambda>html. bindE (in_world t) (\<lambda>text. Email_send s to subject text html)))"
  using assms
  by (intro wire_frame.frame_bind_post wire_frame.frame_bindE in_world_wire Email_send_wire)
    (auto simp: in_world_Inr)

lemma send_notice_wire:
  "runs_in (wire_adds (writes (mail_of (cf_SMTPFrom (em_cfg s)) to (notice_subject n (Title deal)) (tags_of (notice_tmpl n)))))
    (send_notice s n deal to name)"
  by (cases n; hypsubst; unfold send_notice_def SendPaymentReceived_def SendDealDisputed_def SendDealReleased_def
      SendDealRefunded_def notice_subject_def notice_tmpl_def Let_def notice.case;
      intro wire_frame.frame_if wire_frame.frame_ret notice_wire;
      unfold paymentReceivedHTML_def dealDisputedHTML_def dealReleasedHTML_def dealRefundedHTML_def;
      rule render_tags)

section \<open>A mail sent\<close>

definition demo_mailer :: "demo mailer" where
  "demo_mailer = \<lparr>
     em_cfg = (read_config (\<lambda>_. None) ''db'' ''s'' ''t'')
       \<lparr>cf_SMTPHost := ''m'', cf_SMTPPort := 587, cf_SMTPFrom := ''g@x'', cf_SMTPUser := ''u'', cf_SMTPPass := ''p'',
        cf_SMTPEncryption := ''starttls''\<rparr>,
     em_platform = demo_platform, em_users = Some (Users_FindByID demo_platform),
     em_smtp = (\<lambda>op e. (None, e)), em_format = (\<lambda>t. ''now'')\<rparr>"

definition demo_mail_deal :: Deal where
  "demo_mail_deal = \<lparr>ID = ''d'', FreelancerID = ''f'', ClientEmail = ''c@x'', Title = ''<b>\"'', AmountSats = 5,
     SourcePlatform = '''', PreimageHash = ''h'', Preimage = '''', PayeeInvoice = '''', Invoice = '''',
     CheckingID = '''', PayoutCheckingID = '''', PayoutAttemptedAt = None, ShareToken = '''',
     DealStatus = StatusRefunded, DisputeReason = '''', DisputedAt = None, ResolvedAt = None, ResolvedBy = '''',
     CreatedAt = 0, VerifiedAt = None\<rparr>"

definition demo_post :: "demo post" where
  "demo_post = \<lparr>po_world = demo_world [] [] [], po_wire = [], po_slots = 0\<rparr>"

lemma demo_mail:
  "\<exists>msg. po_wire (snd (send_notice demo_mailer DealRefunded demo_mail_deal ''c@x'' ''Client'' demo_post)) =
     [(Dial ''m:587'', True), (NewClient ''m'', True), (HasStartTLS, True), (StartTLS ''m'', True), (Hello, True),
      (AuthPlain ''u'' ''p'', True), (MailFrom ''g@x'', True), (RcptTo ''c@x'', True), (Data, True),
      (WriteData msg, True), (CloseData, True), (Quit, True)]"
  by (simp add: demo_mailer_def demo_mail_deal_def demo_post_def send_notice_def SendDealRefunded_def Enabled_def
      Let_def prog_defs in_world_def dealRefundedHTML_def dealRefundedText_def render_def time_now_def
      Email_send_def parseMailbox_def safeHeader_def buildMessage_def mimeBoundary_def read_rand_def smtp_def
      transmit_def encrypt_def plain_auth_def demo_world_def of_bytes_def show_int_def show_nat.simps
      char_of_def bit_Suc_0_iff)

text \<open>C37: Whatever the parties wrote in a deal and in their profiles, a notice that is sent has exactly the
  five headers of the program, in its order, with the sender, the recipient and the encoded subject as
  their values and the end of the header right after them; and the tags and quotes of its HTML body are
  those of the template, so no value opens a tag or leaves an attribute.\<close>

theorem mail_no_injection:
  assumes "send_notice s n deal to name p = (r, p')"
    and "po_wire p' = po_wire p @ evs" and "(WriteData msg, ok) \<in> set evs"
  shows "\<exists>text html boundary.
    msg = message (cf_SMTPFrom (em_cfg s)) to (notice_subject n (Title deal)) text html boundary \<and>
    header_lines msg =
      [''From: '' @ cf_SMTPFrom (em_cfg s), ''To: '' @ to, ''Subject: '' @ QEncode (notice_subject n (Title deal)),
       ''MIME-Version: 1.0'', ''Content-Type: multipart/alternative; boundary=\"'' @ boundary @ ''\"''] \<and>
    filter markup html = filter markup (concat (map literal (notice_tmpl n)))"
proof -
  have "mail_of (cf_SMTPFrom (em_cfg s)) to (notice_subject n (Title deal)) (tags_of (notice_tmpl n)) msg"
    using wire_addsD [OF runs_inD [OF send_notice_wire assms(1)] assms(2,3)] by (simp add: writes_def)
  moreover have "clean (''ganji-'' @ hex_EncodeToString b)" for b
    using hex_clean by (simp add: clean_append) (simp add: clean_def)
  ultimately show ?thesis using message_headers unfolding mail_of_def tags_of_def by blast
qed

lemma mail_no_injection_witness:
  "\<exists>text html boundary msg.
    (WriteData msg, True) \<in> set (po_wire (snd (send_notice demo_mailer DealRefunded demo_mail_deal ''c@x'' ''Client'' demo_post))) \<and>
    msg = message ''g@x'' ''c@x'' (notice_subject DealRefunded ''<b>\"'') text html boundary \<and>
    filter markup html = filter markup (concat (map literal (notice_tmpl DealRefunded)))"
proof -
  obtain r p' where run: "send_notice demo_mailer DealRefunded demo_mail_deal ''c@x'' ''Client'' demo_post = (r, p')"
    by (cases "send_notice demo_mailer DealRefunded demo_mail_deal ''c@x'' ''Client'' demo_post")
  then obtain msg where msg: "(WriteData msg, True) \<in> set (po_wire p')" using demo_mail by fastforce
  have "po_wire p' = po_wire demo_post @ po_wire p'" by (simp add: demo_post_def)
  from mail_no_injection [OF run this msg] obtain body html boundary where
    "msg = message (cf_SMTPFrom (em_cfg demo_mailer)) ''c@x'' (notice_subject DealRefunded (Title demo_mail_deal))
       body html boundary" and
    "filter markup html = filter markup (concat (map literal (notice_tmpl DealRefunded)))" by blast
  moreover have "cf_SMTPFrom (em_cfg demo_mailer) = ''g@x''" "Title demo_mail_deal = ''<b>\"''"
    by (simp_all add: demo_mailer_def demo_mail_deal_def)
  ultimately show ?thesis using msg run by (metis snd_conv)
qed

section \<open>The transport\<close>

text \<open>Reading a transcript: whether the connection is a TLS one, and whether everything that may only
  be said on such a connection was.\<close>

definition tls_after_op :: "bool \<Rightarrow> smtp_op \<times> bool \<Rightarrow> bool" where
  "tls_after_op tls ev =
     (case fst ev of
        Dial _ \<Rightarrow> False | Handshake _ \<Rightarrow> tls \<or> snd ev | StartTLS _ \<Rightarrow> tls \<or> snd ev | _ \<Rightarrow> tls)"

definition may_say :: "Config \<Rightarrow> bool \<Rightarrow> smtp_op \<Rightarrow> bool" where
  "may_say cfg tls op =
     (case op of
        AuthPlain _ _ \<Rightarrow> tls \<or> (cf_SMTPEncryption cfg = ''none'' \<and> isLocalhost (cf_SMTPHost cfg))
      | MailFrom _ \<Rightarrow> tls \<or> cf_SMTPEncryption cfg = ''none''
      | RcptTo _ \<Rightarrow> tls \<or> cf_SMTPEncryption cfg = ''none''
      | Data \<Rightarrow> tls \<or> cf_SMTPEncryption cfg = ''none''
      | WriteData _ \<Rightarrow> tls \<or> cf_SMTPEncryption cfg = ''none''
      | _ \<Rightarrow> True)"

fun discreet :: "Config \<Rightarrow> bool \<Rightarrow> transcript \<Rightarrow> bool" where
  "discreet cfg tls [] = True"
| "discreet cfg tls (ev # evs) = (may_say cfg tls (fst ev) \<and> discreet cfg (tls_after_op tls ev) evs)"

definition tls_after :: "bool \<Rightarrow> transcript \<Rightarrow> bool" where
  "tls_after tls evs = foldl tls_after_op tls evs"

lemma discreet_append:
  "discreet cfg tls (xs @ ys) \<longleftrightarrow> discreet cfg tls xs \<and> discreet cfg (tls_after tls xs) ys"
  by (induction xs arbitrary: tls) (simp_all add: tls_after_def)

lemma tls_after_append: "tls_after tls (xs @ ys) = tls_after (tls_after tls xs) ys"
  by (simp add: tls_after_def)

text \<open>A program that, started on a connection where \<open>A tls\<close>, is discreet and ends where \<open>Q\<close> holds of its
  result.\<close>

definition speaks ::
  "Config \<Rightarrow> (bool \<Rightarrow> bool) \<Rightarrow> ('e post, 'a) prog \<Rightarrow> (goerr + 'a \<Rightarrow> bool \<Rightarrow> bool) \<Rightarrow> bool" where
  "speaks cfg A m Q \<longleftrightarrow>
     (\<forall>tls p r p'. A tls \<longrightarrow> m p = (r, p') \<longrightarrow>
        (\<exists>evs. po_wire p' = po_wire p @ evs \<and> discreet cfg tls evs \<and> Q r (tls_after tls evs)))"

lemma speaks_bindR:
  assumes "speaks cfg A m Q" and "\<And>x. speaks cfg (Q x) (f x) T"
  shows "speaks cfg A (bindR m f) T"
  unfolding speaks_def
proof (intro allI impI)
  fix tls p r p' assume "A tls" and run: "bindR m f p = (r, p')"
  obtain x q where m: "m p = (x, q)" by (cases "m p")
  with assms(1) \<open>A tls\<close> obtain evs where "po_wire q = po_wire p @ evs" "discreet cfg tls evs" "Q x (tls_after tls evs)"
    unfolding speaks_def by blast
  moreover from run m have "f x q = (r, p')" by (simp add: bindR_def)
  with assms(2) \<open>Q x (tls_after tls evs)\<close> obtain evs' where
    "po_wire p' = po_wire q @ evs'" "discreet cfg (tls_after tls evs) evs'"
    "T r (tls_after (tls_after tls evs) evs')"
    unfolding speaks_def by blast
  ultimately show "\<exists>evs. po_wire p' = po_wire p @ evs \<and> discreet cfg tls evs \<and> T r (tls_after tls evs)"
    by (intro exI [of _ "evs @ evs'"]) (simp add: discreet_append tls_after_append)
qed

lemma speaks_liftE: "(\<And>tls. A tls \<Longrightarrow> Q r tls) \<Longrightarrow> speaks cfg A (liftE r) Q"
  by (auto simp: speaks_def tls_after_def)

lemma bindE_as_bindR: "bindE m f = bindR m (case_sum (\<lambda>e. liftE (Inl e)) f)"
  by (rule ext) (auto simp: bindE_def bindR_def liftE_def split: prod.splits sum.splits)

text \<open>The post-condition of a program of which only the successful runs go on.\<close>

definition on_ok :: "('a \<Rightarrow> bool \<Rightarrow> bool) \<Rightarrow> goerr + 'a \<Rightarrow> bool \<Rightarrow> bool" where
  "on_ok Q r tls \<longleftrightarrow> (\<forall>x. r = Inr x \<longrightarrow> Q x tls)"

lemma speaks_bindE:
  assumes "speaks cfg A m (on_ok Q)" and "\<And>x. speaks cfg (Q x) (f x) (on_ok T)"
  shows "speaks cfg A (bindE m f) (on_ok T)"
  unfolding bindE_as_bindR
proof (rule speaks_bindR [OF assms(1)])
  fix r show "speaks cfg (on_ok Q r) (case_sum (\<lambda>e. liftE (Inl e)) f r) (on_ok T)"
    using assms(2) by (cases r) (auto simp: speaks_def on_ok_def tls_after_def)
qed

lemma speaks_wrapE: "speaks cfg A m (on_ok Q) \<Longrightarrow> speaks cfg A (wrapE g m) (on_ok Q)"
  unfolding speaks_def on_ok_def wrapE_def by (fastforce split: prod.splits sum.splits)

lemma speaks_smtp:
  assumes "\<And>tls. A tls \<Longrightarrow> may_say cfg tls op"
    and "\<And>tls. A tls \<Longrightarrow> Q () (tls_after_op tls (op, True))"
  shows "speaks cfg A (smtp s op) (on_ok Q)"
  unfolding speaks_def on_ok_def smtp_def
  using assms by (auto simp: tls_after_def split: prod.splits option.splits)

lemma speaks_always: "(\<And>tls. may_say cfg tls op) \<Longrightarrow> speaks cfg A (smtp s op) (\<lambda>_ _. True)"
  by (auto simp: speaks_def smtp_def split: prod.splits)

lemma speaks_in_world: "(\<And>x tls. A tls \<Longrightarrow> Q x tls) \<Longrightarrow> speaks cfg A (in_world m) (on_ok Q)"
  by (auto simp: speaks_def on_ok_def in_world_def tls_after_def split: prod.splits)

lemma speaks_ret: "(\<And>tls. A tls \<Longrightarrow> Q x tls) \<Longrightarrow> speaks cfg A (ret x) (on_ok Q)"
  by (auto simp: speaks_def on_ok_def tls_after_def)

lemma speaks_fail: "speaks cfg A (fail e) (on_ok Q)"
  by (auto simp: speaks_def on_ok_def tls_after_def)

lemma speaks_if:
  "(c \<Longrightarrow> speaks cfg A a Q) \<Longrightarrow> (\<not> c \<Longrightarrow> speaks cfg A b Q) \<Longrightarrow> speaks cfg A (if c then a else b) Q"
  by simp

abbreviation secured :: "Config \<Rightarrow> bool \<Rightarrow> bool" where
  "secured cfg tls \<equiv> tls \<or> cf_SMTPEncryption cfg = ''none''"

lemmas speaks_intros =
  speaks_bindE speaks_wrapE speaks_smtp speaks_in_world speaks_ret speaks_fail speaks_if speaks_liftE

lemma encrypt_speaks:
  "speaks (em_cfg s) (\<lambda>tls. cf_SMTPEncryption (em_cfg s) = ''implicit_tls'' \<longrightarrow> tls) (encrypt s)
    (on_ok (\<lambda>x tls. secured (em_cfg s) tls \<and> (x \<longrightarrow> tls)))"
proof -
  have starttls: "speaks (em_cfg s) (\<lambda>_. True)
      (bindE (wrapE (wrapf ''smtp starttls: '') (smtp s (StartTLS h))) (\<lambda>_. ret True))
      (on_ok (\<lambda>x tls. secured (em_cfg s) tls \<and> (x \<longrightarrow> tls)))" for h
    by (rule speaks_bindE [where Q = "\<lambda>_ tls. tls"])
      (auto intro!: speaks_wrapE speaks_smtp speaks_ret simp: may_say_def tls_after_op_def)
  show ?thesis
    unfolding encrypt_def Let_def
  proof (intro speaks_if speaks_fail speaks_ret)
    show "speaks (em_cfg s) (\<lambda>tls. cf_SMTPEncryption (em_cfg s) = ''implicit_tls'' \<longrightarrow> tls)
        (bindR (smtp s HasStartTLS)
          (case_sum (\<lambda>_. fail (new_err ''smtp server does not advertise STARTTLS''))
            (\<lambda>_. bindE (wrapE (wrapf ''smtp starttls: '') (smtp s (StartTLS (cf_SMTPHost (em_cfg s)))))
               (\<lambda>_. ret True))))
        (on_ok (\<lambda>x tls. secured (em_cfg s) tls \<and> (x \<longrightarrow> tls)))"
      by (rule speaks_bindR [OF speaks_always]) (auto intro: speaks_fail starttls simp: may_say_def split: sum.split)
  qed auto
qed

lemma plain_auth_speaks:
  "speaks (em_cfg s) (\<lambda>tls. secured (em_cfg s) tls \<and> (x \<longrightarrow> tls)) (plain_auth s x)
    (on_ok (\<lambda>_. secured (em_cfg s)))"
  unfolding plain_auth_def
  by (rule speaks_bindE [where Q = "\<lambda>_ tls. secured (em_cfg s) tls \<and> (x \<longrightarrow> tls)"])
    (auto intro!: speaks_if speaks_smtp speaks_bindR [OF speaks_always] speaks_fail
      simp: may_say_def tls_after_op_def)

lemma transmit_speaks:
  "speaks (em_cfg s) (\<lambda>tls. cf_SMTPEncryption (em_cfg s) = ''implicit_tls'' \<longrightarrow> tls) (transmit s f t msg)
    (on_ok (\<lambda>_ _. True))"
  unfolding transmit_def
  by (intro speaks_bindE [OF encrypt_speaks] speaks_bindE [where Q = "\<lambda>_. secured (em_cfg s)"]
      speaks_if speaks_wrapE plain_auth_speaks speaks_smtp speaks_ret)
    (simp_all add: may_say_def tls_after_op_def)

lemma Email_send_speaks:
  "speaks (em_cfg s) (\<lambda>_. True) (Email_send s to subject text html) (on_ok (\<lambda>_ _. True))"
proof -
  let ?A = "\<lambda>(_ :: unit) tls. cf_SMTPEncryption (em_cfg s) = ''implicit_tls'' \<longrightarrow> tls"
  have free: "speaks (em_cfg s) (\<lambda>_. True) (wrapE g (liftE r)) (on_ok (\<lambda>_ _. True))" for g r
    by (intro speaks_wrapE speaks_liftE) (simp add: on_ok_def)
  have quit: "speaks (em_cfg s) A (bindR (smtp s Quit) (\<lambda>_. liftE r)) (on_ok (\<lambda>_ _. True))" for A r
    by (rule speaks_bindR [OF speaks_always])
      (auto intro: speaks_liftE simp: may_say_def on_ok_def)
  show ?thesis
    unfolding Email_send_def Let_def
    by (intro speaks_bindE [OF free] speaks_bindE [OF speaks_in_world [where Q = "\<lambda>_ _. True"]]
        speaks_bindE [OF speaks_wrapE [OF speaks_smtp [where Q = "\<lambda>_ _. True"]]]
        speaks_bindE [where Q = ?A] speaks_if speaks_wrapE speaks_smtp speaks_ret
        speaks_bindR [OF transmit_speaks] quit)
      (simp_all add: may_say_def tls_after_op_def)
qed

lemma send_notice_speaks:
  "speaks (em_cfg s) (\<lambda>_. True) (send_notice s n deal to name) (on_ok (\<lambda>_ _. True))"
  by (cases n; hypsubst; unfold send_notice_def SendPaymentReceived_def SendDealDisputed_def SendDealReleased_def
      SendDealRefunded_def Let_def notice.case;
      intro speaks_if speaks_ret TrueI speaks_bindE [OF speaks_in_world [where Q = "\<lambda>_ _. True"]] Email_send_speaks)

text \<open>C38: Unless \<open>SMTP_ENCRYPTION\<close> is \<open>none\<close>, the sender, the recipient and the message of a notice are only
  said on a connection that a TLS handshake has succeeded on since it was dialled; and the password of
  the mail account is said on no other connection in any case, except to the local host.\<close>

theorem mail_transport:
  assumes "send_notice s n deal to name p = (r, p')" and "po_wire p' = po_wire p @ evs"
    and "evs = before @ (op, ok) # later"
    and "op \<in> {MailFrom a, RcptTo a, Data, WriteData a} \<and> cf_SMTPEncryption (em_cfg s) \<noteq> ''none'' \<or>
      op = AuthPlain user a \<and> \<not> (cf_SMTPEncryption (em_cfg s) = ''none'' \<and> isLocalhost (cf_SMTPHost (em_cfg s)))"
  shows "\<exists>i < length before. (\<exists>host. before ! i = (Handshake host, True) \<or> before ! i = (StartTLS host, True)) \<and>
    (\<forall>j < length before. i < j \<longrightarrow> (\<nexists>addr. fst (before ! j) = Dial addr))"
proof -
  have "discreet (em_cfg s) False evs"
    using send_notice_speaks [of s n deal to name] assms(1,2) unfolding speaks_def by (metis same_append_eq)
  then have "tls_after False before"
    using assms(3,4) by (auto simp: discreet_append may_say_def)
  then show ?thesis
  proof (induction before rule: rev_induct)
    case (snoc ev evs)
    show ?case
    proof (cases "tls_after False evs \<and> (\<nexists>addr. fst ev = Dial addr)")
      case True
      with snoc.IH obtain i where "i < length evs" and
        "\<exists>host. evs ! i = (Handshake host, True) \<or> evs ! i = (StartTLS host, True)"
        "\<forall>j < length evs. i < j \<longrightarrow> (\<nexists>addr. fst (evs ! j) = Dial addr)" by blast
      with True show ?thesis by (intro exI [of _ i]) (auto simp: nth_append less_Suc_eq)
    next
      case False
      with snoc.prems have "\<exists>host. ev = (Handshake host, True) \<or> ev = (StartTLS host, True)"
        by (cases ev; cases "fst ev") (auto simp: tls_after_def tls_after_op_def)
      then show ?thesis by (intro exI [of _ "length evs"]) auto
    qed
  qed (simp add: tls_after_def)
qed

lemma mail_transport_witness:
  "\<exists>i < 5. \<exists>host. po_wire (snd (send_notice demo_mailer DealRefunded demo_mail_deal ''c@x'' ''Client'' demo_post)) ! i =
     (StartTLS host, True)"
proof -
  obtain r p' where run: "send_notice demo_mailer DealRefunded demo_mail_deal ''c@x'' ''Client'' demo_post = (r, p')"
    by (cases "send_notice demo_mailer DealRefunded demo_mail_deal ''c@x'' ''Client'' demo_post")
  let ?before = "[(Dial ''m:587'', True), (NewClient ''m'', True), (HasStartTLS, True), (StartTLS ''m'', True), (Hello, True)]"
  obtain later where wire: "po_wire p' = ?before @ (AuthPlain ''u'' ''p'', True) # later" using demo_mail run by fastforce
  have "po_wire p' = po_wire demo_post @ po_wire p'" by (simp add: demo_post_def)
  moreover have "cf_SMTPEncryption (em_cfg demo_mailer) \<noteq> ''none''" by (simp add: demo_mailer_def)
  ultimately obtain i where "i < length ?before" and
    "\<exists>host. ?before ! i = (Handshake host, True) \<or> ?before ! i = (StartTLS host, True)"
    using mail_transport [OF run _ wire, of "''p''" "''u''"] by blast
  then show ?thesis by (intro exI [of _ i]) (auto simp: run wire less_Suc_eq)
qed

lemma show_nat_length: "n < 10 ^ Suc k \<Longrightarrow> length (show_nat n) \<le> Suc k"
proof (induction k arbitrary: n)
  case (Suc k)
  then have "n div 10 < 10 ^ Suc k" by (simp add: less_mult_imp_div_less)
  with Suc.IH show ?case by (subst show_nat.simps) simp
qed (simp add: show_nat.simps)

lemma pad8_length: "0 \<le> n \<Longrightarrow> n < 10 ^ 8 \<Longrightarrow> length (pad8 n) = 8"
  using show_nat_length [of "nat n" 7] by (simp add: pad8_def show_int_def Let_def)

text \<open>C39: The amount in a mail is the exact one, in whole coins and eight decimals, for every amount below
  2 to the 26 coins, which is more than exist: the division in floating point and the two roundings
  cost nothing.\<close>

theorem formatSats_exact:
  assumes "0 \<le> sats" and "sats < 2 ^ 26 * 10 ^ 8"
  shows "formatSats sats = show_int (sats div 10 ^ 8) @ ''.'' @ pad8 (sats mod 10 ^ 8) \<and>
    length (pad8 (sats mod 10 ^ 8)) = 8"
  using formatSats_fixed8 [OF assms] pad8_length [of "sats mod 10 ^ 8"] by (simp add: fixed8_def)

lemma formatSats_exact_witness: "formatSats 2099999999999999 = ''20999999.99999999''"
  using formatSats_exact [of 2099999999999999] by (simp add: pad8_def show_int_def show_nat.simps char_of_def bit_Suc_0_iff)

end
