(* ===== verification/Spec2Isabelle.thy ===== *)
theory Spec2Isabelle
  imports Release_Liveness Artifact_Properties Auth_Properties Startup_Properties Email_Properties
begin

text \<open>
  Ganji, an escrow for freelance work over Lightning hold invoices
  (\<open>backend/internal\<close> of the repository).
\<close>

end
